(* ===== verification/Prelude.thy ===== *)
theory Prelude
  imports Main "HOL-Library.Word"
begin

text \<open>
  Types and lemmas shared by every component of the development: Go byte
  strings, the error values of the server, the result type of fallible pure
  code and the named collections of simplification rules that the component
  proofs use.

  Go's \<^verbatim>\<open>string\<close> and \<^verbatim>\<open>[]byte\<close> are both sequences of octets, so both are
  \<^typ>\<open>char list\<close> here (a \<^typ>\<open>char\<close> has exactly 256 values) and the
  conversions \<^verbatim>\<open>[]byte(s)\<close> and \<^verbatim>\<open>string(b)\<close> are the identity.
\<close>

type_synonym bytes = "char list"
type_synonym guid = bytes

named_theorems wp_simps \<open>weakest preconditions of database calls and of the operations built from them\<close>
named_theorems ops \<open>definitions of the operations, for unfolding\<close>

section \<open>Error values\<close>

text \<open>
  The sentinel errors the code compares against, the errors a database driver
  reports, and the two shapes of \<^verbatim>\<open>fmt.Errorf\<close>: \<open>Errorf\<close> without \<^verbatim>\<open>%w\<close> and
  \<open>Wrapf\<close> with it. The string is the constant text of the format; the
  formatted arguments are left out, no branch of the program reads them.
\<close>

datatype go_error =
    ErrRecordNotFound          \<comment> \<open>gorm.ErrRecordNotFound\<close>
  | ErrDuplicatedKey           \<comment> \<open>gorm.ErrDuplicatedKey\<close>
  | ErrInvalidSession          \<comment> \<open>fdo.ErrInvalidSession\<close>
  | ErrNotFound                \<comment> \<open>fdo.ErrNotFound\<close>
  | ErrInvalidOwnerInfo        \<comment> \<open>db.ErrInvalidOwnerInfo\<close>
  | ErrInvalidRvInfo           \<comment> \<open>db.ErrInvalidRvInfo\<close>
  | ErrRvInfoNotFound          \<comment> \<open>state.ErrRvInfoNotFound\<close>
  | ErrDeviceCACertNotFound    \<comment> \<open>state.ErrDeviceCACertNotFound\<close>
  | ErrSqlite nat              \<comment> \<open>sqlite3.Error with its Code\<close>
  | ErrPg string               \<comment> \<open>pgconn.PgError with its Code\<close>
  | ErrDriver string           \<comment> \<open>any other failure of the database or its driver\<close>
  | ErrExt string              \<comment> \<open>an error of a library function\<close>
  | Errorf string
  | Wrapf string go_error

text \<open>\<^verbatim>\<open>errors.Is\<close>: the error itself or one of those it wraps.\<close>

fun errors_is :: "go_error \<Rightarrow> go_error \<Rightarrow> bool" where
  "errors_is (Wrapf s e) t = (Wrapf s e = t \<or> errors_is e t)"
| "errors_is e t = (e = t)"

section \<open>Results of fallible pure code\<close>

type_synonym 'a result = "go_error + 'a"

definition rbind :: "'a result \<Rightarrow> ('a \<Rightarrow> 'b result) \<Rightarrow> 'b result" where
  "rbind m k = (case m of Inl e \<Rightarrow> Inl e | Inr x \<Rightarrow> k x)"

definition rmap_err :: "(go_error \<Rightarrow> go_error) \<Rightarrow> 'a result \<Rightarrow> 'a result" where
  "rmap_err f m = (case m of Inl e \<Rightarrow> Inl (f e) | Inr x \<Rightarrow> Inr x)"

definition of_opt :: "go_error \<Rightarrow> 'a option \<Rightarrow> 'a result" where
  "of_opt e m = (case m of None \<Rightarrow> Inl e | Some x \<Rightarrow> Inr x)"

fun rmapM :: "('a \<Rightarrow> 'b result) \<Rightarrow> 'a list \<Rightarrow> 'b list result" where
  "rmapM f [] = Inr []"
| "rmapM f (x # xs) = rbind (f x) (\<lambda>y. rbind (rmapM f xs) (\<lambda>ys. Inr (y # ys)))"

lemma rbind_simps [simp]:
  "rbind (Inl e) k = Inl e"
  "rbind (Inr x) k = k x"
  by (simp_all add: rbind_def)

lemma rbind_eq_Inr [simp]: "rbind m k = Inr y \<longleftrightarrow> (\<exists>x. m = Inr x \<and> k x = Inr y)"
  by (cases m) auto

lemma rmap_err_simps [simp]:
  "rmap_err f (Inl e) = Inl (f e)"
  "rmap_err f (Inr x) = Inr x"
  by (simp_all add: rmap_err_def)

lemma rmap_err_eq_Inr [simp]: "rmap_err f m = Inr y \<longleftrightarrow> m = Inr y"
  by (cases m) auto

lemma of_opt_simps [simp]:
  "of_opt e None = Inl e"
  "of_opt e (Some x) = Inr x"
  by (simp_all add: of_opt_def)

lemma of_opt_eq_Inr [simp]: "of_opt e m = Inr x \<longleftrightarrow> m = Some x"
  by (cases m) auto

lemma of_opt_eq_Inl [simp]: "of_opt e m = Inl e' \<longleftrightarrow> m = None \<and> e' = e"
  by (cases m) auto

lemma case_of_opt:
  "(case of_opt e m of Inl x \<Rightarrow> f x | Inr y \<Rightarrow> g y) = (case m of None \<Rightarrow> f e | Some y \<Rightarrow> g y)"
  by (cases m) simp_all

lemma rmapM_length: "rmapM f xs = Inr ys \<Longrightarrow> length ys = length xs"
  by (induction xs arbitrary: ys) auto

lemma rmapM_all2: "rmapM f xs = Inr ys \<longleftrightarrow> list_all2 (\<lambda>x y. f x = Inr y) xs ys"
  by (induction xs arbitrary: ys) (auto simp: list_all2_Cons1)

lemma rmapM_Inr: "(\<And>x. x \<in> set xs \<Longrightarrow> f x = Inr (g x)) \<Longrightarrow> rmapM f xs = Inr (map g xs)"
  by (induction xs) auto

lemma rmapM_set: "rmapM f xs = Inr ys \<Longrightarrow> y \<in> set ys \<Longrightarrow> \<exists>x\<in>set xs. f x = Inr y"
  by (induction xs arbitrary: ys) auto

lemma rmapM_image: "rmapM f xs = Inr ys \<Longrightarrow> set ys = {y. \<exists>x\<in>set xs. f x = Inr y}"
  by (induction xs arbitrary: ys) auto

text \<open>When every result prints as something that parses to it, so does the list of them.\<close>

lemma rmapM_back:
  assumes "rmapM f xs = Inr ys"
    and "\<And>x y. f x = Inr y \<Longrightarrow> y \<in> set ys \<Longrightarrow> \<exists>z. g y = Inr z \<and> h z = Inr y"
  shows "\<exists>zs. rmapM g ys = Inr zs \<and> rmapM h zs = Inr ys"
  using assms
proof (induction xs arbitrary: ys)
  case (Cons x xs)
  then obtain y ys' where y: "f x = Inr y" "rmapM f xs = Inr ys'" "ys = y # ys'" by auto
  with Cons.IH[OF y(2)] Cons.prems(2) obtain zs where "rmapM g ys' = Inr zs" "rmapM h zs = Inr ys'"
    by auto
  moreover from y Cons.prems(2) obtain z where "g y = Inr z" "h z = Inr y" by fastforce
  ultimately show ?case by (simp add: y)
qed simp

section \<open>Fixed-size arrays\<close>

text \<open>
  Go's \<^verbatim>\<open>copy(a[:], s)\<close> into a zeroed array of \<open>n\<close> octets: longer input is cut,
  shorter input leaves zeros behind.
\<close>

definition copy_array :: "nat \<Rightarrow> bytes \<Rightarrow> bytes" where
  "copy_array n s = take n s @ replicate (n - length s) (CHR 0x00)"

lemma length_copy_array [simp]: "length (copy_array n s) = n"
  by (simp add: copy_array_def)

lemma copy_array_id [simp]: "length s = n \<Longrightarrow> copy_array n s = s"
  by (simp add: copy_array_def)

end
