(* ===== verification/Protocol.thy ===== *)
theory Protocol
  imports Prelude
begin

text \<open>
  The parts of the \<^verbatim>\<open>go-fdo\<close> library the server works with. The library is not in
  the repository: its types are modelled by the fields the server reads, its
  constants and functions are parameters, and what the server relies on of
  them is stated as named predicates.
\<close>

section \<open>Rendezvous instructions\<close>

text \<open>\<^verbatim>\<open>protocol.RvVar\<close>, by the constants the server names; any other value is \<open>RVOther\<close>.\<close>

datatype rv_var =
    RVDevOnly | RVOwnerOnly | RVIPAddress | RVDevPort | RVOwnerPort | RVDns | RVSvCertHash
  | RVClCertHash | RVUserInput | RVWifiSsid | RVWifiPw | RVMedium | RVProtocol | RVDelaysec
  | RVBypass | RVExtRV | RVOther "8 word"

text \<open>\<^verbatim>\<open>protocol.RvInstruction\<close>; the nil value is the empty one.\<close>

record rv_instr =
  Variable :: rv_var
  Value :: bytes

type_synonym rv_info = "rv_instr list list"

text \<open>The codes of the transport protocols and media, constants of the library.\<close>

record rv_consts =
  RVProtRest :: "8 word"
  RVProtHTTP :: "8 word"
  RVProtHTTPS :: "8 word"
  RVProtTCP :: "8 word"
  RVProtTLS :: "8 word"
  RVProtCoapTCP :: "8 word"
  RVProtCoapUDP :: "8 word"
  RVMedEthAll :: "8 word"
  RVMedWifiAll :: "8 word"

text \<open>
  The codes are pairwise different: they are the cases of one \<^verbatim>\<open>switch\<close> each, and
  Go refuses a \<^verbatim>\<open>switch\<close> with a constant case twice.
\<close>

definition rv_consts_ok :: "rv_consts \<Rightarrow> bool" where
  "rv_consts_ok K \<longleftrightarrow>
     distinct [RVProtRest K, RVProtHTTP K, RVProtHTTPS K, RVProtTCP K, RVProtTLS K,
               RVProtCoapTCP K, RVProtCoapUDP K] \<and> RVMedEthAll K \<noteq> RVMedWifiAll K"

text \<open>\<^verbatim>\<open>protocol.TransportProtocol\<close>; \<open>NoTransport\<close> is its zero value.\<close>

datatype transport =
  NoTransport | TCPTransport | TLSTransport | HTTPTransport | CoAPTransport | HTTPSTransport | CoAPSTransport

text \<open>\<^verbatim>\<open>protocol.RvTO2Addr\<close>.\<close>

record rv_to2_addr =
  IPAddress :: "bytes option"
  DNSAddress :: "string option"
  Port :: "16 word"
  TransportProtocol :: transport

section \<open>Ownership vouchers\<close>

text \<open>
  \<^verbatim>\<open>fdo.VoucherHeader\<close> and \<^verbatim>\<open>fdo.Voucher\<close>: the fields the server reads, and the rest
  (HMAC, certificate chain, entries) as one opaque value.
\<close>

record voucher_header =
  vh_Version :: "16 word"
  vh_GUID :: guid
  vh_DeviceInfo :: string
  vh_ManufacturerKeyType :: "8 word"
  vh_RvInfo :: rv_info
  vh_rest :: bytes

record voucher =
  ov_Version :: "16 word"
  ov_Header :: voucher_header
  ov_rest :: bytes

abbreviation ov_GUID :: "voucher \<Rightarrow> guid" where
  "ov_GUID ov \<equiv> vh_GUID (ov_Header ov)"

text \<open>The GUID is an array of sixteen octets.\<close>

definition guid_ok :: "voucher \<Rightarrow> bool" where
  "guid_ok ov \<longleftrightarrow> length (ov_GUID ov) = 16"

section \<open>CBOR\<close>

text \<open>
  \<^verbatim>\<open>cbor.Marshal\<close> and \<^verbatim>\<open>cbor.Unmarshal\<close> on the values the server stores. An
  integer is encoded by its value whatever its Go width; \<open>GExt\<close> is a value of
  another library type, by its type's name.
\<close>

datatype go_val =
    GText string
  | GBytes bytes
  | GInt int
  | GBool bool
  | GStrs "string list"
  | GRvInfo rv_info
  | GHeader voucher_header
  | GVoucher voucher
  | GExt string bytes

datatype go_typ =
  TText | TBytes | TUint nat | TStrs | TRvInfo | THeader | TVoucher | TExt string

fun fits :: "go_typ \<Rightarrow> go_val \<Rightarrow> bool" where
  "fits TText (GText s) = True"
| "fits TBytes (GBytes b) = True"
| "fits (TUint n) (GInt i) = (0 \<le> i \<and> i < 2 ^ n)"
| "fits TStrs (GStrs ss) = True"
| "fits TRvInfo (GRvInfo rv) = True"
| "fits THeader (GHeader h) = True"
| "fits TVoucher (GVoucher v) = True"
| "fits (TExt k) (GExt k' b) = (k = k')"
| "fits _ _ = False"

record cbor_lib =
  marshal :: "go_val \<Rightarrow> bytes option"
  unmarshal :: "go_typ \<Rightarrow> bytes \<Rightarrow> go_val option"

text \<open>What was marshalled unmarshals to the same value; text is not an array.\<close>

definition cbor_ok :: "cbor_lib \<Rightarrow> bool" where
  "cbor_ok C \<longleftrightarrow>
     (\<forall>v b t. marshal C v = Some b \<longrightarrow> fits t v \<longrightarrow> unmarshal C t b = Some v) \<and>
     (\<forall>s b. marshal C (GText s) = Some b \<longrightarrow> unmarshal C TStrs b = None)"

lemma cbor_okD: "cbor_ok C \<Longrightarrow> marshal C v = Some b \<Longrightarrow> fits t v \<Longrightarrow> unmarshal C t b = Some v"
  by (simp add: cbor_ok_def)

lemma cbor_ok_text_array: "cbor_ok C \<Longrightarrow> marshal C (GText s) = Some b \<Longrightarrow> unmarshal C TStrs b = None"
  by (simp add: cbor_ok_def)

text \<open>Typed views of \<^verbatim>\<open>Unmarshal\<close>; \<open>None\<close> is any decoding error.\<close>

definition un_text :: "cbor_lib \<Rightarrow> bytes \<Rightarrow> string option" where
  "un_text C b = (case unmarshal C TText b of Some (GText s) \<Rightarrow> Some s | _ \<Rightarrow> None)"

definition un_bytes :: "cbor_lib \<Rightarrow> bytes \<Rightarrow> bytes option" where
  "un_bytes C b = (case unmarshal C TBytes b of Some (GBytes s) \<Rightarrow> Some s | _ \<Rightarrow> None)"

definition un_uint :: "nat \<Rightarrow> cbor_lib \<Rightarrow> bytes \<Rightarrow> nat option" where
  "un_uint n C b = (case unmarshal C (TUint n) b of Some (GInt i) \<Rightarrow> Some (nat i) | _ \<Rightarrow> None)"

definition un_strs :: "cbor_lib \<Rightarrow> bytes \<Rightarrow> string list option" where
  "un_strs C b = (case unmarshal C TStrs b of Some (GStrs s) \<Rightarrow> Some s | _ \<Rightarrow> None)"

definition un_rvinfo :: "cbor_lib \<Rightarrow> bytes \<Rightarrow> rv_info option" where
  "un_rvinfo C b = (case unmarshal C TRvInfo b of Some (GRvInfo s) \<Rightarrow> Some s | _ \<Rightarrow> None)"

definition un_header :: "cbor_lib \<Rightarrow> bytes \<Rightarrow> voucher_header option" where
  "un_header C b = (case unmarshal C THeader b of Some (GHeader s) \<Rightarrow> Some s | _ \<Rightarrow> None)"

definition un_voucher :: "cbor_lib \<Rightarrow> bytes \<Rightarrow> voucher option" where
  "un_voucher C b = (case unmarshal C TVoucher b of Some (GVoucher s) \<Rightarrow> Some s | _ \<Rightarrow> None)"

definition un_ext :: "string \<Rightarrow> cbor_lib \<Rightarrow> bytes \<Rightarrow> bytes option" where
  "un_ext k C b = (case unmarshal C (TExt k) b of Some (GExt k' s) \<Rightarrow> Some s | _ \<Rightarrow> None)"

lemmas un_defs = un_text_def un_bytes_def un_uint_def un_strs_def un_rvinfo_def un_header_def
  un_voucher_def un_ext_def

lemma un_marshal:
  assumes "cbor_ok C"
  shows "marshal C (GText s) = Some b \<Longrightarrow> un_text C b = Some s"
    "marshal C (GBytes bs) = Some b \<Longrightarrow> un_bytes C b = Some bs"
    "marshal C (GInt i) = Some b \<Longrightarrow> 0 \<le> i \<Longrightarrow> i < 2 ^ n \<Longrightarrow> un_uint n C b = Some (nat i)"
    "marshal C (GStrs ss) = Some b \<Longrightarrow> un_strs C b = Some ss"
    "marshal C (GRvInfo rv) = Some b \<Longrightarrow> un_rvinfo C b = Some rv"
    "marshal C (GHeader h) = Some b \<Longrightarrow> un_header C b = Some h"
    "marshal C (GVoucher ov) = Some b \<Longrightarrow> un_voucher C b = Some ov"
    "marshal C (GExt k x) = Some b \<Longrightarrow> un_ext k C b = Some x"
  using cbor_okD[OF assms, of "GText s" b TText] cbor_okD[OF assms, of "GBytes bs" b TBytes]
    cbor_okD[OF assms, of "GInt i" b "TUint n"] cbor_okD[OF assms, of "GStrs ss" b TStrs]
    cbor_okD[OF assms, of "GRvInfo rv" b TRvInfo] cbor_okD[OF assms, of "GHeader h" b THeader]
    cbor_okD[OF assms, of "GVoucher ov" b TVoucher] cbor_okD[OF assms, of "GExt k x" b "TExt k"]
  by (simp_all add: un_defs)

lemma un_strs_text: "cbor_ok C \<Longrightarrow> marshal C (GText s) = Some b \<Longrightarrow> un_strs C b = None"
  by (simp add: un_strs_def cbor_ok_text_array)

text \<open>
  A codec that knows a table of values, each under its own octets; it meets the
  contract, so the contract can hold.
\<close>

definition table_codec :: "(go_val \<times> bytes) list \<Rightarrow> cbor_lib" where
  "table_codec tbl = \<lparr>marshal = map_of tbl,
     unmarshal = (\<lambda>t b. case find (\<lambda>e. snd e = b) tbl of
        None \<Rightarrow> None | Some (v, _) \<Rightarrow> if fits t v then Some v else None)\<rparr>"

lemma find_snd_distinct:
  "distinct (map snd tbl) \<Longrightarrow> (v, b) \<in> set tbl \<Longrightarrow> find (\<lambda>e. snd e = b) tbl = Some (v, b)"
proof (induction tbl)
  case (Cons e tbl)
  then show ?case by (cases e) (force simp: image_iff)
qed simp

lemma cbor_ok_table_codec: "distinct (map snd tbl) \<Longrightarrow> cbor_ok (table_codec tbl)"
  by (auto simp: cbor_ok_def table_codec_def dest!: map_of_SomeD dest: find_snd_distinct)

section \<open>X.509 certificates\<close>

text \<open>
  The fields the server reads of an \<^verbatim>\<open>x509.Certificate\<close>. Parsing and hashing are
  parameters where they are used: the server never looks inside the DER.
\<close>

record x509_cert =
  cert_Raw :: bytes
  cert_Subject :: string
  cert_Issuer :: string
  cert_NotBefore :: int
  cert_NotAfter :: int

definition chain_bytes :: "x509_cert list \<Rightarrow> bytes" where
  "chain_bytes chain = concat (map cert_Raw chain)"

end
