(* ===== verification/Strconv.thy ===== *)
theory Strconv
  imports Prelude
begin

text \<open>
  Decimal numbers as text: \<^verbatim>\<open>strconv.Atoi\<close>, \<^verbatim>\<open>strconv.ParseUint\<close> and
  \<^verbatim>\<open>strconv.FormatUint\<close> in base ten, on 64-bit integers.
\<close>

definition is_digit :: "char \<Rightarrow> bool" where
  "is_digit c \<longleftrightarrow> 48 \<le> (of_char c :: nat) \<and> (of_char c :: nat) \<le> 57"

definition digit_char :: "nat \<Rightarrow> char" where
  "digit_char n = char_of (48 + n)"

fun parse_digits :: "nat \<Rightarrow> string \<Rightarrow> nat option" where
  "parse_digits acc [] = Some acc"
| "parse_digits acc (c # cs) =
     (if is_digit c then parse_digits (10 * acc + (of_char c - 48)) cs else None)"

definition parse_nat :: "string \<Rightarrow> nat option" where
  "parse_nat s = (if s = [] then None else parse_digits 0 s)"

text \<open>\<^verbatim>\<open>strconv.Atoi\<close>: an optional sign, at least one digit, and the range of \<^verbatim>\<open>int\<close>.\<close>

definition Atoi :: "string \<Rightarrow> int option" where
  "Atoi s =
     (case s of
        [] \<Rightarrow> None
      | c # cs \<Rightarrow>
          (case (if c = CHR ''-'' then map_option (\<lambda>n. - int n) (parse_nat cs)
                 else if c = CHR ''+'' then map_option int (parse_nat cs)
                 else map_option int (parse_nat s)) of
             None \<Rightarrow> None
           | Some i \<Rightarrow> if - (2 ^ 63) \<le> i \<and> i < 2 ^ 63 then Some i else None))"

text \<open>\<^verbatim>\<open>strconv.ParseUint(s, 10, bits)\<close>: digits only.\<close>

definition ParseUint :: "nat \<Rightarrow> string \<Rightarrow> nat option" where
  "ParseUint bits s = (case parse_nat s of
     None \<Rightarrow> None | Some n \<Rightarrow> if n < 2 ^ bits then Some n else None)"

fun FormatUint :: "nat \<Rightarrow> string" where
  "FormatUint n = (if n < 10 then [digit_char n] else FormatUint (n div 10) @ [digit_char (n mod 10)])"

declare FormatUint.simps [simp del]

lemma of_char_digit_char: "n < 10 \<Longrightarrow> of_char (digit_char n) = 48 + n"
  by (simp add: digit_char_def)

lemma is_digit_digit_char [simp]: "n < 10 \<Longrightarrow> is_digit (digit_char n)"
  by (simp add: is_digit_def of_char_digit_char)

lemma parse_digits_append:
  "parse_digits acc (xs @ ys) = Option.bind (parse_digits acc xs) (\<lambda>a. parse_digits a ys)"
  by (induction xs arbitrary: acc) auto

lemma parse_digits_FormatUint: "parse_digits 0 (FormatUint n) = Some n"
proof (induction n rule: FormatUint.induct)
  case (1 n)
  show ?case
  proof (cases "n < 10")
    case True
    then show ?thesis by (simp add: FormatUint.simps[of n] of_char_digit_char)
  next
    case False
    with 1 show ?thesis
      by (simp add: FormatUint.simps[of n] parse_digits_append of_char_digit_char)
  qed
qed

lemma FormatUint_digits: "FormatUint n \<noteq> [] \<and> (\<forall>c\<in>set (FormatUint n). is_digit c)"
proof (induction n rule: FormatUint.induct)
  case (1 n)
  then show ?case by (cases "n < 10") (auto simp: FormatUint.simps[of n])
qed

lemma parse_nat_FormatUint [simp]: "parse_nat (FormatUint n) = Some n"
  using FormatUint_digits[of n] by (simp add: parse_nat_def parse_digits_FormatUint)

lemma Atoi_FormatUint:
  assumes "n < 2 ^ 63"
  shows "Atoi (FormatUint n) = Some (int n)"
proof (cases "FormatUint n")
  case Nil
  with FormatUint_digits[of n] show ?thesis by simp
next
  case (Cons c cs)
  then have "is_digit c" using FormatUint_digits[of n] by auto
  then have "c \<noteq> CHR ''-''" "c \<noteq> CHR ''+''" by (auto simp: is_digit_def)
  with Cons assms parse_nat_FormatUint[of n] show ?thesis
    by (simp add: Atoi_def)
qed

lemma ParseUint_bound: "ParseUint b s = Some n \<Longrightarrow> n < 2 ^ b"
  by (auto simp: ParseUint_def split: option.splits if_splits)

end
