(* ===== verification/Json.thy ===== *)
theory Json
  imports Complex_Main Strconv
begin

text \<open>
  JSON values and the way \<^verbatim>\<open>encoding/json\<close> stores them into Go values. The text
  syntax is a parameter of the operations that read or write JSON text (a
  function from octets to a value and one back); what is modelled here is the
  decoding of a value into strings, booleans, numbers, slices, maps and struct
  fields.

  A number keeps its literal (integer targets read the literal) and the
  \<^verbatim>\<open>float64\<close> it denotes (the untyped target): a finite double is a rational,
  \<open>None\<close> a literal outside their range.
\<close>

datatype json =
    JNull
  | JBool bool
  | JNum string "rat option"
  | JStr string
  | JArr "json list"
  | JObj "(string \<times> json) list"

definition ErrType :: go_error where
  "ErrType = ErrExt ''json: cannot unmarshal value into Go value''"

definition ErrSyntax :: go_error where
  "ErrSyntax = ErrExt ''json: invalid syntax''"

text \<open>
  Member names match struct fields exactly or, failing that, up to case;
  case folding also identifies the Kelvin sign with \<^verbatim>\<open>k\<close> and the long s with \<^verbatim>\<open>s\<close>.
\<close>

fun fold_name :: "string \<Rightarrow> string" where
  "fold_name (a # b # c # cs) =
     (if a = CHR 0xE2 \<and> b = CHR 0x84 \<and> c = CHR 0xAA then CHR ''k'' # fold_name cs
      else if a = CHR 0xC5 \<and> b = CHR 0xBF then CHR ''s'' # fold_name (c # cs)
      else (if 65 \<le> (of_char a :: nat) \<and> (of_char a :: nat) \<le> 90 then char_of ((of_char a :: nat) + 32) else a)
           # fold_name (b # c # cs))"
| "fold_name [a, b] =
     (if a = CHR 0xC5 \<and> b = CHR 0xBF then ''s''
      else (if 65 \<le> (of_char a :: nat) \<and> (of_char a :: nat) \<le> 90 then char_of ((of_char a :: nat) + 32) else a)
           # fold_name [b])"
| "fold_name [a] =
     [if 65 \<le> (of_char a :: nat) \<and> (of_char a :: nat) \<le> 90 then char_of ((of_char a :: nat) + 32) else a]"
| "fold_name [] = []"

definition find_field :: "string list \<Rightarrow> string \<Rightarrow> string option" where
  "find_field names k =
     (if k \<in> set names then Some k else find (\<lambda>n. fold_name n = fold_name k) names)"

text \<open>Scalar targets: \<^verbatim>\<open>null\<close> leaves them as they are, another type is an error.\<close>

fun json_str :: "json \<Rightarrow> string \<Rightarrow> string result" where
  "json_str (JStr s) old = Inr s"
| "json_str JNull old = Inr old"
| "json_str _ old = Inl ErrType"

fun json_bool :: "json \<Rightarrow> bool \<Rightarrow> bool result" where
  "json_bool (JBool b) old = Inr b"
| "json_bool JNull old = Inr old"
| "json_bool _ old = Inl ErrType"

text \<open>A \<^verbatim>\<open>*uint32\<close> target: \<^verbatim>\<open>null\<close> sets it to nil, a number must be the literal of a \<^verbatim>\<open>uint32\<close>.\<close>

fun json_uint32_ptr :: "json \<Rightarrow> (32 word) option \<Rightarrow> (32 word) option result" where
  "json_uint32_ptr (JNum lit f) old =
     (case ParseUint 32 lit of None \<Rightarrow> Inl ErrType | Some n \<Rightarrow> Inr (Some (word_of_nat n)))"
| "json_uint32_ptr JNull old = Inr None"
| "json_uint32_ptr _ old = Inl ErrType"

text \<open>A slice target: \<^verbatim>\<open>null\<close> is the nil slice, which has no elements.\<close>

fun json_slice :: "(json \<Rightarrow> 'a result) \<Rightarrow> json \<Rightarrow> 'a list result" where
  "json_slice f (JArr xs) = rmapM f xs"
| "json_slice f JNull = Inr []"
| "json_slice f _ = Inl ErrType"

text \<open>A struct target: the members are stored in the order they come, unknown ones are skipped.\<close>

fun json_members ::
  "string list \<Rightarrow> (string \<Rightarrow> json \<Rightarrow> 'r \<Rightarrow> 'r result) \<Rightarrow> (string \<times> json) list \<Rightarrow> 'r \<Rightarrow> 'r result" where
  "json_members names store [] r = Inr r"
| "json_members names store ((k, v) # ms) r =
     (case find_field names k of
        None \<Rightarrow> json_members names store ms r
      | Some n \<Rightarrow> rbind (store n v r) (json_members names store ms))"

fun json_struct ::
  "string list \<Rightarrow> (string \<Rightarrow> json \<Rightarrow> 'r \<Rightarrow> 'r result) \<Rightarrow> 'r \<Rightarrow> json \<Rightarrow> 'r result" where
  "json_struct names store zero (JObj ms) = json_members names store ms zero"
| "json_struct names store zero JNull = Inr zero"
| "json_struct names store zero _ = Inl ErrType"

text \<open>
  A \<^verbatim>\<open>map[string]interface{}\<close> target: later duplicates of a key win, a number must be
  in the range of \<^verbatim>\<open>float64\<close>; \<^verbatim>\<open>null\<close> is the nil map.
\<close>

fun json_finite :: "json \<Rightarrow> bool" where
  "json_finite (JNum lit f) = (f \<noteq> None)"
| "json_finite (JArr xs) = list_all json_finite xs"
| "json_finite (JObj ms) = list_all (\<lambda>m. json_finite (snd m)) ms"
| "json_finite _ = True"

fun json_map :: "json \<Rightarrow> (string \<times> json) list result" where
  "json_map (JObj ms) =
     (if json_finite (JObj ms)
      then Inr (foldl (\<lambda>m (k, v). (k, v) # filter (\<lambda>e. fst e \<noteq> k) m) [] ms)
      else Inl ErrType)"
| "json_map JNull = Inr []"
| "json_map _ = Inl ErrType"

text \<open>A whole number as \<^verbatim>\<open>json.Marshal\<close> prints it.\<close>

definition json_nat :: "nat \<Rightarrow> json" where
  "json_nat n = JNum (FormatUint n) (Some (of_nat n))"

definition json_int :: "int \<Rightarrow> json" where
  "json_int i = JNum ((if i < 0 then ''-'' else []) @ FormatUint (nat (abs i))) (Some (of_int i))"

section \<open>The text layer\<close>

text \<open>
  \<open>jparse\<close> is the syntax of \<^verbatim>\<open>json.Unmarshal\<close>, \<open>jdecode\<close> that of a \<^verbatim>\<open>json.Decoder\<close>
  (the first value of a stream) and \<open>jprint\<close> that of \<^verbatim>\<open>json.Marshal\<close>. The code relies on
  text that was printed reading back as the same value.
\<close>

record json_lib =
  jparse :: "bytes \<Rightarrow> json option"
  jdecode :: "bytes \<Rightarrow> json option"
  jprint :: "json \<Rightarrow> bytes"

definition prints :: "json_lib \<Rightarrow> json \<Rightarrow> bool" where
  "prints J v \<longleftrightarrow> jparse J (jprint J v) = Some v"

text \<open>A text layer that knows a table of values, each with its own text.\<close>

definition table_json :: "(json \<times> bytes) list \<Rightarrow> json_lib" where
  "table_json tbl =
     (let rd = (\<lambda>b. map_option fst (find (\<lambda>e. snd e = b) tbl)) in
      \<lparr>jparse = rd, jdecode = rd, jprint = (\<lambda>v. case map_of tbl v of Some b \<Rightarrow> b | None \<Rightarrow> [])\<rparr>)"

section \<open>Floating point to integer\<close>

text \<open>
  \<^verbatim>\<open>uint16(f)\<close> and the like cut the fraction off; the result for a value out of range
  is left to the implementation by the language, so it is the argument \<open>oob\<close>.
\<close>

definition trunc :: "rat \<Rightarrow> int" where
  "trunc f = (if f < 0 then \<lceil>f\<rceil> else \<lfloor>f\<rfloor>)"

type_synonym oob = "nat \<Rightarrow> rat \<Rightarrow> nat"

definition float_to_uint :: "oob \<Rightarrow> nat \<Rightarrow> rat \<Rightarrow> nat" where
  "float_to_uint oob n f =
     (if 0 \<le> trunc f \<and> trunc f < 2 ^ n then nat (trunc f) else oob n f mod 2 ^ n)"

definition float_to_int64 :: "oob \<Rightarrow> rat \<Rightarrow> int" where
  "float_to_int64 oob f =
     (if - (2 ^ 63) \<le> trunc f \<and> trunc f < 2 ^ 63 then trunc f
      else int (oob 64 f mod 2 ^ 64) - 2 ^ 63)"

lemma trunc_of_nat [simp]: "trunc (of_nat n) = int n"
  by (simp add: trunc_def)

lemma float_to_uint_lt: "float_to_uint oob n f < 2 ^ n"
  by (auto simp: float_to_uint_def nat_less_iff)

lemma float_to_uint_of_nat: "m < 2 ^ n \<Longrightarrow> float_to_uint oob n (of_nat m) = m"
proof -
  assume "m < 2 ^ n"
  then have "int m < 2 ^ n" using of_nat_less_iff[of m "2 ^ n", where 'a = int] by simp
  then show ?thesis by (simp add: float_to_uint_def)
qed

end
