(* ===== verification/Hex.thy ===== *)
theory Hex
  imports Prelude
begin

text \<open>
  Hexadecimal text: \<^verbatim>\<open>encoding/hex\<close> as the server uses it for GUIDs, certificate
  hashes and fingerprints, and \<^verbatim>\<open>utils.IsValidGUID\<close>.
\<close>

definition hexdigits :: string where
  "hexdigits = ''0123456789abcdef''"

definition hexdigit :: "nat \<Rightarrow> char" where
  "hexdigit n = hexdigits ! n"

text \<open>The value of a hexadecimal digit of either case.\<close>

definition fromHexChar :: "char \<Rightarrow> nat option" where
  "fromHexChar c = (let n = of_char c :: nat in
     if 48 \<le> n \<and> n \<le> 57 then Some (n - 48)
     else if 97 \<le> n \<and> n \<le> 102 then Some (n - 87)
     else if 65 \<le> n \<and> n \<le> 70 then Some (n - 55)
     else None)"

text \<open>\<^verbatim>\<open>hex.EncodeToString\<close> and \<^verbatim>\<open>hex.DecodeString\<close>; \<open>None\<close> is any decoding error.\<close>

fun hexEncode :: "bytes \<Rightarrow> string" where
  "hexEncode [] = []"
| "hexEncode (c # cs) =
     hexdigit ((of_char c :: nat) div 16) # hexdigit ((of_char c :: nat) mod 16) # hexEncode cs"

fun hexDecode :: "string \<Rightarrow> bytes option" where
  "hexDecode [] = Some []"
| "hexDecode [_] = None"
| "hexDecode (a # b # cs) =
     (case (fromHexChar a, fromHexChar b, hexDecode cs) of
        (Some h, Some l, Some bs) \<Rightarrow> Some (char_of (16 * h + l) # bs)
      | _ \<Rightarrow> None)"

text \<open>The regular expression \<^verbatim>\<open>^[a-fA-F0-9]{32}$\<close>.\<close>

definition IsValidGUID :: "string \<Rightarrow> bool" where
  "IsValidGUID s \<longleftrightarrow> length s = 32 \<and> list_all (\<lambda>c. fromHexChar c \<noteq> None) s"

lemma fromHexChar_hexdigit [simp]:
  assumes "n < 16"
  shows "fromHexChar (hexdigit n) = Some n"
proof -
  have "list_all (\<lambda>n. fromHexChar (hexdigit n) = Some n) [0..<16]"
    by code_simp
  with assms show ?thesis by (simp add: list_all_iff)
qed

lemma of_char_lt: "of_char c < (256::nat)"
  using nat_of_char_less_256 .

lemma of_char_div16 [simp]: "of_char c div 16 < (16::nat)"
  by (rule less_mult_imp_div_less) (simp add: of_char_lt)

lemma hexDecode_hexEncode [simp]: "hexDecode (hexEncode bs) = Some bs"
  by (induction bs) simp_all

lemma length_hexEncode [simp]: "length (hexEncode bs) = 2 * length bs"
  by (induction bs) auto

lemma hexDecode_length: "hexDecode s = Some bs \<Longrightarrow> length s = 2 * length bs"
  by (induction s arbitrary: bs rule: hexDecode.induct) (auto split: option.splits)

lemma hexDecode_hexchars:
  "even (length s) \<Longrightarrow> list_all (\<lambda>c. fromHexChar c \<noteq> None) s \<Longrightarrow> \<exists>bs. hexDecode s = Some bs"
  by (induction s rule: hexDecode.induct) auto

lemma hexEncode_hexchars: "list_all (\<lambda>c. fromHexChar c \<noteq> None) (hexEncode bs)"
  by (induction bs) simp_all

text \<open>A valid GUID always decodes, to sixteen octets; the GUID of a device always prints valid.\<close>

lemma IsValidGUID_decodes:
  assumes "IsValidGUID s"
  shows "\<exists>bs. hexDecode s = Some bs \<and> length bs = 16"
proof -
  from assms obtain bs where b: "hexDecode s = Some bs"
    using hexDecode_hexchars[of s] by (auto simp: IsValidGUID_def)
  with assms show ?thesis using hexDecode_length[OF b] by (auto simp: IsValidGUID_def)
qed

lemma IsValidGUID_hexEncode: "IsValidGUID (hexEncode bs) \<longleftrightarrow> length bs = 16"
  using hexEncode_hexchars[of bs] by (auto simp: IsValidGUID_def)

end
