(* ===== verification/NetIP.thy ===== *)
theory NetIP
  imports Hex Strconv
begin

text \<open>
  \<^verbatim>\<open>net.ParseIP\<close> and \<^verbatim>\<open>net.IP.String\<close>. A parsed address is sixteen octets, an
  IPv4 address in its IPv4-mapped form; parsing goes by the first dot or colon,
  as \<^verbatim>\<open>netip.ParseAddr\<close> does, and any percent sign (a zone) makes \<^verbatim>\<open>ParseIP\<close> fail. Every
  address of sixteen octets survives printing and parsing, whichever zeros the printing shortens.
\<close>

section \<open>Dotted decimal\<close>

fun split_on :: "char \<Rightarrow> string \<Rightarrow> string list" where
  "split_on c [] = [[]]"
| "split_on c (x # xs) =
     (if x = c then [] # split_on c xs
      else (case split_on c xs of [] \<Rightarrow> [[x]] | y # ys \<Rightarrow> (x # y) # ys))"

text \<open>One field: digits only, no leading zero, at most 255.\<close>

definition ipv4_field :: "string \<Rightarrow> nat option" where
  "ipv4_field s = (case parse_nat s of
     None \<Rightarrow> None
   | Some n \<Rightarrow> if n > 255 \<or> (length s > 1 \<and> hd s = CHR ''0'') then None else Some n)"

definition parseIPv4 :: "string \<Rightarrow> bytes option" where
  "parseIPv4 s = (case map ipv4_field (split_on (CHR ''.'') s) of
     [Some a, Some b, Some c, Some d] \<Rightarrow> Some [char_of a, char_of b, char_of c, char_of d]
   | _ \<Rightarrow> None)"

definition v4InV6Prefix :: bytes where
  "v4InV6Prefix = replicate 10 (CHR 0x00) @ [CHR 0xFF, CHR 0xFF]"

section \<open>Colon hexadecimal\<close>

fun hex_value :: "string \<Rightarrow> nat" where
  "hex_value s = foldl (\<lambda>a c. 16 * a + the (fromHexChar c)) 0 s"

text \<open>
  The loop over the fields, with the octets so far and the position of the
  ellipsis; at most eight fields fit, which bounds the recursion.
\<close>

fun ipv6_fields :: "nat \<Rightarrow> bytes \<Rightarrow> nat option \<Rightarrow> string \<Rightarrow> (bytes \<times> nat option \<times> string) option" where
  "ipv6_fields 0 ip el s = Some (ip, el, s)"
| "ipv6_fields (Suc k) ip el s =
     (let hs = takeWhile (\<lambda>c. fromHexChar c \<noteq> None) s; r = dropWhile (\<lambda>c. fromHexChar c \<noteq> None) s in
      if hs = [] \<or> length hs > 4 then None
      else if r \<noteq> [] \<and> hd r = CHR ''.'' then
        (if el = None \<and> length ip \<noteq> 12 then None
         else if length ip + 4 > 16 then None
         else (case parseIPv4 s of None \<Rightarrow> None | Some v4 \<Rightarrow> Some (ip @ v4, el, [])))
      else
        (let ip' = ip @ [char_of (hex_value hs div 256), char_of (hex_value hs mod 256)] in
         case r of
           [] \<Rightarrow> Some (ip', el, [])
         | c # cs \<Rightarrow>
             if c \<noteq> CHR '':'' \<or> cs = [] then None
             else if hd cs = CHR '':'' then
               (if el \<noteq> None then None
                else if tl cs = [] then Some (ip', Some (length ip'), [])
                else ipv6_fields k ip' (Some (length ip')) (tl cs))
             else ipv6_fields k ip' el cs))"

definition ipv6_finish :: "bytes \<times> nat option \<times> string \<Rightarrow> bytes option" where
  "ipv6_finish = (\<lambda>(ip, el, s).
     if s \<noteq> [] then None
     else if length ip < 16 then
       (case el of None \<Rightarrow> None
        | Some i \<Rightarrow> Some (take i ip @ replicate (16 - length ip) (CHR 0x00) @ drop i ip))
     else if el \<noteq> None then None
     else Some ip)"

definition parseIPv6 :: "string \<Rightarrow> bytes option" where
  "parseIPv6 s =
     (if take 2 s = ''::'' then
        (if drop 2 s = [] then Some (replicate 16 (CHR 0x00))
         else Option.bind (ipv6_fields 8 [] (Some 0) (drop 2 s)) ipv6_finish)
      else Option.bind (ipv6_fields 8 [] None s) ipv6_finish)"

definition ParseIP :: "string \<Rightarrow> bytes option" where
  "ParseIP s =
     (if CHR ''%'' \<in> set s then None
      else (case find (\<lambda>c. c = CHR ''.'' \<or> c = CHR '':'') s of
              None \<Rightarrow> None
            | Some c \<Rightarrow> if c = CHR ''.'' then map_option (\<lambda>v4. v4InV6Prefix @ v4) (parseIPv4 s)
                        else parseIPv6 s))"

section \<open>Printing\<close>

definition print_ipv4 :: "bytes \<Rightarrow> string" where
  "print_ipv4 bs = (case map (\<lambda>c. FormatUint (of_char c)) bs of
     [a, b, c, d] \<Rightarrow> a @ ''.'' @ b @ ''.'' @ c @ ''.'' @ d
   | _ \<Rightarrow> [])"

text \<open>Lower-case hexadecimal without leading zeros.\<close>

definition print_hex16 :: "nat \<Rightarrow> string" where
  "print_hex16 n = (let ds = [n div 4096 mod 16, n div 256 mod 16, n div 16 mod 16, n mod 16];
                        zs = dropWhile (\<lambda>d. d = 0) ds
                    in map hexdigit (if zs = [] then [0] else zs))"

fun groups16 :: "bytes \<Rightarrow> nat list" where
  "groups16 (a # b # cs) = (256 * of_char a + of_char b) # groups16 cs"
| "groups16 _ = []"

text \<open>The first longest run of at least two zero groups, as start and end.\<close>

definition zero_run :: "nat list \<Rightarrow> nat \<Rightarrow> nat" where
  "zero_run gs i = length (takeWhile (\<lambda>g. g = 0) (drop i gs))"

definition longest_run :: "nat list \<Rightarrow> (nat \<times> nat) option" where
  "longest_run gs = foldl (\<lambda>best i.
     let l = zero_run gs i in
     if l \<ge> 2 \<and> (case best of None \<Rightarrow> True | Some (s, e) \<Rightarrow> l > e - s) then Some (i, i + l) else best)
     None [0..<8]"

fun join_colon :: "string list \<Rightarrow> string" where
  "join_colon [] = []"
| "join_colon [x] = x"
| "join_colon (x # xs) = x @ '':'' @ join_colon xs"

definition print_ipv6 :: "bytes \<Rightarrow> string" where
  "print_ipv6 bs = (let gs = groups16 bs in
     case longest_run gs of
       None \<Rightarrow> join_colon (map print_hex16 gs)
     | Some (s, e) \<Rightarrow> join_colon (map print_hex16 (take s gs)) @ ''::'' @
                     join_colon (map print_hex16 (drop e gs)))"

definition IP_String :: "bytes \<Rightarrow> string" where
  "IP_String ip =
     (if ip = [] then ''<nil>''
      else if length ip = 4 then print_ipv4 ip
      else if length ip = 16 then
        (if take 12 ip = v4InV6Prefix then print_ipv4 (drop 12 ip) else print_ipv6 ip)
      else CHR ''?'' # hexEncode ip)"

section \<open>An IPv4 address survives printing and parsing\<close>

lemma split_on_app: "c \<notin> set xs \<Longrightarrow> split_on c (xs @ c # ys) = xs # split_on c ys"
  by (induction xs) auto

lemma split_on_single: "c \<notin> set xs \<Longrightarrow> split_on c xs = [xs]"
  by (induction xs) auto

lemma FormatUint_not_in: "\<not> is_digit c \<Longrightarrow> c \<notin> set (FormatUint n)"
  using FormatUint_digits[of n] by auto

lemma FormatUint_no_leading_zero: "length (FormatUint n) > 1 \<Longrightarrow> hd (FormatUint n) \<noteq> CHR ''0''"
proof (induction n rule: FormatUint.induct)
  case (1 n)
  show ?case
  proof (cases "n < 10")
    case True
    with 1 show ?thesis by (simp add: FormatUint.simps[of n])
  next
    case False
    show ?thesis
    proof (cases "n div 10 < 10")
      case True
      have "0 < n div 10" using False by simp
      moreover have "of_char (digit_char (n div 10)) = 48 + n div 10"
        using True by (rule of_char_digit_char)
      ultimately have "digit_char (n div 10) \<noteq> CHR ''0''" by auto
      with False True show ?thesis
        by (simp add: FormatUint.simps[of n] FormatUint.simps[of "n div 10"])
    next
      case f: False
      then have "length (FormatUint (n div 10)) > 1"
        using FormatUint_digits[of "n div 10 div 10"] by (simp add: FormatUint.simps[of "n div 10"])
      with 1 False FormatUint_digits[of "n div 10"] show ?thesis
        by (simp add: FormatUint.simps[of n])
    qed
  qed
qed

lemma ipv4_field_FormatUint: "n < 256 \<Longrightarrow> ipv4_field (FormatUint n) = Some n"
  using FormatUint_no_leading_zero[of n] by (auto simp: ipv4_field_def)

lemma parseIPv4_print_ipv4:
  assumes "length bs = 4"
  shows "parseIPv4 (print_ipv4 bs) = Some bs"
proof -
  from assms obtain a b c d where bs: "bs = [a, b, c, d]"
    by (auto simp: length_Suc_conv numeral_eq_Suc)
  have dot: "\<not> is_digit (CHR ''.'')" by (simp add: is_digit_def)
  show ?thesis
    by (simp add: bs print_ipv4_def parseIPv4_def split_on_app split_on_single
        FormatUint_not_in[OF dot] ipv4_field_FormatUint of_char_lt)
qed

lemma ParseIP_print_ipv4:
  assumes "length bs = 4"
  shows "ParseIP (print_ipv4 bs) = Some (v4InV6Prefix @ bs)"
proof -
  from assms obtain a b c d where bs: "bs = [a, b, c, d]"
    by (auto simp: length_Suc_conv numeral_eq_Suc)
  have n: "\<not> is_digit (CHR ''.'')" "\<not> is_digit (CHR '':'')" "\<not> is_digit (CHR ''%'')"
    by (simp_all add: is_digit_def)
  let ?P = "\<lambda>c. c = CHR ''.'' \<or> c = CHR '':''"
  have "find ?P (xs @ CHR ''.'' # ys) = Some (CHR ''.'')" if "\<forall>c\<in>set xs. is_digit c" for xs ys
    using that n by (induction xs) auto
  then have "find ?P (print_ipv4 bs) = Some (CHR ''.'')"
    using FormatUint_digits by (auto simp: bs print_ipv4_def)
  moreover have "CHR ''%'' \<notin> set (print_ipv4 bs)"
    using FormatUint_not_in[OF n(3)] by (auto simp: bs print_ipv4_def)
  ultimately show ?thesis
    using parseIPv4_print_ipv4[OF assms] by (simp add: ParseIP_def)
qed

lemma parseIPv4_length: "parseIPv4 s = Some bs \<Longrightarrow> length bs = 4"
  by (auto simp: parseIPv4_def split: list.splits option.splits)

lemma ParseIP_IP_String_v4:
  assumes "length ip = 16" "take 12 ip = v4InV6Prefix"
  shows "ParseIP (IP_String ip) = Some ip"
proof -
  have "v4InV6Prefix @ drop 12 ip = ip" using assms append_take_drop_id[of 12 ip] by simp
  with assms ParseIP_print_ipv4[of "drop 12 ip"] show ?thesis
    by (auto simp: IP_String_def)
qed

section \<open>Every address survives printing and parsing\<close>

abbreviation is_hex :: "char \<Rightarrow> bool" where
  "is_hex c \<equiv> \<exists>n. fromHexChar c = Some n"

definition hexval :: "nat list \<Rightarrow> nat" where
  "hexval = foldl (\<lambda>a d. 16 * a + d) 0"

lemma hex_value_map: "list_all (\<lambda>d. d < 16) ds \<Longrightarrow> hex_value (map hexdigit ds) = hexval ds"
proof -
  assume "list_all (\<lambda>d. d < 16) ds"
  then have "foldl (\<lambda>a c. 16 * a + the (fromHexChar c)) m (map hexdigit ds) = foldl (\<lambda>a d. 16 * a + d) m ds" for m
    by (induction ds arbitrary: m) simp_all
  then show ?thesis by (simp add: hexval_def)
qed

lemma hexval_zeros: "hexval (dropWhile (\<lambda>d. d = 0) ds) = hexval ds"
  by (induction ds) (simp_all add: hexval_def)

lemma print_hex16:
  assumes "n < 65536"
  shows "print_hex16 n \<noteq> []" "length (print_hex16 n) \<le> 4" "\<forall>c\<in>set (print_hex16 n). is_hex c"
    "hex_value (print_hex16 n) = n"
proof -
  obtain ds where ds: "ds = [n div 4096 mod 16, n div 256 mod 16, n div 16 mod 16, n mod 16]" by blast
  define zs where "zs = dropWhile (\<lambda>d. d = 0) ds"
  have "n = 4096 * (n div 4096 mod 16) + 256 * (n div 256 mod 16) + 16 * (n div 16 mod 16) + n mod 16"
  proof -
    have "n div 4096 mod 16 = n div 4096" using assms by simp
    moreover have "n = 16 * (n div 16) + n mod 16" "n div 16 = 16 * (n div 256) + n div 16 mod 16"
      "n div 256 = 16 * (n div 4096) + n div 256 mod 16"
      using mult_div_mod_eq[of 16 n] mult_div_mod_eq[of 16 "n div 16"] mult_div_mod_eq[of 16 "n div 256"]
      by (simp_all add: div_mult2_eq[symmetric])
    ultimately show ?thesis by linarith
  qed
  moreover have "hexval [a, b, c, d] = 4096 * a + 256 * b + 16 * c + d" for a b c d by (simp add: hexval_def)
  ultimately have "hexval ds = n" unfolding ds by metis
  then have d: "list_all (\<lambda>d. d < 16) ds" "length ds = 4" "hexval ds = n" by (simp_all add: ds)
  have z: "list_all (\<lambda>d. d < 16) zs" "length zs \<le> 4" "hexval zs = n"
    using d length_dropWhile_le[of "\<lambda>d. d = 0" ds]
    by (auto simp: zs_def hexval_zeros list_all_iff dest: set_dropWhileD)
  have p: "print_hex16 n = map hexdigit (if zs = [] then [0] else zs)"
    by (simp only: print_hex16_def Let_def zs_def ds)
  show "print_hex16 n \<noteq> []" "length (print_hex16 n) \<le> 4" "\<forall>c\<in>set (print_hex16 n). is_hex c"
    unfolding p using z(1,2) by (auto simp: list_all_iff)
  show "hex_value (print_hex16 n) = n"
    unfolding p using z(1,3) hex_value_map[of zs] hex_value_map[of "[0]"]
    by (cases "zs = []") (simp_all add: hexval_def)
qed

lemma is_hex_not [simp]: "fromHexChar (CHR '':'') = None" "fromHexChar (CHR ''.'') = None" "fromHexChar (CHR ''%'') = None"
  by code_simp+

text \<open>A group at the head of the text.\<close>

lemma group_head:
  assumes "n < 65536" "t = [] \<or> \<not> is_hex (hd t)"
  shows "takeWhile is_hex (print_hex16 n @ t) = print_hex16 n" "dropWhile is_hex (print_hex16 n @ t) = t"
proof -
  have "takeWhile is_hex t = []" "dropWhile is_hex t = t" using assms(2) by (cases t; simp)+
  then show "takeWhile is_hex (print_hex16 n @ t) = print_hex16 n" "dropWhile is_hex (print_hex16 n @ t) = t"
    using print_hex16(3)[OF assms(1)] by (simp_all add: takeWhile_append2 dropWhile_append2)
qed

definition octets :: "nat list \<Rightarrow> bytes" where
  "octets gs = concat (map (\<lambda>g. [char_of (g div 256), char_of (g mod 256)]) gs)"

lemma octets_simps [simp]:
  "octets [] = []" "octets (g # gs) = [char_of (g div 256), char_of (g mod 256)] @ octets gs"
  "octets (gs @ hs) = octets gs @ octets hs" "length (octets gs) = 2 * length gs"
  "octets (replicate n 0) = replicate (2 * n) (CHR 0x00)"
proof -
  show "length (octets gs) = 2 * length gs" by (induction gs) (simp_all add: octets_def)
  show "octets (replicate n 0) = replicate (2 * n) (CHR 0x00)" 
    by (induction n) (simp_all add: octets_def char_of_def)
qed (simp_all add: octets_def)

lemma groups16: "even (length ip) \<Longrightarrow> octets (groups16 ip) = ip \<and> 2 * length (groups16 ip) = length ip \<and>
   (\<forall>g\<in>set (groups16 ip). g < 65536)"
proof (induction ip rule: groups16.induct)
  case (1 a b cs)
  have "of_char a < (256::nat)" "of_char b < (256::nat)" by (rule of_char_lt)+
  then have "256 * of_char a + of_char b < (65536::nat)" by linarith
  with 1 \<open>of_char b < 256\<close> show ?case by (simp add: div_add1_eq)
qed auto

abbreviation group_text :: "nat list \<Rightarrow> string" where
  "group_text gs \<equiv> join_colon (map print_hex16 gs)"

lemma group_text_Cons: "join_colon (print_hex16 g # map print_hex16 gs) = print_hex16 g @ (if gs = [] then [] else CHR '':'' # group_text gs)"
  by (cases gs) simp_all

lemma group_text_hd:
  assumes "gs \<noteq> []" "\<forall>g\<in>set gs. g < 65536"
  shows "\<exists>c cs. group_text gs = c # cs \<and> is_hex c"
proof -
  obtain g gs' where g: "gs = g # gs'" "g < 65536" using assms by (cases gs) auto
  obtain c cs where "print_hex16 g = c # cs" using print_hex16(1)[OF g(2)] by (cases "print_hex16 g") auto
  with print_hex16(3)[OF g(2)] have "\<exists>c cs. print_hex16 g @ t = c # cs \<and> is_hex c" for t by auto
  then show ?thesis by (simp only: g(1) list.map group_text_Cons)
qed

lemma fields_step:
  assumes "g < 65536" "t = [] \<or> hd t = CHR '':''"
  shows "ipv6_fields (Suc k) ip el (print_hex16 g @ t) =
     (let ip' = ip @ octets [g] in
      case t of
        [] \<Rightarrow> Some (ip', el, [])
      | c # cs \<Rightarrow>
          if cs = [] then None
          else if hd cs = CHR '':'' then
            (if el \<noteq> None then None else if tl cs = [] then Some (ip', Some (length ip'), [])
             else ipv6_fields k ip' (Some (length ip')) (tl cs))
          else ipv6_fields k ip' el cs)"
proof -
  have "t = [] \<or> \<not> is_hex (hd t)" using assms(2) by auto
  note h = group_head[OF assms(1) this] and p = print_hex16(1,2,4)[OF assms(1)]
  have l: "\<not> 4 < length (print_hex16 g)" using p(2) by simp
  from assms(2) show ?thesis
    unfolding ipv6_fields.simps(2) not_None_eq h
    by (cases t) (simp_all add: p(1,3) l Let_def del: hex_value.simps not_None_eq)
qed

lemma fields_groups:
  assumes "gs \<noteq> []" "\<forall>g\<in>set gs. g < 65536" "length gs \<le> k"
  shows "ipv6_fields k ip el (group_text gs) = Some (ip @ octets gs, el, [])"
  using assms
proof (induction gs arbitrary: k ip)
  case (Cons g gs)
  then obtain k' where k: "k = Suc k'" by (cases k) auto
  have g: "g < 65536" using Cons.prems by simp
  show ?case
  proof (cases "gs = []")
    case True
    with fields_step[OF g, of "[]" k' ip el] show ?thesis by (simp add: k)
  next
    case False
    with Cons.prems(2) obtain c cs where t: "group_text gs = c # cs" "is_hex c" using group_text_hd[of gs] by auto
    then have c: "c \<noteq> CHR '':''" by auto
    from Cons.IH[of k' "ip @ octets [g]"] False Cons.prems(2,3) k
    have "ipv6_fields k' (ip @ octets [g]) el (c # cs) = Some (ip @ octets (g # gs), el, [])" by (simp add: t(1))
    with fields_step[OF g, of "CHR '':'' # c # cs" k' ip el] c False t(1) show ?thesis
      by (simp add: k group_text_Cons)
  qed
qed simp

text \<open>Groups, the ellipsis, and the groups behind it.\<close>

lemma fields_ellipsis:
  assumes "gs \<noteq> []" "\<forall>g\<in>set gs \<union> set hs. g < 65536" "length gs + length hs \<le> k"
  shows "ipv6_fields k ip None (group_text gs @ ''::'' @ group_text hs) =
     Some (ip @ octets gs @ octets hs, Some (length ip + 2 * length gs), [])"
  using assms
proof (induction gs arbitrary: k ip)
  case (Cons g gs)
  then obtain k' where k: "k = Suc k'" by (cases k) auto
  have g: "g < 65536" using Cons.prems by simp
  show ?case
  proof (cases "gs = []")
    case True
    show ?thesis
    proof (cases "hs = []")
      case h: True
      with True fields_step[OF g, of "''::''" k' ip None] show ?thesis by (simp add: k)
    next
      case False
      with group_text_hd[of hs] Cons.prems(2) have "group_text hs \<noteq> []" by auto
      with True False fields_step[OF g, of "''::'' @ group_text hs" k' ip None] Cons.prems(2,3) k
        fields_groups[of hs k' "ip @ octets [g]"] show ?thesis by simp
    qed
  next
    case False
    with Cons.prems(2) obtain c cs where t: "group_text gs = c # cs" "is_hex c" using group_text_hd[of gs] by auto
    then have c: "c \<noteq> CHR '':''" by auto
    from Cons.IH[of k' "ip @ octets [g]"] False Cons.prems(2,3) k
    have "ipv6_fields k' (ip @ octets [g]) None (c # cs @ ''::'' @ group_text hs) =
        Some (ip @ octets (g # gs) @ octets hs, Some (length ip + 2 * length (g # gs)), [])" by (simp add: t(1))
    with fields_step[OF g, of "CHR '':'' # c # cs @ ''::'' @ group_text hs" k' ip None] c False t(1) show ?thesis
      by (simp add: k group_text_Cons)
  qed
qed simp

text \<open>The run that is printed as the ellipsis consists of zeros.\<close>

lemma longest_run_zeros:
  assumes "longest_run gs = Some (s, e)" "length gs = 8"
  shows "s + 2 \<le> e \<and> e \<le> 8 \<and> gs = take s gs @ replicate (e - s) 0 @ drop e gs"
proof -
  let ?f = "\<lambda>best i. let l = zero_run gs i in
     if l \<ge> 2 \<and> (case best of None \<Rightarrow> True | Some (s, e) \<Rightarrow> l > e - s) then Some (i, i + l) else best"
  have inv: "foldl ?f b is = Some (s, e) \<Longrightarrow> b = Some (s, e) \<or> (s \<in> set is \<and> e = s + zero_run gs s \<and> 2 \<le> zero_run gs s)"
    for b "is" by (induction "is" arbitrary: b) (auto simp: Let_def split: if_splits)
  from inv[of None "[0..<8]"] assms(1) have r: "s < 8" "e = s + zero_run gs s" "2 \<le> zero_run gs s"
    by (auto simp: longest_run_def)
  have "zero_run gs s \<le> length (drop s gs)" unfolding zero_run_def by (rule length_takeWhile_le)
  then have e: "e \<le> 8" using r assms(2) by simp
  have "takeWhile (\<lambda>g. g = 0) (drop s gs) = replicate (zero_run gs s) 0"
    unfolding zero_run_def by (rule replicate_length_same[symmetric]) (auto dest: set_takeWhileD)
  moreover have "takeWhile (\<lambda>g. g = 0) (drop s gs) = take (zero_run gs s) (drop s gs)"
    unfolding zero_run_def by (rule takeWhile_eq_take)
  ultimately have "take (e - s) (drop s gs) = replicate (e - s) 0" using r by simp
  moreover have "drop s gs = take (e - s) (drop s gs) @ drop e gs"
    
    using r append_take_drop_id[of "e - s" "drop s gs"] by (simp add: add.commute)
  ultimately show ?thesis using e r append_take_drop_id[of s gs] by auto
qed

lemma parseIPv6_print_ipv6:
  assumes "length ip = 16"
  shows "parseIPv6 (print_ipv6 ip) = Some ip"
proof -
  let ?gs = "groups16 ip"
  from groups16[of ip] assms have gs: "octets ?gs = ip" "length ?gs = 8" "\<forall>g\<in>set ?gs. g < 65536" by simp_all
  then have ne: "?gs \<noteq> []" by auto
  show ?thesis
  proof (cases "longest_run ?gs")
    case None
    from group_text_hd[OF ne gs(3)] obtain c cs where t: "group_text ?gs = c # cs" "c \<noteq> CHR '':''" by force
    then have "take 2 (group_text ?gs) \<noteq> ''::''" by auto
    with None fields_groups[OF ne gs(3), of 8 "[]" None] gs assms show ?thesis
      by (simp add: print_ipv6_def parseIPv6_def ipv6_finish_def)
  next
    case (Some r)
    obtain s e where r: "r = (s, e)" by (cases r)
    from longest_run_zeros[of ?gs s e] Some r gs(2) have z: "s + 2 \<le> e" "e \<le> 8"
      and split: "?gs = take s ?gs @ replicate (e - s) 0 @ drop e ?gs" by auto
    from arg_cong[OF split, of octets] gs(1)
    have ip: "ip = octets (take s ?gs) @ replicate (2 * (e - s)) (CHR 0x00) @ octets (drop e ?gs)" by simp
    have lt: "\<forall>g\<in>set (take s ?gs) \<union> set (drop e ?gs). g < 65536"
      using gs(3) by (auto dest: in_set_takeD in_set_dropD)
    have len: "length (take s ?gs) = s" "length (drop e ?gs) = 8 - e" using gs(2) z by simp_all
    have zs: "16 - (2 * s + 2 * (8 - e)) = 2 * (e - s)" "2 * s + 2 * (8 - e) < 16" using z by auto
    show ?thesis
    proof (cases "s = 0")
      case True
      with len zs ip lt fields_groups[of "drop e ?gs" 8 "[]" "Some 0"] Some r group_text_hd[of "drop e ?gs"] show ?thesis
        by (cases "drop e ?gs = []") (auto simp: print_ipv6_def parseIPv6_def ipv6_finish_def)
    next
      case False
      then have ne': "take s ?gs \<noteq> []" using ne by simp
      from group_text_hd[OF this] lt obtain c cs where t: "group_text (take s ?gs) = c # cs" "c \<noteq> CHR '':''" by force
      then have "take 2 (group_text (take s ?gs) @ ''::'' @ group_text (drop e ?gs)) \<noteq> ''::''" by auto
      with fields_ellipsis[OF ne' lt, of 8 "[]"] len zs z ip Some r show ?thesis
        by (simp add: print_ipv6_def parseIPv6_def ipv6_finish_def Let_def)
    qed
  qed
qed

lemma group_text_chars: "\<forall>g\<in>set gs. g < 65536 \<Longrightarrow> \<forall>c\<in>set (group_text gs). is_hex c \<or> c = CHR '':''"
  using print_hex16(3) by (induction gs) (auto simp: group_text_Cons)

lemma print_ipv6_chars:
  assumes "length ip = 16"
  shows "(\<forall>c\<in>set (print_ipv6 ip). is_hex c \<or> c = CHR '':'') \<and> CHR '':'' \<in> set (print_ipv6 ip)"
proof -
  obtain gs where g: "gs = groups16 ip" by blast
  with groups16[of ip] assms have gs: "length gs = 8" "\<forall>g\<in>set gs. g < 65536" by simp_all
  then obtain a b cs where "gs = a # b # cs" by (cases gs; cases "tl gs") auto
  then have colon: "CHR '':'' \<in> set (group_text gs)" by (simp add: group_text_Cons)
  have "\<forall>g\<in>set (take i gs). g < 65536" "\<forall>g\<in>set (drop j gs). g < 65536" for i j
    using gs(2) by (auto dest: in_set_takeD in_set_dropD)
  note chars = this[THEN group_text_chars] group_text_chars[OF gs(2)]
  show ?thesis
  proof (cases "longest_run gs")
    case None
    with chars(3) colon show ?thesis by (simp add: print_ipv6_def g[symmetric])
  next
    case (Some r)
    with chars(1)[of "fst r"] chars(2)[of "snd r"] show ?thesis
      by (cases r) (auto simp: print_ipv6_def g[symmetric])
  qed
qed

lemma ParseIP_print_ipv6:
  assumes "length ip = 16"
  shows "ParseIP (print_ipv6 ip) = Some ip"
proof -
  let ?s = "print_ipv6 ip"
  note chars = print_ipv6_chars[OF assms]
  have "find (\<lambda>c. c = CHR ''.'' \<or> c = CHR '':'') s = Some (CHR '':'')"
    if "\<forall>c\<in>set s. is_hex c \<or> c = CHR '':''" "CHR '':'' \<in> set s" for s
    using that by (induction s) auto
  with chars have "find (\<lambda>c. c = CHR ''.'' \<or> c = CHR '':'') ?s = Some (CHR '':'')" by blast
  moreover have "CHR ''%'' \<notin> set ?s" using chars by auto
  ultimately show ?thesis using parseIPv6_print_ipv6[OF assms] by (simp add: ParseIP_def)
qed

lemma ParseIP_IP_String:
  assumes "length ip = 16"
  shows "ParseIP (IP_String ip) = Some ip"
proof (cases "take 12 ip = v4InV6Prefix")
  case True
  with assms show ?thesis by (rule ParseIP_IP_String_v4)
next
  case False
  have "ip \<noteq> []" using assms by auto
  with False assms ParseIP_print_ipv6 show ?thesis by (simp add: IP_String_def)
qed

text \<open>What was parsed is sixteen octets.\<close>

lemma ipv6_fields_length:
  "ipv6_fields k ip el s = Some (ip', el', s') \<Longrightarrow> length ip + 2 * k \<le> 16 \<Longrightarrow> length ip' \<le> 16"
proof (induction k ip el s rule: ipv6_fields.induct)
  case (2 k ip el s)
  then show ?case
    by (auto simp: Let_def dest: parseIPv4_length split: if_splits option.splits list.splits)
qed simp

lemma ParseIP_length:
  assumes "ParseIP s = Some ip"
  shows "length ip = 16"
proof -
  have v6: "length ip = 16" if "ipv6_fields 8 [] el t = Some x" "ipv6_finish x = Some ip" for el t x
  proof -
    obtain ip' el' s' where x: "x = (ip', el', s')" by (cases x)
    with that(1) have "length ip' \<le> 16" using ipv6_fields_length[of 8 "[]" el t] by simp
    with that(2) x show ?thesis by (auto simp: ipv6_finish_def min_def split: if_splits option.splits)
  qed
  show ?thesis
    using assms v6
    by (auto simp: ParseIP_def parseIPv6_def v4InV6Prefix_def bind_eq_Some_conv dest!: parseIPv4_length split: if_splits option.splits)
qed

end
