(* ===== verification/RvInfoV1.thy ===== *)
theory RvInfoV1
  imports Protocol Json Hex NetIP
begin

text \<open>
  Rendezvous instructions in the format of the V1 interface: a flat array of objects
  whose members are the instructions of one directive. \<^verbatim>\<open>internal/utils/rvinfo.go\<close>
  (protocol and medium names) and the codec of \<^verbatim>\<open>internal/db/db.go\<close>.

  The lemmas show what a document that was accepted reads back as: every member
  keeps its value, in the canonical spelling of addresses, ports and hashes.
\<close>

section \<open>Protocol and medium names\<close>

definition ProtocolStringFromCode :: "rv_consts \<Rightarrow> 8 word \<Rightarrow> string" where
  "ProtocolStringFromCode K code =
     (if code = RVProtRest K then ''rest''
      else if code = RVProtHTTP K then ''http''
      else if code = RVProtHTTPS K then ''https''
      else if code = RVProtTCP K then ''tcp''
      else if code = RVProtTLS K then ''tls''
      else if code = RVProtCoapTCP K then ''coap+tcp''
      else if code = RVProtCoapUDP K then ''coap''
      else FormatUint (unat code))"

definition MediumStringFromCode :: "rv_consts \<Rightarrow> 8 word \<Rightarrow> string" where
  "MediumStringFromCode K medium =
     (if medium = RVMedEthAll K then ''eth_all''
      else if medium = RVMedWifiAll K then ''wifi_all''
      else FormatUint (unat medium))"

definition ProtocolCodeFromString :: "rv_consts \<Rightarrow> string \<Rightarrow> 8 word result" where
  "ProtocolCodeFromString K s =
     (if s = ''rest'' then Inr (RVProtRest K)
      else if s = ''http'' then Inr (RVProtHTTP K)
      else if s = ''https'' then Inr (RVProtHTTPS K)
      else if s = ''tcp'' then Inr (RVProtTCP K)
      else if s = ''tls'' then Inr (RVProtTLS K)
      else if s = ''coap+tcp'' then Inr (RVProtCoapTCP K)
      else if s = ''coap'' then Inr (RVProtCoapUDP K)
      else Inl (Errorf ''unsupported protocol''))"

definition MediumCodeFromString :: "rv_consts \<Rightarrow> string \<Rightarrow> 8 word result" where
  "MediumCodeFromString K s =
     (if s = ''eth_all'' then Inr (RVMedEthAll K)
      else if s = ''wifi_all'' then Inr (RVMedWifiAll K)
      else Inl (Errorf ''unsupported medium''))"

text \<open>A name that has a code is the name of that code.\<close>

lemma ProtocolString_Code:
  "rv_consts_ok K \<Longrightarrow> ProtocolCodeFromString K s = Inr c \<Longrightarrow> ProtocolStringFromCode K c = s"
  by (auto simp: rv_consts_ok_def ProtocolCodeFromString_def ProtocolStringFromCode_def split: if_splits)

lemma MediumString_Code:
  "rv_consts_ok K \<Longrightarrow> MediumCodeFromString K s = Inr c \<Longrightarrow> MediumStringFromCode K c = s"
  by (auto simp: rv_consts_ok_def MediumCodeFromString_def MediumStringFromCode_def split: if_splits)

section \<open>Encoding of values\<close>

text \<open>The dynamic types that reach the encoder: \<open>AUint\<close> is any Go integer type.\<close>

datatype go_any = AStr string | ABool bool | AFloat rat | AUint nat | AStrs "string list" | ANil

fun marshal_any :: "cbor_lib \<Rightarrow> go_any \<Rightarrow> bytes option" where
  "marshal_any C (AStr s) = marshal C (GText s)"
| "marshal_any C (ABool b) = marshal C (GBool b)"
| "marshal_any C (AUint n) = marshal C (GInt (int n))"
| "marshal_any C (AStrs ss) = marshal C (GStrs ss)"
| "marshal_any C _ = None"

definition ErrCbor :: go_error where
  "ErrCbor = ErrExt ''cbor''"

definition db_encodeRvValue :: "oob \<Rightarrow> cbor_lib \<Rightarrow> rv_var \<Rightarrow> go_any \<Rightarrow> bytes result" where
  "db_encodeRvValue oob C rvVar val =
     (case val of
        AStr v \<Rightarrow>
          (if rvVar = RVDns then of_opt ErrCbor (marshal C (GText v))
           else if rvVar = RVIPAddress then
             (case ParseIP v of
                None \<Rightarrow> Inl (Errorf ''invalid ip'')
              | Some ip \<Rightarrow> of_opt ErrCbor (marshal C (GBytes ip)))
           else of_opt ErrCbor (marshal C (GText v)))
      | ABool v \<Rightarrow> of_opt ErrCbor (marshal C (GBool v))
      | AFloat v \<Rightarrow>
          (if rvVar = RVDevPort \<or> rvVar = RVOwnerPort
           then of_opt ErrCbor (marshal C (GInt (int (float_to_uint oob 16 v))))
           else if rvVar = RVProtocol \<or> rvVar = RVMedium
           then of_opt ErrCbor (marshal C (GInt (int (float_to_uint oob 8 v))))
           else if rvVar = RVDelaysec
           then of_opt ErrCbor (marshal C (GInt (int (float_to_uint oob 32 v))))
           else of_opt ErrCbor (marshal C (GInt (float_to_int64 oob v))))
      | _ \<Rightarrow> of_opt ErrCbor (marshal_any C val))"

text \<open>A port, from a JSON number or a decimal string.\<close>

definition db_parsePortValue :: "go_any \<Rightarrow> nat result" where
  "db_parsePortValue v =
     (case v of
        AFloat t \<Rightarrow>
          (if t \<noteq> of_int (trunc t) then Inl (Errorf ''port must be an integer'')
           else if t < 1 \<or> t > 65535 then Inl (Errorf ''port out of range'')
           else Inr (nat (trunc t)))
      | AStr t \<Rightarrow>
          (if t = [] then Inl (Errorf ''empty port'')
           else case Atoi t of
             None \<Rightarrow> Inl (ErrExt ''strconv'')
           | Some i \<Rightarrow> if i < 1 \<or> i > 65535 then Inl (Errorf ''port out of range'') else Inr (nat i))
      | _ \<Rightarrow> Inl (Errorf ''unsupported type''))"

text \<open>An accepted port is between 1 and 65535, so the conversion to \<^verbatim>\<open>uint16\<close> loses nothing.\<close>

lemma db_parsePortValue_range:
  assumes "db_parsePortValue v = Inr p"
  shows "1 \<le> p \<and> p \<le> 65535"
proof (cases v)
  case (AFloat t)
  with assms have t: "t = of_int (trunc t)" "1 \<le> t" "t \<le> 65535" "p = nat (trunc t)"
    by (auto simp: db_parsePortValue_def split: if_splits)
  then have "(1::rat) \<le> of_int (trunc t)" "of_int (trunc t) \<le> (65535::rat)" by simp_all
  then have "1 \<le> trunc t" "trunc t \<le> 65535" by (simp_all del: of_int_numeral add: of_int_le_iff[of _ 65535, simplified])
  with t(4) show ?thesis by auto
qed (use assms in \<open>auto simp: db_parsePortValue_def split: option.splits if_splits\<close>)

section \<open>Directives as objects\<close>

record rv_human =
  h_DNS :: string
  h_IP :: string
  h_Protocol :: string
  h_Medium :: string
  h_DevicePort :: string
  h_OwnerPort :: string
  h_WifiSSID :: string
  h_WifiPW :: string
  h_DevOnly :: bool
  h_OwnerOnly :: bool
  h_RvBypass :: bool
  h_DelaySeconds :: "(32 word) option"
  h_SvCertHash :: string
  h_ClCertHash :: string
  h_UserInput :: string
  h_ExtRV :: string

definition rv_human_zero :: rv_human where
  "rv_human_zero = \<lparr>h_DNS = [], h_IP = [], h_Protocol = [], h_Medium = [], h_DevicePort = [],
     h_OwnerPort = [], h_WifiSSID = [], h_WifiPW = [], h_DevOnly = False, h_OwnerOnly = False,
     h_RvBypass = False, h_DelaySeconds = None, h_SvCertHash = [], h_ClCertHash = [],
     h_UserInput = [], h_ExtRV = []\<rparr>"

definition rv_human_fields :: "string list" where
  "rv_human_fields = [''dns'', ''ip'', ''protocol'', ''medium'', ''device_port'', ''owner_port'',
     ''wifi_ssid'', ''wifi_pw'', ''dev_only'', ''owner_only'', ''rv_bypass'', ''delay_seconds'',
     ''sv_cert_hash'', ''cl_cert_hash'', ''user_input'', ''ext_rv'']"

definition rv_human_store :: "string \<Rightarrow> json \<Rightarrow> rv_human \<Rightarrow> rv_human result" where
  "rv_human_store n v h =
     (let str = (\<lambda>old upd. rbind (json_str v old) (\<lambda>s. Inr (upd (\<lambda>_. s) h)));
          bol = (\<lambda>old upd. rbind (json_bool v old) (\<lambda>b. Inr (upd (\<lambda>_. b) h))) in
      if n = ''dns'' then str (h_DNS h) h_DNS_update
      else if n = ''ip'' then str (h_IP h) h_IP_update
      else if n = ''protocol'' then str (h_Protocol h) h_Protocol_update
      else if n = ''medium'' then str (h_Medium h) h_Medium_update
      else if n = ''device_port'' then str (h_DevicePort h) h_DevicePort_update
      else if n = ''owner_port'' then str (h_OwnerPort h) h_OwnerPort_update
      else if n = ''wifi_ssid'' then str (h_WifiSSID h) h_WifiSSID_update
      else if n = ''wifi_pw'' then str (h_WifiPW h) h_WifiPW_update
      else if n = ''dev_only'' then bol (h_DevOnly h) h_DevOnly_update
      else if n = ''owner_only'' then bol (h_OwnerOnly h) h_OwnerOnly_update
      else if n = ''rv_bypass'' then bol (h_RvBypass h) h_RvBypass_update
      else if n = ''delay_seconds'' then
        rbind (json_uint32_ptr v (h_DelaySeconds h)) (\<lambda>s. Inr (h\<lparr>h_DelaySeconds := s\<rparr>))
      else if n = ''sv_cert_hash'' then str (h_SvCertHash h) h_SvCertHash_update
      else if n = ''cl_cert_hash'' then str (h_ClCertHash h) h_ClCertHash_update
      else if n = ''user_input'' then str (h_UserInput h) h_UserInput_update
      else str (h_ExtRV h) h_ExtRV_update)"

definition rv_human_of_json :: "json \<Rightarrow> rv_human result" where
  "rv_human_of_json = json_struct rv_human_fields rv_human_store rv_human_zero"

section \<open>Parsing\<close>

text \<open>One optional instruction of a directive: nothing, or its encoded value.\<close>

definition opt_instr :: "bool \<Rightarrow> rv_var \<Rightarrow> bytes result \<Rightarrow> rv_instr list result" where
  "opt_instr present var enc =
     (if present then rbind enc (\<lambda>b. Inr [\<lparr>Variable = var, Value = b\<rparr>]) else Inr [])"

text \<open>
  The body of the loop over the items: the instructions in the order the code
  appends them; the first error ends the loop.
\<close>

definition rv_human_segments ::
  "oob \<Rightarrow> rv_consts \<Rightarrow> cbor_lib \<Rightarrow> rv_human \<Rightarrow> rv_instr list result list" where
  "rv_human_segments oob K C item =
     [opt_instr (h_DNS item \<noteq> []) RVDns (db_encodeRvValue oob C RVDns (AStr (h_DNS item))),
      opt_instr (h_IP item \<noteq> []) RVIPAddress (db_encodeRvValue oob C RVIPAddress (AStr (h_IP item))),
      opt_instr (h_Protocol item \<noteq> []) RVProtocol
        (rbind (ProtocolCodeFromString K (h_Protocol item)) (\<lambda>code.
           db_encodeRvValue oob C RVProtocol (AUint (unat code)))),
      opt_instr (h_Medium item \<noteq> []) RVMedium
        (rbind (rmap_err (Wrapf ''medium'') (MediumCodeFromString K (h_Medium item))) (\<lambda>m.
           db_encodeRvValue oob C RVMedium (AUint (unat m)))),
      opt_instr (h_DevicePort item \<noteq> []) RVDevPort
        (rbind (rmap_err (Wrapf ''device_port'') (db_parsePortValue (AStr (h_DevicePort item)))) (\<lambda>num.
           db_encodeRvValue oob C RVDevPort (AUint num))),
      opt_instr (h_OwnerPort item \<noteq> []) RVOwnerPort
        (rbind (rmap_err (Wrapf ''owner_port'') (db_parsePortValue (AStr (h_OwnerPort item)))) (\<lambda>num.
           db_encodeRvValue oob C RVOwnerPort (AUint num))),
      opt_instr (h_WifiSSID item \<noteq> []) RVWifiSsid
        (db_encodeRvValue oob C RVWifiSsid (AStr (h_WifiSSID item))),
      opt_instr (h_WifiPW item \<noteq> []) RVWifiPw (db_encodeRvValue oob C RVWifiPw (AStr (h_WifiPW item))),
      opt_instr (h_DevOnly item) RVDevOnly (Inr []),
      opt_instr (h_OwnerOnly item) RVOwnerOnly (Inr []),
      opt_instr (h_RvBypass item) RVBypass (Inr []),
      opt_instr (h_DelaySeconds item \<noteq> None) RVDelaysec
        (db_encodeRvValue oob C RVDelaysec (AUint (unat (the (h_DelaySeconds item))))),
      opt_instr (h_SvCertHash item \<noteq> []) RVSvCertHash
        (rbind (of_opt (Wrapf ''sv_cert_hash'' (ErrExt ''hex'')) (hexDecode (h_SvCertHash item))) (\<lambda>b.
           of_opt ErrCbor (marshal C (GBytes b)))),
      opt_instr (h_ClCertHash item \<noteq> []) RVClCertHash
        (rbind (of_opt (Wrapf ''cl_cert_hash'' (ErrExt ''hex'')) (hexDecode (h_ClCertHash item))) (\<lambda>b.
           of_opt ErrCbor (marshal C (GBytes b)))),
      opt_instr (h_UserInput item \<noteq> []) RVUserInput
        (db_encodeRvValue oob C RVUserInput (AStr (h_UserInput item))),
      opt_instr (h_ExtRV item \<noteq> []) RVExtRV (db_encodeRvValue oob C RVExtRV (AStr (h_ExtRV item)))]"

definition rv_human_group :: "oob \<Rightarrow> rv_consts \<Rightarrow> cbor_lib \<Rightarrow> rv_human \<Rightarrow> rv_instr list result" where
  "rv_human_group oob K C item =
     (if h_DNS item = [] \<and> h_IP item = []
      then Inl (Errorf ''rvinfo: at least one of dns or ip must be specified'')
      else rbind (rmapM (\<lambda>x. x) (rv_human_segments oob K C item)) (\<lambda>segs. Inr (concat segs)))"

definition ParseHumanReadableRvJSON ::
  "oob \<Rightarrow> rv_consts \<Rightarrow> cbor_lib \<Rightarrow> json_lib \<Rightarrow> bytes \<Rightarrow> rv_info result" where
  "ParseHumanReadableRvJSON oob K C J rawJSON =
     rbind (rmap_err (Wrapf ''invalid rvinfo JSON'')
             (rbind (of_opt ErrSyntax (jparse J rawJSON)) (json_slice rv_human_of_json)))
       (rmapM (rv_human_group oob K C))"

section \<open>Printing\<close>

text \<open>One instruction into the object of its directive; unknown variables are skipped.\<close>

definition v1_instr :: "rv_consts \<Rightarrow> cbor_lib \<Rightarrow> json_lib \<Rightarrow> rv_human \<Rightarrow> rv_instr \<Rightarrow> rv_human result" where
  "v1_instr K C J item instr =
     (let bad = (\<lambda>what. Wrapf (''failed to unmarshal '' @ what) ErrCbor); val = Value instr in
      case Variable instr of
        RVDns \<Rightarrow> rbind (of_opt (bad ''dns'') (un_text C val)) (\<lambda>dns. Inr (item\<lparr>h_DNS := dns\<rparr>))
      | RVIPAddress \<Rightarrow> rbind (of_opt (bad ''ip'') (un_bytes C val)) (\<lambda>ip. Inr (item\<lparr>h_IP := IP_String ip\<rparr>))
      | RVProtocol \<Rightarrow> rbind (of_opt (bad ''protocol'') (un_uint 8 C val)) (\<lambda>code.
          Inr (item\<lparr>h_Protocol := ProtocolStringFromCode K (word_of_nat code)\<rparr>))
      | RVMedium \<Rightarrow> rbind (of_opt (bad ''medium'') (un_uint 8 C val)) (\<lambda>medium.
          Inr (item\<lparr>h_Medium := MediumStringFromCode K (word_of_nat medium)\<rparr>))
      | RVDevPort \<Rightarrow> rbind (of_opt (bad ''device_port'') (un_uint 16 C val)) (\<lambda>port.
          Inr (item\<lparr>h_DevicePort := FormatUint port\<rparr>))
      | RVOwnerPort \<Rightarrow> rbind (of_opt (bad ''owner_port'') (un_uint 16 C val)) (\<lambda>port.
          Inr (item\<lparr>h_OwnerPort := FormatUint port\<rparr>))
      | RVWifiSsid \<Rightarrow> rbind (of_opt (bad ''wifi_ssid'') (un_text C val)) (\<lambda>ssid. Inr (item\<lparr>h_WifiSSID := ssid\<rparr>))
      | RVWifiPw \<Rightarrow> rbind (of_opt (bad ''wifi_pw'') (un_text C val)) (\<lambda>pw. Inr (item\<lparr>h_WifiPW := pw\<rparr>))
      | RVDevOnly \<Rightarrow> Inr (item\<lparr>h_DevOnly := True\<rparr>)
      | RVOwnerOnly \<Rightarrow> Inr (item\<lparr>h_OwnerOnly := True\<rparr>)
      | RVBypass \<Rightarrow> Inr (item\<lparr>h_RvBypass := True\<rparr>)
      | RVDelaysec \<Rightarrow> rbind (of_opt (bad ''delay_seconds'') (un_uint 32 C val)) (\<lambda>secs.
          Inr (item\<lparr>h_DelaySeconds := Some (word_of_nat secs)\<rparr>))
      | RVSvCertHash \<Rightarrow> rbind (of_opt (bad ''sv_cert_hash'') (un_bytes C val)) (\<lambda>hash.
          Inr (item\<lparr>h_SvCertHash := hexEncode hash\<rparr>))
      | RVClCertHash \<Rightarrow> rbind (of_opt (bad ''cl_cert_hash'') (un_bytes C val)) (\<lambda>hash.
          Inr (item\<lparr>h_ClCertHash := hexEncode hash\<rparr>))
      | RVUserInput \<Rightarrow> Inr (item\<lparr>h_UserInput := ''true''\<rparr>)
      | RVExtRV \<Rightarrow> rbind (of_opt (bad ''ext_rv'') (un_strs C val)) (\<lambda>extrv.
          Inr (item\<lparr>h_ExtRV := jprint J (JArr (map JStr extrv))\<rparr>))
      | RVOther _ \<Rightarrow> Inr item)"

fun rfoldl :: "('a \<Rightarrow> 'b \<Rightarrow> 'a result) \<Rightarrow> 'a \<Rightarrow> 'b list \<Rightarrow> 'a result" where
  "rfoldl f a [] = Inr a"
| "rfoldl f a (x # xs) = rbind (f a x) (\<lambda>b. rfoldl f b xs)"

definition v1_items :: "rv_consts \<Rightarrow> cbor_lib \<Rightarrow> json_lib \<Rightarrow> rv_info \<Rightarrow> rv_human list result" where
  "v1_items K C J = rmapM (rfoldl (v1_instr K C J) rv_human_zero)"

text \<open>\<^verbatim>\<open>omitempty\<close>: the members whose value is not the zero value, in field order.\<close>

definition rv_human_json :: "rv_human \<Rightarrow> json" where
  "rv_human_json h =
     (let str = (\<lambda>n s. if s = [] then [] else [(n, JStr s)]);
          bol = (\<lambda>n b. if b then [(n, JBool True)] else []) in
      JObj (str ''dns'' (h_DNS h) @ str ''ip'' (h_IP h) @ str ''protocol'' (h_Protocol h) @
        str ''medium'' (h_Medium h) @ str ''device_port'' (h_DevicePort h) @
        str ''owner_port'' (h_OwnerPort h) @ str ''wifi_ssid'' (h_WifiSSID h) @
        str ''wifi_pw'' (h_WifiPW h) @ bol ''dev_only'' (h_DevOnly h) @
        bol ''owner_only'' (h_OwnerOnly h) @ bol ''rv_bypass'' (h_RvBypass h) @
        (case h_DelaySeconds h of None \<Rightarrow> [] | Some s \<Rightarrow> [(''delay_seconds'', json_nat (unat s))]) @
        str ''sv_cert_hash'' (h_SvCertHash h) @ str ''cl_cert_hash'' (h_ClCertHash h) @
        str ''user_input'' (h_UserInput h) @ str ''ext_rv'' (h_ExtRV h)))"

definition ConvertRvInstructionsToV1JSON ::
  "rv_consts \<Rightarrow> cbor_lib \<Rightarrow> json_lib \<Rightarrow> rv_info \<Rightarrow> bytes result" where
  "ConvertRvInstructionsToV1JSON K C J rv =
     rbind (v1_items K C J rv) (\<lambda>out. Inr (jprint J (JArr (map rv_human_json out))))"

section \<open>An accepted document reads back\<close>

text \<open>
  What an accepted object reads back as: addresses, ports and hashes in canonical spelling, and
  \<^verbatim>\<open>user_input\<close>, of which only the presence is stored, as the text \<^verbatim>\<open>true\<close> whatever it said;
  all other members as they were.
\<close>

definition v1_norm :: "rv_human \<Rightarrow> rv_human" where
  "v1_norm h = h\<lparr>
     h_IP := (if h_IP h = [] then [] else IP_String (the (ParseIP (h_IP h)))),
     h_DevicePort := (if h_DevicePort h = [] then [] else FormatUint (nat (the (Atoi (h_DevicePort h))))),
     h_OwnerPort := (if h_OwnerPort h = [] then [] else FormatUint (nat (the (Atoi (h_OwnerPort h))))),
     h_SvCertHash := (if h_SvCertHash h = [] then [] else hexEncode (the (hexDecode (h_SvCertHash h)))),
     h_ClCertHash := (if h_ClCertHash h = [] then [] else hexEncode (the (hexDecode (h_ClCertHash h)))),
     h_UserInput := (if h_UserInput h = [] then [] else ''true'')\<rparr>"

lemma rfoldl_append: "rfoldl f a (xs @ ys) = rbind (rfoldl f a xs) (\<lambda>b. rfoldl f b ys)"
  by (induction xs arbitrary: a) (auto simp: rbind_def split: sum.splits)

lemma rfoldl_single [simp]: "rfoldl f a [x] = f a x"
  by (cases "f a x") auto

lemma rv_human_keep:
  "h_DNS a = [] \<Longrightarrow> a\<lparr>h_DNS := []\<rparr> = a" "h_IP a = [] \<Longrightarrow> a\<lparr>h_IP := []\<rparr> = a"
  "h_Protocol a = [] \<Longrightarrow> a\<lparr>h_Protocol := []\<rparr> = a" "h_Medium a = [] \<Longrightarrow> a\<lparr>h_Medium := []\<rparr> = a"
  "h_DevicePort a = [] \<Longrightarrow> a\<lparr>h_DevicePort := []\<rparr> = a" "h_OwnerPort a = [] \<Longrightarrow> a\<lparr>h_OwnerPort := []\<rparr> = a"
  "h_WifiSSID a = [] \<Longrightarrow> a\<lparr>h_WifiSSID := []\<rparr> = a" "h_WifiPW a = [] \<Longrightarrow> a\<lparr>h_WifiPW := []\<rparr> = a"
  "\<not> h_DevOnly a \<Longrightarrow> a\<lparr>h_DevOnly := False\<rparr> = a" "\<not> h_OwnerOnly a \<Longrightarrow> a\<lparr>h_OwnerOnly := False\<rparr> = a"
  "\<not> h_RvBypass a \<Longrightarrow> a\<lparr>h_RvBypass := False\<rparr> = a"
  "h_DelaySeconds a = None \<Longrightarrow> a\<lparr>h_DelaySeconds := None\<rparr> = a"
  "h_SvCertHash a = [] \<Longrightarrow> a\<lparr>h_SvCertHash := []\<rparr> = a" "h_ClCertHash a = [] \<Longrightarrow> a\<lparr>h_ClCertHash := []\<rparr> = a"
  "h_UserInput a = [] \<Longrightarrow> a\<lparr>h_UserInput := []\<rparr> = a"
  by (cases a; simp)+

lemma port_lt: "db_parsePortValue v = Inr p \<Longrightarrow> p < 2 ^ 16"
  using db_parsePortValue_range[of v p] by simp

lemma port_atoi: "db_parsePortValue (AStr s) = Inr p \<Longrightarrow> nat (the (Atoi s)) = p"
  by (auto simp: db_parsePortValue_def split: if_splits option.splits)

lemma un_words:
  assumes "cbor_ok C"
  shows "marshal C (GInt (uint (v :: 8 word))) = Some b \<Longrightarrow> un_uint 8 C b = Some (unat v)"
    "marshal C (GInt (uint (w :: 32 word))) = Some b \<Longrightarrow> un_uint 32 C b = Some (unat w)"
    "db_parsePortValue p = Inr n \<Longrightarrow> marshal C (GInt (int n)) = Some b \<Longrightarrow> un_uint 16 C b = Some n"
  using un_marshal(3)[OF assms, of "uint v" b 8] un_marshal(3)[OF assms, of "uint w" b 32]
    un_marshal(3)[OF assms, of "int n" b 16] unsigned_less[of v, where 'a = int]
    unsigned_less[of w, where 'a = int] port_lt[of p n]
  by simp_all

text \<open>Each segment of a directive sets its own member and no other.\<close>

lemma v1_segment:
  fixes a :: rv_human and J :: json_lib
  assumes C: "cbor_ok C" and K: "rv_consts_ok K"
  defines "go \<equiv> rfoldl (v1_instr K C J)"
  shows "opt_instr (s \<noteq> []) RVDns (db_encodeRvValue oob C RVDns (AStr s)) = Inr seg \<Longrightarrow>
          h_DNS a = [] \<Longrightarrow> go a seg = Inr (a\<lparr>h_DNS := s\<rparr>)"
    "opt_instr (s \<noteq> []) RVIPAddress (db_encodeRvValue oob C RVIPAddress (AStr s)) = Inr seg \<Longrightarrow>
          h_IP a = [] \<Longrightarrow> go a seg = Inr (a\<lparr>h_IP := (if s = [] then [] else IP_String (the (ParseIP s)))\<rparr>)"
    "opt_instr (s \<noteq> []) RVProtocol (rbind (ProtocolCodeFromString K s) (\<lambda>code.
           db_encodeRvValue oob C RVProtocol (AUint (unat code)))) = Inr seg \<Longrightarrow>
          h_Protocol a = [] \<Longrightarrow> go a seg = Inr (a\<lparr>h_Protocol := s\<rparr>)"
    "opt_instr (s \<noteq> []) RVMedium (rbind (rmap_err ew (MediumCodeFromString K s)) (\<lambda>m.
           db_encodeRvValue oob C RVMedium (AUint (unat m)))) = Inr seg \<Longrightarrow>
          h_Medium a = [] \<Longrightarrow> go a seg = Inr (a\<lparr>h_Medium := s\<rparr>)"
    "opt_instr (s \<noteq> []) RVDevPort (rbind (rmap_err ew (db_parsePortValue (AStr s))) (\<lambda>num.
           db_encodeRvValue oob C RVDevPort (AUint num))) = Inr seg \<Longrightarrow>
          h_DevicePort a = [] \<Longrightarrow>
          go a seg = Inr (a\<lparr>h_DevicePort := (if s = [] then [] else FormatUint (nat (the (Atoi s))))\<rparr>)"
    "opt_instr (s \<noteq> []) RVOwnerPort (rbind (rmap_err ew (db_parsePortValue (AStr s))) (\<lambda>num.
           db_encodeRvValue oob C RVOwnerPort (AUint num))) = Inr seg \<Longrightarrow>
          h_OwnerPort a = [] \<Longrightarrow>
          go a seg = Inr (a\<lparr>h_OwnerPort := (if s = [] then [] else FormatUint (nat (the (Atoi s))))\<rparr>)"
    "opt_instr (s \<noteq> []) RVWifiSsid (db_encodeRvValue oob C RVWifiSsid (AStr s)) = Inr seg \<Longrightarrow>
          h_WifiSSID a = [] \<Longrightarrow> go a seg = Inr (a\<lparr>h_WifiSSID := s\<rparr>)"
    "opt_instr (s \<noteq> []) RVWifiPw (db_encodeRvValue oob C RVWifiPw (AStr s)) = Inr seg \<Longrightarrow>
          h_WifiPW a = [] \<Longrightarrow> go a seg = Inr (a\<lparr>h_WifiPW := s\<rparr>)"
    "opt_instr f RVDevOnly (Inr []) = Inr seg \<Longrightarrow> \<not> h_DevOnly a \<Longrightarrow> go a seg = Inr (a\<lparr>h_DevOnly := f\<rparr>)"
    "opt_instr f RVOwnerOnly (Inr []) = Inr seg \<Longrightarrow> \<not> h_OwnerOnly a \<Longrightarrow> go a seg = Inr (a\<lparr>h_OwnerOnly := f\<rparr>)"
    "opt_instr f RVBypass (Inr []) = Inr seg \<Longrightarrow> \<not> h_RvBypass a \<Longrightarrow> go a seg = Inr (a\<lparr>h_RvBypass := f\<rparr>)"
    "opt_instr (\<exists>y. w = Some y) RVDelaysec (db_encodeRvValue oob C RVDelaysec (AUint (unat (the w)))) = Inr seg \<Longrightarrow>
          h_DelaySeconds a = None \<Longrightarrow> go a seg = Inr (a\<lparr>h_DelaySeconds := w\<rparr>)"
    "opt_instr (s \<noteq> []) RVSvCertHash (rbind (of_opt e1 (hexDecode s)) (\<lambda>b.
           of_opt ErrCbor (marshal C (GBytes b)))) = Inr seg \<Longrightarrow> h_SvCertHash a = [] \<Longrightarrow>
          go a seg = Inr (a\<lparr>h_SvCertHash := (if s = [] then [] else hexEncode (the (hexDecode s)))\<rparr>)"
    "opt_instr (s \<noteq> []) RVClCertHash (rbind (of_opt e1 (hexDecode s)) (\<lambda>b.
           of_opt ErrCbor (marshal C (GBytes b)))) = Inr seg \<Longrightarrow> h_ClCertHash a = [] \<Longrightarrow>
          go a seg = Inr (a\<lparr>h_ClCertHash := (if s = [] then [] else hexEncode (the (hexDecode s)))\<rparr>)"
    "opt_instr (s \<noteq> []) RVUserInput (db_encodeRvValue oob C RVUserInput (AStr s)) = Inr seg \<Longrightarrow>
          h_UserInput a = [] \<Longrightarrow> go a seg = Inr (a\<lparr>h_UserInput := (if s = [] then [] else ''true'')\<rparr>)"
  by (auto simp: opt_instr_def go_def v1_instr_def rv_human_keep db_encodeRvValue_def un_marshal[OF C]
      un_words[OF C] port_atoi ProtocolString_Code[OF K] MediumString_Code[OF K]
      split: if_splits option.splits)

lemma v1_group_reads_back:
  assumes C: "cbor_ok C" and K: "rv_consts_ok K"
    and ok: "rv_human_group oob K C item = Inr g" and noext: "h_ExtRV item = []"
  shows "rfoldl (v1_instr K C J) rv_human_zero g = Inr (v1_norm item)"
proof -
  from ok obtain segs where "rmapM (\<lambda>x. x) (rv_human_segments oob K C item) = Inr segs"
    and g: "g = concat segs"
    by (auto simp: rv_human_group_def split: if_splits)
  then have all: "list_all2 (\<lambda>x y. x = Inr y) (rv_human_segments oob K C item) segs"
    by (simp add: rmapM_all2)
  have len: "length segs = 16"
    using all by (auto dest!: list_all2_lengthD simp: rv_human_segments_def)
  have nth: "rv_human_segments oob K C item ! i = Inr (segs ! i)" if "i < 16" for i
    using list_all2_nthD2[OF all, of i] that len by simp
  note n = nth[unfolded rv_human_segments_def]
  note seg = v1_segment(1)[OF C K n[of 0, simplified]] v1_segment(2)[OF C K n[of 1, simplified]]
    v1_segment(3)[OF C K n[of 2, simplified]] v1_segment(4)[OF C K n[of 3, simplified]]
    v1_segment(5)[OF C K n[of 4, simplified]] v1_segment(6)[OF C K n[of 5, simplified]]
    v1_segment(7)[OF C K n[of 6, simplified]] v1_segment(8)[OF C K n[of 7, simplified]]
    v1_segment(9)[OF C K n[of 8, simplified]] v1_segment(10)[OF C K n[of 9, simplified]]
    v1_segment(11)[OF C K n[of 10, simplified]] v1_segment(12)[OF C K n[of 11, simplified]]
    v1_segment(13)[OF C K n[of 12, simplified]] v1_segment(14)[OF C K n[of 13, simplified]]
    v1_segment(15)[OF C K n[of 14, simplified]]
  have last: "segs ! 15 = []"
    using n[of 15] noext by (simp add: opt_instr_def)
  have upt: "[0..<16] = [0, 1, 2, 3, 4, 5, 6, 7, 8, 9, 10, 11, 12, 13, 14, 15 :: nat]" by code_simp
  have "g = concat (map ((!) segs) [0..<16])" using map_nth[of segs] len by (simp add: g)
  then have "g = segs ! 0 @ segs ! 1 @ segs ! 2 @ segs ! 3 @ segs ! 4 @ segs ! 5 @ segs ! 6 @ segs ! 7 @
    segs ! 8 @ segs ! 9 @ segs ! 10 @ segs ! 11 @ segs ! 12 @ segs ! 13 @ segs ! 14"
    using last by (simp add: upt)
  with seg noext show ?thesis
    by (simp add: rfoldl_append rv_human_zero_def v1_norm_def)
qed

text \<open>
  A directive with \<^verbatim>\<open>ext_rv\<close>: the parser stores the text of the member, the printer
  expects an array of texts, so what was stored can no longer be printed.
\<close>

lemma rfoldl_snoc_error:
  "\<forall>a. \<exists>e. f a x = Inl e \<Longrightarrow> \<exists>e. rfoldl f a (xs @ [x]) = Inl e"
  by (induction xs arbitrary: a) (auto simp: rbind_def split: sum.splits, metis Inl_Inr_False)

lemma v1_group_ext_rv:
  assumes C: "cbor_ok C" and ok: "rv_human_group oob K C item = Inr g" and ext: "h_ExtRV item \<noteq> []"
  shows "\<exists>e. rfoldl (v1_instr K C J) a g = Inl e"
proof -
  obtain pre where pre: "rv_human_segments oob K C item = pre @
      [opt_instr (h_ExtRV item \<noteq> []) RVExtRV (db_encodeRvValue oob C RVExtRV (AStr (h_ExtRV item)))]"
    by (simp add: rv_human_segments_def)
  from ok obtain segs where segs: "rmapM (\<lambda>x. x) (rv_human_segments oob K C item) = Inr segs"
    and g: "g = concat segs"
    by (auto simp: rv_human_group_def split: if_splits)
  from segs[unfolded rmapM_all2 pre list_all2_append1] ext obtain p b where
    p: "segs = p @ [[\<lparr>Variable = RVExtRV, Value = b\<rparr>]]" "marshal C (GText (h_ExtRV item)) = Some b"
    by (auto simp: list_all2_Cons1 opt_instr_def db_encodeRvValue_def)
  have "\<exists>e. v1_instr K C J a \<lparr>Variable = RVExtRV, Value = b\<rparr> = Inl e" for a
    using un_strs_text[OF C p(2)] by (simp add: v1_instr_def)
  with rfoldl_snoc_error[of "v1_instr K C J" "\<lparr>Variable = RVExtRV, Value = b\<rparr>" a "concat p"] show ?thesis
    by (simp add: g p)
qed

text \<open>The printed object decodes to the directive it was printed from.\<close>

lemma json_members_append:
  "json_members names store (xs @ ys) r = rbind (json_members names store xs r) (json_members names store ys)"
  by (induction names store xs r rule: json_members.induct)
     (auto simp: rbind_def split: option.splits sum.splits)

lemma find_field_mem [simp]: "k \<in> set names \<Longrightarrow> find_field names k = Some k"
  by (simp add: find_field_def)

lemma ParseUint_FormatUint: "n < 2 ^ b \<Longrightarrow> ParseUint b (FormatUint n) = Some n"
  by (simp add: ParseUint_def)

lemma rv_human_member:
  fixes r :: rv_human and s :: string and f :: bool
  defines "rd \<equiv> json_members rv_human_fields rv_human_store"
  shows "h_DNS r = [] \<Longrightarrow> rd (if s = [] then [] else [(''dns'', JStr s)]) r = Inr (r\<lparr>h_DNS := s\<rparr>)"
    "h_IP r = [] \<Longrightarrow> rd (if s = [] then [] else [(''ip'', JStr s)]) r = Inr (r\<lparr>h_IP := s\<rparr>)"
    "h_Protocol r = [] \<Longrightarrow> rd (if s = [] then [] else [(''protocol'', JStr s)]) r = Inr (r\<lparr>h_Protocol := s\<rparr>)"
    "h_Medium r = [] \<Longrightarrow> rd (if s = [] then [] else [(''medium'', JStr s)]) r = Inr (r\<lparr>h_Medium := s\<rparr>)"
    "h_DevicePort r = [] \<Longrightarrow>
       rd (if s = [] then [] else [(''device_port'', JStr s)]) r = Inr (r\<lparr>h_DevicePort := s\<rparr>)"
    "h_OwnerPort r = [] \<Longrightarrow>
       rd (if s = [] then [] else [(''owner_port'', JStr s)]) r = Inr (r\<lparr>h_OwnerPort := s\<rparr>)"
    "h_WifiSSID r = [] \<Longrightarrow> rd (if s = [] then [] else [(''wifi_ssid'', JStr s)]) r = Inr (r\<lparr>h_WifiSSID := s\<rparr>)"
    "h_WifiPW r = [] \<Longrightarrow> rd (if s = [] then [] else [(''wifi_pw'', JStr s)]) r = Inr (r\<lparr>h_WifiPW := s\<rparr>)"
    "\<not> h_DevOnly r \<Longrightarrow> rd (if f then [(''dev_only'', JBool True)] else []) r = Inr (r\<lparr>h_DevOnly := f\<rparr>)"
    "\<not> h_OwnerOnly r \<Longrightarrow> rd (if f then [(''owner_only'', JBool True)] else []) r = Inr (r\<lparr>h_OwnerOnly := f\<rparr>)"
    "\<not> h_RvBypass r \<Longrightarrow> rd (if f then [(''rv_bypass'', JBool True)] else []) r = Inr (r\<lparr>h_RvBypass := f\<rparr>)"
    "h_DelaySeconds r = None \<Longrightarrow>
       rd (case w of None \<Rightarrow> [] | Some x \<Rightarrow> [(''delay_seconds'', json_nat (unat x))]) r =
         Inr (r\<lparr>h_DelaySeconds := w\<rparr>)"
    "h_SvCertHash r = [] \<Longrightarrow>
       rd (if s = [] then [] else [(''sv_cert_hash'', JStr s)]) r = Inr (r\<lparr>h_SvCertHash := s\<rparr>)"
    "h_ClCertHash r = [] \<Longrightarrow>
       rd (if s = [] then [] else [(''cl_cert_hash'', JStr s)]) r = Inr (r\<lparr>h_ClCertHash := s\<rparr>)"
    "h_UserInput r = [] \<Longrightarrow> rd (if s = [] then [] else [(''user_input'', JStr s)]) r = Inr (r\<lparr>h_UserInput := s\<rparr>)"
    "h_ExtRV r = [] \<Longrightarrow> rd (if s = [] then [] else [(''ext_rv'', JStr s)]) r = Inr (r\<lparr>h_ExtRV := s\<rparr>)"
  using unsigned_less[of "the w", where 'a = nat]
  by (auto simp: rd_def rv_human_fields_def rv_human_store_def rv_human_keep json_nat_def
      ParseUint_FormatUint Let_def split: option.splits)

lemma rv_human_of_json_json: "rv_human_of_json (rv_human_json h) = Inr h"
  by (simp add: rv_human_of_json_def rv_human_json_def json_members_append rv_human_member
      rv_human_zero_def Let_def)

end
