(* ===== verification/RvInfoV2.thy ===== *)
theory RvInfoV2
  imports RvInfoV1
begin

text \<open>
  Rendezvous instructions in the format of the V2 interface: an array of directives, each
  an array of objects with one member. \<^verbatim>\<open>internal/handlers/rvinfo/parser.go\<close> and
  \<^verbatim>\<open>converter.go\<close>.

  The lemmas show that a document the parser accepts is printed back as a document
  that parses to the same instructions, with IPv4 and IPv6 addresses alike.
\<close>

section \<open>Parsing\<close>

text \<open>The V2 encoder; the dynamic type of the value is one of \<^typ>\<open>go_any\<close>.\<close>

definition encodeRvValue :: "oob \<Rightarrow> cbor_lib \<Rightarrow> rv_var \<Rightarrow> go_any \<Rightarrow> bytes result" where
  "encodeRvValue oob C rvVar val =
     (case val of
        AStr v \<Rightarrow>
          (if rvVar = RVDns then of_opt ErrCbor (marshal C (GText v))
           else if rvVar = RVIPAddress then
             (case ParseIP v of
                None \<Rightarrow> Inl (Errorf ''invalid ip'')
              | Some ip \<Rightarrow> of_opt ErrCbor (marshal C (GBytes ip)))
           else of_opt ErrCbor (marshal C (GText v)))
      | ABool v \<Rightarrow> of_opt ErrCbor (marshal C (GBool v))
      | AFloat v \<Rightarrow>
          (if rvVar = RVDevPort \<or> rvVar = RVOwnerPort
           then of_opt ErrCbor (marshal C (GInt (int (float_to_uint oob 16 v))))
           else if rvVar = RVProtocol \<or> rvVar = RVMedium
           then of_opt ErrCbor (marshal C (GInt (int (float_to_uint oob 8 v))))
           else if rvVar = RVDelaysec
           then of_opt ErrCbor (marshal C (GInt (int (float_to_uint oob 32 v))))
           else of_opt ErrCbor (marshal C (GInt (float_to_int64 oob v))))
      | _ \<Rightarrow> of_opt ErrCbor (marshal_any C val))"

text \<open>The untyped JSON value as the type switches see it.\<close>

definition as_string :: "json \<Rightarrow> string option" where
  "as_string v = (case v of JStr s \<Rightarrow> Some s | _ \<Rightarrow> None)"

definition as_bool :: "json \<Rightarrow> bool option" where
  "as_bool v = (case v of JBool b \<Rightarrow> Some b | _ \<Rightarrow> None)"

definition as_float :: "json \<Rightarrow> rat option" where
  "as_float v = (case v of JNum lit f \<Rightarrow> f | _ \<Rightarrow> None)"

definition as_array :: "json \<Rightarrow> json list option" where
  "as_array v = (case v of JArr xs \<Rightarrow> Some xs | _ \<Rightarrow> None)"

definition parsePortValue :: "json \<Rightarrow> nat result" where
  "parsePortValue v =
     (case as_float v of
        None \<Rightarrow> Inl (Errorf ''port must be an integer'')
      | Some f \<Rightarrow>
          if f \<noteq> of_int (trunc f) then Inl (Errorf ''port must be a whole number'')
          else if f < 1 \<or> f > 65535 then Inl (Errorf ''port must be between 1 and 65535'')
          else Inr (nat (trunc f)))"

definition instr_of :: "rv_var \<Rightarrow> bytes result \<Rightarrow> rv_instr result" where
  "instr_of var enc = rbind enc (\<lambda>b. Inr \<lparr>Variable = var, Value = b\<rparr>)"

definition flag_instr :: "string \<Rightarrow> rv_var \<Rightarrow> json \<Rightarrow> rv_instr result" where
  "flag_instr name var v =
     (case as_bool v of
        None \<Rightarrow> Inl (Errorf (name @ '' must be a boolean''))
      | Some b \<Rightarrow> if b then Inr \<lparr>Variable = var, Value = []\<rparr>
                  else Inl (Errorf (name @ '' is false, should be omitted instead'')))"

definition parseRvInstruction ::
  "oob \<Rightarrow> rv_consts \<Rightarrow> cbor_lib \<Rightarrow> string \<Rightarrow> json \<Rightarrow> (json \<Rightarrow> nat result) \<Rightarrow> rv_instr result" where
  "parseRvInstruction oob K C key v portParser =
     (let str = (\<lambda>name. of_opt (Errorf (name @ '' must be a string'')) (as_string v)) in
      if key = ''dns'' then
        rbind (str key) (\<lambda>s. instr_of RVDns (encodeRvValue oob C RVDns (AStr s)))
      else if key = ''ip'' then
        rbind (str key) (\<lambda>s. instr_of RVIPAddress (encodeRvValue oob C RVIPAddress (AStr s)))
      else if key = ''protocol'' then
        rbind (str key) (\<lambda>s. rbind (ProtocolCodeFromString K s) (\<lambda>code.
          instr_of RVProtocol (encodeRvValue oob C RVProtocol (AUint (unat code)))))
      else if key = ''medium'' then
        rbind (str key) (\<lambda>s. rbind (MediumCodeFromString K s) (\<lambda>m.
          instr_of RVMedium (encodeRvValue oob C RVMedium (AUint (unat m)))))
      else if key = ''device_port'' then
        rbind (rmap_err (Wrapf ''device_port'') (portParser v)) (\<lambda>num.
          instr_of RVDevPort (encodeRvValue oob C RVDevPort (AUint num)))
      else if key = ''owner_port'' then
        rbind (rmap_err (Wrapf ''owner_port'') (portParser v)) (\<lambda>num.
          instr_of RVOwnerPort (encodeRvValue oob C RVOwnerPort (AUint num)))
      else if key = ''wifi_ssid'' then
        rbind (str key) (\<lambda>s. instr_of RVWifiSsid (encodeRvValue oob C RVWifiSsid (AStr s)))
      else if key = ''wifi_pw'' then
        rbind (str key) (\<lambda>s. instr_of RVWifiPw (encodeRvValue oob C RVWifiPw (AStr s)))
      else if key = ''dev_only'' then flag_instr key RVDevOnly v
      else if key = ''owner_only'' then flag_instr key RVOwnerOnly v
      else if key = ''rv_bypass'' then flag_instr key RVBypass v
      else if key = ''delay_seconds'' then
        (case as_float v of
           None \<Rightarrow> Inl (Errorf ''delay_seconds must be an integer'')
         | Some num \<Rightarrow>
             if num \<noteq> of_int (trunc num) then Inl (Errorf ''delay_seconds must be a whole number'')
             else if num < 0 then Inl (Errorf ''delay_seconds must be non-negative'')
             else instr_of RVDelaysec (encodeRvValue oob C RVDelaysec (AUint (float_to_uint oob 32 num))))
      else if key = ''sv_cert_hash'' then
        rbind (str key) (\<lambda>s. rbind (of_opt (Wrapf ''sv_cert_hash'' (ErrExt ''hex'')) (hexDecode s)) (\<lambda>b.
          instr_of RVSvCertHash (of_opt ErrCbor (marshal C (GBytes b)))))
      else if key = ''cl_cert_hash'' then
        rbind (str key) (\<lambda>s. rbind (of_opt (Wrapf ''cl_cert_hash'' (ErrExt ''hex'')) (hexDecode s)) (\<lambda>b.
          instr_of RVClCertHash (of_opt ErrCbor (marshal C (GBytes b)))))
      else if key = ''user_input'' then flag_instr key RVUserInput v
      else if key = ''ext_rv'' then
        rbind (of_opt (Errorf ''ext_rv must be an array'') (as_array v)) (\<lambda>arr.
        rbind (rmapM (\<lambda>x. of_opt (Errorf ''ext_rv element must be a string'') (as_string x)) arr) (\<lambda>strArr.
          instr_of RVExtRV (encodeRvValue oob C RVExtRV (AStrs strArr))))
      else Inl (Errorf ''unknown instruction key''))"

text \<open>One object of a directive, and a directive with its check for an address.\<close>

definition v2_instruction ::
  "oob \<Rightarrow> rv_consts \<Rightarrow> cbor_lib \<Rightarrow> (string \<times> json) list \<Rightarrow> rv_instr result" where
  "v2_instruction oob K C instruction =
     (case instruction of
        [(key, v)] \<Rightarrow> rmap_err (Wrapf ''rvinfo'') (parseRvInstruction oob K C key v parsePortValue)
      | _ \<Rightarrow> Inl (Errorf ''rvinfo: each instruction must be a single-key object''))"

definition hasDNSorIP :: "rv_instr list \<Rightarrow> bool" where
  "hasDNSorIP grp = list_ex (\<lambda>i. Variable i = RVDns \<or> Variable i = RVIPAddress) grp"

definition v2_directive ::
  "oob \<Rightarrow> rv_consts \<Rightarrow> cbor_lib \<Rightarrow> (string \<times> json) list list \<Rightarrow> rv_instr list result" where
  "v2_directive oob K C instructions =
     rbind (rmapM (v2_instruction oob K C) instructions) (\<lambda>grp.
       if hasDNSorIP grp then Inr grp
       else Inl (Errorf ''rvinfo: at least one of dns or ip must be specified''))"

definition v2_of_json :: "oob \<Rightarrow> rv_consts \<Rightarrow> cbor_lib \<Rightarrow> json \<Rightarrow> rv_info result" where
  "v2_of_json oob K C doc =
     rbind (rmap_err (Wrapf ''invalid rvinfo JSON (expected array of arrays)'')
             (json_slice (json_slice json_map) doc))
       (rmapM (v2_directive oob K C))"

definition parseV2JSON :: "oob \<Rightarrow> rv_consts \<Rightarrow> cbor_lib \<Rightarrow> json_lib \<Rightarrow> bytes \<Rightarrow> rv_info result" where
  "parseV2JSON oob K C J rawJSON =
     rbind (of_opt (Wrapf ''invalid rvinfo JSON (expected array of arrays)'' ErrSyntax) (jparse J rawJSON))
       (v2_of_json oob K C)"

section \<open>Printing\<close>

text \<open>One instruction as the members of its object; an unknown variable gives the empty object.\<close>

definition v2_item :: "rv_consts \<Rightarrow> cbor_lib \<Rightarrow> rv_instr \<Rightarrow> json result" where
  "v2_item K C instr =
     (let bad = (\<lambda>what. Wrapf (''failed to unmarshal '' @ what) ErrCbor); val = Value instr;
          one = (\<lambda>k v. JObj [(k, v)]) in
      case Variable instr of
        RVDns \<Rightarrow> rbind (of_opt (bad ''dns'') (un_text C val)) (\<lambda>dns. Inr (one ''dns'' (JStr dns)))
      | RVIPAddress \<Rightarrow> rbind (of_opt (bad ''ip'') (un_bytes C val)) (\<lambda>ip. Inr (one ''ip'' (JStr (IP_String ip))))
      | RVProtocol \<Rightarrow> rbind (of_opt (bad ''protocol'') (un_uint 8 C val)) (\<lambda>code.
          Inr (one ''protocol'' (JStr (ProtocolStringFromCode K (word_of_nat code)))))
      | RVMedium \<Rightarrow> rbind (of_opt (bad ''medium'') (un_uint 8 C val)) (\<lambda>medium.
          Inr (one ''medium'' (JStr (MediumStringFromCode K (word_of_nat medium)))))
      | RVDevPort \<Rightarrow> rbind (of_opt (bad ''device_port'') (un_uint 16 C val)) (\<lambda>port.
          Inr (one ''device_port'' (json_nat port)))
      | RVOwnerPort \<Rightarrow> rbind (of_opt (bad ''owner_port'') (un_uint 16 C val)) (\<lambda>port.
          Inr (one ''owner_port'' (json_nat port)))
      | RVWifiSsid \<Rightarrow> rbind (of_opt (bad ''wifi_ssid'') (un_text C val)) (\<lambda>ssid.
          Inr (one ''wifi_ssid'' (JStr ssid)))
      | RVWifiPw \<Rightarrow> rbind (of_opt (bad ''wifi_pw'') (un_text C val)) (\<lambda>pw. Inr (one ''wifi_pw'' (JStr pw)))
      | RVDevOnly \<Rightarrow> Inr (one ''dev_only'' (JBool True))
      | RVOwnerOnly \<Rightarrow> Inr (one ''owner_only'' (JBool True))
      | RVBypass \<Rightarrow> Inr (one ''rv_bypass'' (JBool True))
      | RVDelaysec \<Rightarrow> rbind (of_opt (bad ''delay_seconds'') (un_uint 32 C val)) (\<lambda>secs.
          Inr (one ''delay_seconds'' (json_nat secs)))
      | RVSvCertHash \<Rightarrow> rbind (of_opt (bad ''sv_cert_hash'') (un_bytes C val)) (\<lambda>hash.
          Inr (one ''sv_cert_hash'' (JStr (hexEncode hash))))
      | RVClCertHash \<Rightarrow> rbind (of_opt (bad ''cl_cert_hash'') (un_bytes C val)) (\<lambda>hash.
          Inr (one ''cl_cert_hash'' (JStr (hexEncode hash))))
      | RVUserInput \<Rightarrow> Inr (one ''user_input'' (JBool True))
      | RVExtRV \<Rightarrow> rbind (of_opt (bad ''ext_rv'') (un_strs C val)) (\<lambda>extrv.
          Inr (one ''ext_rv'' (JArr (map JStr extrv))))
      | RVOther _ \<Rightarrow> Inr (JObj []))"

definition v2_to_json :: "rv_consts \<Rightarrow> cbor_lib \<Rightarrow> rv_info \<Rightarrow> json result" where
  "v2_to_json K C rv =
     rbind (rmapM (\<lambda>directive. rbind (rmapM (v2_item K C) directive) (\<lambda>grp. Inr (JArr grp))) rv)
       (\<lambda>out. Inr (JArr out))"

definition convertToV2JSON :: "rv_consts \<Rightarrow> cbor_lib \<Rightarrow> json_lib \<Rightarrow> rv_info \<Rightarrow> bytes result" where
  "convertToV2JSON K C J rv = rbind (v2_to_json K C rv) (\<lambda>out. Inr (jprint J out))"

section \<open>An accepted document reads back\<close>

lemma parsePortValue_range:
  assumes "parsePortValue v = Inr p"
  shows "1 \<le> p \<and> p \<le> 65535"
  using assms db_parsePortValue_range[of "AFloat (the (as_float v))" p]
  by (auto simp: parsePortValue_def db_parsePortValue_def split: option.splits if_splits)

lemma parsePortValue_json_nat: "1 \<le> p \<Longrightarrow> p \<le> 65535 \<Longrightarrow> parsePortValue (json_nat p) = Inr p"
  by (simp add: parsePortValue_def as_float_def json_nat_def)

lemma as_simps [simp]:
  "as_string (JStr s) = Some s" "as_bool (JBool b) = Some b" "as_array (JArr xs) = Some xs"
  "as_float (json_nat n) = Some (of_nat n)"
  by (simp_all add: as_string_def as_bool_def as_array_def as_float_def json_nat_def)

lemma rmapM_JStr: "rmapM (\<lambda>x. of_opt e (as_string x)) (map JStr ss) = Inr ss"
  by (induction ss) simp_all

lemma un_port:
  "cbor_ok C \<Longrightarrow> parsePortValue v = Inr n \<Longrightarrow> marshal C (GInt (int n)) = Some b \<Longrightarrow> un_uint 16 C b = Some n"
  using un_marshal(3)[of C "int n" b 16] parsePortValue_range[of v n] by simp

lemma un_delay:
  "cbor_ok C \<Longrightarrow> marshal C (GInt (int (float_to_uint oob 32 f))) = Some b \<Longrightarrow>
     un_uint 32 C b = Some (float_to_uint oob 32 f)"
  using un_marshal(3)[of C "int (float_to_uint oob 32 f)" b 32] float_to_uint_lt[of oob 32 f] by simp

lemma port_back: "parsePortValue v = Inr n \<Longrightarrow> parsePortValue (json_nat n) = Inr n"
  using parsePortValue_range[of v n] by (simp add: parsePortValue_json_nat)

lemma delay_back: "float_to_uint oob 32 (of_nat (float_to_uint oob 32 f)) = float_to_uint oob 32 f"
  by (rule float_to_uint_of_nat) (rule float_to_uint_lt)

lemma json_finite_simps [simp]: "json_finite (json_nat n)" "json_finite (JArr (map JStr ss))"
  by (simp_all add: json_nat_def list_all_iff)

lemmas v2_facts = parseRvInstruction_def v2_item_def instr_of_def encodeRvValue_def flag_instr_def
  port_back delay_back rmapM_JStr Let_def

text \<open>An instruction that was parsed is printed as a member that parses to it.\<close>

lemma v2_instr_reads_back:
  assumes C: "cbor_ok C" and K: "rv_consts_ok K"
    and ok: "parseRvInstruction oob K C key v parsePortValue = Inr i"
  shows "\<exists>v'. v2_item K C i = Inr (JObj [(key, v')]) \<and> json_finite v' \<and>
     parseRvInstruction oob K C key v' parsePortValue = Inr i"
proof -
  note un = un_marshal[OF C] un_words(1,2)[OF C] un_port[OF C] un_delay[OF C]
    ProtocolString_Code[OF K] MediumString_Code[OF K]
  have keys: "key \<in> {''dns'', ''ip'', ''protocol'', ''medium'', ''device_port'', ''owner_port'',
      ''wifi_ssid'', ''wifi_pw'', ''dev_only'', ''owner_only'', ''rv_bypass'', ''delay_seconds'',
      ''sv_cert_hash'', ''cl_cert_hash'', ''user_input'', ''ext_rv''}"
    using ok unfolding parseRvInstruction_def Let_def by (simp split: if_splits)
  show ?thesis
  proof (cases "key = ''ip''")
    case True
    with ok obtain s ip b where i: "i = \<lparr>Variable = RVIPAddress, Value = b\<rparr>"
      "marshal C (GBytes ip) = Some b" "ParseIP s = Some ip"
      by (auto simp: v2_facts split: option.splits)
    then have "ParseIP (IP_String ip) = Some ip" using ParseIP_length ParseIP_IP_String by blast
    with i True show ?thesis by (simp add: v2_facts un)
  next
    case False
    from keys ok False show ?thesis
      by (elim insertE emptyE; simp only: v2_facts)
         (auto simp: v2_facts un list_all_iff split: option.split_asm if_split_asm)
  qed
qed

definition v2_object :: "oob \<Rightarrow> rv_consts \<Rightarrow> cbor_lib \<Rightarrow> json \<Rightarrow> rv_instr result" where
  "v2_object oob K C v = rbind (json_map v) (v2_instruction oob K C)"

lemma rmapM_rbind:
  "rmapM (\<lambda>x. rbind (f x) g) xs = Inr zs \<longleftrightarrow> rbind (rmapM f xs) (rmapM g) = Inr zs"
  by (induction xs arbitrary: zs) auto

lemma v2_object_reads_back:
  assumes C: "cbor_ok C" and K: "rv_consts_ok K"
    and ok: "v2_instruction oob K C m = Inr i"
  shows "\<exists>v. v2_item K C i = Inr v \<and> v2_object oob K C v = Inr i"
proof -
  from ok obtain key v where "parseRvInstruction oob K C key v parsePortValue = Inr i"
    by (auto simp: v2_instruction_def split: list.splits)
  from v2_instr_reads_back[OF C K this] show ?thesis
    by (auto simp: v2_object_def v2_instruction_def)
qed

lemma v2_directive_reads_back:
  assumes C: "cbor_ok C" and K: "rv_consts_ok K"
    and ok: "v2_directive oob K C ms = Inr g"
  shows "\<exists>v. rbind (rmapM (v2_item K C) g) (\<lambda>grp. Inr (JArr grp)) = Inr v \<and>
     rbind (json_slice json_map v) (v2_directive oob K C) = Inr g"
proof -
  from ok have g: "rmapM (v2_instruction oob K C) ms = Inr g" "hasDNSorIP g"
    by (auto simp: v2_directive_def split: if_splits)
  have "\<exists>vs. rmapM (v2_item K C) g = Inr vs \<and> rmapM (v2_object oob K C) vs = Inr g"
    using v2_object_reads_back[OF C K] by (intro rmapM_back[OF g(1)]) auto
  then obtain vs where vs: "rmapM (v2_item K C) g = Inr vs" "rmapM (v2_object oob K C) vs = Inr g"
    by blast
  from vs(2) obtain ms' where "rmapM json_map vs = Inr ms'" "rmapM (v2_instruction oob K C) ms' = Inr g"
    using rmapM_rbind[of json_map "v2_instruction oob K C" vs g]
    by (auto simp: v2_object_def[abs_def])
  with vs(1) g(2) show ?thesis by (auto simp: v2_directive_def)
qed

lemma v2_reads_back:
  assumes C: "cbor_ok C" and K: "rv_consts_ok K"
    and ok: "v2_of_json oob K C doc = Inr rv"
  shows "\<exists>doc'. v2_to_json K C rv = Inr doc' \<and> v2_of_json oob K C doc' = Inr rv"
proof -
  from ok obtain ms where ms: "rmapM (v2_directive oob K C) ms = Inr rv"
    by (auto simp: v2_of_json_def)
  let ?pr = "\<lambda>g. rbind (rmapM (v2_item K C) g) (\<lambda>grp. Inr (JArr grp))"
  let ?rd = "\<lambda>v. rbind (json_slice json_map v) (v2_directive oob K C)"
  have "\<exists>vs. rmapM ?pr rv = Inr vs \<and> rmapM ?rd vs = Inr rv"
    using v2_directive_reads_back[OF C K] by (intro rmapM_back[OF ms]) auto
  then obtain vs where vs: "rmapM ?pr rv = Inr vs" "rmapM ?rd vs = Inr rv" by blast
  from vs(2)[unfolded rmapM_rbind] vs(1) show ?thesis
    by (auto simp: v2_to_json_def v2_of_json_def)
qed

end
