(* ===== verification/Gorm.thy ===== *)
theory Gorm
  imports Prelude "HOL-Library.Multiset"
begin

text \<open>
  The boundary between the server and its database. The server talks to gorm;
  gorm and the SQL database behind it are not part of the repository, so they
  are a parameter: an engine \<open>E :: stmt \<Rightarrow> 'db \<Rightarrow> sqlres \<times> 'db\<close> over an abstract
  database type. A database operation of the server is a program
  (\<open>'a prog\<close>) that issues statements and continues with their results;
  \<open>run E\<close> executes it on an engine.

  What the server relies on is the contract \<open>gorm_engine\<close>: there is a view of
  the database as tables of rows such that every statement either behaves as
  gorm documents it (\<open>sqlR\<close>) or fails with a driver error and changes nothing.
  It is the contract of a database that enforces its foreign keys, as PostgreSQL
  does and SQLite on a connection that executed the \<^verbatim>\<open>PRAGMA\<close>; \<open>RvPool\<close> says what
  becomes of the invariant on a pool in which some connections do not.
  Results the documentation leaves open (which of several matching rows
  \<^verbatim>\<open>First\<close> picks, the order of ties) stay open in \<open>sqlR\<close>. \<open>wp\<close> is the weakest
  precondition over the contract, and \<open>wp_run\<close> carries it to every engine that
  meets the contract. \<open>sql_exec\<close> is an executable engine that does.
\<close>

section \<open>Tables, rows and statements\<close>

datatype tname =
    T_secrets | T_mfg_keys | T_owner_keys | T_rv_blobs | T_sessions | T_device_info
  | T_incomplete_vouchers | T_to0_sessions | T_to1_sessions | T_to2_sessions | T_vouchers
  | T_replacement_vouchers | T_key_exchanges | T_owner_info | T_rvinfo | T_device_onboarding
  | T_device_ca_certificates

datatype sqlval =
  VNull | VBytes bytes | VInt int | VText string | VBool bool | VTime int

type_synonym row = "string \<Rightarrow> sqlval"

text \<open>A foreign key: child table and column, parent table and column.\<close>

type_synonym fkey = "tname \<times> string \<times> tname \<times> string"

text \<open>The primary key columns, from the struct tags of the models.\<close>

fun pkcols :: "tname \<Rightarrow> string list" where
  "pkcols T_secrets = []"
| "pkcols T_mfg_keys = [''type'', ''rsa_bits'']"
| "pkcols T_owner_keys = [''type'', ''rsa_bits'']"
| "pkcols T_rv_blobs = [''guid'']"
| "pkcols T_sessions = [''id'']"
| "pkcols T_device_info = []"
| "pkcols T_incomplete_vouchers = [''session'']"
| "pkcols T_to0_sessions = [''session'']"
| "pkcols T_to1_sessions = [''session'']"
| "pkcols T_to2_sessions = [''session'']"
| "pkcols T_vouchers = [''guid'']"
| "pkcols T_replacement_vouchers = [''session'']"
| "pkcols T_key_exchanges = [''session'']"
| "pkcols T_owner_info = [''id'']"
| "pkcols T_rvinfo = [''id'']"
| "pkcols T_device_onboarding = [''guid'']"
| "pkcols T_device_ca_certificates = [''fingerprint'']"

text \<open>
  \<^verbatim>\<open>WHERE\<close> conditions. A comparison with \<^verbatim>\<open>NULL\<close> is never true, and
  \<^verbatim>\<open>LIKE\<close> depends on the dialect, so its meaning is an argument.
\<close>

datatype cond =
    CEq string sqlval | CLt string sqlval | CLe string sqlval | CGt string sqlval
  | CLike string string | CAnd cond cond | COr cond cond

fun sql_lt :: "sqlval \<Rightarrow> sqlval \<Rightarrow> bool" where
  "sql_lt (VTime a) (VTime b) = (a < b)"
| "sql_lt (VInt a) (VInt b) = (a < b)"
| "sql_lt _ _ = False"

definition sql_eq :: "sqlval \<Rightarrow> sqlval \<Rightarrow> bool" where
  "sql_eq a b \<longleftrightarrow> a = b \<and> a \<noteq> VNull"

fun holds :: "(string \<Rightarrow> string \<Rightarrow> bool) \<Rightarrow> cond \<Rightarrow> row \<Rightarrow> bool" where
  "holds lk (CEq c v) r = sql_eq (r c) v"
| "holds lk (CLt c v) r = sql_lt (r c) v"
| "holds lk (CLe c v) r = (sql_lt (r c) v \<or> sql_eq (r c) v)"
| "holds lk (CGt c v) r = sql_lt v (r c)"
| "holds lk (CLike c p) r = (case r c of VText s \<Rightarrow> lk p s | _ \<Rightarrow> False)"
| "holds lk (CAnd a b) r = (holds lk a r \<and> holds lk b r)"
| "holds lk (COr a b) r = (holds lk a r \<or> holds lk b r)"

text \<open>The gorm calls the server makes.\<close>

datatype stmt =
    SCreate tname row
  | SCreateDoNothing tname row                               \<comment> \<open>Clauses(OnConflict{DoNothing}).Create\<close>
  | SSave tname row
  | SFirst tname "cond list"                                 \<comment> \<open>Where(...).First\<close>
  | SFind tname "cond list" "(string \<times> bool) option" nat nat  \<comment> \<open>Where.Order.Limit.Offset.Find; limit 0 is none\<close>
  | SCount tname "cond list"
  | SDelete tname "cond list"
  | SUpdate tname "cond list" "(string \<times> sqlval) list"
  | SFirstOrCreate tname "cond list" "(string \<times> sqlval) list" row
  | SLeftJoin tname string tname string "cond list" "string option"
      \<comment> \<open>left table and column, right table and column, conditions on the right row, descending order\<close>
  | SBegin | SCommit | SRollback | SPing
  | SMigrate "tname list" "fkey list"                        \<comment> \<open>AutoMigrate; the associations of the models\<close>
  | SHasConstraint fkey                                      \<comment> \<open>Migrator().HasConstraint\<close>
  | SCreateConstraint fkey                                   \<comment> \<open>Migrator().CreateConstraint\<close>

record sqlres =
  rerr :: "go_error option"
  rrows :: "row list"
  rpairs :: "(row \<times> row option) list"
  raffected :: nat

definition ok_rows :: "row list \<Rightarrow> sqlres" where
  "ok_rows rs = \<lparr>rerr = None, rrows = rs, rpairs = [], raffected = length rs\<rparr>"

definition ok_pairs :: "(row \<times> row option) list \<Rightarrow> sqlres" where
  "ok_pairs ps = \<lparr>rerr = None, rrows = [], rpairs = ps, raffected = length ps\<rparr>"

definition ok_n :: "nat \<Rightarrow> sqlres" where
  "ok_n n = \<lparr>rerr = None, rrows = [], rpairs = [], raffected = n\<rparr>"

definition fail :: "go_error \<Rightarrow> sqlres" where
  "fail e = \<lparr>rerr = Some e, rrows = [], rpairs = [], raffected = 0\<rparr>"

lemma sqlres_simps [simp]:
  "rerr (ok_rows rs) = None" "rrows (ok_rows rs) = rs" "raffected (ok_rows rs) = length rs"
  "rerr (ok_pairs ps) = None" "rpairs (ok_pairs ps) = ps"
  "rerr (ok_n n) = None" "raffected (ok_n n) = n"
  "rerr (fail e) = Some e"
  by (simp_all add: ok_rows_def ok_pairs_def ok_n_def fail_def)

section \<open>The tables a database shows\<close>

text \<open>
  \<open>tabs\<close> are the rows of each table, \<open>txs\<close> the snapshots of the open
  transactions (innermost first), \<open>fks\<close> the foreign keys with
  \<^verbatim>\<open>ON DELETE CASCADE\<close> (child table and column, parent table and column) and
  \<open>like\<close> the dialect's \<^verbatim>\<open>LIKE\<close>.
\<close>

record sqldb =
  tabs :: "tname \<Rightarrow> row list"
  txs :: "(tname \<Rightarrow> row list) list"
  fks :: "fkey list"
  like :: "string \<Rightarrow> string \<Rightarrow> bool"

abbreviation matching :: "tname \<Rightarrow> cond list \<Rightarrow> sqldb \<Rightarrow> row \<Rightarrow> bool" where
  "matching t cs d r \<equiv> \<forall>c\<in>set cs. holds (like d) c r"

definition same_key :: "tname \<Rightarrow> row \<Rightarrow> row \<Rightarrow> bool" where
  "same_key t r r' \<longleftrightarrow> pkcols t \<noteq> [] \<and> (\<forall>c\<in>set (pkcols t). sql_eq (r c) (r' c))"

definition set_tab :: "tname \<Rightarrow> row list \<Rightarrow> sqldb \<Rightarrow> sqldb" where
  "set_tab t rs d = d\<lparr>tabs := (tabs d)(t := rs)\<rparr>"

definition rows :: "tname \<Rightarrow> cond list \<Rightarrow> sqldb \<Rightarrow> row list" where
  "rows t cs d = filter (matching t cs d) (tabs d t)"

definition dupkey :: "tname \<Rightarrow> row \<Rightarrow> sqldb \<Rightarrow> bool" where
  "dupkey t r d \<longleftrightarrow> (\<exists>r'\<in>set (tabs d t). same_key t r r')"

definition ins :: "tname \<Rightarrow> row \<Rightarrow> sqldb \<Rightarrow> sqldb" where
  "ins t r d = set_tab t (tabs d t @ [r]) d"

definition put :: "tname \<Rightarrow> row \<Rightarrow> sqldb \<Rightarrow> sqldb" where
  "put t r d = (if dupkey t r d
     then set_tab t (map (\<lambda>r'. if same_key t r r' then r else r') (tabs d t)) d
     else ins t r d)"

definition set_cols :: "(string \<times> sqlval) list \<Rightarrow> row \<Rightarrow> row" where
  "set_cols cvs r = fold (\<lambda>(c, v) r. r(c := v)) cvs r"

definition upd :: "tname \<Rightarrow> cond list \<Rightarrow> (string \<times> sqlval) list \<Rightarrow> sqldb \<Rightarrow> sqldb" where
  "upd t cs cvs d =
     set_tab t (map (\<lambda>r. if matching t cs d r then set_cols cvs r else r) (tabs d t)) d"

definition pk_ok :: "tname \<Rightarrow> row list \<Rightarrow> bool" where
  "pk_ok t rs = sorted_wrt (\<lambda>r r'. \<not> same_key t r r') rs"

definition fk_ok :: "tname \<Rightarrow> row \<Rightarrow> sqldb \<Rightarrow> bool" where
  "fk_ok t r d \<longleftrightarrow>
     (\<forall>(ct, cc, pt, pc)\<in>set (fks d). ct = t \<longrightarrow> (\<exists>p\<in>set (tabs d pt). sql_eq (p pc) (r cc)))"

text \<open>\<^verbatim>\<open>ON DELETE CASCADE\<close>: child rows that refer to a deleted row go with it.\<close>

definition orphan :: "tname \<Rightarrow> row list \<Rightarrow> sqldb \<Rightarrow> tname \<Rightarrow> row \<Rightarrow> bool" where
  "orphan t gone d ct r \<longleftrightarrow>
     (\<exists>(ct', cc, pt, pc)\<in>set (fks d). ct' = ct \<and> pt = t \<and> (\<exists>p\<in>set gone. sql_eq (p pc) (r cc)))"

definition del :: "tname \<Rightarrow> cond list \<Rightarrow> sqldb \<Rightarrow> sqldb" where
  "del t cs d = d\<lparr>tabs := (\<lambda>u. filter (\<lambda>r. \<not> (u = t \<and> matching t cs d r) \<and>
                                          \<not> orphan t (rows t cs d) d u r) (tabs d u))\<rparr>"

text \<open>Only times are ordered by the contract; text order is left to the collation.\<close>

fun sql_rank :: "sqlval \<Rightarrow> int" where
  "sql_rank (VTime a) = a"
| "sql_rank _ = 0"

definition ord_key :: "(string \<times> bool) option \<Rightarrow> row \<Rightarrow> int" where
  "ord_key ord r = (case ord of None \<Rightarrow> 0
     | Some (c, desc) \<Rightarrow> (if desc then - sql_rank (r c) else sql_rank (r c)))"

definition page :: "nat \<Rightarrow> nat \<Rightarrow> 'a list \<Rightarrow> 'a list" where
  "page lim off xs = (if lim = 0 then drop off xs else take lim (drop off xs))"

definition join :: "tname \<Rightarrow> string \<Rightarrow> tname \<Rightarrow> string \<Rightarrow> sqldb \<Rightarrow> (row \<times> row option) list" where
  "join t c u c' d = concat (map (\<lambda>r.
      let ms = filter (\<lambda>r'. sql_eq (r c) (r' c')) (tabs d u)
      in if ms = [] then [(r, None)] else map (\<lambda>r'. (r, Some r')) ms) (tabs d t))"

definition join_cond :: "cond list \<Rightarrow> sqldb \<Rightarrow> row \<times> row option \<Rightarrow> bool" where
  "join_cond cs d p \<longleftrightarrow>
     (\<forall>c\<in>set cs. case snd p of None \<Rightarrow> False | Some r \<Rightarrow> holds (like d) c r)"

definition begin_tx :: "sqldb \<Rightarrow> sqldb" where
  "begin_tx d = d\<lparr>txs := tabs d # txs d\<rparr>"

definition commit_tx :: "sqldb \<Rightarrow> sqldb" where
  "commit_tx d = d\<lparr>txs := tl (txs d)\<rparr>"

definition rollback_tx :: "sqldb \<Rightarrow> sqldb" where
  "rollback_tx d = (case txs d of [] \<Rightarrow> d | s # ss \<Rightarrow> d\<lparr>tabs := s, txs := ss\<rparr>)"

definition add_fks :: "fkey list \<Rightarrow> sqldb \<Rightarrow> sqldb" where
  "add_fks fs d = d\<lparr>fks := fs @ fks d\<rparr>"

text \<open>A unique or primary key violation, as the two supported drivers report it.\<close>

definition sqlite_ErrConstraint :: nat where
  "sqlite_ErrConstraint = 19"

definition dup_error :: "go_error \<Rightarrow> bool" where
  "dup_error e \<longleftrightarrow> e = ErrSqlite sqlite_ErrConstraint \<or> e = ErrPg ''23505''"

definition fk_error :: "go_error \<Rightarrow> bool" where
  "fk_error e \<longleftrightarrow> e = ErrSqlite sqlite_ErrConstraint \<or> e = ErrPg ''23503''"

text \<open>
  The documented outcome of each statement: result and tables afterwards. A migration
  keeps the rows; which of the missing foreign keys of the models it creates is left open.
\<close>

fun sqlR :: "stmt \<Rightarrow> sqldb \<Rightarrow> sqlres \<Rightarrow> sqldb \<Rightarrow> bool" where
  "sqlR (SCreate t r) d x d' =
     (if dupkey t r d then (\<exists>e. dup_error e \<and> x = fail e) \<and> d' = d
      else if \<not> fk_ok t r d then (\<exists>e. fk_error e \<and> x = fail e) \<and> d' = d
      else x = ok_n 1 \<and> d' = ins t r d)"
| "sqlR (SCreateDoNothing t r) d x d' =
     (if dupkey t r d then x = ok_n 0 \<and> d' = d
      else if \<not> fk_ok t r d then (\<exists>e. fk_error e \<and> x = fail e) \<and> d' = d
      else x = ok_n 1 \<and> d' = ins t r d)"
| "sqlR (SSave t r) d x d' =
     (if \<not> fk_ok t r d then (\<exists>e. fk_error e \<and> x = fail e) \<and> d' = d
      else x = ok_n 1 \<and> d' = put t r d)"
| "sqlR (SFirst t cs) d x d' =
     ((if rows t cs d = [] then x = fail ErrRecordNotFound
       else \<exists>r\<in>set (rows t cs d). x = ok_rows [r]) \<and> d' = d)"
| "sqlR (SFind t cs ord lim off) d x d' =
     ((\<exists>ys. mset ys = mset (rows t cs d) \<and> sorted (map (ord_key ord) ys)
            \<and> x = ok_rows (page lim off ys)) \<and> d' = d)"
| "sqlR (SCount t cs) d x d' = (x = ok_n (length (rows t cs d)) \<and> d' = d)"
| "sqlR (SDelete t cs) d x d' = (x = ok_n (length (rows t cs d)) \<and> d' = del t cs d)"
| "sqlR (SUpdate t cs cvs) d x d' =
     (if pk_ok t (tabs (upd t cs cvs d) t)
      then x = ok_n (length (rows t cs d)) \<and> d' = upd t cs cvs d
      else (\<exists>e. dup_error e \<and> x = fail e) \<and> d' = d)"
| "sqlR (SFirstOrCreate t cs cvs r0) d x d' =
     (if rows t cs d = []
      then (if dupkey t (set_cols cvs r0) d then (\<exists>e. dup_error e \<and> x = fail e) \<and> d' = d
            else if \<not> fk_ok t (set_cols cvs r0) d then (\<exists>e. fk_error e \<and> x = fail e) \<and> d' = d
            else x = ok_rows [set_cols cvs r0] \<and> d' = ins t (set_cols cvs r0) d)
      else if pk_ok t (tabs (upd t cs cvs d) t)
      then (\<exists>r\<in>set (rows t cs d). x = ok_rows [set_cols cvs r]) \<and> d' = upd t cs cvs d
      else (\<exists>e. dup_error e \<and> x = fail e) \<and> d' = d)"
| "sqlR (SLeftJoin t c u c' cs ord) d x d' =
     ((\<exists>ys. mset ys = mset (filter (join_cond cs d) (join t c u c' d))
            \<and> sorted (map (\<lambda>p. ord_key (map_option (\<lambda>c. (c, True)) ord) (fst p)) ys)
            \<and> x = ok_pairs ys) \<and> d' = d)"
| "sqlR SBegin d x d' = (x = ok_n 0 \<and> d' = begin_tx d)"
| "sqlR SCommit d x d' = (x = ok_n 0 \<and> d' = commit_tx d)"
| "sqlR SRollback d x d' = (x = ok_n 0 \<and> d' = rollback_tx d)"
| "sqlR SPing d x d' = (x = ok_n 0 \<and> d' = d)"
| "sqlR (SMigrate ts fs) d x d' =
     (x = ok_n 0 \<and> (\<exists>gs. set gs \<subseteq> set fs - set (fks d) \<and> distinct gs \<and> d' = add_fks gs d))"
| "sqlR (SHasConstraint f) d x d' = (x = ok_n (if f \<in> set (fks d) then 1 else 0) \<and> d' = d)"
| "sqlR (SCreateConstraint f) d x d' = (x = ok_n 0 \<and> d' = add_fks [f] d)"

text \<open>
  A statement may also fail in the driver, without effect. A rollback undoes
  the transaction even then: what was never committed does not persist.
\<close>

definition stepR :: "stmt \<Rightarrow> sqldb \<Rightarrow> sqlres \<Rightarrow> sqldb \<Rightarrow> bool" where
  "stepR s d x d' \<longleftrightarrow> sqlR s d x d' \<or>
     (\<exists>m. x = fail (ErrDriver m)) \<and> d' = (if s = SRollback then rollback_tx d else d)"

section \<open>Programs over the database\<close>

datatype 'a prog = Ret 'a | Exec stmt "sqlres \<Rightarrow> 'a prog"

primrec bindP :: "'a prog \<Rightarrow> ('a \<Rightarrow> 'b prog) \<Rightarrow> 'b prog" where
  "bindP (Ret x) k = k x"
| "bindP (Exec s c) k = Exec s (\<lambda>x. bindP (c x) k)"

text \<open>A fallible database operation, sequenced with the usual early return on error.\<close>

type_synonym 'a act = "'a result prog"

definition bindE :: "'a act \<Rightarrow> ('a \<Rightarrow> 'b act) \<Rightarrow> 'b act" where
  "bindE m k = bindP m (\<lambda>r. case r of Inl e \<Rightarrow> Ret (Inl e) | Inr x \<Rightarrow> k x)"

definition retE :: "'a \<Rightarrow> 'a act" where
  "retE x = Ret (Inr x)"

definition failE :: "go_error \<Rightarrow> 'a act" where
  "failE e = Ret (Inl e)"

definition liftR :: "'a result \<Rightarrow> 'a act" where
  "liftR r = Ret r"

text \<open>Map the error of an operation, as in \<^verbatim>\<open>if err == gorm.ErrRecordNotFound { return fdo.ErrNotFound }\<close>.\<close>

definition mapErr :: "(go_error \<Rightarrow> go_error) \<Rightarrow> 'a act \<Rightarrow> 'a act" where
  "mapErr f m = bindP m (\<lambda>r. Ret (rmap_err f r))"

primrec run :: "(stmt \<Rightarrow> 'db \<Rightarrow> sqlres \<times> 'db) \<Rightarrow> 'a prog \<Rightarrow> 'db \<Rightarrow> 'a \<times> 'db" where
  "run E (Ret x) = (\<lambda>db. (x, db))"
| "run E (Exec s k) = (\<lambda>db. case E s db of (x, db') \<Rightarrow> run E (k x) db')"

lemma run_bindP: "run E (bindP m k) db = (case run E m db of (x, db') \<Rightarrow> run E (k x) db')"
  by (induction m arbitrary: db) (auto split: prod.splits)

text \<open>The gorm calls as operations; those that report \<^verbatim>\<open>RowsAffected\<close> return it.\<close>

definition call :: "stmt \<Rightarrow> (sqlres \<Rightarrow> 'a) \<Rightarrow> 'a act" where
  "call s f = Exec s (\<lambda>x. Ret (case rerr x of Some e \<Rightarrow> Inl e | None \<Rightarrow> Inr (f x)))"

definition dbCreate :: "tname \<Rightarrow> row \<Rightarrow> unit act" where
  "dbCreate t r = call (SCreate t r) (\<lambda>_. ())"

definition dbCreateDoNothing :: "tname \<Rightarrow> row \<Rightarrow> nat act" where
  "dbCreateDoNothing t r = call (SCreateDoNothing t r) raffected"

definition dbSave :: "tname \<Rightarrow> row \<Rightarrow> unit act" where
  "dbSave t r = call (SSave t r) (\<lambda>_. ())"

definition dbFirst :: "tname \<Rightarrow> cond list \<Rightarrow> row act" where
  "dbFirst t cs = call (SFirst t cs) (\<lambda>x. hd (rrows x))"

definition dbFind :: "tname \<Rightarrow> cond list \<Rightarrow> (string \<times> bool) option \<Rightarrow> nat \<Rightarrow> nat \<Rightarrow> row list act" where
  "dbFind t cs ord lim off = call (SFind t cs ord lim off) rrows"

definition dbCount :: "tname \<Rightarrow> cond list \<Rightarrow> nat act" where
  "dbCount t cs = call (SCount t cs) raffected"

definition dbDelete :: "tname \<Rightarrow> cond list \<Rightarrow> nat act" where
  "dbDelete t cs = call (SDelete t cs) raffected"

definition dbUpdate :: "tname \<Rightarrow> cond list \<Rightarrow> (string \<times> sqlval) list \<Rightarrow> nat act" where
  "dbUpdate t cs cvs = call (SUpdate t cs cvs) raffected"

definition dbFirstOrCreate :: "tname \<Rightarrow> cond list \<Rightarrow> (string \<times> sqlval) list \<Rightarrow> row \<Rightarrow> unit act" where
  "dbFirstOrCreate t cs cvs r = call (SFirstOrCreate t cs cvs r) (\<lambda>_. ())"

definition dbLeftJoin ::
  "tname \<Rightarrow> string \<Rightarrow> tname \<Rightarrow> string \<Rightarrow> cond list \<Rightarrow> string option \<Rightarrow> (row \<times> row option) list act" where
  "dbLeftJoin t c u c' cs ord = call (SLeftJoin t c u c' cs ord) rpairs"

definition dbPing :: "unit act" where
  "dbPing = call SPing (\<lambda>_. ())"

definition dbAutoMigrate :: "tname list \<Rightarrow> fkey list \<Rightarrow> unit act" where
  "dbAutoMigrate ts fs = call (SMigrate ts fs) (\<lambda>_. ())"

text \<open>\<^verbatim>\<open>HasConstraint\<close> returns a bool and no error: a failed query counts as no.\<close>

definition dbHasConstraint :: "fkey \<Rightarrow> bool prog" where
  "dbHasConstraint f = bindP (call (SHasConstraint f) raffected) (\<lambda>r. Ret (case r of Inl _ \<Rightarrow> False | Inr n \<Rightarrow> n > 0))"

definition dbCreateConstraint :: "fkey \<Rightarrow> unit act" where
  "dbCreateConstraint f = call (SCreateConstraint f) (\<lambda>_. ())"

text \<open>
  \<^verbatim>\<open>db.Transaction(f)\<close>: commit when the function returns no error, roll back
  when it returns one or when the commit fails. Inside another transaction gorm
  uses a savepoint, which is the inner snapshot here.
\<close>

definition transaction :: "'a act \<Rightarrow> 'a act" where
  "transaction p =
     Exec SBegin (\<lambda>b. case rerr b of Some e \<Rightarrow> Ret (Inl e) | None \<Rightarrow>
       bindP p (\<lambda>r. case r of
         Inl e \<Rightarrow> Exec SRollback (\<lambda>_. Ret (Inl e))
       | Inr v \<Rightarrow> Exec SCommit (\<lambda>c. case rerr c of
             None \<Rightarrow> Ret (Inr v)
           | Some e \<Rightarrow> Exec SRollback (\<lambda>_. Ret (Inl e)))))"

lemmas db_calls = dbCreate_def dbCreateDoNothing_def dbSave_def dbFirst_def dbFind_def dbCount_def
  dbDelete_def dbUpdate_def dbFirstOrCreate_def dbLeftJoin_def dbPing_def
  dbAutoMigrate_def dbHasConstraint_def dbCreateConstraint_def

lemma bindE_simps [simp]:
  "bindE (Ret (Inl e)) k = Ret (Inl e)"
  "bindE (Ret (Inr x)) k = k x"
  "bindE (retE x) k = k x"
  "bindE (failE e) k = failE e"
  "bindE (liftR (Inl e)) k = failE e"
  "bindE (liftR (Inr x)) k = k x"
  by (simp_all add: bindE_def retE_def failE_def liftR_def)

section \<open>Weakest preconditions\<close>

primrec wp :: "'a prog \<Rightarrow> ('a \<Rightarrow> sqldb \<Rightarrow> bool) \<Rightarrow> sqldb \<Rightarrow> bool" where
  "wp (Ret x) = (\<lambda>Q d. Q x d)"
| "wp (Exec s k) = (\<lambda>Q d. \<forall>x d'. stepR s d x d' \<longrightarrow> wp (k x) Q d')"

text \<open>One statement: the driver failure and the documented outcomes, separately.\<close>

lemma wp_Exec:
  "wp (Exec s k) Q d \<longleftrightarrow>
     (\<forall>m. wp (k (fail (ErrDriver m))) Q (if s = SRollback then rollback_tx d else d)) \<and>
     (\<forall>x d'. sqlR s d x d' \<longrightarrow> wp (k x) Q d')"
  unfolding wp.simps stepR_def by blast

lemma wp_bindP: "wp (bindP m k) Q d = wp m (\<lambda>x. wp (k x) Q) d"
  by (induction m arbitrary: d) auto

lemma wp_mono: "wp p Q d \<Longrightarrow> (\<And>x d'. Q x d' \<Longrightarrow> R x d') \<Longrightarrow> wp p R d"
  by (induction p arbitrary: d) auto

lemma wp_conj: "wp p (\<lambda>x d'. Q x d' \<and> R x d') d \<longleftrightarrow> wp p Q d \<and> wp p R d"
  by (induction p arbitrary: d) auto

lemma wp_True: "wp p (\<lambda>_ _. True) d"
  by (induction p arbitrary: d) auto

declare wp.simps(2) [simp del]

lemma wp_bindE [wp_simps]:
  "wp (bindE m k) Q d = wp m (\<lambda>r d'. case r of Inl e \<Rightarrow> Q (Inl e) d' | Inr x \<Rightarrow> wp (k x) Q d') d"
proof -
  have *: "(\<lambda>r. wp (case r of Inl e \<Rightarrow> Ret (Inl e) | Inr x \<Rightarrow> k x) Q) =
        (\<lambda>r d'. case r of Inl e \<Rightarrow> Q (Inl e) d' | Inr x \<Rightarrow> wp (k x) Q d')"
    by (auto simp: fun_eq_iff split: sum.splits)
  show ?thesis by (simp add: bindE_def wp_bindP *)
qed

lemma wp_ret [wp_simps]:
  "wp (retE x) Q d = Q (Inr x) d"
  "wp (failE e) Q d = Q (Inl e) d"
  "wp (liftR r) Q d = Q r d"
  by (simp_all add: retE_def failE_def liftR_def)

lemma wp_mapErr [wp_simps]: "wp (mapErr f m) Q d = wp m (\<lambda>r. Q (rmap_err f r)) d"
  by (simp add: mapErr_def wp_bindP)

lemma wp_call:
  "wp (call s f) Q d \<longleftrightarrow>
     (\<forall>m. Q (Inl (ErrDriver m)) (if s = SRollback then rollback_tx d else d)) \<and>
     (\<forall>x d'. sqlR s d x d' \<longrightarrow> Q (case rerr x of Some e \<Rightarrow> Inl e | None \<Rightarrow> Inr (f x)) d')"
  by (simp add: call_def wp_Exec)

lemma wp_dbCreate [wp_simps]:
  "wp (dbCreate t r) Q d \<longleftrightarrow> (\<forall>m. Q (Inl (ErrDriver m)) d) \<and>
     (if dupkey t r d then (\<forall>e. dup_error e \<longrightarrow> Q (Inl e) d)
      else if \<not> fk_ok t r d then (\<forall>e. fk_error e \<longrightarrow> Q (Inl e) d)
      else Q (Inr ()) (ins t r d))"
  by (auto simp: dbCreate_def wp_call)

lemma wp_dbCreateDoNothing [wp_simps]:
  "wp (dbCreateDoNothing t r) Q d \<longleftrightarrow> (\<forall>m. Q (Inl (ErrDriver m)) d) \<and>
     (if dupkey t r d then Q (Inr 0) d
      else if \<not> fk_ok t r d then (\<forall>e. fk_error e \<longrightarrow> Q (Inl e) d)
      else Q (Inr 1) (ins t r d))"
  by (auto simp: dbCreateDoNothing_def wp_call)

lemma wp_dbSave [wp_simps]:
  "wp (dbSave t r) Q d \<longleftrightarrow> (\<forall>m. Q (Inl (ErrDriver m)) d) \<and>
     (if \<not> fk_ok t r d then (\<forall>e. fk_error e \<longrightarrow> Q (Inl e) d) else Q (Inr ()) (put t r d))"
  by (auto simp: dbSave_def wp_call)

lemma wp_dbFirst [wp_simps]:
  "wp (dbFirst t cs) Q d \<longleftrightarrow> (\<forall>m. Q (Inl (ErrDriver m)) d) \<and>
     (if rows t cs d = [] then Q (Inl ErrRecordNotFound) d else (\<forall>r\<in>set (rows t cs d). Q (Inr r) d))"
  by (auto simp: dbFirst_def wp_call)

lemma wp_dbFind [wp_simps]:
  "wp (dbFind t cs ord lim off) Q d \<longleftrightarrow> (\<forall>m. Q (Inl (ErrDriver m)) d) \<and>
     (\<forall>ys. mset ys = mset (rows t cs d) \<longrightarrow> sorted (map (ord_key ord) ys) \<longrightarrow>
           Q (Inr (page lim off ys)) d)"
  by (auto simp: dbFind_def wp_call)

lemma wp_dbCount [wp_simps]:
  "wp (dbCount t cs) Q d \<longleftrightarrow> (\<forall>m. Q (Inl (ErrDriver m)) d) \<and> Q (Inr (length (rows t cs d))) d"
  by (auto simp: dbCount_def wp_call)

lemma wp_dbDelete [wp_simps]:
  "wp (dbDelete t cs) Q d \<longleftrightarrow> (\<forall>m. Q (Inl (ErrDriver m)) d) \<and>
     Q (Inr (length (rows t cs d))) (del t cs d)"
  by (auto simp: dbDelete_def wp_call)

lemma wp_dbUpdate [wp_simps]:
  "wp (dbUpdate t cs cvs) Q d \<longleftrightarrow> (\<forall>m. Q (Inl (ErrDriver m)) d) \<and>
     (if pk_ok t (tabs (upd t cs cvs d) t) then Q (Inr (length (rows t cs d))) (upd t cs cvs d)
      else (\<forall>e. dup_error e \<longrightarrow> Q (Inl e) d))"
  by (auto simp: dbUpdate_def wp_call)

lemma wp_dbFirstOrCreate [wp_simps]:
  "wp (dbFirstOrCreate t cs cvs r) Q d \<longleftrightarrow> (\<forall>m. Q (Inl (ErrDriver m)) d) \<and>
     (if rows t cs d = []
      then (if dupkey t (set_cols cvs r) d then (\<forall>e. dup_error e \<longrightarrow> Q (Inl e) d)
            else if \<not> fk_ok t (set_cols cvs r) d then (\<forall>e. fk_error e \<longrightarrow> Q (Inl e) d)
            else Q (Inr ()) (ins t (set_cols cvs r) d))
      else if pk_ok t (tabs (upd t cs cvs d) t) then Q (Inr ()) (upd t cs cvs d)
      else (\<forall>e. dup_error e \<longrightarrow> Q (Inl e) d))"
proof (cases "rows t cs d")
  case Nil
  then show ?thesis by (auto simp: dbFirstOrCreate_def wp_call)
next
  case (Cons r0 rs)
  then have "r0 \<in> set (rows t cs d)" by simp
  with Cons show ?thesis
    by (fastforce simp: dbFirstOrCreate_def wp_call)
qed

lemma wp_dbLeftJoin [wp_simps]:
  "wp (dbLeftJoin t c u c' cs ord) Q d \<longleftrightarrow> (\<forall>m. Q (Inl (ErrDriver m)) d) \<and>
     (\<forall>ys. mset ys = mset (filter (join_cond cs d) (join t c u c' d)) \<longrightarrow>
           sorted (map (\<lambda>p. ord_key (map_option (\<lambda>c. (c, True)) ord) (fst p)) ys) \<longrightarrow>
           Q (Inr ys) d)"
  by (auto simp: dbLeftJoin_def wp_call)

lemma wp_dbPing [wp_simps]:
  "wp dbPing Q d \<longleftrightarrow> (\<forall>m. Q (Inl (ErrDriver m)) d) \<and> Q (Inr ()) d"
  by (auto simp: dbPing_def wp_call)

lemma wp_dbAutoMigrate [wp_simps]:
  "wp (dbAutoMigrate ts fs) Q d \<longleftrightarrow> (\<forall>m. Q (Inl (ErrDriver m)) d) \<and>
     (\<forall>gs. set gs \<subseteq> set fs - set (fks d) \<longrightarrow> distinct gs \<longrightarrow> Q (Inr ()) (add_fks gs d))"
  by (auto simp: dbAutoMigrate_def wp_call)

lemma wp_dbHasConstraint [wp_simps]:
  "wp (dbHasConstraint f) Q d \<longleftrightarrow> Q False d \<and> (f \<in> set (fks d) \<longrightarrow> Q True d)"
  by (auto simp: dbHasConstraint_def wp_bindP wp_call)

lemma wp_dbCreateConstraint [wp_simps]:
  "wp (dbCreateConstraint f) Q d \<longleftrightarrow> (\<forall>m. Q (Inl (ErrDriver m)) d) \<and> Q (Inr ()) (add_fks [f] d)"
  by (auto simp: dbCreateConstraint_def wp_call)

lemma wp_transaction [wp_simps]:
  "wp (transaction p) Q d \<longleftrightarrow> (\<forall>m. Q (Inl (ErrDriver m)) d) \<and>
     wp p (\<lambda>r d'. case r of
         Inl e \<Rightarrow> Q (Inl e) (rollback_tx d')
       | Inr v \<Rightarrow> Q (Inr v) (commit_tx d') \<and> (\<forall>m. Q (Inl (ErrDriver m)) (rollback_tx d')))
       (begin_tx d)"
proof -
  have *: "(\<lambda>r. wp (case r of Inl e \<Rightarrow> Exec SRollback (\<lambda>_. Ret (Inl e))
       | Inr v \<Rightarrow> Exec SCommit (\<lambda>c. case rerr c of
             None \<Rightarrow> Ret (Inr v) | Some e \<Rightarrow> Exec SRollback (\<lambda>_. Ret (Inl e)))) Q) =
     (\<lambda>r d'. case r of Inl e \<Rightarrow> Q (Inl e) (rollback_tx d')
       | Inr v \<Rightarrow> Q (Inr v) (commit_tx d') \<and> (\<forall>m. Q (Inl (ErrDriver m)) (rollback_tx d')))"
    by (simp add: fun_eq_iff wp_Exec split: sum.splits) auto
  show ?thesis
    by (simp add: transaction_def wp_bindP * wp_Exec)
qed

section \<open>The engine contract\<close>

text \<open>The result of an operation on an engine and the database it leaves.\<close>

abbreviation result :: "(stmt \<Rightarrow> 'db \<Rightarrow> sqlres \<times> 'db) \<Rightarrow> 'a prog \<Rightarrow> 'db \<Rightarrow> 'a" where
  "result E p db \<equiv> fst (run E p db)"

abbreviation after :: "(stmt \<Rightarrow> 'db \<Rightarrow> sqlres \<times> 'db) \<Rightarrow> 'a prog \<Rightarrow> 'db \<Rightarrow> 'db" where
  "after E p db \<equiv> snd (run E p db)"

locale gorm_engine =
  fixes E :: "stmt \<Rightarrow> 'db \<Rightarrow> sqlres \<times> 'db" and abs :: "'db \<Rightarrow> sqldb"
  assumes step: "E s db = (x, db') \<Longrightarrow> stepR s (abs db) x (abs db')"
begin

lemma wp_run: "wp p Q (abs db) \<Longrightarrow> run E p db = (r, db') \<Longrightarrow> Q r (abs db')"
proof (induction p arbitrary: db)
  case (Ret x)
  then show ?case by simp
next
  case (Exec s k)
  obtain x db1 where e: "E s db = (x, db1)" by fastforce
  with Exec.prems have "wp (k x) Q (abs db1)" using step[OF e] by (auto simp: wp.simps(2))
  moreover from e Exec.prems have "run E (k x) db1 = (r, db')" by simp
  ultimately show ?case using Exec.IH by blast
qed

lemma wp_result: "wp p Q (abs db) \<Longrightarrow> Q (result E p db) (abs (after E p db))"
  by (rule wp_run) auto

text \<open>Two operations one after the other, the second from the state the first left.\<close>

lemma wp_seq:
  assumes "wp p (\<lambda>r d1. P r \<longrightarrow> wp q Q d1) (abs db)" "P (result E p db)"
  shows "Q (result E q (after E p db)) (abs (after E q (after E p db)))"
  by (rule wp_result) (rule wp_result[OF assms(1), THEN mp, OF assms(2)])

end

section \<open>Primary keys stay unique\<close>

definition wf :: "sqldb \<Rightarrow> bool" where
  "wf d \<longleftrightarrow> (\<forall>t. pk_ok t (tabs d t)) \<and> (\<forall>s\<in>set (txs d). \<forall>t. pk_ok t (s t))"

lemma sql_eq_sym: "sql_eq a b = sql_eq b a"
  by (auto simp: sql_eq_def)

lemma same_key_sym: "same_key t r r' = same_key t r' r"
  using sql_eq_sym by (auto simp: same_key_def)

lemma same_key_trans: "same_key t a b \<Longrightarrow> same_key t b c \<Longrightarrow> same_key t a c"
  by (auto simp: same_key_def sql_eq_def)

lemma pk_ok_filter: "pk_ok t rs \<Longrightarrow> pk_ok t (filter P rs)"
  by (simp add: pk_ok_def sorted_wrt_filter)

lemma pk_ok_snoc: "pk_ok t (rs @ [r]) \<longleftrightarrow> pk_ok t rs \<and> (\<forall>r'\<in>set rs. \<not> same_key t r r')"
  using same_key_sym by (auto simp: pk_ok_def sorted_wrt_append)

lemma pk_ok_map:
  assumes "pk_ok t rs" "\<And>a b. same_key t (f a) (f b) \<Longrightarrow> same_key t a b"
  shows "pk_ok t (map f rs)"
  using assms by (auto simp: pk_ok_def sorted_wrt_map elim!: sorted_wrt_mono_rel[rotated])

lemma pk_ok_replace:
  assumes "pk_ok t rs"
  shows "pk_ok t (map (\<lambda>r'. if same_key t r r' then r else r') rs)"
proof (rule pk_ok_map[OF assms])
  show "same_key t a b"
    if "same_key t (if same_key t r a then r else a) (if same_key t r b then r else b)" for a b
    using that same_key_sym[of t r a, THEN iffD1] same_key_sym[of t a r, THEN iffD1]
      same_key_trans[of t a r b]
    by (auto split: if_splits)
qed

lemma tabs_simps [simp]:
  "tabs (set_tab t rs d) = (tabs d)(t := rs)"
  "tabs (begin_tx d) = tabs d" "tabs (commit_tx d) = tabs d"
  "tabs (ins t r d) = (tabs d)(t := tabs d t @ [r])"
  by (simp_all add: set_tab_def begin_tx_def commit_tx_def ins_def)

lemma frame_simps [simp]:
  "txs (set_tab t rs d) = txs d" "fks (set_tab t rs d) = fks d" "like (set_tab t rs d) = like d"
  "txs (ins t r d) = txs d" "fks (ins t r d) = fks d" "like (ins t r d) = like d"
  "txs (put t r d) = txs d" "fks (put t r d) = fks d" "like (put t r d) = like d"
  "txs (upd t cs cvs d) = txs d" "fks (upd t cs cvs d) = fks d" "like (upd t cs cvs d) = like d"
  "txs (del t cs d) = txs d" "fks (del t cs d) = fks d" "like (del t cs d) = like d"
  "fks (begin_tx d) = fks d" "like (begin_tx d) = like d" "txs (begin_tx d) = tabs d # txs d"
  "fks (commit_tx d) = fks d" "like (commit_tx d) = like d" "txs (commit_tx d) = tl (txs d)"
  "fks (rollback_tx d) = fks d" "like (rollback_tx d) = like d"
  by (simp_all add: set_tab_def ins_def put_def upd_def del_def begin_tx_def commit_tx_def
      rollback_tx_def split: list.splits)

lemma wf_set_tab: "wf d \<Longrightarrow> pk_ok t rs \<Longrightarrow> wf (set_tab t rs d)"
  by (simp add: wf_def)

lemma wf_ins: "wf d \<Longrightarrow> \<not> dupkey t r d \<Longrightarrow> wf (ins t r d)"
  by (auto simp: wf_def pk_ok_snoc dupkey_def)

lemma wf_put: "wf d \<Longrightarrow> wf (put t r d)"
  by (auto simp: put_def intro!: wf_ins wf_set_tab pk_ok_replace) (simp add: wf_def)

lemma wf_del: "wf d \<Longrightarrow> wf (del t cs d)"
  by (auto simp: wf_def del_def intro: pk_ok_filter)

lemma wf_upd: "wf d \<Longrightarrow> pk_ok t (tabs (upd t cs cvs d) t) \<Longrightarrow> wf (upd t cs cvs d)"
  by (simp add: upd_def wf_def)

lemma wf_tx: "wf d \<Longrightarrow> wf (begin_tx d)" "wf d \<Longrightarrow> wf (commit_tx d)" "wf d \<Longrightarrow> wf (rollback_tx d)"
  by (auto simp: wf_def rollback_tx_def dest: list.set_sel(2) split: list.splits)
     (metis list.set_sel(2) tl_Nil)

lemma wf_add_fks [simp]: "wf (add_fks fs d) = wf d"
  by (simp add: wf_def add_fks_def)

lemma wf_step: "stepR s d x d' \<Longrightarrow> wf d \<Longrightarrow> wf d'"
  by (cases s) (auto simp: stepR_def wf_ins wf_put wf_del wf_upd wf_tx split: if_splits)

lemma wf_wp: "wf d \<Longrightarrow> wp p (\<lambda>_ d'. wf d') d"
  by (induction p arbitrary: d) (auto simp: wp.simps(2) dest: wf_step)

section \<open>Rows by a single-column primary key\<close>

definition lookup :: "tname \<Rightarrow> sqlval \<Rightarrow> sqldb \<Rightarrow> row option" where
  "lookup t v d = find (\<lambda>r. sql_eq (r (hd (pkcols t))) v) (tabs d t)"

lemma find_unique_filter:
  assumes "sorted_wrt (\<lambda>a b. \<not> (P a \<and> P b)) xs"
  shows "filter P xs = (case find P xs of None \<Rightarrow> [] | Some x \<Rightarrow> [x])"
  using assms by (induction xs) (auto simp: filter_empty_conv split: option.splits)

lemma find_filter_unique:
  assumes "sorted_wrt (\<lambda>a b. \<not> (P a \<and> P b)) xs"
  shows "find P (filter Q xs) = (case find P xs of None \<Rightarrow> None | Some x \<Rightarrow> if Q x then Some x else None)"
proof -
  have none: "find P (filter Q ys) = None" if "\<forall>b\<in>set ys. \<not> P b" for ys
    using that by (auto simp: find_None_iff)
  from assms show ?thesis
    by (induction xs) (auto simp: none split: option.splits)
qed

lemma key_unique:
  assumes "wf d" "pkcols t = [c]"
  shows "sorted_wrt (\<lambda>a b. \<not> (sql_eq (a c) v \<and> sql_eq (b c) v)) (tabs d t)"
  using assms(1)[unfolded wf_def, THEN conjunct1, rule_format, of t] assms(2)
  by (auto simp: pk_ok_def same_key_def sql_eq_def elim!: sorted_wrt_mono_rel[rotated])

lemma rows_key:
  assumes "wf d" "pkcols t = [c]"
  shows "rows t [CEq c v] d = (case lookup t v d of None \<Rightarrow> [] | Some r \<Rightarrow> [r])"
  using find_unique_filter[OF key_unique[OF assms, of v]] assms(2)
  by (simp add: rows_def lookup_def)

lemma lookup_key: "lookup t v d = Some r \<Longrightarrow> pkcols t = [c] \<Longrightarrow> r c = v \<and> v \<noteq> VNull"
  by (auto simp: lookup_def find_Some_iff sql_eq_def)

lemma lookup_mem: "lookup t v d = Some r \<Longrightarrow> r \<in> set (tabs d t)"
  by (auto simp: lookup_def find_Some_iff)

lemma dupkey_lookup: "pkcols t = [c] \<Longrightarrow> dupkey t r d \<longleftrightarrow> lookup t (r c) d \<noteq> None"
  using sql_eq_sym by (auto simp: dupkey_def lookup_def same_key_def find_None_iff)

lemma find_append: "find P (xs @ ys) = (case find P xs of None \<Rightarrow> find P ys | Some x \<Rightarrow> Some x)"
  by (induction xs) auto

lemma lookup_ins:
  assumes "pkcols t = [c]" "\<not> dupkey t r d"
  shows "lookup u v (ins t r d) = (if u = t \<and> sql_eq (r c) v then Some r else lookup u v d)"
  using assms by (auto simp: lookup_def find_append dupkey_lookup sql_eq_def split: option.splits)

lemma find_replace:
  "find (\<lambda>r'. sql_eq (r' c) v) (map (\<lambda>r'. if sql_eq (r c) (r' c) then r else r') rs) =
     (if sql_eq (r c) v then (if find (\<lambda>r'. sql_eq (r' c) v) rs = None then None else Some r)
      else find (\<lambda>r'. sql_eq (r' c) v) rs)"
proof (induction rs)
  case (Cons a rs)
  have "sql_eq (a c) v = sql_eq (r c) v" if "sql_eq (r c) (a c)"
    using that by (simp add: sql_eq_def)
  moreover have "\<not> sql_eq (a c) v" if "\<not> sql_eq (r c) (a c)" "sql_eq (r c) v"
    using that by (auto simp: sql_eq_def)
  ultimately show ?case using Cons.IH by auto
qed simp

lemma lookup_put:
  assumes "pkcols t = [c]"
  shows "lookup u v (put t r d) = (if u = t \<and> sql_eq (r c) v then Some r else lookup u v d)"
proof (cases "dupkey t r d")
  case True
  with assms have "lookup t (r c) d \<noteq> None" by (simp add: dupkey_lookup)
  with True assms show ?thesis
    by (cases "u = t"; cases "sql_eq (r c) v")
       (auto simp: put_def lookup_def same_key_def find_replace, simp_all add: sql_eq_def)
next
  case False
  with assms show ?thesis by (simp add: put_def lookup_ins)
qed

lemma lookup_del:
  assumes "wf d" "pkcols u = [c]"
  shows "lookup u v (del t cs d) = (case lookup u v d of None \<Rightarrow> None
     | Some r \<Rightarrow> if u = t \<and> matching t cs d r \<or> orphan t (rows t cs d) d u r then None else Some r)"
  using find_filter_unique[OF key_unique[OF assms, of v], of
      "\<lambda>r. \<not> (u = t \<and> matching t cs d r) \<and> \<not> orphan t (rows t cs d) d u r"] assms(2)
  by (auto simp: lookup_def del_def split: option.splits)

lemma set_cols_other: "c \<notin> fst ` set cvs \<Longrightarrow> set_cols cvs r c = r c"
  by (induction cvs arbitrary: r) (auto simp: set_cols_def)

lemma set_cols_simps [simp]:
  "set_cols [] r = r"
  "set_cols ((c, v) # cvs) r = set_cols cvs (r(c := v))"
  by (simp_all add: set_cols_def)

lemma find_map_cong:
  "(\<And>x. P (f x) = P x) \<Longrightarrow> find P (map f xs) = map_option f (find P xs)"
  by (induction xs) auto

lemma lookup_upd:
  assumes "pkcols u = [c]" "c \<notin> fst ` set cvs"
  shows "lookup u v (upd t cs cvs d) =
     map_option (\<lambda>r. if u = t \<and> matching t cs d r then set_cols cvs r else r) (lookup u v d)"
proof -
  have "(if P then set_cols cvs x else x) c = x c" for P x
    using assms(2) by (simp add: set_cols_other)
  with assms(1) show ?thesis
    by (cases "u = t") (auto simp: lookup_def upd_def option.map_ident intro!: find_map_cong)
qed

lemma pk_ok_upd:
  assumes "set (pkcols t) \<inter> fst ` set cvs = {}"
  shows "pk_ok t (tabs (upd t cs cvs d) t) = pk_ok t (tabs d t)"
proof -
  have c: "c \<notin> fst ` set cvs" if "c \<in> set (pkcols t)" for c using assms that by blast
  have "same_key t (if P then set_cols cvs a else a) (if Q then set_cols cvs b else b) = same_key t a b"
    for P Q a b by (auto simp: same_key_def c set_cols_other)
  then show ?thesis
    by (simp add: pk_ok_def upd_def sorted_wrt_map)
qed

text \<open>\<^verbatim>\<open>FirstOrCreate\<close> by the primary key.\<close>

lemma wp_dbFirstOrCreate_key:
  assumes "wf d" "pkcols t = [c]" "c \<notin> fst ` set cvs" "r0 c = v"
  shows "wp (dbFirstOrCreate t [CEq c v] cvs r0) Q d \<longleftrightarrow>
     (\<forall>m. Q (Inl (ErrDriver m)) d) \<and>
     (if lookup t v d = None
      then (if fk_ok t (set_cols cvs r0) d then Q (Inr ()) (ins t (set_cols cvs r0) d)
            else (\<forall>e. fk_error e \<longrightarrow> Q (Inl e) d))
      else Q (Inr ()) (upd t [CEq c v] cvs d))"
proof -
  have "pk_ok t (tabs d t)" using assms(1) by (simp add: wf_def)
  with assms show ?thesis
    by (auto simp: wp_dbFirstOrCreate rows_key pk_ok_upd dupkey_lookup set_cols_other split: option.splits)
qed

lemma lookup_tx [simp]:
  "lookup t v (begin_tx d) = lookup t v d" "lookup t v (commit_tx d) = lookup t v d"
  by (simp_all add: lookup_def)

lemma rows_tx [simp]:
  "rows t cs (begin_tx d) = rows t cs d" "rows t cs (commit_tx d) = rows t cs d"
  by (simp_all add: rows_def)

lemma checks_tx [simp]:
  "dupkey t r (begin_tx d) = dupkey t r d" "fk_ok t r (begin_tx d) = fk_ok t r d"
  by (simp_all add: dupkey_def fk_ok_def)

lemma rollback_simps [simp]:
  "rollback_tx (begin_tx d) = d"
  "txs d \<noteq> [] \<Longrightarrow> rollback_tx (ins t r d) = rollback_tx d"
  "txs d \<noteq> [] \<Longrightarrow> rollback_tx (put t r d) = rollback_tx d"
  "txs d \<noteq> [] \<Longrightarrow> rollback_tx (upd t cs cvs d) = rollback_tx d"
  "txs d \<noteq> [] \<Longrightarrow> rollback_tx (del t cs d) = rollback_tx d"
  by (auto simp: rollback_tx_def begin_tx_def set_tab_def ins_def put_def upd_def del_def
      split: list.splits)

lemma commit_simps [simp]:
  "commit_tx (begin_tx d) = d"
  "commit_tx (ins t r d) = ins t r (commit_tx d)"
  "commit_tx (put t r d) = put t r (commit_tx d)"
  "commit_tx (upd t cs cvs d) = upd t cs cvs (commit_tx d)"
  "commit_tx (del t cs d) = del t cs (commit_tx d)"
  by (simp_all add: commit_tx_def begin_tx_def set_tab_def ins_def put_def upd_def del_def
      dupkey_def orphan_def rows_def)

section \<open>An engine that meets the contract\<close>

fun sql_exec :: "stmt \<Rightarrow> sqldb \<Rightarrow> sqlres \<times> sqldb" where
  "sql_exec (SCreate t r) d =
     (if dupkey t r d then (fail (ErrSqlite sqlite_ErrConstraint), d)
      else if \<not> fk_ok t r d then (fail (ErrSqlite sqlite_ErrConstraint), d)
      else (ok_n 1, ins t r d))"
| "sql_exec (SCreateDoNothing t r) d =
     (if dupkey t r d then (ok_n 0, d)
      else if \<not> fk_ok t r d then (fail (ErrSqlite sqlite_ErrConstraint), d)
      else (ok_n 1, ins t r d))"
| "sql_exec (SSave t r) d =
     (if \<not> fk_ok t r d then (fail (ErrSqlite sqlite_ErrConstraint), d) else (ok_n 1, put t r d))"
| "sql_exec (SFirst t cs) d =
     (case rows t cs d of [] \<Rightarrow> (fail ErrRecordNotFound, d) | r # _ \<Rightarrow> (ok_rows [r], d))"
| "sql_exec (SFind t cs ord lim off) d =
     (ok_rows (page lim off (sort_key (ord_key ord) (rows t cs d))), d)"
| "sql_exec (SCount t cs) d = (ok_n (length (rows t cs d)), d)"
| "sql_exec (SDelete t cs) d = (ok_n (length (rows t cs d)), del t cs d)"
| "sql_exec (SUpdate t cs cvs) d =
     (if pk_ok t (tabs (upd t cs cvs d) t) then (ok_n (length (rows t cs d)), upd t cs cvs d)
      else (fail (ErrSqlite sqlite_ErrConstraint), d))"
| "sql_exec (SFirstOrCreate t cs cvs r0) d =
     (case rows t cs d of
        [] \<Rightarrow> (if dupkey t (set_cols cvs r0) d then (fail (ErrSqlite sqlite_ErrConstraint), d)
               else if \<not> fk_ok t (set_cols cvs r0) d then (fail (ErrSqlite sqlite_ErrConstraint), d)
               else (ok_rows [set_cols cvs r0], ins t (set_cols cvs r0) d))
      | r # _ \<Rightarrow> (if pk_ok t (tabs (upd t cs cvs d) t)
                  then (ok_rows [set_cols cvs r], upd t cs cvs d)
                  else (fail (ErrSqlite sqlite_ErrConstraint), d)))"
| "sql_exec (SLeftJoin t c u c' cs ord) d =
     (ok_pairs (sort_key (\<lambda>p. ord_key (map_option (\<lambda>c. (c, True)) ord) (fst p))
        (filter (join_cond cs d) (join t c u c' d))), d)"
| "sql_exec SBegin d = (ok_n 0, begin_tx d)"
| "sql_exec SCommit d = (ok_n 0, commit_tx d)"
| "sql_exec SRollback d = (ok_n 0, rollback_tx d)"
| "sql_exec SPing d = (ok_n 0, d)"
| "sql_exec (SMigrate ts fs) d = (ok_n 0, d)"
| "sql_exec (SHasConstraint f) d = (ok_n (if f \<in> set (fks d) then 1 else 0), d)"
| "sql_exec (SCreateConstraint f) d = (ok_n 0, add_fks [f] d)"

lemma sort_key_exists: "P (sort_key f xs) \<Longrightarrow> \<exists>ys. mset ys = mset xs \<and> sorted (map f ys) \<and> P ys"
  by (rule exI[of _ "sort_key f xs"]) simp

lemma sql_exec_sqlR: "sql_exec s d = (x, d') \<Longrightarrow> sqlR s d x d'"
proof (cases s)
  case (SFind t cs ord lim off)
  assume "sql_exec s d = (x, d')"
  with SFind show ?thesis
    using sort_key_exists[of "\<lambda>ys. x = ok_rows (page lim off ys)" "ord_key ord" "rows t cs d"]
    by auto
next
  case (SLeftJoin t c u c' cs ord)
  assume "sql_exec s d = (x, d')"
  with SLeftJoin show ?thesis
    using sort_key_exists[of "\<lambda>ys. x = ok_pairs ys"
        "\<lambda>p. ord_key (map_option (\<lambda>c. (c, True)) ord) (fst p)"
        "filter (join_cond cs d) (join t c u c' d)"]
    by auto
next
  case (SMigrate ts fs)
  assume "sql_exec s d = (x, d')"
  with SMigrate show ?thesis by (auto simp: add_fks_def intro!: exI[of _ "[]"])
qed (auto simp: dup_error_def fk_error_def split: list.splits if_splits)

interpretation sql: gorm_engine sql_exec "\<lambda>d. d"
  by unfold_locales (simp add: stepR_def sql_exec_sqlR)

text \<open>The empty database after the schema migration, without foreign keys (the owner and
  manufacturing servers) or with those of the rendezvous server.\<close>

definition empty_db :: "fkey list \<Rightarrow> sqldb" where
  "empty_db fs = \<lparr>tabs = (\<lambda>_. []), txs = [], fks = fs, like = (\<lambda>p s. False)\<rparr>"

lemma wf_empty_db: "wf (empty_db fs)"
  by (simp add: wf_def empty_db_def pk_ok_def)

end
