(* ===== verification/Models.thy ===== *)
theory Models
  imports Gorm
begin

text \<open>
  The rows of the database as the code has them: one record per gorm model of
  \<^verbatim>\<open>internal/db/models.go\<close> and \<^verbatim>\<open>internal/state\<close>, with the conversion to the
  columns of its table and back. A nullable column is an option; a column
  without a field of its own in a struct is \<^verbatim>\<open>NULL\<close>.
\<close>

definition row_of :: "(string \<times> sqlval) list \<Rightarrow> row" where
  "row_of cvs = (\<lambda>c. case map_of cvs c of None \<Rightarrow> VNull | Some v \<Rightarrow> v)"

definition nullable :: "('a \<Rightarrow> sqlval) \<Rightarrow> 'a option \<Rightarrow> sqlval" where
  "nullable f x = (case x of None \<Rightarrow> VNull | Some y \<Rightarrow> f y)"

fun asBytes :: "sqlval \<Rightarrow> bytes option" where
  "asBytes (VBytes b) = Some b" | "asBytes _ = None"

fun asInt :: "sqlval \<Rightarrow> int option" where
  "asInt (VInt i) = Some i" | "asInt _ = None"

fun asText :: "sqlval \<Rightarrow> string option" where
  "asText (VText s) = Some s" | "asText _ = None"

fun asBool :: "sqlval \<Rightarrow> bool option" where
  "asBool (VBool b) = Some b" | "asBool _ = None"

fun asTime :: "sqlval \<Rightarrow> int option" where
  "asTime (VTime t) = Some t" | "asTime _ = None"

text \<open>A \<^verbatim>\<open>NULL\<close> scanned into a plain field leaves its zero value.\<close>

definition orNil :: "bytes option \<Rightarrow> bytes" where "orNil x = (case x of None \<Rightarrow> [] | Some b \<Rightarrow> b)"
definition orZero :: "int option \<Rightarrow> int" where "orZero x = (case x of None \<Rightarrow> 0 | Some i \<Rightarrow> i)"
definition orFalse :: "bool option \<Rightarrow> bool" where "orFalse x = (case x of None \<Rightarrow> False | Some b \<Rightarrow> b)"

lemma conv_simps [simp]:
  "orNil (Some b) = b" "orNil None = []" "orZero (Some i) = i" "orZero None = 0"
  "orFalse (Some c) = c" "orFalse None = False"
  "nullable f None = VNull" "nullable f (Some y) = f y"
  by (simp_all add: orNil_def orZero_def orFalse_def nullable_def)

lemma nullable_inverse [simp]:
  "asBytes (nullable VBytes x) = x" "asInt (nullable VInt i) = i" "asText (nullable VText s) = s"
  "asBool (nullable VBool b) = b" "asTime (nullable VTime m) = m"
  by (auto simp: nullable_def split: option.splits)

section \<open>Keys\<close>

text \<open>Models \<^verbatim>\<open>MfgKey\<close> and \<^verbatim>\<open>OwnerKey\<close>, which have the same columns.\<close>

record key_row =
  key_Type :: int
  key_PKCS8 :: bytes
  key_RsaBits :: "int option"
  key_X509Chain :: "bytes option"

definition key_toRow :: "key_row \<Rightarrow> row" where
  "key_toRow k = row_of [(''type'', VInt (key_Type k)), (''pkcs8'', VBytes (key_PKCS8 k)),
     (''rsa_bits'', nullable VInt (key_RsaBits k)), (''x509_chain'', nullable VBytes (key_X509Chain k))]"

definition key_fromRow :: "row \<Rightarrow> key_row" where
  "key_fromRow r = \<lparr>key_Type = orZero (asInt (r ''type'')), key_PKCS8 = orNil (asBytes (r ''pkcs8'')),
     key_RsaBits = asInt (r ''rsa_bits''), key_X509Chain = asBytes (r ''x509_chain'')\<rparr>"

section \<open>Rendezvous blobs\<close>

record rv_blob =
  rb_GUID :: bytes
  rb_RV :: bytes
  rb_Voucher :: bytes
  rb_Exp :: int

definition rv_blob_toRow :: "rv_blob \<Rightarrow> row" where
  "rv_blob_toRow b = row_of [(''guid'', VBytes (rb_GUID b)), (''rv'', VBytes (rb_RV b)),
     (''voucher'', VBytes (rb_Voucher b)), (''exp'', VTime (rb_Exp b))]"

definition rv_blob_fromRow :: "row \<Rightarrow> rv_blob" where
  "rv_blob_fromRow r = \<lparr>rb_GUID = orNil (asBytes (r ''guid'')), rb_RV = orNil (asBytes (r ''rv'')),
     rb_Voucher = orNil (asBytes (r ''voucher'')), rb_Exp = orZero (asTime (r ''exp''))\<rparr>"

section \<open>Sessions\<close>

text \<open>The creation time is a column of the rendezvous server's model only.\<close>

record session =
  ses_ID :: bytes
  ses_Protocol :: int
  ses_CreatedAt :: "int option"

definition session_toRow :: "session \<Rightarrow> row" where
  "session_toRow s = row_of [(''id'', VBytes (ses_ID s)), (''protocol'', VInt (ses_Protocol s)),
     (''created_at'', nullable VTime (ses_CreatedAt s))]"

record device_info =
  di_Session :: bytes
  di_KeyType :: "int option"
  di_KeyEncoding :: "int option"
  di_SerialNumber :: "string option"
  di_InfoString :: "string option"
  di_CSR :: "bytes option"
  di_X509Chain :: bytes

definition device_info_toRow :: "device_info \<Rightarrow> row" where
  "device_info_toRow d = row_of [(''session'', VBytes (di_Session d)),
     (''key_type'', nullable VInt (di_KeyType d)), (''key_encoding'', nullable VInt (di_KeyEncoding d)),
     (''serial_number'', nullable VText (di_SerialNumber d)),
     (''info_string'', nullable VText (di_InfoString d)), (''csr'', nullable VBytes (di_CSR d)),
     (''x509_chain'', VBytes (di_X509Chain d))]"

record incomplete_voucher =
  iv_Session :: bytes
  iv_Header :: bytes

definition incomplete_voucher_toRow :: "incomplete_voucher \<Rightarrow> row" where
  "incomplete_voucher_toRow v =
     row_of [(''session'', VBytes (iv_Session v)), (''header'', VBytes (iv_Header v))]"

record to0_session =
  to0_Session :: bytes
  to0_Nonce :: bytes

definition to0_session_toRow :: "to0_session \<Rightarrow> row" where
  "to0_session_toRow s = row_of [(''session'', VBytes (to0_Session s)), (''nonce'', VBytes (to0_Nonce s))]"

record to1_session =
  to1_Session :: bytes
  to1_Nonce :: bytes
  to1_Alg :: "int option"

definition to1_session_toRow :: "to1_session \<Rightarrow> row" where
  "to1_session_toRow s = row_of [(''session'', VBytes (to1_Session s)),
     (''nonce'', VBytes (to1_Nonce s)), (''alg'', nullable VInt (to1_Alg s))]"

record to2_session =
  to2_Session :: bytes
  to2_GUID :: "bytes option"
  to2_RvInfo :: "bytes option"
  to2_ProveDevice :: "bytes option"
  to2_SetupDevice :: "bytes option"
  to2_MTU :: "int option"
  to2_Devmod :: "bytes option"
  to2_Modules :: "bytes option"
  to2_DevmodComplete :: "bool option"

definition to2_session_toRow :: "to2_session \<Rightarrow> row" where
  "to2_session_toRow s = row_of [(''session'', VBytes (to2_Session s)),
     (''guid'', nullable VBytes (to2_GUID s)), (''rv_info'', nullable VBytes (to2_RvInfo s)),
     (''prove_device'', nullable VBytes (to2_ProveDevice s)),
     (''setup_device'', nullable VBytes (to2_SetupDevice s)), (''mtu'', nullable VInt (to2_MTU s)),
     (''devmod'', nullable VBytes (to2_Devmod s)), (''modules'', nullable VBytes (to2_Modules s)),
     (''devmod_complete'', nullable VBool (to2_DevmodComplete s))]"

definition to2_session_fromRow :: "row \<Rightarrow> to2_session" where
  "to2_session_fromRow r = \<lparr>to2_Session = orNil (asBytes (r ''session'')),
     to2_GUID = asBytes (r ''guid''), to2_RvInfo = asBytes (r ''rv_info''),
     to2_ProveDevice = asBytes (r ''prove_device''), to2_SetupDevice = asBytes (r ''setup_device''),
     to2_MTU = asInt (r ''mtu''), to2_Devmod = asBytes (r ''devmod''),
     to2_Modules = asBytes (r ''modules''), to2_DevmodComplete = asBool (r ''devmod_complete'')\<rparr>"

record replacement_voucher =
  rep_Session :: bytes
  rep_GUID :: "bytes option"
  rep_Hmac :: "bytes option"

definition replacement_voucher_toRow :: "replacement_voucher \<Rightarrow> row" where
  "replacement_voucher_toRow v = row_of [(''session'', VBytes (rep_Session v)),
     (''guid'', nullable VBytes (rep_GUID v)), (''hmac'', nullable VBytes (rep_Hmac v))]"

definition replacement_voucher_fromRow :: "row \<Rightarrow> replacement_voucher" where
  "replacement_voucher_fromRow r = \<lparr>rep_Session = orNil (asBytes (r ''session'')),
     rep_GUID = asBytes (r ''guid''), rep_Hmac = asBytes (r ''hmac'')\<rparr>"

record key_exchange =
  kex_Session :: bytes
  kex_Suite :: string
  kex_CBOR :: bytes

definition key_exchange_toRow :: "key_exchange \<Rightarrow> row" where
  "key_exchange_toRow k = row_of [(''session'', VBytes (kex_Session k)),
     (''suite'', VText (kex_Suite k)), (''cbor'', VBytes (kex_CBOR k))]"

definition key_exchange_fromRow :: "row \<Rightarrow> key_exchange" where
  "key_exchange_fromRow r = \<lparr>kex_Session = orNil (asBytes (r ''session'')),
     kex_Suite = orNil (asText (r ''suite'')), kex_CBOR = orNil (asBytes (r ''cbor''))\<rparr>"

section \<open>Vouchers and onboarding state\<close>

record voucher_row =
  vou_GUID :: bytes
  vou_CBOR :: bytes
  vou_DeviceInfo :: string
  vou_CreatedAt :: int
  vou_UpdatedAt :: int

definition voucher_toRow :: "voucher_row \<Rightarrow> row" where
  "voucher_toRow v = row_of [(''guid'', VBytes (vou_GUID v)), (''cbor'', VBytes (vou_CBOR v)),
     (''device_info'', VText (vou_DeviceInfo v)), (''created_at'', VTime (vou_CreatedAt v)),
     (''updated_at'', VTime (vou_UpdatedAt v))]"

definition voucher_fromRow :: "row \<Rightarrow> voucher_row" where
  "voucher_fromRow r = \<lparr>vou_GUID = orNil (asBytes (r ''guid'')), vou_CBOR = orNil (asBytes (r ''cbor'')),
     vou_DeviceInfo = orNil (asText (r ''device_info'')), vou_CreatedAt = orZero (asTime (r ''created_at'')),
     vou_UpdatedAt = orZero (asTime (r ''updated_at''))\<rparr>"

record owner_info_row =
  oi_ID :: int
  oi_Value :: bytes

text \<open>Models \<^verbatim>\<open>OwnerInfo\<close> and \<^verbatim>\<open>RvInfo\<close>: a single row with identifier 1.\<close>

definition singleton_toRow :: "owner_info_row \<Rightarrow> row" where
  "singleton_toRow s = row_of [(''id'', VInt (oi_ID s)), (''value'', VBytes (oi_Value s))]"

record device_onboarding =
  do_GUID :: bytes
  do_NewGUID :: "bytes option"
  do_TO2Completed :: bool
  do_TO2CompletedAt :: "int option"

definition device_onboarding_toRow :: "device_onboarding \<Rightarrow> row" where
  "device_onboarding_toRow d = row_of [(''guid'', VBytes (do_GUID d)),
     (''new_guid'', nullable VBytes (do_NewGUID d)), (''to2_completed'', VBool (do_TO2Completed d)),
     (''to2_completed_at'', nullable VTime (do_TO2CompletedAt d))]"

definition device_onboarding_fromRow :: "row \<Rightarrow> device_onboarding" where
  "device_onboarding_fromRow r = \<lparr>do_GUID = orNil (asBytes (r ''guid'')),
     do_NewGUID = asBytes (r ''new_guid''), do_TO2Completed = orFalse (asBool (r ''to2_completed'')),
     do_TO2CompletedAt = asTime (r ''to2_completed_at'')\<rparr>"

text \<open>The projection of a voucher with its onboarding state.\<close>

record device =
  dev_GUID :: bytes
  dev_OldGUID :: bytes
  dev_DeviceInfo :: string
  dev_CreatedAt :: int
  dev_UpdatedAt :: int
  dev_TO2Completed :: bool
  dev_TO2CompletedAt :: "int option"

section \<open>Trusted device CA certificates\<close>

record device_ca_cert =
  ca_Fingerprint :: string
  ca_PEM :: string
  ca_Subject :: string
  ca_Issuer :: string
  ca_NotBefore :: int
  ca_NotAfter :: int
  ca_CreatedAt :: int

definition device_ca_toRow :: "device_ca_cert \<Rightarrow> row" where
  "device_ca_toRow c = row_of [(''fingerprint'', VText (ca_Fingerprint c)), (''pem'', VText (ca_PEM c)),
     (''subject'', VText (ca_Subject c)), (''issuer'', VText (ca_Issuer c)),
     (''not_before'', VTime (ca_NotBefore c)), (''not_after'', VTime (ca_NotAfter c)),
     (''created_at'', VTime (ca_CreatedAt c))]"

definition device_ca_fromRow :: "row \<Rightarrow> device_ca_cert" where
  "device_ca_fromRow r = \<lparr>ca_Fingerprint = orNil (asText (r ''fingerprint'')),
     ca_PEM = orNil (asText (r ''pem'')), ca_Subject = orNil (asText (r ''subject'')),
     ca_Issuer = orNil (asText (r ''issuer'')), ca_NotBefore = orZero (asTime (r ''not_before'')),
     ca_NotAfter = orZero (asTime (r ''not_after'')), ca_CreatedAt = orZero (asTime (r ''created_at''))\<rparr>"

lemmas toRow_defs = row_of_def key_toRow_def rv_blob_toRow_def session_toRow_def device_info_toRow_def
  incomplete_voucher_toRow_def to0_session_toRow_def to1_session_toRow_def to2_session_toRow_def
  replacement_voucher_toRow_def key_exchange_toRow_def voucher_toRow_def singleton_toRow_def
  device_onboarding_toRow_def device_ca_toRow_def

lemmas fromRow_defs = key_fromRow_def rv_blob_fromRow_def to2_session_fromRow_def
  replacement_voucher_fromRow_def key_exchange_fromRow_def voucher_fromRow_def
  device_onboarding_fromRow_def device_ca_fromRow_def

text \<open>A stored record reads back as it was written.\<close>

lemma fromRow_toRow [simp]:
  "key_fromRow (key_toRow k) = k"
  "rv_blob_fromRow (rv_blob_toRow b) = b"
  "to2_session_fromRow (to2_session_toRow s) = s"
  "replacement_voucher_fromRow (replacement_voucher_toRow v) = v"
  "key_exchange_fromRow (key_exchange_toRow x) = x"
  "voucher_fromRow (voucher_toRow vo) = vo"
  "device_onboarding_fromRow (device_onboarding_toRow d) = d"
  "device_ca_fromRow (device_ca_toRow c) = c"
  by (simp_all add: toRow_defs fromRow_defs)

end
