(* ===== verification/Base64.thy ===== *)
theory Base64
  imports Hex
begin

text \<open>
  \<^verbatim>\<open>base64.RawURLEncoding\<close>: the unpadded URL alphabet that session tokens are
  written in. The decoder drops carriage returns and line feeds, refuses any
  other character outside the alphabet and a single left-over character, and
  does not look at the unused bits of the last character.
\<close>

text \<open>The alphabet: \<^verbatim>\<open>A-Z\<close>, \<^verbatim>\<open>a-z\<close>, \<^verbatim>\<open>0-9\<close>, \<^verbatim>\<open>-\<close> and \<^verbatim>\<open>_\<close>.\<close>

definition b64char :: "nat \<Rightarrow> char" where
  "b64char n = char_of
     (if n < 26 then n + 65 else if n < 52 then n + 71 else if n < 62 then n - 4
      else if n = 62 then 45 else 95 :: nat)"

definition b64val :: "char \<Rightarrow> nat option" where
  "b64val c = (let n = of_char c :: nat in
     if 65 \<le> n \<and> n \<le> 90 then Some (n - 65)
     else if 97 \<le> n \<and> n \<le> 122 then Some (n - 71)
     else if 48 \<le> n \<and> n \<le> 57 then Some (n + 4)
     else if n = 45 then Some 62
     else if n = 95 then Some 63
     else None)"

fun b64Encode :: "bytes \<Rightarrow> string" where
  "b64Encode [] = []"
| "b64Encode [a] =
     (let x = of_char a :: nat in [b64char (x div 4), b64char (x mod 4 * 16)])"
| "b64Encode [a, b] =
     (let x = of_char a :: nat; y = of_char b
      in [b64char (x div 4), b64char (x mod 4 * 16 + y div 16), b64char (y mod 16 * 4)])"
| "b64Encode (a # b # c # cs) =
     (let x = of_char a :: nat; y = of_char b; z = of_char c
      in b64char (x div 4) # b64char (x mod 4 * 16 + y div 16) #
         b64char (y mod 16 * 4 + z div 64) # b64char (z mod 64) # b64Encode cs)"

fun b64Decode_chars :: "string \<Rightarrow> bytes option" where
  "b64Decode_chars [] = Some []"
| "b64Decode_chars [_] = None"
| "b64Decode_chars [a, b] =
     (case (b64val a, b64val b) of
        (Some i, Some j) \<Rightarrow> Some [char_of (i * 4 + j div 16)]
      | _ \<Rightarrow> None)"
| "b64Decode_chars [a, b, c] =
     (case (b64val a, b64val b, b64val c) of
        (Some i, Some j, Some k) \<Rightarrow>
          Some [char_of (i * 4 + j div 16), char_of (j mod 16 * 16 + k div 4)]
      | _ \<Rightarrow> None)"
| "b64Decode_chars (a # b # c # d # cs) =
     (case (b64val a, b64val b, b64val c, b64val d, b64Decode_chars cs) of
        (Some i, Some j, Some k, Some l, Some bs) \<Rightarrow>
          Some (char_of (i * 4 + j div 16) # char_of (j mod 16 * 16 + k div 4) #
                char_of (k mod 4 * 64 + l) # bs)
      | _ \<Rightarrow> None)"

definition b64Decode :: "string \<Rightarrow> bytes option" where
  "b64Decode s = b64Decode_chars (filter (\<lambda>c. c \<noteq> CHR 0x0A \<and> c \<noteq> CHR 0x0D) s)"

lemma b64_cases:
  assumes "n < 64"
  shows "b64val (b64char n) = Some n \<and> b64char n \<noteq> CHR 0x0A \<and> b64char n \<noteq> CHR 0x0D"
proof -
  have "of_char (b64char n) = (if n < 26 then n + 65 else if n < 52 then n + 71
      else if n < 62 then n - 4 else if n = 62 then 45 else 95)"
    using assms by (auto simp: b64char_def)
  moreover from this have "of_char (b64char n) \<noteq> (10::nat)" "of_char (b64char n) \<noteq> (13::nat)"
    using assms by (auto split: if_splits)
  ultimately show ?thesis using assms
    by (auto simp: b64val_def Let_def)
qed

lemma b64_val_char [simp]: "n < 64 \<Longrightarrow> b64val (b64char n) = Some n"
  using b64_cases by blast

lemma b64_not_newline: "n < 64 \<Longrightarrow> b64char n \<noteq> CHR 0x0A" "n < 64 \<Longrightarrow> b64char n \<noteq> CHR 0x0D"
  using b64_cases by blast+

lemma join_div_mod: "b < m \<Longrightarrow> (a * m + b) div m = (a::nat)" "b < m \<Longrightarrow> (a * m + b) mod m = (b::nat)"
  by simp_all

text \<open>The sextets of octets are below 64 and reassemble to them.\<close>

lemma octet_divs:
  "of_char c div 4 < (64::nat)" "of_char c div 16 < (16::nat)" "of_char c div 64 < (4::nat)"
  by (rule less_mult_imp_div_less; simp add: of_char_lt)+

lemma sextet_bounds:
  "x mod 4 * 16 < (64::nat)" "y mod 16 * 4 < (64::nat)" "z mod 64 < (64::nat)"
  "b < 16 \<Longrightarrow> x mod 4 * 16 + b < (64::nat)" "b < 4 \<Longrightarrow> y mod 16 * 4 + b < (64::nat)"
proof -
  have "x mod 4 \<le> 3" "y mod 16 \<le> 15" by (simp_all add: less_Suc_eq_le[symmetric])
  then show "x mod 4 * 16 < 64" "y mod 16 * 4 < 64" "z mod 64 < 64"
    "b < 16 \<Longrightarrow> x mod 4 * 16 + b < 64" "b < 4 \<Longrightarrow> y mod 16 * 4 + b < 64"
    by simp_all
qed

lemmas sextets = octet_divs sextet_bounds join_div_mod

lemma b64Decode_chars_b64Encode: "b64Decode_chars (b64Encode bs) = Some bs"
  by (induction bs rule: b64Encode.induct) (simp_all add: Let_def sextets)

lemma b64Encode_no_newline:
  "CHR 0x0A \<notin> set (b64Encode bs) \<and> CHR 0x0D \<notin> set (b64Encode bs)"
  by (induction bs rule: b64Encode.induct)
     (simp_all add: Let_def sextets b64_not_newline b64_not_newline[symmetric])

lemma b64Decode_b64Encode [simp]: "b64Decode (b64Encode bs) = Some bs"
proof -
  have "filter (\<lambda>c. c \<noteq> CHR 0x0A \<and> c \<noteq> CHR 0x0D) (b64Encode bs) = b64Encode bs"
    using b64Encode_no_newline[of bs] by (auto simp: filter_id_conv)
  then show ?thesis by (simp add: b64Decode_def b64Decode_chars_b64Encode)
qed

end
