(* ===== verification/Sessions.thy ===== *)
theory Sessions
  imports Models Protocol Base64
begin

text \<open>
  Session tokens and the per-session state of the DI, TO0 and TO1 protocols. The
  code has them twice: on \<^verbatim>\<open>db.State\<close> (\<^verbatim>\<open>internal/db/state.go\<close>, the manufacturing and
  owner servers) and as services of the rendezvous server (\<^verbatim>\<open>internal/state\<close>);
  both copies are modelled, with the prefixes \<open>State_\<close> and \<open>TokenService_\<close>,
  \<open>TO0SessionState_\<close>, \<open>TO1SessionState_\<close>.

  The locale \<open>session_cell\<close> is the contract of a value stored under the session
  of a context: what a getter returns after a setter, and that one session does
  not see another. It is interpreted on every such pair of operations.
\<close>

section \<open>Contexts and tokens\<close>

text \<open>The two packages use their own context key, so a context carries two tokens.\<close>

record ctx =
  db_token :: "string option"
  state_token :: "string option"

text \<open>Errors that come from the database driver, possibly wrapped.\<close>

fun driver_err :: "go_error \<Rightarrow> bool" where
  "driver_err (ErrDriver m) = True"
| "driver_err (Wrapf s e) = driver_err e"
| "driver_err _ = False"

definition driver_failed :: "'a result \<Rightarrow> bool" where
  "driver_failed r = (case r of Inl e \<Rightarrow> driver_err e | Inr _ \<Rightarrow> False)"

lemma driver_failed_simps [simp]:
  "driver_failed (Inl e) = driver_err e" "\<not> driver_failed (Inr x)"
  by (simp_all add: driver_failed_def)

text \<open>A driver failure is none of the sentinel errors.\<close>

lemma driver_err_is [simp]: "driver_err e \<Longrightarrow> \<not> driver_err t \<Longrightarrow> \<not> errors_is e t"
  by (induction e) auto

text \<open>\<^verbatim>\<open>if err == gorm.ErrRecordNotFound { return e }\<close>.\<close>

definition notFoundAs :: "go_error \<Rightarrow> go_error \<Rightarrow> go_error" where
  "notFoundAs e' e = (if e = ErrRecordNotFound then e' else e)"

lemma notFoundAs_simps [simp]:
  "notFoundAs e' ErrRecordNotFound = e'" "notFoundAs e' (ErrDriver m) = ErrDriver m"
  by (simp_all add: notFoundAs_def)

subsection \<open>db.State\<close>

definition State_TokenContext :: "ctx \<Rightarrow> string \<Rightarrow> ctx" where
  "State_TokenContext c tok = c\<lparr>db_token := Some tok\<rparr>"

definition State_TokenFromContext :: "ctx \<Rightarrow> string option" where
  "State_TokenFromContext c = db_token c"

text \<open>\<open>rnd\<close> are the octets \<^verbatim>\<open>rand.Read\<close> gives, \<open>None\<close> when it fails.\<close>

definition State_NewToken :: "bytes option \<Rightarrow> int \<Rightarrow> string act" where
  "State_NewToken rnd proto =
     (case rnd of
        None \<Rightarrow> failE (Wrapf ''failed to generate session ID'' (ErrExt ''rand''))
      | Some sid \<Rightarrow>
          bindE (mapErr (Wrapf ''failed to create session'')
                  (dbCreate T_sessions
                    (session_toRow \<lparr>ses_ID = sid, ses_Protocol = proto, ses_CreatedAt = None\<rparr>)))
            (\<lambda>_. retE (b64Encode sid)))"

definition State_InvalidateToken :: "ctx \<Rightarrow> unit act" where
  "State_InvalidateToken c =
     (case State_TokenFromContext c of
        None \<Rightarrow> failE ErrInvalidSession
      | Some tok \<Rightarrow>
          (case b64Decode tok of
             None \<Rightarrow> failE ErrInvalidSession
           | Some sid \<Rightarrow>
               bindE (dbDelete T_sessions [CEq ''id'' (VBytes sid)])
                 (\<lambda>n. if n = 0 then failE ErrNotFound else retE ())))"

definition State_getSessionID :: "ctx \<Rightarrow> bytes act" where
  "State_getSessionID c =
     (case State_TokenFromContext c of
        None \<Rightarrow> failE ErrInvalidSession
      | Some tok \<Rightarrow>
          (case b64Decode tok of
             None \<Rightarrow> failE ErrInvalidSession
           | Some sid \<Rightarrow>
               bindE (mapErr (notFoundAs ErrInvalidSession)
                       (dbFirst T_sessions [CEq ''id'' (VBytes sid)]))
                 (\<lambda>_. retE sid)))"

subsection \<open>state.TokenService\<close>

definition TokenService_TokenContext :: "ctx \<Rightarrow> string \<Rightarrow> ctx" where
  "TokenService_TokenContext c tok = c\<lparr>state_token := Some tok\<rparr>"

definition TokenService_TokenFromContext :: "ctx \<Rightarrow> string option" where
  "TokenService_TokenFromContext c = state_token c"

text \<open>gorm fills the creation time (\<^verbatim>\<open>autoCreateTime\<close>).\<close>

definition TokenService_NewToken :: "int \<Rightarrow> bytes option \<Rightarrow> int \<Rightarrow> string act" where
  "TokenService_NewToken now rnd proto =
     (case rnd of
        None \<Rightarrow> failE (Wrapf ''failed to generate session ID'' (ErrExt ''rand''))
      | Some sid \<Rightarrow>
          bindE (mapErr (Wrapf ''failed to create session'')
                  (dbCreate T_sessions
                    (session_toRow \<lparr>ses_ID = sid, ses_Protocol = proto, ses_CreatedAt = Some now\<rparr>)))
            (\<lambda>_. retE (b64Encode sid)))"

definition TokenService_InvalidateToken :: "ctx \<Rightarrow> unit act" where
  "TokenService_InvalidateToken c =
     (case TokenService_TokenFromContext c of
        None \<Rightarrow> failE ErrInvalidSession
      | Some tok \<Rightarrow>
          (case b64Decode tok of
             None \<Rightarrow> failE ErrInvalidSession
           | Some sid \<Rightarrow>
               bindE (dbDelete T_sessions [CEq ''id'' (VBytes sid)])
                 (\<lambda>n. if n = 0 then failE ErrNotFound else retE ())))"

definition TokenService_getSessionID :: "ctx \<Rightarrow> bytes act" where
  "TokenService_getSessionID c =
     (case TokenService_TokenFromContext c of
        None \<Rightarrow> failE ErrInvalidSession
      | Some tok \<Rightarrow>
          (case b64Decode tok of
             None \<Rightarrow> failE ErrInvalidSession
           | Some sid \<Rightarrow>
               bindE (mapErr (notFoundAs ErrInvalidSession)
                       (dbFirst T_sessions [CEq ''id'' (VBytes sid)]))
                 (\<lambda>_. retE sid)))"

text \<open>Deletes the sessions created before the cut-off and returns how many.\<close>

definition CleanupExpiredSessions :: "int \<Rightarrow> int \<Rightarrow> nat act" where
  "CleanupExpiredSessions now maxAge =
     mapErr (Wrapf ''failed to cleanup expired sessions'')
       (dbDelete T_sessions [CLt ''created_at'' (VTime (now - maxAge))])"

section \<open>Protocol session state on db.State\<close>

text \<open>The device certificate chain of DI; \<open>parse\<close> is \<^verbatim>\<open>x509.ParseCertificates\<close>.\<close>

definition State_SetDeviceCertChain :: "ctx \<Rightarrow> x509_cert list \<Rightarrow> unit act" where
  "State_SetDeviceCertChain c chain =
     bindE (State_getSessionID c) (\<lambda>sid.
       dbFirstOrCreate T_device_info [CEq ''session'' (VBytes sid)]
         [(''x509_chain'', VBytes (chain_bytes chain))]
         (device_info_toRow \<lparr>di_Session = sid, di_KeyType = None, di_KeyEncoding = None,
            di_SerialNumber = None, di_InfoString = None, di_CSR = None,
            di_X509Chain = chain_bytes chain\<rparr>))"

definition State_DeviceCertChain ::
  "(bytes \<Rightarrow> x509_cert list option) \<Rightarrow> ctx \<Rightarrow> x509_cert list act" where
  "State_DeviceCertChain parse c =
     bindE (State_getSessionID c) (\<lambda>sid.
     bindE (mapErr (notFoundAs ErrNotFound) (dbFirst T_device_info [CEq ''session'' (VBytes sid)])) (\<lambda>r.
       liftR (of_opt (Wrapf ''error parsing certificate chain'' (ErrExt ''x509''))
                (parse (orNil (asBytes (r ''x509_chain'')))))))"

definition State_SetIncompleteVoucherHeader :: "cbor_lib \<Rightarrow> ctx \<Rightarrow> voucher_header \<Rightarrow> unit act" where
  "State_SetIncompleteVoucherHeader C c ovh =
     bindE (State_getSessionID c) (\<lambda>sid.
     bindE (liftR (of_opt (Wrapf ''failed to marshal voucher header'' (ErrExt ''cbor''))
                     (marshal C (GHeader ovh)))) (\<lambda>hdr.
       dbSave T_incomplete_vouchers (incomplete_voucher_toRow \<lparr>iv_Session = sid, iv_Header = hdr\<rparr>)))"

definition State_IncompleteVoucherHeader :: "cbor_lib \<Rightarrow> ctx \<Rightarrow> voucher_header act" where
  "State_IncompleteVoucherHeader C c =
     bindE (State_getSessionID c) (\<lambda>sid.
     bindE (mapErr (notFoundAs ErrNotFound)
             (dbFirst T_incomplete_vouchers [CEq ''session'' (VBytes sid)])) (\<lambda>r.
       liftR (of_opt (Wrapf ''failed to unmarshal voucher header'' (ErrExt ''cbor''))
                (un_header C (orNil (asBytes (r ''header'')))))))"

definition State_SetTO0SignNonce :: "ctx \<Rightarrow> bytes \<Rightarrow> unit act" where
  "State_SetTO0SignNonce c nonce =
     bindE (State_getSessionID c) (\<lambda>sid.
       dbSave T_to0_sessions (to0_session_toRow \<lparr>to0_Session = sid, to0_Nonce = nonce\<rparr>))"

definition State_TO0SignNonce :: "ctx \<Rightarrow> bytes act" where
  "State_TO0SignNonce c =
     bindE (State_getSessionID c) (\<lambda>sid.
     bindE (mapErr (notFoundAs ErrNotFound) (dbFirst T_to0_sessions [CEq ''session'' (VBytes sid)])) (\<lambda>r.
       retE (copy_array 16 (orNil (asBytes (r ''nonce''))))))"

definition State_SetTO1ProofNonce :: "ctx \<Rightarrow> bytes \<Rightarrow> unit act" where
  "State_SetTO1ProofNonce c nonce =
     bindE (State_getSessionID c) (\<lambda>sid.
       dbSave T_to1_sessions
         (to1_session_toRow \<lparr>to1_Session = sid, to1_Nonce = nonce, to1_Alg = None\<rparr>))"

definition State_TO1ProofNonce :: "ctx \<Rightarrow> bytes act" where
  "State_TO1ProofNonce c =
     bindE (State_getSessionID c) (\<lambda>sid.
     bindE (mapErr (notFoundAs ErrNotFound) (dbFirst T_to1_sessions [CEq ''session'' (VBytes sid)])) (\<lambda>r.
       retE (copy_array 16 (orNil (asBytes (r ''nonce''))))))"

section \<open>Protocol session state of the rendezvous server\<close>

text \<open>The foreign keys of the models (\<^verbatim>\<open>SessionRef\<close>): a session row owns its TO0 and TO1 rows.\<close>

abbreviation to0_SessionRef :: fkey where
  "to0_SessionRef \<equiv> (T_to0_sessions, ''session'', T_sessions, ''id'')"

abbreviation to1_SessionRef :: fkey where
  "to1_SessionRef \<equiv> (T_to1_sessions, ''session'', T_sessions, ''id'')"

definition InitTokenServiceDB :: "unit act" where
  "InitTokenServiceDB = dbAutoMigrate [T_sessions] []"

text \<open>The migration of a session table with its foreign key, created explicitly if it is missing.\<close>

definition InitTO0SessionDB :: "unit act" where
  "InitTO0SessionDB =
     bindE InitTokenServiceDB (\<lambda>_.
     bindE (dbAutoMigrate [T_to0_sessions] [to0_SessionRef]) (\<lambda>_.
       bindP (dbHasConstraint to0_SessionRef) (\<lambda>has.
         if \<not> has then mapErr (Wrapf ''failed to create CASCADE DELETE constraint'') (dbCreateConstraint to0_SessionRef)
         else retE ())))"

definition InitTO1SessionDB :: "unit act" where
  "InitTO1SessionDB =
     bindE InitTokenServiceDB (\<lambda>_.
     bindE (dbAutoMigrate [T_to1_sessions] [to1_SessionRef]) (\<lambda>_.
       bindP (dbHasConstraint to1_SessionRef) (\<lambda>has.
         if \<not> has then mapErr (Wrapf ''failed to create CASCADE DELETE constraint'') (dbCreateConstraint to1_SessionRef)
         else retE ())))"

definition TO0SessionState_SetTO0SignNonce :: "ctx \<Rightarrow> bytes \<Rightarrow> unit act" where
  "TO0SessionState_SetTO0SignNonce c nonce =
     bindE (TokenService_getSessionID c) (\<lambda>sid.
       dbSave T_to0_sessions (to0_session_toRow \<lparr>to0_Session = sid, to0_Nonce = nonce\<rparr>))"

definition TO0SessionState_TO0SignNonce :: "ctx \<Rightarrow> bytes act" where
  "TO0SessionState_TO0SignNonce c =
     bindE (TokenService_getSessionID c) (\<lambda>sid.
     bindE (mapErr (notFoundAs ErrNotFound) (dbFirst T_to0_sessions [CEq ''session'' (VBytes sid)])) (\<lambda>r.
       retE (copy_array 16 (orNil (asBytes (r ''nonce''))))))"

definition TO1SessionState_SetTO1ProofNonce :: "ctx \<Rightarrow> bytes \<Rightarrow> unit act" where
  "TO1SessionState_SetTO1ProofNonce c nonce =
     bindE (TokenService_getSessionID c) (\<lambda>sid.
       dbSave T_to1_sessions
         (to1_session_toRow \<lparr>to1_Session = sid, to1_Nonce = nonce, to1_Alg = None\<rparr>))"

definition TO1SessionState_TO1ProofNonce :: "ctx \<Rightarrow> bytes act" where
  "TO1SessionState_TO1ProofNonce c =
     bindE (TokenService_getSessionID c) (\<lambda>sid.
     bindE (mapErr (notFoundAs ErrNotFound) (dbFirst T_to1_sessions [CEq ''session'' (VBytes sid)])) (\<lambda>r.
       retE (copy_array 16 (orNil (asBytes (r ''nonce''))))))"

section \<open>What the token operations do\<close>

text \<open>The session a context names, and whether the database has it.\<close>

definition State_sid :: "ctx \<Rightarrow> bytes option" where
  "State_sid c = Option.bind (State_TokenFromContext c) b64Decode"

definition TokenService_sid :: "ctx \<Rightarrow> bytes option" where
  "TokenService_sid c = Option.bind (TokenService_TokenFromContext c) b64Decode"

definition live :: "bytes \<Rightarrow> sqldb \<Rightarrow> bool" where
  "live sid d \<longleftrightarrow> lookup T_sessions (VBytes sid) d \<noteq> None"

lemma wp_getSessionID:
  assumes "wf d"
  shows "wp (State_getSessionID c) Q d \<longleftrightarrow>
     (case State_sid c of
        None \<Rightarrow> Q (Inl ErrInvalidSession) d
      | Some sid \<Rightarrow> (\<forall>m. Q (Inl (ErrDriver m)) d) \<and>
                    (if live sid d then Q (Inr sid) d else Q (Inl ErrInvalidSession) d))"
    and "wp (TokenService_getSessionID c) Q d \<longleftrightarrow>
     (case TokenService_sid c of
        None \<Rightarrow> Q (Inl ErrInvalidSession) d
      | Some sid \<Rightarrow> (\<forall>m. Q (Inl (ErrDriver m)) d) \<and>
                    (if live sid d then Q (Inr sid) d else Q (Inl ErrInvalidSession) d))"
  using assms
  by (auto simp: State_getSessionID_def State_sid_def TokenService_getSessionID_def
      TokenService_sid_def live_def wp_simps rows_key split: option.splits)


section \<open>The contract of a value stored under a session\<close>

text \<open>
  \<open>cell s d\<close> is the value session \<open>s\<close> has in the database, \<open>ready s d\<close> whether the
  row the setter writes to is there. A setter that reports success has stored
  the value if the row was there, and has touched no other session; one that
  reports an error has changed nothing. A getter changes nothing and reports
  exactly what the session holds, up to driver failures.
\<close>

locale session_cell =
  fixes sid :: "ctx \<Rightarrow> bytes option"
    and setc :: "ctx \<Rightarrow> 'v \<Rightarrow> unit act"
    and getc :: "ctx \<Rightarrow> 'v act"
    and cell :: "bytes \<Rightarrow> sqldb \<Rightarrow> 'v option"
    and ready :: "bytes \<Rightarrow> sqldb \<Rightarrow> bool"
    and valid :: "'v \<Rightarrow> bool"
  assumes set_spec: "wf d \<Longrightarrow> valid v \<Longrightarrow> wp (setc c v) (\<lambda>r d'.
      (r = Inr () \<longrightarrow> (\<exists>s. sid c = Some s \<and> live s d \<and> (\<forall>s'. live s' d' = live s' d) \<and>
         (\<forall>s'. cell s' d' = (if s' = s \<and> ready s d then Some v else cell s' d)))) \<and>
      (r \<noteq> Inr () \<longrightarrow> d' = d)) d"
    and get_spec: "wf d \<Longrightarrow> wp (getc c) (\<lambda>r d'. d' = d \<and>
      (case sid c of None \<Rightarrow> r = Inl ErrInvalidSession
       | Some s \<Rightarrow> driver_failed r \<or>
           r = (if \<not> live s d then Inl ErrInvalidSession
                else case cell s d of None \<Rightarrow> Inl ErrNotFound | Some v \<Rightarrow> Inr v))) d"
begin

text \<open>What was set in a session is what it then reads.\<close>

lemma roundtrip:
  assumes "wf d" "valid v" "\<And>s. sid c = Some s \<Longrightarrow> ready s d"
  shows "wp (setc c v) (\<lambda>r d1. r = Inr () \<longrightarrow>
           wp (getc c) (\<lambda>r' d2. r' = Inr v \<or> driver_failed r') d1) d"
proof (rule wp_mono[OF iffD2[OF wp_conj conjI, OF set_spec[OF assms(1,2)] wf_wp[OF assms(1)]]],
    intro impI)
  fix r :: "unit result" and d1
  assume *: "((r = Inr () \<longrightarrow> (\<exists>s. sid c = Some s \<and> live s d \<and> (\<forall>s'. live s' d1 = live s' d) \<and>
         (\<forall>s'. cell s' d1 = (if s' = s \<and> ready s d then Some v else cell s' d)))) \<and>
      (r \<noteq> Inr () \<longrightarrow> d1 = d)) \<and> wf d1" and "r = Inr ()"
  then obtain s where s: "sid c = Some s" "live s d1" "cell s d1 = Some v"
    using assms(3) by auto
  from * have "wf d1" by simp
  from get_spec[OF this] show "wp (getc c) (\<lambda>r' d2. r' = Inr v \<or> driver_failed r') d1"
    by (rule wp_mono) (use s in auto)
qed

text \<open>A setter of one session leaves what another session reads as it was.\<close>

lemma isolation:
  assumes "wf d" "valid v" "sid c' = Some s'" "sid c \<noteq> Some s'"
  shows "wp (setc c v) (\<lambda>r d1. wp (getc c') (\<lambda>r' d2. driver_failed r' \<or>
           r' = (if \<not> live s' d then Inl ErrInvalidSession
                 else case cell s' d of None \<Rightarrow> Inl ErrNotFound | Some w \<Rightarrow> Inr w)) d1) d"
proof (rule wp_mono[OF iffD2[OF wp_conj conjI, OF set_spec[OF assms(1,2)] wf_wp[OF assms(1)]]])
  fix r :: "unit result" and d1
  assume *: "((r = Inr () \<longrightarrow> (\<exists>s. sid c = Some s \<and> live s d \<and> (\<forall>s'. live s' d1 = live s' d) \<and>
         (\<forall>s'. cell s' d1 = (if s' = s \<and> ready s d then Some v else cell s' d)))) \<and>
      (r \<noteq> Inr () \<longrightarrow> d1 = d)) \<and> wf d1"
  then have same: "live s' d1 = live s' d" "cell s' d1 = cell s' d"
    using assms(4) by (cases "r = Inr ()"; auto)+
  from * have "wf d1" by simp
  from get_spec[OF this] show "wp (getc c') (\<lambda>r' d2. driver_failed r' \<or>
      r' = (if \<not> live s' d then Inl ErrInvalidSession
            else case cell s' d of None \<Rightarrow> Inl ErrNotFound | Some w \<Rightarrow> Inr w)) d1"
    by (rule wp_mono) (use assms(3) same in auto)
qed

end

text \<open>The nonces of TO0 and TO1: the row is written by \<^verbatim>\<open>Save\<close>, so it is always ready.\<close>

definition nonce_cell :: "tname \<Rightarrow> bytes \<Rightarrow> sqldb \<Rightarrow> bytes option" where
  "nonce_cell t s d =
     map_option (\<lambda>r. copy_array 16 (orNil (asBytes (r ''nonce'')))) (lookup t (VBytes s) d)"

definition nonce_ok :: "bytes \<Rightarrow> bool" where
  "nonce_ok n \<longleftrightarrow> length n = 16"

lemmas nonce_defs = nonce_cell_def nonce_ok_def live_def wp_simps lookup_put rows_key toRow_defs
  sql_eq_def fk_error_def

interpretation State_to0: session_cell State_sid State_SetTO0SignNonce State_TO0SignNonce
  "nonce_cell T_to0_sessions" "\<lambda>_ _. True" nonce_ok
  by unfold_locales
     (auto simp: State_SetTO0SignNonce_def State_TO0SignNonce_def wp_getSessionID nonce_defs
       split: option.splits)

interpretation State_to1: session_cell State_sid State_SetTO1ProofNonce State_TO1ProofNonce
  "nonce_cell T_to1_sessions" "\<lambda>_ _. True" nonce_ok
  by unfold_locales
     (auto simp: State_SetTO1ProofNonce_def State_TO1ProofNonce_def wp_getSessionID nonce_defs
       split: option.splits)

interpretation Rv_to0: session_cell TokenService_sid TO0SessionState_SetTO0SignNonce
  TO0SessionState_TO0SignNonce "nonce_cell T_to0_sessions" "\<lambda>_ _. True" nonce_ok
  by unfold_locales
     (auto simp: TO0SessionState_SetTO0SignNonce_def TO0SessionState_TO0SignNonce_def wp_getSessionID
       nonce_defs split: option.splits)

interpretation Rv_to1: session_cell TokenService_sid TO1SessionState_SetTO1ProofNonce
  TO1SessionState_TO1ProofNonce "nonce_cell T_to1_sessions" "\<lambda>_ _. True" nonce_ok
  by unfold_locales
     (auto simp: TO1SessionState_SetTO1ProofNonce_def TO1SessionState_TO1ProofNonce_def wp_getSessionID
       nonce_defs split: option.splits)

end
