(* ===== verification/Http.thy ===== *)
theory Http
  imports Sessions Json
begin

text \<open>
  HTTP requests and responses as the handlers see and write them, handlers as database
  programs that return a response, the middlewares of \<^verbatim>\<open>api/routes.go\<close> and
  \<^verbatim>\<open>internal/handlers\<close>, the health endpoints, and the contract of a configuration
  document with a single row (\<open>config_store\<close>), which the owner information and the
  rendezvous information meet.
\<close>

section \<open>Requests and responses\<close>

text \<open>
  The body of a response by its content type: plain text, octets of no declared type,
  \<^verbatim>\<open>application/x-pem-file\<close> and \<^verbatim>\<open>application/json\<close>.
  The body of a request is what \<^verbatim>\<open>io.ReadAll\<close> returns, \<open>None\<close> when reading fails.
\<close>

record request =
  req_method :: string
  req_path :: "string \<Rightarrow> string"
  req_query :: "string \<Rightarrow> string"
  req_content_type :: string
  req_body :: "bytes option"

datatype body = NoBody | Text string | Raw bytes | Pem bytes | Json json

text \<open>
  A request as the server gets it, beside what the handlers read: the path of the URL, its query
  (\<^verbatim>\<open>url.Values\<close>), the Accept header, and the values of its context.
\<close>

datatype ctx_value = Scopes "string list" | ContentType string

type_synonym http_ctx = "string \<Rightarrow> ctx_value option"

record http_request = request +
  url_Path :: string
  url_Query :: "string \<Rightarrow> string list"
  hdr_Accept :: string
  req_Context :: http_ctx

record response =
  status :: nat
  resp_body :: body

definition respond :: "nat \<Rightarrow> body \<Rightarrow> response prog" where
  "respond code b = Ret \<lparr>status = code, resp_body = b\<rparr>"

text \<open>\<^verbatim>\<open>http.Error(w, msg, code)\<close>.\<close>

definition http_error :: "string \<Rightarrow> nat \<Rightarrow> response prog" where
  "http_error msg code = respond code (Text msg)"

abbreviation message_json :: "string \<Rightarrow> json" where
  "message_json msg \<equiv> JObj [(''message'', JStr msg)]"

text \<open>What the response objects of the generated packages write.\<close>

definition json_response :: "nat \<Rightarrow> json \<Rightarrow> response" where
  "json_response code v = \<lparr>status = code, resp_body = Json v\<rparr>"

definition pem_response :: "nat \<Rightarrow> bytes \<Rightarrow> response" where
  "pem_response code b = \<lparr>status = code, resp_body = Pem b\<rparr>"

lemma response_simps [simp]:
  "status (json_response code v) = code" "resp_body (json_response code v) = Json v"
  "status (pem_response code b) = code" "resp_body (pem_response code b) = Pem b"
  by (simp_all add: json_response_def pem_response_def)

text \<open>Continue with the error or with the value of an operation.\<close>

definition tryE :: "'a act \<Rightarrow> (go_error \<Rightarrow> 'b prog) \<Rightarrow> ('a \<Rightarrow> 'b prog) \<Rightarrow> 'b prog" where
  "tryE m h k = bindP m (\<lambda>r. case r of Inl e \<Rightarrow> h e | Inr x \<Rightarrow> k x)"

lemma wp_tryE [wp_simps]:
  "wp (tryE m h k) Q d = wp m (\<lambda>r d'. case r of Inl e \<Rightarrow> wp (h e) Q d' | Inr x \<Rightarrow> wp (k x) Q d') d"
proof -
  have *: "(\<lambda>r. wp (case r of Inl e \<Rightarrow> h e | Inr x \<Rightarrow> k x) Q) =
        (\<lambda>r d'. case r of Inl e \<Rightarrow> wp (h e) Q d' | Inr x \<Rightarrow> wp (k x) Q d')"
    by (auto simp: fun_eq_iff split: sum.splits)
  show ?thesis by (simp add: tryE_def wp_bindP *)
qed

lemma wp_respond [wp_simps]:
  "wp (respond code b) Q d = Q \<lparr>status = code, resp_body = b\<rparr> d"
  "wp (http_error msg code) Q d = Q \<lparr>status = code, resp_body = Text msg\<rparr> d"
  by (simp_all add: respond_def http_error_def)

section \<open>Middlewares\<close>

text \<open>
  A handler with what the server keeps in memory (\<open>'s\<close>) passed through; no result is a
  handler whose loop ran out of fuel. \<open>HandlerFunc\<close> is one that keeps nothing in memory.
\<close>

type_synonym ('r, 's) handler = "'r \<Rightarrow> 's \<Rightarrow> (response \<times> 's) option prog"
type_synonym 's http_handler = "(http_request, 's) handler"

definition answer :: "nat \<Rightarrow> string \<Rightarrow> 's \<Rightarrow> (response \<times> 's) option prog" where
  "answer code msg s = Ret (Some (\<lparr>status = code, resp_body = Text msg\<rparr>, s))"

definition HandlerFunc :: "('r \<Rightarrow> response prog) \<Rightarrow> ('r, 's) handler" where
  "HandlerFunc f r s = bindP (f r) (\<lambda>x. Ret (Some (x, s)))"

text \<open>\<open>allow\<close> is the answer of the rate limiter (a library type).\<close>

definition rateLimitMiddleware :: "bool \<Rightarrow> ('r, 's) handler \<Rightarrow> ('r, 's) handler" where
  "rateLimitMiddleware allow nxt r s = (if \<not> allow then answer 429 ''Too Many Requests'' s else nxt r s)"

text \<open>
  \<^verbatim>\<open>io.LimitReader\<close>: the reader reports the end of the body after the limit, so the next
  handler sees a prefix and no error.
\<close>

definition bodySizeMiddleware :: "nat \<Rightarrow> ('r request_scheme \<Rightarrow> 'a) \<Rightarrow> 'r request_scheme \<Rightarrow> 'a" where
  "bodySizeMiddleware limitBytes nxt r = nxt (r\<lparr>req_body := map_option (take limitBytes) (req_body r)\<rparr>)"

section \<open>Health\<close>

definition HealthState_Ping :: "unit act" where
  "HealthState_Ping = dbPing"

definition InitHealthDB :: "unit act" where
  "InitHealthDB = HealthState_Ping"

text \<open>The response objects of the generated package and what visiting them writes.\<close>

datatype health_response =
    GetHealth200JSONResponse string string string  \<comment> \<open>message, status, version\<close>
  | GetHealth500JSONResponse string

fun VisitGetHealthResponse :: "health_response \<Rightarrow> response" where
  "VisitGetHealthResponse (GetHealth200JSONResponse msg st version) =
     json_response 200 (JObj [(''message'', JStr msg), (''status'', JStr st), (''version'', JStr version)])"
| "VisitGetHealthResponse (GetHealth500JSONResponse msg) = json_response 500 (message_json msg)"

definition GetHealth :: "string \<Rightarrow> response prog" where
  "GetHealth version =
     tryE HealthState_Ping
       (\<lambda>_. Ret (VisitGetHealthResponse (GetHealth500JSONResponse ''database error'')))
       (\<lambda>_. Ret (VisitGetHealthResponse (GetHealth200JSONResponse ''the service is up and running'' ''OK'' version)))"

definition HealthHandler :: "request \<Rightarrow> response prog" where
  "HealthHandler r =
     (if req_method r \<noteq> ''GET'' then respond 405 (Raw ''Method not allowed'')
      else respond 200 (Json (JObj [(''version'', JStr ''1.1''), (''status'', JStr ''OK'')])))"

section \<open>The contract of a configuration document\<close>

text \<open>
  \<open>has\<close> says whether there is a document, \<open>doc\<close> what a fetch reports for it. Insertion
  succeeds exactly when there is none, an update exactly when there is one, a
  failure changes nothing, and driver failures aside there is no other error.
\<close>

locale config_store =
  fixes insertd :: "'v \<Rightarrow> unit act" and updated :: "'v \<Rightarrow> unit act" and fetch :: "'w act"
    and has :: "sqldb \<Rightarrow> bool" and doc :: "sqldb \<Rightarrow> 'w result" and valid :: "'v \<Rightarrow> bool"
    and shown :: "'v \<Rightarrow> 'w" and schema :: "sqldb \<Rightarrow> bool"
  assumes insert_spec: "wf d \<Longrightarrow> schema d \<Longrightarrow> valid v \<Longrightarrow> wp (insertd v) (\<lambda>r d'. schema d' \<and>
      (if r = Inr () then \<not> has d \<and> has d' \<and> doc d' = Inr (shown v)
       else d' = d \<and> (driver_failed r \<or> has d \<and> r = Inl ErrDuplicatedKey))) d"
    and update_spec: "wf d \<Longrightarrow> schema d \<Longrightarrow> valid v \<Longrightarrow> wp (updated v) (\<lambda>r d'. schema d' \<and>
      (if r = Inr () then has d \<and> has d' \<and> doc d' = Inr (shown v)
       else (has d' = has d \<and> doc d' = doc d) \<and> (driver_failed r \<or> \<not> has d \<and> r = Inl ErrRecordNotFound))) d"
    and fetch_spec: "wf d \<Longrightarrow> schema d \<Longrightarrow> wp fetch (\<lambda>r d'. d' = d \<and> (driver_failed r \<or> r = doc d)) d"
begin

text \<open>What was inserted, or written by an update, is what is fetched.\<close>

lemma insert_fetch:
  assumes "wf d" "schema d" "valid v"
  shows "wp (insertd v) (\<lambda>r d1. r = Inr () \<longrightarrow>
           wp fetch (\<lambda>r' d2. r' = Inr (shown v) \<or> driver_failed r') d1) d"
  by (rule wp_mono[OF iffD2[OF wp_conj conjI, OF insert_spec[OF assms] wf_wp[OF assms(1)]]])
     (auto intro!: wp_mono[OF fetch_spec])

lemma update_fetch:
  assumes "wf d" "schema d" "valid v"
  shows "wp (updated v) (\<lambda>r d1. r = Inr () \<longrightarrow>
           wp fetch (\<lambda>r' d2. r' = Inr (shown v) \<or> driver_failed r') d1) d"
  by (rule wp_mono[OF iffD2[OF wp_conj conjI, OF update_spec[OF assms] wf_wp[OF assms(1)]]])
     (auto intro!: wp_mono[OF fetch_spec])

text \<open>A second insertion is refused and the first document stays.\<close>

lemma insert_twice:
  assumes "wf d" "schema d" "valid v" "valid w"
  shows "wp (insertd v) (\<lambda>r d1. r = Inr () \<longrightarrow>
           wp (insertd w) (\<lambda>r' d2. (r' = Inl ErrDuplicatedKey \<or> driver_failed r') \<and> d2 = d1) d1) d"
  by (rule wp_mono[OF iffD2[OF wp_conj conjI, OF insert_spec[OF assms(1-3)] wf_wp[OF assms(1)]]])
     (auto intro!: wp_mono[OF insert_spec[OF _ _ assms(4)]] split: if_splits)

text \<open>The three outcomes of a creation, for the status code of a handler.\<close>

lemma insert_outcome:
  assumes "wf d" "schema d" "valid v"
  shows "wp (insertd v) (\<lambda>r d'. driver_failed r \<or> r = (if has d then Inl ErrDuplicatedKey else Inr ())) d"
  by (rule wp_mono[OF insert_spec[OF assms]]) (auto split: if_splits)

lemma update_outcome:
  assumes "wf d" "schema d" "valid v"
  shows "wp (updated v) (\<lambda>r d'. driver_failed r \<or> r = (if has d then Inr () else Inl ErrRecordNotFound)) d"
  by (rule wp_mono[OF update_spec[OF assms]]) (auto split: if_splits)

end

end
