(* ===== verification/OpenApi.thy ===== *)
theory OpenApi
  imports Http
begin

text \<open>
  What the packages generated by oapi-codegen have in common (\<^verbatim>\<open>internal/handlers/*/handler.gen.go\<close>):
  the errors of parameters, the wrappers that put the security scopes into the context and run the
  middlewares of a server, and the strict handlers that run the strict middlewares around an
  operation. The decoding of single parameters is the runtime library's, the parameter \<open>bind_lib\<close>.
  A response object is visited right after the operation returned it, so the operations of the
  model return what the visit writes; none of the operations returns an error.
\<close>

section \<open>Parameters\<close>

text \<open>
  \<^verbatim>\<open>runtime.BindQueryParameterWithOptions\<close> for the two types that are used, and
  \<^verbatim>\<open>runtime.BindStyledParameterWithOptions\<close>: the text of the error, or the value; an optional
  parameter that is absent has the value \<open>None\<close>.
\<close>

record bind_lib =
  BindQueryInt :: "string \<Rightarrow> (string \<Rightarrow> string list) \<Rightarrow> string + int option"
  BindQueryString :: "string \<Rightarrow> (string \<Rightarrow> string list) \<Rightarrow> string + string option"
  BindStyledString :: "string \<Rightarrow> string \<Rightarrow> string + string"

datatype param_error =
    UnescapedCookieParamError string string
  | UnmarshalingParamError string string
  | RequiredParamError string
  | RequiredHeaderError string string
  | InvalidParamFormatError string string
  | TooManyValuesForParamError string nat

fun param_error_Error :: "param_error \<Rightarrow> string" where
  "param_error_Error (UnescapedCookieParamError name err) =
     ''error unescaping cookie parameter '' @ [CHR 0x27] @ name @ [CHR 0x27]"
| "param_error_Error (UnmarshalingParamError name err) =
     ''Error unmarshaling parameter '' @ name @ '' as JSON: '' @ err"
| "param_error_Error (RequiredParamError name) = ''Query argument '' @ name @ '' is required, but not found''"
| "param_error_Error (RequiredHeaderError name err) = ''Header parameter '' @ name @ '' is required, but not found''"
| "param_error_Error (InvalidParamFormatError name err) = ''Invalid format for parameter '' @ name @ '': '' @ err"
| "param_error_Error (TooManyValuesForParamError name n) =
     ''Expected one value for '' @ name @ '', got '' @ FormatUint n"

text \<open>Bind one parameter and go on, or stop with the error that names it.\<close>

definition bound :: "string \<Rightarrow> string + 'a \<Rightarrow> ('a \<Rightarrow> param_error + 'b) \<Rightarrow> param_error + 'b" where
  "bound name x k = (case x of Inl err \<Rightarrow> Inl (InvalidParamFormatError name err) | Inr v \<Rightarrow> k v)"

lemma bound_simps [simp]:
  "bound name (Inl err) k = Inl (InvalidParamFormatError name err)" "bound name (Inr v) k = k v"
  by (simp_all add: bound_def)

text \<open>The error handler of \<^verbatim>\<open>HandlerWithOptions\<close> when the options have none.\<close>

definition ErrorHandlerFunc :: "param_error \<Rightarrow> 's http_handler" where
  "ErrorHandlerFunc err r s = answer 400 (param_error_Error err) s"

section \<open>Wrappers and strict handlers\<close>

type_synonym 's http_middleware = "'s http_handler \<Rightarrow> 's http_handler"

text \<open>The security scopes of the interface; no handler or middleware of the servers reads them.\<close>

definition with_scopes :: "'r http_request_scheme \<Rightarrow> 'r http_request_scheme" where
  "with_scopes r = r\<lparr>req_Context := (req_Context r)(''BasicAuth.Scopes'' \<mapsto> Scopes [],
     ''BearerAuth.Scopes'' \<mapsto> Scopes [], ''ApiKeyAuth.Scopes'' \<mapsto> Scopes [], ''OidcAuth.Scopes'' \<mapsto> Scopes [],
     ''Oauth2Auth.Scopes'' \<mapsto> Scopes [])\<rparr>"

definition apply_middlewares :: "'s http_middleware list \<Rightarrow> 's http_handler \<Rightarrow> 's http_handler" where
  "apply_middlewares mws h = fold (\<lambda>m h. m h) mws h"

type_synonym ('q, 's) strict_func = "http_ctx \<Rightarrow> http_request \<Rightarrow> 'q \<Rightarrow> 's \<Rightarrow> (response \<times> 's) option prog"
type_synonym ('q, 's) strict_middleware = "('q, 's) strict_func \<Rightarrow> string \<Rightarrow> ('q, 's) strict_func"

definition strict_serve ::
  "('q, 's) strict_middleware list \<Rightarrow> string \<Rightarrow> ('q, 's) strict_func \<Rightarrow> 'q \<Rightarrow> 's http_handler" where
  "strict_serve mws operationID f request r s = fold (\<lambda>m h. m h operationID) mws f (req_Context r) r request s"

lemma middlewares_simps [simp]:
  "apply_middlewares [] h = h" "apply_middlewares (m # mws) h = apply_middlewares mws (m h)"
  "strict_serve [] op f request r s = f (req_Context r) r request s"
  "strict_serve [w] op f request r s = w f op (req_Context r) r request s"
  by (simp_all add: apply_middlewares_def strict_serve_def)

end
