(* ===== verification/RvInfoGen.thy ===== *)
theory RvInfoGen
  imports OpenApi
begin

text \<open>
  The types of \<^verbatim>\<open>internal/handlers/rvinfo/handler.gen.go\<close> and of
  \<^verbatim>\<open>internal/handlers/components/models.gen.go\<close> behind it: the body of the V2 interface and the
  response objects of its three operations with what visiting them writes.
\<close>

text \<open>
  The request and response type is an array of arrays of raw JSON values (the union of an
  instruction item keeps the octets), so decoding checks the two outer levels and keeps the values.
\<close>

definition RVInfo_decode :: "json \<Rightarrow> json option" where
  "RVInfo_decode v =
     (case v of
        JArr xs \<Rightarrow> if list_all (\<lambda>x. case x of JArr _ \<Rightarrow> True | JNull \<Rightarrow> True | _ \<Rightarrow> False) xs
                   then Some v else None
      | JNull \<Rightarrow> Some v
      | _ \<Rightarrow> None)"

datatype delete_rv_response =
    DeleteRendezvousInfo200JSONResponse json
  | DeleteRendezvousInfo401JSONResponse string
  | DeleteRendezvousInfo403JSONResponse string
  | DeleteRendezvousInfo500JSONResponse string

fun VisitDeleteRendezvousInfoResponse :: "delete_rv_response \<Rightarrow> response" where
  "VisitDeleteRendezvousInfoResponse (DeleteRendezvousInfo200JSONResponse v) = json_response 200 v"
| "VisitDeleteRendezvousInfoResponse (DeleteRendezvousInfo401JSONResponse m) = json_response 401 (message_json m)"
| "VisitDeleteRendezvousInfoResponse (DeleteRendezvousInfo403JSONResponse m) = json_response 403 (message_json m)"
| "VisitDeleteRendezvousInfoResponse (DeleteRendezvousInfo500JSONResponse m) = json_response 500 (message_json m)"

datatype get_rv_response =
    GetRendezvousInfo200JSONResponse json
  | GetRendezvousInfo401JSONResponse string
  | GetRendezvousInfo403JSONResponse string
  | GetRendezvousInfo500JSONResponse string

fun VisitGetRendezvousInfoResponse :: "get_rv_response \<Rightarrow> response" where
  "VisitGetRendezvousInfoResponse (GetRendezvousInfo200JSONResponse v) = json_response 200 v"
| "VisitGetRendezvousInfoResponse (GetRendezvousInfo401JSONResponse m) = json_response 401 (message_json m)"
| "VisitGetRendezvousInfoResponse (GetRendezvousInfo403JSONResponse m) = json_response 403 (message_json m)"
| "VisitGetRendezvousInfoResponse (GetRendezvousInfo500JSONResponse m) = json_response 500 (message_json m)"

datatype update_rv_response =
    UpdateRendezvousInfo200JSONResponse json
  | UpdateRendezvousInfo400JSONResponse string
  | UpdateRendezvousInfo401JSONResponse string
  | UpdateRendezvousInfo403JSONResponse string
  | UpdateRendezvousInfo500JSONResponse string

fun VisitUpdateRendezvousInfoResponse :: "update_rv_response \<Rightarrow> response" where
  "VisitUpdateRendezvousInfoResponse (UpdateRendezvousInfo200JSONResponse v) = json_response 200 v"
| "VisitUpdateRendezvousInfoResponse (UpdateRendezvousInfo400JSONResponse m) = json_response 400 (message_json m)"
| "VisitUpdateRendezvousInfoResponse (UpdateRendezvousInfo401JSONResponse m) = json_response 401 (message_json m)"
| "VisitUpdateRendezvousInfoResponse (UpdateRendezvousInfo403JSONResponse m) = json_response 403 (message_json m)"
| "VisitUpdateRendezvousInfoResponse (UpdateRendezvousInfo500JSONResponse m) = json_response 500 (message_json m)"

text \<open>An operation returns its response object, which is visited at once.\<close>

abbreviation reply_delete_rv :: "delete_rv_response \<Rightarrow> response prog" where
  "reply_delete_rv x \<equiv> Ret (VisitDeleteRendezvousInfoResponse x)"

abbreviation reply_get_rv :: "get_rv_response \<Rightarrow> response prog" where
  "reply_get_rv x \<equiv> Ret (VisitGetRendezvousInfoResponse x)"

abbreviation reply_update_rv :: "update_rv_response \<Rightarrow> response prog" where
  "reply_update_rv x \<equiv> Ret (VisitUpdateRendezvousInfoResponse x)"

end
