(* ===== verification/RvInfoStore.thy ===== *)
theory RvInfoStore
  imports RvInfoV2 RvInfoGen
begin

text \<open>
  The rendezvous information document: its row in the database
  (\<^verbatim>\<open>internal/db/db.go\<close>, \<^verbatim>\<open>internal/state/rvinfo.go\<close>), the migration of the JSON format
  at start-up (\<^verbatim>\<open>internal/db/state.go\<close>) and the handlers of both interfaces
  (\<^verbatim>\<open>api/handlers/rvinfo.go\<close>, \<^verbatim>\<open>internal/handlers/rvinfo/handler.go\<close>). Both interfaces work
  on the same row.
\<close>

section \<open>The row\<close>

abbreviation id1 :: cond where
  "id1 \<equiv> CEq ''id'' (VInt 1)"

definition singleton_value :: "row \<Rightarrow> bytes" where
  "singleton_value r = orNil (asBytes (r ''value''))"

definition marshalRvInfo :: "cbor_lib \<Rightarrow> rv_info \<Rightarrow> bytes act" where
  "marshalRvInfo C rv =
     liftR (of_opt (Wrapf ''failed to marshal rvinfo to CBOR'' ErrCbor) (marshal C (GRvInfo rv)))"

definition InsertRvInfoCBOR :: "cbor_lib \<Rightarrow> rv_info \<Rightarrow> unit act" where
  "InsertRvInfoCBOR C rv =
     bindE (marshalRvInfo C rv) (\<lambda>cborData.
     bindE (dbCreateDoNothing T_rvinfo (singleton_toRow \<lparr>oi_ID = 1, oi_Value = cborData\<rparr>)) (\<lambda>n.
       if n = 0 then failE ErrDuplicatedKey else retE ()))"

definition UpdateRvInfoCBOR :: "cbor_lib \<Rightarrow> rv_info \<Rightarrow> unit act" where
  "UpdateRvInfoCBOR C rv =
     bindE (marshalRvInfo C rv) (\<lambda>cborData.
     bindE (dbUpdate T_rvinfo [id1] [(''value'', VBytes cborData)]) (\<lambda>n.
       if n = 0 then failE ErrRecordNotFound else retE ()))"

definition UpsertRvInfoCBOR :: "cbor_lib \<Rightarrow> rv_info \<Rightarrow> unit act" where
  "UpsertRvInfoCBOR C rv =
     bindE (marshalRvInfo C rv) (\<lambda>cborData.
       dbSave T_rvinfo (singleton_toRow \<lparr>oi_ID = 1, oi_Value = cborData\<rparr>))"

definition InsertRvInfo :: "oob \<Rightarrow> rv_consts \<Rightarrow> cbor_lib \<Rightarrow> json_lib \<Rightarrow> bytes \<Rightarrow> unit act" where
  "InsertRvInfo oob K C J data =
     bindE (liftR (rmap_err (\<lambda>_. Wrapf ''parse'' ErrInvalidRvInfo) (ParseHumanReadableRvJSON oob K C J data)))
       (InsertRvInfoCBOR C)"

definition UpdateRvInfo :: "oob \<Rightarrow> rv_consts \<Rightarrow> cbor_lib \<Rightarrow> json_lib \<Rightarrow> bytes \<Rightarrow> unit act" where
  "UpdateRvInfo oob K C J data =
     bindE (liftR (rmap_err (\<lambda>_. Wrapf ''parse'' ErrInvalidRvInfo) (ParseHumanReadableRvJSON oob K C J data)))
       (UpdateRvInfoCBOR C)"

definition FetchRvInfo :: "cbor_lib \<Rightarrow> rv_info act" where
  "FetchRvInfo C =
     bindE (dbFirst T_rvinfo [id1]) (\<lambda>r.
       liftR (of_opt (Wrapf ''failed to unmarshal CBOR rvinfo'' ErrInvalidRvInfo)
                (un_rvinfo C (singleton_value r))))"

subsection \<open>state.RvInfoState\<close>

definition RvInfoState_FetchRvInfo :: "cbor_lib \<Rightarrow> rv_info act" where
  "RvInfoState_FetchRvInfo C =
     bindE (mapErr (\<lambda>e. if errors_is e ErrRecordNotFound then ErrRvInfoNotFound else e)
             (dbFirst T_rvinfo [id1])) (\<lambda>r.
       liftR (of_opt (Wrapf ''failed to unmarshal CBOR'' ErrCbor) (un_rvinfo C (singleton_value r))))"

definition RvInfoState_InsertRvInfo :: "cbor_lib \<Rightarrow> rv_info \<Rightarrow> unit act" where
  "RvInfoState_InsertRvInfo = InsertRvInfoCBOR"

definition RvInfoState_UpdateRvInfo :: "cbor_lib \<Rightarrow> rv_info \<Rightarrow> unit act" where
  "RvInfoState_UpdateRvInfo C rv =
     mapErr (\<lambda>e. if errors_is e ErrRecordNotFound then ErrRvInfoNotFound else e) (UpdateRvInfoCBOR C rv)"

definition RvInfoState_UpsertRvInfo :: "cbor_lib \<Rightarrow> rv_info \<Rightarrow> unit act" where
  "RvInfoState_UpsertRvInfo = UpsertRvInfoCBOR"

definition RvInfoState_DeleteRvInfo :: "unit act" where
  "RvInfoState_DeleteRvInfo =
     bindE (dbDelete T_rvinfo [id1]) (\<lambda>n. if n = 0 then failE ErrRvInfoNotFound else retE ())"

subsection \<open>Migration at start-up\<close>

definition migrateRvInfoToCBOR :: "oob \<Rightarrow> rv_consts \<Rightarrow> cbor_lib \<Rightarrow> json_lib \<Rightarrow> unit act" where
  "migrateRvInfoToCBOR oob K C J =
     bindP (dbFirst T_rvinfo [id1]) (\<lambda>r. case r of
       Inl err \<Rightarrow> if errors_is err ErrRecordNotFound then retE ()
                  else failE (Wrapf ''failed to check rvinfo'' err)
     | Inr row \<Rightarrow>
         (case un_rvinfo C (singleton_value row) of
            Some _ \<Rightarrow> retE ()
          | None \<Rightarrow>
              bindE (liftR (rmap_err (Wrapf ''rvinfo is neither valid CBOR nor V1 JSON'')
                      (ParseHumanReadableRvJSON oob K C J (singleton_value row)))) (\<lambda>rv.
              bindE (marshalRvInfo C rv) (\<lambda>cborData.
              bindE (mapErr (Wrapf ''failed to update rvinfo to CBOR'')
                      (dbUpdate T_rvinfo [id1] [(''value'', VBytes cborData)])) (\<lambda>_.
                retE ())))))"

section \<open>Handlers of the V1 interface\<close>

definition getRvInfo :: "rv_consts \<Rightarrow> cbor_lib \<Rightarrow> json_lib \<Rightarrow> response prog" where
  "getRvInfo K C J =
     tryE (FetchRvInfo C)
       (\<lambda>err. if errors_is err ErrRecordNotFound then http_error ''No rvInfo found'' 404
              else http_error ''Error fetching rvInfo'' 500)
       (\<lambda>rvInfo. case ConvertRvInstructionsToV1JSON K C J rvInfo of
          Inl _ \<Rightarrow> http_error ''Error converting rvInfo'' 500
        | Inr rvInfoJSON \<Rightarrow> respond 200 (Raw rvInfoJSON))"

definition createRvInfo :: "oob \<Rightarrow> rv_consts \<Rightarrow> cbor_lib \<Rightarrow> json_lib \<Rightarrow> request \<Rightarrow> response prog" where
  "createRvInfo oob K C J r =
     (case req_body r of
        None \<Rightarrow> http_error ''Error reading body'' 500
      | Some rvInfo \<Rightarrow>
          tryE (InsertRvInfo oob K C J rvInfo)
            (\<lambda>err. if errors_is err ErrDuplicatedKey then http_error ''rvInfo already exists'' 409
                   else if errors_is err ErrInvalidRvInfo then http_error ''Invalid rvInfo'' 400
                   else http_error ''Error inserting rvInfo'' 500)
            (\<lambda>_. respond 201 (Raw rvInfo)))"

definition updateRvInfo :: "oob \<Rightarrow> rv_consts \<Rightarrow> cbor_lib \<Rightarrow> json_lib \<Rightarrow> request \<Rightarrow> response prog" where
  "updateRvInfo oob K C J r =
     (case req_body r of
        None \<Rightarrow> http_error ''Error reading body'' 500
      | Some rvInfo \<Rightarrow>
          tryE (UpdateRvInfo oob K C J rvInfo)
            (\<lambda>err. if errors_is err ErrRecordNotFound then http_error ''rvInfo does not exist'' 404
                   else if errors_is err ErrInvalidRvInfo then http_error ''Invalid rvInfo'' 400
                   else http_error ''Error updating rvInfo'' 500)
            (\<lambda>_. respond 200 (Raw rvInfo)))"

definition RvInfoHandler :: "oob \<Rightarrow> rv_consts \<Rightarrow> cbor_lib \<Rightarrow> json_lib \<Rightarrow> request \<Rightarrow> response prog" where
  "RvInfoHandler oob K C J r =
     (if req_method r = ''GET'' then getRvInfo K C J
      else if req_method r = ''POST'' then createRvInfo oob K C J r
      else if req_method r = ''PUT'' then updateRvInfo oob K C J r
      else http_error ''Method not allowed'' 405)"

section \<open>Handlers of the V2 interface\<close>

text \<open>What the reading and the deletion share; \<open>reply500\<close> is the 500 of the operation.\<close>

definition showRvInfo ::
  "rv_consts \<Rightarrow> cbor_lib \<Rightarrow> json_lib \<Rightarrow> (string \<Rightarrow> response prog) \<Rightarrow> rv_info \<Rightarrow> (json \<Rightarrow> response prog) \<Rightarrow> response prog" where
  "showRvInfo K C J reply500 rv k =
     (case convertToV2JSON K C J rv of
        Inl _ \<Rightarrow> reply500 ''failed to format rendezvous info''
      | Inr rvInfoJSON \<Rightarrow>
          (case Option.bind (jparse J rvInfoJSON) RVInfo_decode of
             None \<Rightarrow> reply500 ''failed to parse rendezvous info''
           | Some rvInfo \<Rightarrow> k rvInfo))"

definition GetRendezvousInfo :: "rv_consts \<Rightarrow> cbor_lib \<Rightarrow> json_lib \<Rightarrow> response prog" where
  "GetRendezvousInfo K C J =
     tryE (RvInfoState_FetchRvInfo C)
       (\<lambda>err. if errors_is err ErrRvInfoNotFound then reply_get_rv (GetRendezvousInfo200JSONResponse (JArr []))
              else reply_get_rv (GetRendezvousInfo500JSONResponse ''failed to fetch rendezvous info''))
       (\<lambda>rv. showRvInfo K C J (\<lambda>m. reply_get_rv (GetRendezvousInfo500JSONResponse m)) rv
          (\<lambda>rvInfo. reply_get_rv (GetRendezvousInfo200JSONResponse rvInfo)))"

definition UpdateRendezvousInfo ::
  "oob \<Rightarrow> rv_consts \<Rightarrow> cbor_lib \<Rightarrow> json_lib \<Rightarrow> json option \<Rightarrow> response prog" where
  "UpdateRendezvousInfo oob K C J request_body =
     (case request_body of
        None \<Rightarrow> reply_update_rv (UpdateRendezvousInfo400JSONResponse ''request body is required'')
      | Some b \<Rightarrow>
          (case parseV2JSON oob K C J (jprint J b) of
             Inl _ \<Rightarrow> reply_update_rv (UpdateRendezvousInfo400JSONResponse ''invalid rendezvous info: '')
           | Inr rv \<Rightarrow>
               tryE (RvInfoState_UpsertRvInfo C rv)
                 (\<lambda>_. reply_update_rv (UpdateRendezvousInfo500JSONResponse ''failed to save rendezvous info''))
                 (\<lambda>_. reply_update_rv (UpdateRendezvousInfo200JSONResponse b))))"

definition DeleteRendezvousInfo :: "rv_consts \<Rightarrow> cbor_lib \<Rightarrow> json_lib \<Rightarrow> response prog" where
  "DeleteRendezvousInfo K C J =
     tryE (RvInfoState_FetchRvInfo C)
       (\<lambda>err. if errors_is err ErrRvInfoNotFound then reply_delete_rv (DeleteRendezvousInfo200JSONResponse (JArr []))
              else reply_delete_rv (DeleteRendezvousInfo500JSONResponse ''failed to delete rendezvous info''))
       (\<lambda>rv. showRvInfo K C J (\<lambda>m. reply_delete_rv (DeleteRendezvousInfo500JSONResponse m)) rv (\<lambda>rvInfo.
          tryE RvInfoState_DeleteRvInfo
            (\<lambda>_. reply_delete_rv (DeleteRendezvousInfo500JSONResponse ''failed to delete rendezvous info''))
            (\<lambda>_. reply_delete_rv (DeleteRendezvousInfo200JSONResponse rvInfo))))"

section \<open>What the operations do\<close>

text \<open>Only the TO0 and TO1 sessions of the rendezvous server have foreign keys.\<close>

definition schema_ok :: "sqldb \<Rightarrow> bool" where
  "schema_ok d \<longleftrightarrow> (\<forall>(ct, cc, pt, pc)\<in>set (fks d). ct \<in> {T_to0_sessions, T_to1_sessions} \<and> pt = T_sessions)"

lemma schema_ok_simps [simp]:
  "schema_ok (ins t r d) = schema_ok d" "schema_ok (put t r d) = schema_ok d"
  "schema_ok (upd t cs cvs d) = schema_ok d" "schema_ok (del t cs d) = schema_ok d"
  "schema_ok (begin_tx d) = schema_ok d" "schema_ok (commit_tx d) = schema_ok d"
  "schema_ok (rollback_tx d) = schema_ok d"
  by (simp_all add: schema_ok_def)

lemma schema_fk_ok: "schema_ok d \<Longrightarrow> t \<notin> {T_to0_sessions, T_to1_sessions} \<Longrightarrow> fk_ok t r d"
  by (fastforce simp: schema_ok_def fk_ok_def)

lemma schema_orphan: "schema_ok d \<Longrightarrow> t \<noteq> T_sessions \<Longrightarrow> \<not> orphan t gone d u r"
  by (fastforce simp: schema_ok_def orphan_def)

definition has_rvinfo :: "sqldb \<Rightarrow> bool" where
  "has_rvinfo d \<longleftrightarrow> lookup T_rvinfo (VInt 1) d \<noteq> None"

definition rvinfo_doc :: "cbor_lib \<Rightarrow> sqldb \<Rightarrow> rv_info result" where
  "rvinfo_doc C d =
     (case lookup T_rvinfo (VInt 1) d of
        None \<Rightarrow> Inl ErrRecordNotFound
      | Some r \<Rightarrow> of_opt (Wrapf ''failed to unmarshal CBOR rvinfo'' ErrInvalidRvInfo)
                    (un_rvinfo C (singleton_value r)))"

lemma singleton_value_toRow [simp]: "singleton_value (singleton_toRow s) = oi_Value s"
  by (simp add: singleton_value_def toRow_defs)

lemma singleton_value_set [simp]: "singleton_value (r(''value'' := VBytes b)) = b"
  by (simp add: singleton_value_def)

lemma singleton_id [simp]: "singleton_toRow s ''id'' = VInt (oi_ID s)"
  by (simp add: toRow_defs)

lemma wf_pk: "wf d \<Longrightarrow> pk_ok t (tabs d t)"
  by (simp add: wf_def)

text \<open>The row with identifier 1 under the statements the stores use.\<close>

lemma lookup_singleton:
  assumes "pkcols t = [''id'']"
  shows "lookup t (VInt 1) (put t (singleton_toRow \<lparr>oi_ID = 1, oi_Value = b\<rparr>) d) =
            Some (singleton_toRow \<lparr>oi_ID = 1, oi_Value = b\<rparr>)"
    "lookup t (VInt 1) d = None \<Longrightarrow>
       lookup t (VInt 1) (ins t (singleton_toRow \<lparr>oi_ID = 1, oi_Value = b\<rparr>) d) =
            Some (singleton_toRow \<lparr>oi_ID = 1, oi_Value = b\<rparr>)"
    "lookup t (VInt 1) (upd t [id1] [(''value'', VBytes b)] d) =
       map_option (\<lambda>r. r(''value'' := VBytes b)) (lookup t (VInt 1) d)"
  using assms lookup_key[of t "VInt 1" d "the (lookup t (VInt 1) d)" "''id''"]
  by (cases "lookup t (VInt 1) d"; simp add: lookup_put lookup_ins dupkey_lookup lookup_upd sql_eq_def)+

lemmas singleton_facts = wp_simps rows_key dupkey_lookup schema_fk_ok pk_ok_upd wf_pk lookup_singleton

interpretation rvinfo: config_store "InsertRvInfoCBOR C" "UpdateRvInfoCBOR C" "FetchRvInfo C" has_rvinfo
  "rvinfo_doc C" "\<lambda>rv. cbor_ok C \<and> marshal C (GRvInfo rv) \<noteq> None" "\<lambda>rv. rv" schema_ok for C
proof
  show "wp (InsertRvInfoCBOR C v) (\<lambda>r d'. schema_ok d' \<and>
      (if r = Inr () then \<not> has_rvinfo d \<and> has_rvinfo d' \<and> rvinfo_doc C d' = Inr v
       else d' = d \<and> (driver_failed r \<or> has_rvinfo d \<and> r = Inl ErrDuplicatedKey))) d"
    if "wf d" "schema_ok d" "cbor_ok C \<and> marshal C (GRvInfo v) \<noteq> None" for d v
    using that by (auto simp: InsertRvInfoCBOR_def marshalRvInfo_def has_rvinfo_def rvinfo_doc_def
      singleton_facts un_marshal)
  show "wp (UpdateRvInfoCBOR C v) (\<lambda>r d'. schema_ok d' \<and>
      (if r = Inr () then has_rvinfo d \<and> has_rvinfo d' \<and> rvinfo_doc C d' = Inr v
       else (has_rvinfo d' = has_rvinfo d \<and> rvinfo_doc C d' = rvinfo_doc C d) \<and>
            (driver_failed r \<or> \<not> has_rvinfo d \<and> r = Inl ErrRecordNotFound))) d"
    if "wf d" "schema_ok d" "cbor_ok C \<and> marshal C (GRvInfo v) \<noteq> None" for d v
    using that by (auto simp: UpdateRvInfoCBOR_def marshalRvInfo_def has_rvinfo_def rvinfo_doc_def
      singleton_facts un_marshal split: option.splits)
  show "wp (FetchRvInfo C) (\<lambda>r d'. d' = d \<and> (driver_failed r \<or> r = rvinfo_doc C d)) d"
    if "wf d" "schema_ok d" for d
    using that by (auto simp: FetchRvInfo_def rvinfo_doc_def singleton_facts split: option.splits)
qed

lemma wp_upsert:
  assumes "wf d" "schema_ok d"
  shows "wp (UpsertRvInfoCBOR C rv) Q d \<longleftrightarrow>
     (case marshal C (GRvInfo rv) of
        None \<Rightarrow> Q (Inl (Wrapf ''failed to marshal rvinfo to CBOR'' ErrCbor)) d
      | Some b \<Rightarrow> (\<forall>m. Q (Inl (ErrDriver m)) d) \<and>
                  Q (Inr ()) (put T_rvinfo (singleton_toRow \<lparr>oi_ID = 1, oi_Value = b\<rparr>) d))"
  using assms by (auto simp: UpsertRvInfoCBOR_def marshalRvInfo_def wp_simps schema_fk_ok split: option.splits)

lemma wp_RvInfoState_Fetch:
  assumes "wf d"
  shows "wp (RvInfoState_FetchRvInfo C) Q d \<longleftrightarrow> (\<forall>m. Q (Inl (ErrDriver m)) d) \<and>
     Q (case lookup T_rvinfo (VInt 1) d of None \<Rightarrow> Inl ErrRvInfoNotFound
        | Some r \<Rightarrow> of_opt (Wrapf ''failed to unmarshal CBOR'' ErrCbor) (un_rvinfo C (singleton_value r))) d"
  using assms by (auto simp: RvInfoState_FetchRvInfo_def wp_simps rows_key split: option.splits)

lemma v2_to_json_shape:
  assumes "v2_to_json K C rv = Inr v"
  shows "RVInfo_decode v = Some v"
proof -
  from assms obtain xs where v: "v = JArr xs"
    and xs: "rmapM (\<lambda>g. rbind (rmapM (v2_item K C) g) (\<lambda>grp. Inr (JArr grp))) rv = Inr xs"
    by (auto simp: v2_to_json_def)
  have "\<exists>ys. x = JArr ys" if "x \<in> set xs" for x
    using rmapM_set[OF xs that] by auto
  then show ?thesis
    by (fastforce simp: v RVInfo_decode_def list_all_iff)
qed

lemma wp_showRvInfo:
  assumes "v2_to_json K C rv = Inr v" "prints J v"
  shows "wp (showRvInfo K C J reply500 rv k) Q d = wp (k v) Q d"
  using assms v2_to_json_shape[OF assms(1)] by (simp add: showRvInfo_def convertToV2JSON_def prints_def)

lemma wf_putI: "wf d \<Longrightarrow> schema_ok d \<Longrightarrow> wf (put t r d) \<and> schema_ok (put t r d)"
  by (simp add: wf_put)

text \<open>The document a successful update leaves, as the V2 interface shows it.\<close>

lemma put_then_get:
  assumes "wf d" "schema_ok d" "cbor_ok C" "prints J b" "v2_of_json oob K C b = Inr rv"
    and "v2_to_json K C rv = Inr v" "prints J v"
  shows "wp (UpdateRendezvousInfo oob K C J (Some b)) (\<lambda>r d1. status r = 200 \<longrightarrow>
     wp (GetRendezvousInfo K C J) (\<lambda>r' d2.
       (r' = \<lparr>status = 500, resp_body = Json (JObj [(''message'', JStr ''failed to fetch rendezvous info'')])\<rparr> \<or>
        r' = \<lparr>status = 200, resp_body = Json v\<rparr>)) d1) d"
  using assms
  by (auto simp: UpdateRendezvousInfo_def GetRendezvousInfo_def parseV2JSON_def prints_def
      RvInfoState_UpsertRvInfo_def wp_simps wp_upsert wp_RvInfoState_Fetch wf_put lookup_singleton
      un_marshal wp_showRvInfo split: option.splits)

lemma createRvInfo_parses:
  assumes "ParseHumanReadableRvJSON oob K C J raw = Inr rv" "req_body r = Some raw"
  shows "createRvInfo oob K C J r = tryE (InsertRvInfoCBOR C rv)
            (\<lambda>err. if errors_is err ErrDuplicatedKey then http_error ''rvInfo already exists'' 409
                   else if errors_is err ErrInvalidRvInfo then http_error ''Invalid rvInfo'' 400
                   else http_error ''Error inserting rvInfo'' 500)
            (\<lambda>_. respond 201 (Raw raw))"
  using assms by (simp add: createRvInfo_def InsertRvInfo_def)

text \<open>A creation through V1 that was accepted, and the reading that follows it.\<close>

lemma post_then_get:
  assumes "wf d" "schema_ok d" "cbor_ok C" "ParseHumanReadableRvJSON oob K C J raw = Inr rv"
    "req_body r = Some raw"
  shows "wp (createRvInfo oob K C J r) (\<lambda>resp d1. status resp = 201 \<longrightarrow>
     wp (getRvInfo K C J) (\<lambda>resp' d2.
       resp' = \<lparr>status = 500, resp_body = Text ''Error fetching rvInfo''\<rparr> \<or>
       resp' = (case ConvertRvInstructionsToV1JSON K C J rv of
          Inl _ \<Rightarrow> \<lparr>status = 500, resp_body = Text ''Error converting rvInfo''\<rparr>
        | Inr doc \<Rightarrow> \<lparr>status = 200, resp_body = Raw doc\<rparr>)) d1) d"
proof (cases "marshal C (GRvInfo rv)")
  case None
  then show ?thesis
    by (simp add: createRvInfo_parses[OF assms(4,5)] InsertRvInfoCBOR_def marshalRvInfo_def wp_simps)
next
  case (Some b)
  have get: "wp (getRvInfo K C J) (\<lambda>resp' d2.
       resp' = \<lparr>status = 500, resp_body = Text ''Error fetching rvInfo''\<rparr> \<or>
       resp' = (case ConvertRvInstructionsToV1JSON K C J rv of
          Inl _ \<Rightarrow> \<lparr>status = 500, resp_body = Text ''Error converting rvInfo''\<rparr>
        | Inr doc \<Rightarrow> \<lparr>status = 200, resp_body = Raw doc\<rparr>)) d1"
    if "wf d1" "schema_ok d1" "rvinfo_doc C d1 = Inr rv" for d1
    using that(3)
    by (auto simp: getRvInfo_def wp_simps driver_failed_def intro!: wp_mono[OF rvinfo.fetch_spec[OF that(1,2)]]
        split: sum.splits)
  show ?thesis
    unfolding createRvInfo_parses[OF assms(4,5)] wp_tryE
    by (rule wp_mono[OF iffD2[OF wp_conj conjI, OF rvinfo.insert_spec[OF assms(1,2)] wf_wp[OF assms(1)]]])
       (use Some assms(3) get in \<open>auto simp: wp_simps split: sum.splits if_splits\<close>)
qed

text \<open>What the migration leaves: the document in CBOR, whatever its format was.\<close>

definition stored_rvinfo :: "oob \<Rightarrow> rv_consts \<Rightarrow> cbor_lib \<Rightarrow> json_lib \<Rightarrow> sqldb \<Rightarrow> rv_info result" where
  "stored_rvinfo oob K C J d =
     (case lookup T_rvinfo (VInt 1) d of
        None \<Rightarrow> Inl ErrRecordNotFound
      | Some r \<Rightarrow> (case un_rvinfo C (singleton_value r) of
                     Some rv \<Rightarrow> Inr rv
                   | None \<Rightarrow> ParseHumanReadableRvJSON oob K C J (singleton_value r)))"

lemma wp_migrate:
  assumes "wf d" "cbor_ok C"
  shows "wp (migrateRvInfoToCBOR oob K C J) (\<lambda>r d1.
     if r = Inr () then rvinfo_doc C d1 = stored_rvinfo oob K C J d else d1 = d) d"
  using assms
  by (auto simp: migrateRvInfoToCBOR_def marshalRvInfo_def wp_bindP singleton_facts stored_rvinfo_def
      rvinfo_doc_def un_marshal split: option.splits sum.splits)

lemma wp_migrate_done:
  assumes "wf d" "rvinfo_doc C d = Inr rv \<or> rvinfo_doc C d = Inl ErrRecordNotFound"
  shows "wp (migrateRvInfoToCBOR oob K C J) (\<lambda>r d1. d1 = d) d"
  using assms
  by (auto simp: migrateRvInfoToCBOR_def wp_bindP singleton_facts rvinfo_doc_def split: option.splits)

lemma wp_delete:
  assumes "wf d" "schema_ok d"
  shows "wp (DeleteRendezvousInfo K C J) (\<lambda>resp d1. status resp = 200 \<longrightarrow> \<not> has_rvinfo d1) d"
  using assms
  by (auto simp: DeleteRendezvousInfo_def RvInfoState_DeleteRvInfo_def wp_simps wp_RvInfoState_Fetch
      showRvInfo_def has_rvinfo_def lookup_del sql_eq_def ErrCbor_def dest: lookup_key split: option.splits sum.splits)

section \<open>A concrete instance\<close>

text \<open>Codes, a codec, a text layer and documents for the examples that follow the properties.\<close>

definition ex_consts :: rv_consts where
  "ex_consts = \<lparr>RVProtRest = 0, RVProtHTTP = 1, RVProtHTTPS = 2, RVProtTCP = 3, RVProtTLS = 4,
     RVProtCoapTCP = 5, RVProtCoapUDP = 6, RVMedEthAll = 20, RVMedWifiAll = 21\<rparr>"

definition ex_rv :: rv_info where
  "ex_rv = [[\<lparr>Variable = RVDns, Value = ''T''\<rparr>, \<lparr>Variable = RVOwnerPort, Value = ''P''\<rparr>]]"

definition ex_rv_ext :: rv_info where
  "ex_rv_ext = [[\<lparr>Variable = RVDns, Value = ''T''\<rparr>, \<lparr>Variable = RVExtRV, Value = ''T''\<rparr>]]"

definition ex_codec :: cbor_lib where
  "ex_codec = table_codec [(GText ''h'', ''T''), (GInt 80, ''P''), (GRvInfo ex_rv, ''R''),
     (GRvInfo ex_rv_ext, ''X'')]"

definition ex_doc2 :: json where
  "ex_doc2 = JArr [JArr [JObj [(''dns'', JStr ''h'')], JObj [(''owner_port'', json_nat 80)]]]"

definition ex_doc1 :: json where
  "ex_doc1 = JArr [JObj [(''dns'', JStr ''h''), (''owner_port'', JStr ''080'')]]"

definition ex_doc1_ext :: json where
  "ex_doc1_ext = JArr [JObj [(''dns'', JStr ''h''), (''ext_rv'', JStr ''h'')]]"

definition ex_json :: json_lib where
  "ex_json = table_json [(ex_doc2, ''2''), (ex_doc1, ''1''), (ex_doc1_ext, ''x'')]"

definition ex_request :: "string \<Rightarrow> bytes \<Rightarrow> request" where
  "ex_request m b = \<lparr>req_method = m, req_path = (\<lambda>_. []), req_query = (\<lambda>_. []), req_content_type = [],
     req_body = Some b\<rparr>"

lemma ex_ok: "cbor_ok ex_codec" "rv_consts_ok ex_consts" "wf (empty_db [])" "schema_ok (empty_db [])"
  "gorm_engine sql_exec (\<lambda>d. d)"
  by (simp_all add: ex_codec_def ex_consts_def rv_consts_ok_def cbor_ok_table_codec wf_empty_db
      sql.gorm_engine_axioms)
     (simp add: schema_ok_def empty_db_def)

section \<open>Properties\<close>

text \<open>
  C9. Rendezvous information that was accepted through the V2 interface (status 200) is what
  the V2 interface then shows: the next reading fails to reach the database, or
  answers 200 with a document that parses to the same instructions, IPv4 and IPv6 addresses among
  them. Of the JSON library it takes that the two documents in question survive printing and parsing (\<open>prints\<close>).
\<close>

theorem rvinfo_v2_put_get:
  assumes "gorm_engine E view" "wf (view db)" "schema_ok (view db)" "cbor_ok C" "rv_consts_ok K"
    and "v2_of_json oob K C b = Inr rv"
    and "prints J b" "\<forall>v. v2_to_json K C rv = Inr v \<longrightarrow> prints J v"
    and "status (result E (UpdateRendezvousInfo oob K C J (Some b)) db) = 200"
  shows "let resp = result E (GetRendezvousInfo K C J) (after E (UpdateRendezvousInfo oob K C J (Some b)) db) in
     resp = \<lparr>status = 500, resp_body = Json (JObj [(''message'', JStr ''failed to fetch rendezvous info'')])\<rparr> \<or>
     (\<exists>v. resp = \<lparr>status = 200, resp_body = Json v\<rparr> \<and> v2_of_json oob K C v = Inr rv)"
proof -
  from v2_reads_back[OF assms(4,5,6)] obtain v where
    v: "v2_to_json K C rv = Inr v" "v2_of_json oob K C v = Inr rv" by blast
  with assms(8) have "prints J v" by blast
  from gorm_engine.wp_seq[OF assms(1) put_then_get[OF assms(2,3,4,7,6) v(1) this] assms(9)] v(2)
  show ?thesis by (auto simp: Let_def)
qed

lemma rvinfo_v2_put_get_witness:
  "let resp = result sql_exec (GetRendezvousInfo ex_consts ex_codec ex_json)
        (after sql_exec (UpdateRendezvousInfo (\<lambda>_ _. 0) ex_consts ex_codec ex_json (Some ex_doc2)) (empty_db [])) in
     resp = \<lparr>status = 500, resp_body = Json (JObj [(''message'', JStr ''failed to fetch rendezvous info'')])\<rparr> \<or>
     (\<exists>v. resp = \<lparr>status = 200, resp_body = Json v\<rparr> \<and>
          v2_of_json (\<lambda>_ _. 0) ex_consts ex_codec v = Inr ex_rv)"
proof (rule rvinfo_v2_put_get[OF ex_ok(5,3,4,1,2)])
  show "v2_of_json (\<lambda>_ _. 0) ex_consts ex_codec ex_doc2 = Inr ex_rv" by code_simp
  show "prints ex_json ex_doc2" by code_simp
  have "v2_to_json ex_consts ex_codec ex_rv = Inr ex_doc2" by code_simp
  then show "\<forall>v. v2_to_json ex_consts ex_codec ex_rv = Inr v \<longrightarrow> prints ex_json v"
    using \<open>prints ex_json ex_doc2\<close> by simp
  show "status (result sql_exec (UpdateRendezvousInfo (\<lambda>_ _. 0) ex_consts ex_codec ex_json (Some ex_doc2))
     (empty_db [])) = 200" by code_simp
qed

text \<open>
  C25. A document created through the V1 interface (status 201) without \<^verbatim>\<open>ext_rv\<close> reads back
  through V1 as the same objects, with addresses, ports and hashes in canonical spelling
  and every \<^verbatim>\<open>user_input\<close> as the text \<^verbatim>\<open>true\<close>, also where \<^verbatim>\<open>false\<close> was sent.
\<close>

theorem rvinfo_v1_post_get:
  assumes "gorm_engine E view" "wf (view db)" "schema_ok (view db)" "cbor_ok C" "rv_consts_ok K"
    and "req_body r = Some raw" "jparse J raw = Some v" "json_slice rv_human_of_json v = Inr items"
    and "\<forall>h\<in>set items. h_ExtRV h = []"
    and "status (result E (createRvInfo oob K C J r) db) = 201"
  shows "result E (getRvInfo K C J) (after E (createRvInfo oob K C J r) db) \<in>
     {\<lparr>status = 500, resp_body = Text ''Error fetching rvInfo''\<rparr>,
      \<lparr>status = 200, resp_body = Raw (jprint J (JArr (map (\<lambda>h. rv_human_json (v1_norm h)) items)))\<rparr>}"
proof (cases "ParseHumanReadableRvJSON oob K C J raw")
  case (Inl e)
  then have "wp (createRvInfo oob K C J r) (\<lambda>resp d1. status resp \<noteq> 201) (view db)"
    using assms(6) by (simp add: createRvInfo_def InsertRvInfo_def wp_simps)
  from gorm_engine.wp_result[OF assms(1) this] assms(10) show ?thesis by simp
next
  case (Inr rv)
  then have rv: "rmapM (rv_human_group oob K C) items = Inr rv"
    using assms(7,8) by (auto simp: ParseHumanReadableRvJSON_def)
  have "v1_items K C J rv = Inr (map v1_norm items)"
    using rv assms(9)
    by (auto simp: v1_items_def rmapM_all2 list_all2_map2 list_all2_map1 list_all2_conv_all_nth
        v1_group_reads_back[OF assms(4,5)])
  then have "ConvertRvInstructionsToV1JSON K C J rv =
      Inr (jprint J (JArr (map (\<lambda>h. rv_human_json (v1_norm h)) items)))"
    by (simp add: ConvertRvInstructionsToV1JSON_def comp_def)
  with gorm_engine.wp_seq[OF assms(1) post_then_get[OF assms(2,3,4) Inr assms(6)] assms(10)]
  show ?thesis by simp
qed

lemma rvinfo_v1_post_get_witness:
  "result sql_exec (getRvInfo ex_consts ex_codec ex_json)
     (after sql_exec (createRvInfo (\<lambda>_ _. 0) ex_consts ex_codec ex_json (ex_request ''POST'' ''1'')) (empty_db [])) \<in>
     {\<lparr>status = 500, resp_body = Text ''Error fetching rvInfo''\<rparr>,
      \<lparr>status = 200, resp_body = Raw (jprint ex_json (JArr (map (\<lambda>h. rv_human_json (v1_norm h))
          [rv_human_zero\<lparr>h_DNS := ''h'', h_OwnerPort := ''080''\<rparr>])))\<rparr>}"
proof (rule rvinfo_v1_post_get[OF ex_ok(5,3,4,1,2)])
  show "req_body (ex_request ''POST'' ''1'') = Some ''1''" by (simp add: ex_request_def)
  show "jparse ex_json ''1'' = Some ex_doc1" by code_simp
  show "json_slice rv_human_of_json ex_doc1 = Inr [rv_human_zero\<lparr>h_DNS := ''h'', h_OwnerPort := ''080''\<rparr>]"
    by code_simp
  show "\<forall>h\<in>set [rv_human_zero\<lparr>h_DNS := ''h'', h_OwnerPort := ''080''\<rparr>]. h_ExtRV h = []"
    by (simp add: rv_human_zero_def)
  show "status (result sql_exec (createRvInfo (\<lambda>_ _. 0) ex_consts ex_codec ex_json (ex_request ''POST'' ''1''))
     (empty_db [])) = 201" by code_simp
qed

text \<open>
  C39. A document with an \<^verbatim>\<open>ext_rv\<close> member that the V1 interface accepted (status 201) can no
  longer be read through it: every following reading answers 500.
\<close>

theorem rvinfo_v1_ext_rv_unreadable:
  assumes "gorm_engine E view" "wf (view db)" "schema_ok (view db)" "cbor_ok C"
    and "req_body r = Some raw" "jparse J raw = Some v" "json_slice rv_human_of_json v = Inr items"
    and "\<exists>h\<in>set items. h_ExtRV h \<noteq> []"
    and "status (result E (createRvInfo oob K C J r) db) = 201"
  shows "status (result E (getRvInfo K C J) (after E (createRvInfo oob K C J r) db)) = 500"
proof (cases "ParseHumanReadableRvJSON oob K C J raw")
  case (Inl e)
  then have "wp (createRvInfo oob K C J r) (\<lambda>resp d1. status resp \<noteq> 201) (view db)"
    using assms(5) by (simp add: createRvInfo_def InsertRvInfo_def wp_simps)
  from gorm_engine.wp_result[OF assms(1) this] assms(9) show ?thesis by simp
next
  case (Inr rv)
  then have rv: "list_all2 (\<lambda>h g. rv_human_group oob K C h = Inr g) items rv"
    using assms(6,7) by (auto simp: ParseHumanReadableRvJSON_def rmapM_all2)
  from assms(8) obtain i where i: "i < length items" "h_ExtRV (items ! i) \<noteq> []"
    by (auto simp: in_set_conv_nth)
  from v1_group_ext_rv[OF assms(4) list_all2_nthD[OF rv i(1)] i(2), of J rv_human_zero]
  obtain e where "rfoldl (v1_instr K C J) rv_human_zero (rv ! i) = Inl e" by blast
  with i(1) list_all2_lengthD[OF rv] have "\<nexists>out. v1_items K C J rv = Inr out"
    by (auto simp: v1_items_def rmapM_all2 list_all2_conv_all_nth intro!: exI[of _ i])
  then have "\<exists>e. ConvertRvInstructionsToV1JSON K C J rv = Inl e"
    by (cases "v1_items K C J rv") (auto simp: ConvertRvInstructionsToV1JSON_def)
  with gorm_engine.wp_seq[OF assms(1) post_then_get[OF assms(2,3,4) Inr assms(5)] assms(9)]
  show ?thesis by auto
qed

lemma rvinfo_v1_ext_rv_unreadable_witness:
  "status (result sql_exec (getRvInfo ex_consts ex_codec ex_json)
     (after sql_exec (createRvInfo (\<lambda>_ _. 0) ex_consts ex_codec ex_json (ex_request ''POST'' ''x''))
        (empty_db []))) = 500"
proof (rule rvinfo_v1_ext_rv_unreadable[OF ex_ok(5,3,4,1)])
  show "req_body (ex_request ''POST'' ''x'') = Some ''x''" by (simp add: ex_request_def)
  show "jparse ex_json ''x'' = Some ex_doc1_ext" by code_simp
  show "json_slice rv_human_of_json ex_doc1_ext = Inr [rv_human_zero\<lparr>h_DNS := ''h'', h_ExtRV := ''h''\<rparr>]"
    by code_simp
  show "\<exists>h\<in>set [rv_human_zero\<lparr>h_DNS := ''h'', h_ExtRV := ''h''\<rparr>]. h_ExtRV h \<noteq> []"
    by (simp add: rv_human_zero_def)
  show "status (result sql_exec (createRvInfo (\<lambda>_ _. 0) ex_consts ex_codec ex_json (ex_request ''POST'' ''x''))
     (empty_db [])) = 201" by code_simp
qed

text \<open>
  The start-up migration: after it succeeds the stored document reads as the instructions
  it meant before (CBOR as CBOR, V1 JSON as parsed), and a migration that
  fails, or a second one, changes nothing.
\<close>

theorem migration_keeps_meaning:
  fixes oob K J
  assumes "gorm_engine E view" "wf (view db)" "cbor_ok C"
  defines "db1 \<equiv> after E (migrateRvInfoToCBOR oob K C J) db"
  shows "if result E (migrateRvInfoToCBOR oob K C J) db = Inr ()
     then rvinfo_doc C (view db1) = stored_rvinfo oob K C J (view db) \<and>
          ((\<exists>rv. stored_rvinfo oob K C J (view db) = Inr rv) \<longrightarrow>
             view (after E (migrateRvInfoToCBOR oob K C J) db1) = view db1)
     else view db1 = view db"
proof -
  have "wf (view db1)" unfolding db1_def using gorm_engine.wp_result[OF assms(1) wf_wp[OF assms(2)]] .
  with gorm_engine.wp_result[OF assms(1) wp_migrate[OF assms(2,3), of oob K J]]
    gorm_engine.wp_result[OF assms(1) wp_migrate_done[of "view db1" C _ oob K J]]
  show ?thesis by (auto simp: db1_def)
qed

definition ex_old_db :: sqldb where
  "ex_old_db = put T_rvinfo (singleton_toRow \<lparr>oi_ID = 1, oi_Value = ''1''\<rparr>) (empty_db [])"

lemma migration_keeps_meaning_witness:
  "result sql_exec (migrateRvInfoToCBOR (\<lambda>_ _. 0) ex_consts ex_codec ex_json) ex_old_db = Inr () \<and>
   rvinfo_doc ex_codec (after sql_exec (migrateRvInfoToCBOR (\<lambda>_ _. 0) ex_consts ex_codec ex_json) ex_old_db) =
     stored_rvinfo (\<lambda>_ _. 0) ex_consts ex_codec ex_json ex_old_db"
proof -
  have ok: "result sql_exec (migrateRvInfoToCBOR (\<lambda>_ _. 0) ex_consts ex_codec ex_json) ex_old_db = Inr ()"
    by code_simp
  have "wf ex_old_db" by (simp add: ex_old_db_def wf_put wf_empty_db)
  from migration_keeps_meaning[OF ex_ok(5) this ex_ok(1), of "\<lambda>_ _. 0" ex_consts ex_json] ok
  show ?thesis by simp
qed

text \<open>
  Deleting through the V2 interface: when the answer is 200 there is no document any more,
  and reading it gives the empty array or a database error.
\<close>

theorem rvinfo_v2_delete_get:
  assumes "gorm_engine E view" "wf (view db)" "schema_ok (view db)"
    and "status (result E (DeleteRendezvousInfo K C J) db) = 200"
  shows "result E (GetRendezvousInfo K C J) (after E (DeleteRendezvousInfo K C J) db) \<in>
     {\<lparr>status = 500, resp_body = Json (JObj [(''message'', JStr ''failed to fetch rendezvous info'')])\<rparr>,
      \<lparr>status = 200, resp_body = Json (JArr [])\<rparr>}"
proof -
  let ?db1 = "after E (DeleteRendezvousInfo K C J) db"
  have "\<not> has_rvinfo (view ?db1)" "wf (view ?db1)"
    using gorm_engine.wp_result[OF assms(1) wp_delete[OF assms(2,3)]] assms(4)
      gorm_engine.wp_result[OF assms(1) wf_wp[OF assms(2)]] by auto
  then have "wp (GetRendezvousInfo K C J) (\<lambda>resp d. resp \<in>
     {\<lparr>status = 500, resp_body = Json (JObj [(''message'', JStr ''failed to fetch rendezvous info'')])\<rparr>,
      \<lparr>status = 200, resp_body = Json (JArr [])\<rparr>}) (view ?db1)"
    by (simp add: GetRendezvousInfo_def wp_simps wp_RvInfoState_Fetch has_rvinfo_def)
  from gorm_engine.wp_result[OF assms(1) this] show ?thesis .
qed

lemma rvinfo_v2_delete_get_witness:
  "result sql_exec (GetRendezvousInfo ex_consts ex_codec ex_json)
     (after sql_exec (DeleteRendezvousInfo ex_consts ex_codec ex_json) (empty_db [])) \<in>
     {\<lparr>status = 500, resp_body = Json (JObj [(''message'', JStr ''failed to fetch rendezvous info'')])\<rparr>,
      \<lparr>status = 200, resp_body = Json (JArr [])\<rparr>}"
  by (rule rvinfo_v2_delete_get[OF ex_ok(5,3,4)]) code_simp

end
