(* ===== verification/OwnerInfo.thy ===== *)
theory OwnerInfo
  imports RvInfoStore
begin

text \<open>
  The owner information: the addresses the owner registers at rendezvous servers, kept as
  the JSON text the client sent (\<^verbatim>\<open>internal/db/db.go\<close>, \<^verbatim>\<open>api/handlers/ownerinfo.go\<close>). The
  text is parsed before it is stored, and again when it is used.
\<close>

section \<open>Parsing\<close>

definition transportProtocolFromString :: "string \<Rightarrow> transport result" where
  "transportProtocolFromString s =
     (if s = ''tcp'' then Inr TCPTransport
      else if s = ''tls'' then Inr TLSTransport
      else if s = ''http'' then Inr HTTPTransport
      else if s = ''coap'' then Inr CoAPTransport
      else if s = ''https'' then Inr HTTPSTransport
      else if s = ''coaps'' then Inr CoAPSTransport
      else Inl (Errorf ''unsupported transport protocol''))"

record to2_human =
  t_DNS :: string
  t_IP :: string
  t_Port :: string
  t_Protocol :: string

definition to2_human_zero :: to2_human where
  "to2_human_zero = \<lparr>t_DNS = [], t_IP = [], t_Port = [], t_Protocol = []\<rparr>"

definition to2_human_store :: "string \<Rightarrow> json \<Rightarrow> to2_human \<Rightarrow> to2_human result" where
  "to2_human_store n v h =
     (if n = ''dns'' then rbind (json_str v (t_DNS h)) (\<lambda>s. Inr (h\<lparr>t_DNS := s\<rparr>))
      else if n = ''ip'' then rbind (json_str v (t_IP h)) (\<lambda>s. Inr (h\<lparr>t_IP := s\<rparr>))
      else if n = ''port'' then rbind (json_str v (t_Port h)) (\<lambda>s. Inr (h\<lparr>t_Port := s\<rparr>))
      else rbind (json_str v (t_Protocol h)) (\<lambda>s. Inr (h\<lparr>t_Protocol := s\<rparr>)))"

definition to2_human_of_json :: "json \<Rightarrow> to2_human result" where
  "to2_human_of_json =
     json_struct [''dns'', ''ip'', ''port'', ''protocol''] to2_human_store to2_human_zero"

definition to2_addr :: "to2_human \<Rightarrow> rv_to2_addr result" where
  "to2_addr item =
     rbind (if t_IP item = [] then Inr None
            else case ParseIP (t_IP item) of
              None \<Rightarrow> Inl (Errorf ''invalid ip'') | Some ip \<Rightarrow> Inr (Some ip)) (\<lambda>ipPtr.
     let dnsPtr = (if t_DNS item = [] then None else Some (t_DNS item)) in
     if ipPtr = None \<and> dnsPtr = None
     then Inl (Errorf ''to2: at least one of dns or ip must be specified'')
     else
       rbind (if t_Port item = [] then Inr 0
              else rbind (rmap_err (Wrapf ''port'') (db_parsePortValue (AStr (t_Port item)))) (\<lambda>p.
                     Inr (word_of_nat p))) (\<lambda>port.
       rbind (if t_Protocol item = [] then Inr NoTransport
              else transportProtocolFromString (t_Protocol item)) (\<lambda>proto.
         Inr \<lparr>IPAddress = ipPtr, DNSAddress = dnsPtr, Port = port, TransportProtocol = proto\<rparr>)))"

definition parseHumanToTO2AddrsJSON :: "json_lib \<Rightarrow> bytes \<Rightarrow> rv_to2_addr list result" where
  "parseHumanToTO2AddrsJSON J rawJSON =
     rbind (rmap_err (Wrapf ''invalid TO2 addrs JSON'')
             (rbind (of_opt ErrSyntax (jparse J rawJSON)) (json_slice to2_human_of_json)))
       (rmapM to2_addr)"

section \<open>The row\<close>

definition InsertOwnerInfo :: "json_lib \<Rightarrow> bytes \<Rightarrow> unit act" where
  "InsertOwnerInfo J data =
     bindE (liftR (rmap_err (\<lambda>_. Wrapf ''parse'' ErrInvalidOwnerInfo) (parseHumanToTO2AddrsJSON J data))) (\<lambda>_.
     bindE (dbCreateDoNothing T_owner_info (singleton_toRow \<lparr>oi_ID = 1, oi_Value = data\<rparr>)) (\<lambda>n.
       if n = 0 then failE ErrDuplicatedKey else retE ()))"

definition UpdateOwnerInfo :: "json_lib \<Rightarrow> bytes \<Rightarrow> unit act" where
  "UpdateOwnerInfo J data =
     bindE (liftR (rmap_err (\<lambda>_. Wrapf ''parse'' ErrInvalidOwnerInfo) (parseHumanToTO2AddrsJSON J data))) (\<lambda>_.
     bindE (dbUpdate T_owner_info [id1] [(''value'', VBytes data)]) (\<lambda>n.
       if n = 0 then failE ErrRecordNotFound else retE ()))"

definition FetchOwnerInfoJSON :: "bytes act" where
  "FetchOwnerInfoJSON = bindE (dbFirst T_owner_info [id1]) (\<lambda>r. retE (singleton_value r))"

definition FetchOwnerInfo :: "json_lib \<Rightarrow> rv_to2_addr list act" where
  "FetchOwnerInfo J = bindE FetchOwnerInfoJSON (\<lambda>data. liftR (parseHumanToTO2AddrsJSON J data))"

section \<open>Handlers\<close>

definition getOwnerInfo :: "response prog" where
  "getOwnerInfo =
     tryE FetchOwnerInfoJSON
       (\<lambda>err. if errors_is err ErrRecordNotFound then http_error ''No ownerInfo found'' 404
              else http_error ''Error fetching ownerInfo'' 500)
       (\<lambda>ownerInfoJSON. respond 200 (Raw ownerInfoJSON))"

definition createOwnerInfo :: "json_lib \<Rightarrow> request \<Rightarrow> response prog" where
  "createOwnerInfo J r =
     (case req_body r of
        None \<Rightarrow> http_error ''Error reading body'' 500
      | Some ownerInfo \<Rightarrow>
          tryE (InsertOwnerInfo J ownerInfo)
            (\<lambda>err. if errors_is err ErrDuplicatedKey then http_error ''ownerInfo already exists'' 409
                   else if errors_is err ErrInvalidOwnerInfo then http_error ''Invalid ownerInfo'' 400
                   else http_error ''Error inserting ownerInfo'' 500)
            (\<lambda>_. respond 201 (Raw ownerInfo)))"

definition updateOwnerInfo :: "json_lib \<Rightarrow> request \<Rightarrow> response prog" where
  "updateOwnerInfo J r =
     (case req_body r of
        None \<Rightarrow> http_error ''Error reading body'' 500
      | Some ownerInfo \<Rightarrow>
          tryE (UpdateOwnerInfo J ownerInfo)
            (\<lambda>err. if errors_is err ErrRecordNotFound then http_error ''ownerInfo does not exist'' 404
                   else if errors_is err ErrInvalidOwnerInfo then http_error ''Invalid ownerInfo'' 400
                   else http_error ''Error updating ownerInfo'' 500)
            (\<lambda>_. respond 200 (Raw ownerInfo)))"

definition OwnerInfoHandler :: "json_lib \<Rightarrow> request \<Rightarrow> response prog" where
  "OwnerInfoHandler J r =
     (if req_method r = ''GET'' then getOwnerInfo
      else if req_method r = ''POST'' then createOwnerInfo J r
      else if req_method r = ''PUT'' then updateOwnerInfo J r
      else http_error ''Method not allowed'' 405)"

section \<open>What the operations do\<close>

definition has_ownerinfo :: "sqldb \<Rightarrow> bool" where
  "has_ownerinfo d \<longleftrightarrow> lookup T_owner_info (VInt 1) d \<noteq> None"

definition ownerinfo_doc :: "sqldb \<Rightarrow> bytes result" where
  "ownerinfo_doc d = (case lookup T_owner_info (VInt 1) d of
     None \<Rightarrow> Inl ErrRecordNotFound | Some r \<Rightarrow> Inr (singleton_value r))"

interpretation ownerinfo: config_store "InsertOwnerInfo J" "UpdateOwnerInfo J" FetchOwnerInfoJSON
  has_ownerinfo ownerinfo_doc "\<lambda>b. \<exists>as. parseHumanToTO2AddrsJSON J b = Inr as" "\<lambda>b. b" schema_ok for J
proof
  show "wp (InsertOwnerInfo J v) (\<lambda>r d'. schema_ok d' \<and>
      (if r = Inr () then \<not> has_ownerinfo d \<and> has_ownerinfo d' \<and> ownerinfo_doc d' = Inr v
       else d' = d \<and> (driver_failed r \<or> has_ownerinfo d \<and> r = Inl ErrDuplicatedKey))) d"
    if "wf d" "schema_ok d" "\<exists>as. parseHumanToTO2AddrsJSON J v = Inr as" for d v
    using that by (auto simp: InsertOwnerInfo_def has_ownerinfo_def ownerinfo_doc_def singleton_facts)
  show "wp (UpdateOwnerInfo J v) (\<lambda>r d'. schema_ok d' \<and>
      (if r = Inr () then has_ownerinfo d \<and> has_ownerinfo d' \<and> ownerinfo_doc d' = Inr v
       else (has_ownerinfo d' = has_ownerinfo d \<and> ownerinfo_doc d' = ownerinfo_doc d) \<and>
            (driver_failed r \<or> \<not> has_ownerinfo d \<and> r = Inl ErrRecordNotFound))) d"
    if "wf d" "schema_ok d" "\<exists>as. parseHumanToTO2AddrsJSON J v = Inr as" for d v
    using that by (auto simp: UpdateOwnerInfo_def has_ownerinfo_def ownerinfo_doc_def singleton_facts
        split: option.splits)
  show "wp FetchOwnerInfoJSON (\<lambda>r d'. d' = d \<and> (driver_failed r \<or> r = ownerinfo_doc d)) d"
    if "wf d" "schema_ok d" for d
    using that by (auto simp: FetchOwnerInfoJSON_def ownerinfo_doc_def singleton_facts split: option.splits)
qed

text \<open>Every address has an IP address or a name, and a port in range where one was given.\<close>

lemma to2_addr_ok:
  assumes "to2_addr item = Inr a"
  shows "IPAddress a \<noteq> None \<or> DNSAddress a \<noteq> None" "t_Port item = [] \<Longrightarrow> Port a = 0"
    "t_Port item \<noteq> [] \<Longrightarrow> Port a \<noteq> 0"
proof -
  show "IPAddress a \<noteq> None \<or> DNSAddress a \<noteq> None" "t_Port item = [] \<Longrightarrow> Port a = 0"
    using assms by (auto simp: to2_addr_def Let_def split: if_splits)
  show "Port a \<noteq> 0" if "t_Port item \<noteq> []"
  proof -
    from assms that obtain p where p: "db_parsePortValue (AStr (t_Port item)) = Inr p" "Port a = word_of_nat p"
      by (auto simp: to2_addr_def Let_def split: if_splits)
    from db_parsePortValue_range[OF p(1)] have "unat (word_of_nat p :: 16 word) = p"
      by (simp add: unat_of_nat)
    with p db_parsePortValue_range[OF p(1)] show ?thesis by auto
  qed
qed

text \<open>The two operations of a client in a row: create, then read.\<close>

lemma owner_create_get:
  assumes "wf d" "schema_ok d" "req_body r = Some raw"
  shows "wp (createOwnerInfo J r) (\<lambda>resp d1. status resp = 201 \<longrightarrow>
     wp getOwnerInfo (\<lambda>resp' d2. resp' \<in> {\<lparr>status = 500, resp_body = Text ''Error fetching ownerInfo''\<rparr>,
       \<lparr>status = 200, resp_body = Raw raw\<rparr>}) d1) d"
proof (cases "parseHumanToTO2AddrsJSON J raw")
  case (Inl e)
  with assms show ?thesis by (simp add: createOwnerInfo_def InsertOwnerInfo_def wp_simps)
next
  case (Inr as)
  have get: "wp getOwnerInfo (\<lambda>resp' d2. resp' \<in> {\<lparr>status = 500, resp_body = Text ''Error fetching ownerInfo''\<rparr>,
       \<lparr>status = 200, resp_body = Raw raw\<rparr>}) d1"
    if "wf d1" "schema_ok d1" "ownerinfo_doc d1 = Inr raw" for d1
    using that(3) by (auto simp: getOwnerInfo_def wp_simps driver_failed_def
        intro!: wp_mono[OF ownerinfo.fetch_spec[OF that(1,2)]] split: sum.splits)
  have val: "\<exists>as. parseHumanToTO2AddrsJSON J raw = Inr as" using Inr by blast
  show ?thesis unfolding createOwnerInfo_def assms(3) option.case wp_tryE
    by (rule wp_mono[OF iffD2[OF wp_conj conjI, OF ownerinfo.insert_spec[OF assms(1,2) val] wf_wp[OF assms(1)]]])
       (use get in \<open>auto simp: wp_simps split: sum.splits if_splits\<close>)
qed

text \<open>A text layer with one document, for the examples.\<close>

definition ex_owner_json :: json_lib where
  "ex_owner_json = table_json [(JArr [JObj [(''dns'', JStr ''h''), (''port'', JStr ''80'')]], ''o'')]"

definition ex_owner_addr :: rv_to2_addr where
  "ex_owner_addr = \<lparr>IPAddress = None, DNSAddress = Some ''h'', Port = 80, TransportProtocol = NoTransport\<rparr>"

section \<open>Properties\<close>

text \<open>
  C36. Owner information that was created (status 201) reads back octet for octet, or the
  database cannot be reached.
\<close>

theorem ownerinfo_post_get:
  assumes "gorm_engine E view" "wf (view db)" "schema_ok (view db)" "req_body r = Some raw"
    and "status (result E (createOwnerInfo J r) db) = 201"
  shows "result E getOwnerInfo (after E (createOwnerInfo J r) db) \<in>
     {\<lparr>status = 500, resp_body = Text ''Error fetching ownerInfo''\<rparr>, \<lparr>status = 200, resp_body = Raw raw\<rparr>}"
  using gorm_engine.wp_seq[OF assms(1) owner_create_get[OF assms(2-4)] assms(5)] .

lemma ownerinfo_post_get_witness:
  "result sql_exec getOwnerInfo
     (after sql_exec (createOwnerInfo ex_owner_json (ex_request ''POST'' ''o'')) (empty_db [])) \<in>
     {\<lparr>status = 500, resp_body = Text ''Error fetching ownerInfo''\<rparr>, \<lparr>status = 200, resp_body = Raw ''o''\<rparr>}"
proof (rule ownerinfo_post_get[OF ex_ok(5,3,4)])
  show "req_body (ex_request ''POST'' ''o'') = Some ''o''" by (simp add: ex_request_def)
  show "status (result sql_exec (createOwnerInfo ex_owner_json (ex_request ''POST'' ''o'')) (empty_db [])) = 201"
    by code_simp
qed

text \<open>
  C38. The addresses the owner server works with: whenever \<^verbatim>\<open>FetchOwnerInfo\<close> succeeds, on any
  database, each address has an IP address or a DNS name.
\<close>

theorem ownerinfo_addresses_reachable:
  assumes "gorm_engine E view" "result E (FetchOwnerInfo J) db = Inr as" "a \<in> set as"
  shows "\<not> (IPAddress a = None \<and> DNSAddress a = None)"
proof -
  have "wp (FetchOwnerInfo J) (\<lambda>r d. \<forall>as. r = Inr as \<longrightarrow> (\<exists>raw. parseHumanToTO2AddrsJSON J raw = Inr as)) (view db)"
    by (auto simp: FetchOwnerInfo_def FetchOwnerInfoJSON_def wp_simps)
  from gorm_engine.wp_result[OF assms(1) this] assms(2) obtain raw items where
    "rmapM to2_addr items = Inr as" by (auto simp: parseHumanToTO2AddrsJSON_def)
  from rmapM_set[OF this assms(3)] to2_addr_ok(1) show ?thesis by blast
qed

lemma ownerinfo_addresses_reachable_witness:
  "result sql_exec (FetchOwnerInfo ex_owner_json)
     (after sql_exec (InsertOwnerInfo ex_owner_json ''o'') (empty_db [])) = Inr [ex_owner_addr] \<and>
   \<not> (IPAddress ex_owner_addr = None \<and> DNSAddress ex_owner_addr = None)"
proof -
  have r: "result sql_exec (FetchOwnerInfo ex_owner_json)
     (after sql_exec (InsertOwnerInfo ex_owner_json ''o'') (empty_db [])) = Inr [ex_owner_addr]"
    by code_simp
  with ownerinfo_addresses_reachable[OF ex_ok(5) r, of ex_owner_addr] show ?thesis by simp
qed

text \<open>
  A second creation is refused with 409 (or fails in the driver with 500) and the first
  document stays: the database is unchanged.
\<close>

theorem ownerinfo_created_once:
  assumes "gorm_engine E view" "wf (view db)" "schema_ok (view db)"
    and "req_body r' = Some raw'"
    and "parseHumanToTO2AddrsJSON J raw = Inr as" "parseHumanToTO2AddrsJSON J raw' = Inr as'"
    and "result E (InsertOwnerInfo J raw) db = Inr ()"
  shows "status (result E (createOwnerInfo J r') (after E (InsertOwnerInfo J raw) db)) \<in> {409, 500} \<and>
     view (after E (createOwnerInfo J r') (after E (InsertOwnerInfo J raw) db)) =
       view (after E (InsertOwnerInfo J raw) db)"
proof -
  let ?d = "view (after E (InsertOwnerInfo J raw) db)"
  have v: "\<exists>as. parseHumanToTO2AddrsJSON J raw = Inr as" "\<exists>as. parseHumanToTO2AddrsJSON J raw' = Inr as"
    using assms(5,6) by auto
  have d: "wf ?d" "schema_ok ?d" "has_ownerinfo ?d"
    using gorm_engine.wp_result[OF assms(1) ownerinfo.insert_spec[OF assms(2,3) v(1)]] assms(7)
      gorm_engine.wp_result[OF assms(1) wf_wp[OF assms(2)]] by auto
  have "wp (createOwnerInfo J r') (\<lambda>resp d'. status resp \<in> {409, 500} \<and> d' = ?d) ?d"
    unfolding createOwnerInfo_def assms(4) option.case wp_tryE
    by (rule wp_mono[OF ownerinfo.insert_spec[OF d(1,2) v(2)]])
       (use d(3) in \<open>auto simp: wp_simps driver_failed_def split: sum.splits if_splits\<close>)
  from gorm_engine.wp_result[OF assms(1) this] show ?thesis .
qed

lemma ownerinfo_created_once_witness:
  "status (result sql_exec (createOwnerInfo ex_owner_json (ex_request ''POST'' ''o''))
     (after sql_exec (InsertOwnerInfo ex_owner_json ''o'') (empty_db []))) \<in> {409, 500}"
proof -
  have r: "req_body (ex_request ''POST'' ''o'') = Some ''o''" by (simp add: ex_request_def)
  have p: "parseHumanToTO2AddrsJSON ex_owner_json ''o'' = Inr [ex_owner_addr]" by code_simp
  have "result sql_exec (InsertOwnerInfo ex_owner_json ''o'') (empty_db []) = Inr ()" by code_simp
  from ownerinfo_created_once[OF ex_ok(5,3,4) r p p this] show ?thesis by blast
qed

end
