(* ===== verification/Vouchers.thy ===== *)
theory Vouchers
  imports RvInfoStore
begin

text \<open>
  Ownership vouchers and the onboarding state of devices (\<^verbatim>\<open>internal/db/db.go\<close>,
  \<^verbatim>\<open>internal/db/state_vouchers.go\<close>): the voucher of a device under its GUID, a row of
  onboarding state per GUID, the rendezvous blobs and the keys.

  The locale \<open>voucher_map\<close> is what the protocol library relies on: the store is a map
  from GUIDs to vouchers, adding, replacing and removing a voucher are updates of
  that map, and an operation that fails changes nothing. It is interpreted on the
  operations of \<^verbatim>\<open>db.State\<close>.
\<close>

section \<open>Queries\<close>

text \<open>A filter value is an \<^verbatim>\<open>interface{}\<close>: octets or text.\<close>

datatype filter_val = FBytes bytes | FText string

type_synonym filters = "(string \<times> filter_val) list"

definition QueryVouchers :: "filters \<Rightarrow> bool \<Rightarrow> voucher_row list act" where
  "QueryVouchers filters includeCBOR =
     bindE (liftR (case map_of filters ''guid'' of
         None \<Rightarrow> Inr []
       | Some (FBytes b) \<Rightarrow> Inr [CEq ''guid'' (VBytes b)]
       | Some (FText _) \<Rightarrow> Inl (Errorf ''invalid type for guid filter; want []byte''))) (\<lambda>c1.
     bindE (liftR (case map_of filters ''device_info'' of
         None \<Rightarrow> Inr []
       | Some (FText s) \<Rightarrow> Inr [CEq ''device_info'' (VText s)]
       | Some (FBytes _) \<Rightarrow> Inl (Errorf ''invalid type for device_info filter; want string''))) (\<lambda>c2.
     bindE (dbFind T_vouchers (c1 @ c2) (Some (''updated_at'', True)) 0 0) (\<lambda>rs.
       retE (map (\<lambda>r. let v = voucher_fromRow r in if includeCBOR then v else v\<lparr>vou_CBOR := []\<rparr>) rs))))"

definition FetchVoucher :: "filters \<Rightarrow> voucher_row act" where
  "FetchVoucher filters =
     (if filters = [] then failE (Errorf ''no filters provided'')
      else bindE (QueryVouchers filters True) (\<lambda>list.
        case list of
          [] \<Rightarrow> failE ErrRecordNotFound
        | [v] \<Rightarrow> retE v
        | _ \<Rightarrow> failE (Errorf ''multiple vouchers matched filters'')))"

definition new_onboarding :: "bytes \<Rightarrow> device_onboarding" where
  "new_onboarding g = \<lparr>do_GUID = g, do_NewGUID = None, do_TO2Completed = False, do_TO2CompletedAt = None\<rparr>"

abbreviation by_guid :: "bytes \<Rightarrow> cond list" where
  "by_guid g \<equiv> [CEq ''guid'' (VBytes g)]"

definition InsertVoucher :: "voucher_row \<Rightarrow> unit act" where
  "InsertVoucher v =
     transaction (bindE (dbCreate T_vouchers (voucher_toRow v)) (\<lambda>_.
       dbFirstOrCreate T_device_onboarding (by_guid (vou_GUID v)) []
         (device_onboarding_toRow (new_onboarding (vou_GUID v)))))"

definition IsTO2Completed :: "bytes \<Rightarrow> bool act" where
  "IsTO2Completed g =
     bindP (dbFirst T_device_onboarding (by_guid g)) (\<lambda>r. case r of
       Inl err \<Rightarrow> if err = ErrRecordNotFound then retE False else failE err
     | Inr rec \<Rightarrow> retE (do_TO2Completed (device_onboarding_fromRow rec)))"

definition ListPendingTO0Vouchers :: "bool \<Rightarrow> voucher_row list act" where
  "ListPendingTO0Vouchers includeCBOR =
     bindE (dbLeftJoin T_vouchers ''guid'' T_device_onboarding ''guid''
              [CEq ''to2_completed'' (VBool False)] None) (\<lambda>ps.
       retE (map (\<lambda>p. let v = voucher_fromRow (fst p) in if includeCBOR then v else v\<lparr>vou_CBOR := []\<rparr>) ps))"

definition device_of :: "row \<times> row option \<Rightarrow> device" where
  "device_of p =
     (let v = voucher_fromRow (fst p);
          o_row = map_option device_onboarding_fromRow (snd p) in
      \<lparr>dev_GUID = vou_GUID v,
       dev_OldGUID = (case o_row of None \<Rightarrow> [] | Some ob \<Rightarrow> do_GUID ob),
       dev_DeviceInfo = vou_DeviceInfo v, dev_CreatedAt = vou_CreatedAt v, dev_UpdatedAt = vou_UpdatedAt v,
       dev_TO2Completed = (case o_row of None \<Rightarrow> False | Some ob \<Rightarrow> do_TO2Completed ob),
       dev_TO2CompletedAt = Option.bind o_row do_TO2CompletedAt\<rparr>)"

definition ListDevices :: "filters \<Rightarrow> device list act" where
  "ListDevices filters =
     bindE (liftR (case map_of filters ''old_guid'' of
         None \<Rightarrow> Inr []
       | Some (FBytes b) \<Rightarrow> Inr (by_guid b)
       | Some (FText _) \<Rightarrow> Inl (Errorf ''invalid type for old_guid filter; want []byte''))) (\<lambda>cs.
     bindE (dbLeftJoin T_vouchers ''guid'' T_device_onboarding ''new_guid'' cs (Some ''updated_at'')) (\<lambda>ps.
       retE (map device_of ps)))"

section \<open>The voucher store of db.State\<close>

definition ErrMarshal :: "string \<Rightarrow> go_error" where
  "ErrMarshal what = Wrapf what ErrCbor"

definition voucher_of :: "int \<Rightarrow> voucher \<Rightarrow> bytes \<Rightarrow> voucher_row" where
  "voucher_of now ov b = \<lparr>vou_GUID = ov_GUID ov, vou_CBOR = b, vou_DeviceInfo = vh_DeviceInfo (ov_Header ov),
     vou_CreatedAt = now, vou_UpdatedAt = now\<rparr>"

definition NewVoucher :: "cbor_lib \<Rightarrow> int \<Rightarrow> voucher \<Rightarrow> unit act" where
  "NewVoucher C now ov =
     bindE (liftR (of_opt (ErrMarshal ''failed to marshal voucher'') (marshal C (GVoucher ov)))) (\<lambda>b.
       dbCreate T_vouchers (voucher_toRow (voucher_of now ov b)))"

definition AddVoucher :: "cbor_lib \<Rightarrow> int \<Rightarrow> voucher \<Rightarrow> unit act" where
  "AddVoucher C now ov =
     bindE (liftR (of_opt (ErrMarshal ''failed to marshal voucher'') (marshal C (GVoucher ov)))) (\<lambda>b.
       dbCreate T_vouchers (voucher_toRow (voucher_of now ov b)))"

text \<open>
  \<^verbatim>\<open>Assign\<close> gives the columns of the completed onboarding; the GUID among them is the one the
  row is looked up by, so it is a column of the created row only. One reading of the clock, \<open>now\<close>, stands
  for the two the source takes, for the new voucher and for the completion.
\<close>

definition ReplaceVoucher :: "cbor_lib \<Rightarrow> int \<Rightarrow> guid \<Rightarrow> voucher \<Rightarrow> unit act" where
  "ReplaceVoucher C now g ov =
     bindE (liftR (of_opt (ErrMarshal ''failed to marshal voucher'') (marshal C (GVoucher ov)))) (\<lambda>b.
       transaction
         (bindE (dbDelete T_vouchers (by_guid g)) (\<lambda>_.
          bindE (dbCreate T_vouchers (voucher_toRow (voucher_of now ov b))) (\<lambda>_.
            dbFirstOrCreate T_device_onboarding (by_guid g)
              [(''new_guid'', VBytes (ov_GUID ov)), (''to2_completed'', VBool True),
               (''to2_completed_at'', VTime now)]
              (device_onboarding_toRow (new_onboarding g))))))"

definition RemoveVoucher :: "cbor_lib \<Rightarrow> guid \<Rightarrow> voucher act" where
  "RemoveVoucher C g =
     transaction
       (bindE (mapErr (notFoundAs ErrNotFound) (dbFirst T_vouchers (by_guid g))) (\<lambda>r.
        bindE (liftR (of_opt (ErrMarshal ''failed to unmarshal voucher'')
                (un_voucher C (vou_CBOR (voucher_fromRow r))))) (\<lambda>ov.
        bindE (dbDelete T_vouchers (by_guid g)) (\<lambda>_.
        bindE (dbDelete T_device_onboarding (by_guid g)) (\<lambda>_.
          retE ov)))))"

definition State_Voucher :: "cbor_lib \<Rightarrow> guid \<Rightarrow> voucher act" where
  "State_Voucher C g =
     bindE (mapErr (notFoundAs ErrNotFound) (dbFirst T_vouchers (by_guid g))) (\<lambda>r.
       liftR (of_opt (ErrMarshal ''failed to unmarshal voucher'')
         (un_voucher C (vou_CBOR (voucher_fromRow r)))))"

section \<open>Rendezvous blobs of db.State\<close>

definition State_SetRVBlob :: "cbor_lib \<Rightarrow> voucher \<Rightarrow> bytes \<Rightarrow> int \<Rightarrow> unit act" where
  "State_SetRVBlob C ov to1d expiry =
     bindE (liftR (of_opt (ErrMarshal ''failed to marshal rv blob'') (marshal C (GExt ''To1d'' to1d)))) (\<lambda>rvBytes.
     bindE (liftR (of_opt (ErrMarshal ''failed to marshal voucher'') (marshal C (GVoucher ov)))) (\<lambda>voucherBytes.
       dbSave T_rv_blobs (rv_blob_toRow \<lparr>rb_GUID = ov_GUID ov, rb_RV = rvBytes,
         rb_Voucher = voucherBytes, rb_Exp = expiry\<rparr>)))"

definition State_RVBlob :: "cbor_lib \<Rightarrow> int \<Rightarrow> guid \<Rightarrow> (bytes \<times> voucher) act" where
  "State_RVBlob C now g =
     bindE (mapErr (notFoundAs ErrNotFound) (dbFirst T_rv_blobs (by_guid g))) (\<lambda>r.
       let blob = rv_blob_fromRow r in
       if now > rb_Exp blob then failE ErrNotFound
       else
         bindE (liftR (of_opt (ErrMarshal ''failed to unmarshal rv blob'') (un_ext ''To1d'' C (rb_RV blob)))) (\<lambda>to1d.
         bindE (liftR (of_opt (ErrMarshal ''failed to unmarshal voucher'') (un_voucher C (rb_Voucher blob)))) (\<lambda>ov.
           retE (to1d, ov))))"

section \<open>Keys\<close>

text \<open>
  The crypto library as the server uses it (PKCS8, certificate chains, key kinds), and the
  codes of the RSA key types of the protocol library.
\<close>

record 'k key_lib =
  marshalPKCS8 :: "'k \<Rightarrow> bytes option"
  parsePKCS8 :: "bytes \<Rightarrow> 'k option"
  isSigner :: "'k \<Rightarrow> bool"
  rsaSize :: "'k \<Rightarrow> nat option"
  parseCertificates :: "bytes \<Rightarrow> x509_cert list option"
  Rsa2048RestrKeyType :: "8 word"
  RsaPkcsKeyType :: "8 word"
  RsaPssKeyType :: "8 word"

definition key_conds :: "'k key_lib \<Rightarrow> 8 word \<Rightarrow> int \<Rightarrow> cond list" where
  "key_conds L keyType rsaBits =
     CEq ''type'' (VInt (uint keyType)) #
     (if keyType = Rsa2048RestrKeyType L then [CEq ''rsa_bits'' (VInt 2048)]
      else if keyType = RsaPkcsKeyType L \<or> keyType = RsaPssKeyType L then [CEq ''rsa_bits'' (VInt rsaBits)]
      else [])"

definition get_key :: "'k key_lib \<Rightarrow> tname \<Rightarrow> 8 word \<Rightarrow> int \<Rightarrow> ('k \<times> x509_cert list) act" where
  "get_key L t keyType rsaBits =
     bindE (mapErr (notFoundAs ErrNotFound) (dbFirst t (key_conds L keyType rsaBits))) (\<lambda>r.
       let k = key_fromRow r in
       liftR (rbind (of_opt (Wrapf ''failed to parse private key'' (ErrExt ''x509'')) (parsePKCS8 L (key_PKCS8 k))) (\<lambda>key.
         if \<not> isSigner L key then Inl (Errorf ''key is not a signer'')
         else rbind (of_opt (Wrapf ''error parsing certificate chain'' (ErrExt ''x509''))
                      (parseCertificates L (orNil (key_X509Chain k)))) (\<lambda>chain.
                Inr (key, chain)))))"

definition OwnerKey :: "'k key_lib \<Rightarrow> 8 word \<Rightarrow> int \<Rightarrow> ('k \<times> x509_cert list) act" where
  "OwnerKey L keyType rsaBits = get_key L T_owner_keys keyType rsaBits"

definition ManufacturerKey :: "'k key_lib \<Rightarrow> 8 word \<Rightarrow> int \<Rightarrow> ('k \<times> x509_cert list) act" where
  "ManufacturerKey L keyType rsaBits = get_key L T_mfg_keys keyType rsaBits"

definition key_rsa_bits :: "'k key_lib \<Rightarrow> 8 word \<Rightarrow> 'k \<Rightarrow> int option result" where
  "key_rsa_bits L keyType key =
     (if keyType = Rsa2048RestrKeyType L then Inr (Some 2048)
      else if keyType = RsaPkcsKeyType L \<or> keyType = RsaPssKeyType L then
        (case rsaSize L key of
           None \<Rightarrow> Inl (Errorf ''expected key type to be *rsa.PrivateKey'')
         | Some n \<Rightarrow> Inr (Some (int n * 8)))
      else Inr None)"

definition add_key :: "'k key_lib \<Rightarrow> tname \<Rightarrow> 8 word \<Rightarrow> 'k \<Rightarrow> x509_cert list \<Rightarrow> unit act" where
  "add_key L t keyType key chain =
     bindE (liftR (of_opt (Wrapf ''failed to marshal private key'' (ErrExt ''x509'')) (marshalPKCS8 L key))) (\<lambda>pkcs8.
     bindE (liftR (key_rsa_bits L keyType key)) (\<lambda>bits.
       dbSave t (key_toRow \<lparr>key_Type = uint keyType, key_PKCS8 = pkcs8, key_RsaBits = bits,
         key_X509Chain = (if chain_bytes chain = [] then None else Some (chain_bytes chain))\<rparr>)))"

definition AddOwnerKey :: "'k key_lib \<Rightarrow> 8 word \<Rightarrow> 'k \<Rightarrow> x509_cert list \<Rightarrow> unit act" where
  "AddOwnerKey L keyType key chain = add_key L T_owner_keys keyType key chain"

definition AddManufacturerKey :: "'k key_lib \<Rightarrow> 8 word \<Rightarrow> 'k \<Rightarrow> x509_cert list \<Rightarrow> unit act" where
  "AddManufacturerKey L keyType key chain = add_key L T_mfg_keys keyType key chain"

section \<open>The store as a map of vouchers\<close>

definition good :: "sqldb \<Rightarrow> bool" where
  "good d \<longleftrightarrow> wf d \<and> schema_ok d"

definition voucher_at :: "cbor_lib \<Rightarrow> sqldb \<Rightarrow> guid \<Rightarrow> voucher result" where
  "voucher_at C d g =
     (case lookup T_vouchers (VBytes g) d of
        None \<Rightarrow> Inl ErrNotFound
      | Some r \<Rightarrow> of_opt (ErrMarshal ''failed to unmarshal voucher'') (un_voucher C (vou_CBOR (voucher_fromRow r))))"

definition has_voucher :: "guid \<Rightarrow> sqldb \<Rightarrow> bool" where
  "has_voucher g d \<longleftrightarrow> lookup T_vouchers (VBytes g) d \<noteq> None"

definition onboarding_at :: "sqldb \<Rightarrow> guid \<Rightarrow> device_onboarding option" where
  "onboarding_at d g =
     map_option device_onboarding_fromRow (lookup T_device_onboarding (VBytes g) d)"

locale voucher_map =
  fixes key :: "'o \<Rightarrow> guid" and addv :: "'o \<Rightarrow> unit act" and replacev :: "guid \<Rightarrow> 'o \<Rightarrow> unit act"
    and removev :: "guid \<Rightarrow> 'o act" and getv :: "guid \<Rightarrow> 'o act"
    and vmap :: "sqldb \<Rightarrow> guid \<Rightarrow> 'o result" and valid :: "'o \<Rightarrow> bool"
  assumes add_spec: "good d \<Longrightarrow> valid ov \<Longrightarrow> wp (addv ov) (\<lambda>r d'. good d' \<and>
      (if r = Inr () then vmap d' = (vmap d)(key ov := Inr ov) \<and> vmap d (key ov) = Inl ErrNotFound
       else d' = d)) d"
    and replace_spec: "good d \<Longrightarrow> valid ov \<Longrightarrow> wp (replacev g ov) (\<lambda>r d'. good d' \<and>
      (if r = Inr () then vmap d' = (vmap d)(g := Inl ErrNotFound, key ov := Inr ov) else d' = d)) d"
    and remove_spec: "good d \<Longrightarrow> wp (removev g) (\<lambda>r d'. good d' \<and>
      (case r of Inr ov \<Rightarrow> vmap d g = Inr ov \<and> vmap d' = (vmap d)(g := Inl ErrNotFound)
       | Inl e \<Rightarrow> d' = d \<and> (driver_err e \<or> vmap d g = Inl e))) d"
    and get_spec: "good d \<Longrightarrow> wp (getv g) (\<lambda>r d'. d' = d \<and> (driver_failed r \<or> r = vmap d g)) d"
begin

text \<open>A voucher that was added, or that replaces another, is found.\<close>

lemma add_get:
  assumes "good d" "valid ov"
  shows "wp (addv ov) (\<lambda>r d1. r = Inr () \<longrightarrow> wp (getv (key ov)) (\<lambda>r' d2. r' = Inr ov \<or> driver_failed r') d1) d"
  by (rule wp_mono[OF add_spec[OF assms]]) (auto intro!: wp_mono[OF get_spec])

lemma replace_get:
  assumes "good d" "valid ov"
  shows "wp (replacev g ov) (\<lambda>r d1. r = Inr () \<longrightarrow>
     wp (getv (key ov)) (\<lambda>r' d2. r' = Inr ov \<or> driver_failed r') d1) d"
  by (rule wp_mono[OF replace_spec[OF assms]]) (auto intro!: wp_mono[OF get_spec])

text \<open>The voucher that was replaced, and the one that was removed, are gone.\<close>

lemma replaced_gone:
  assumes "good d" "valid ov" "g \<noteq> key ov"
  shows "wp (replacev g ov) (\<lambda>r d1. r = Inr () \<longrightarrow>
     wp (getv g) (\<lambda>r' d2. r' = Inl ErrNotFound \<or> driver_failed r') d1) d"
  using assms(3) by (intro wp_mono[OF replace_spec[OF assms(1,2)]]) (auto intro!: wp_mono[OF get_spec])

lemma removed_gone:
  assumes "good d"
  shows "wp (removev g) (\<lambda>r d1. (\<exists>ov. r = Inr ov) \<longrightarrow>
     wp (getv g) (\<lambda>r' d2. r' = Inl ErrNotFound \<or> driver_failed r') d1) d"
  by (rule wp_mono[OF remove_spec[OF assms]]) (auto intro!: wp_mono[OF get_spec])

text \<open>Other devices are untouched, whatever the outcome.\<close>

lemma frame:
  assumes "good d" "valid ov" "g' \<noteq> g" "g' \<noteq> key ov"
  shows "wp (replacev g ov) (\<lambda>r d'. vmap d' g' = vmap d g') d" "wp (removev g) (\<lambda>r d'. vmap d' g' = vmap d g') d"
    "wp (addv ov) (\<lambda>r d'. vmap d' g' = vmap d g') d"
  using assms(3,4)
  by (auto intro!: wp_mono[OF replace_spec[OF assms(1,2)]] wp_mono[OF remove_spec[OF assms(1)]]
      wp_mono[OF add_spec[OF assms(1,2)]] split: sum.splits if_splits)

end

lemma good_simps [simp]: "good (begin_tx d) = good d"
  by (auto simp: good_def wf_def)

lemma good_tx: "good d \<Longrightarrow> good (commit_tx d)" "good d \<Longrightarrow> good (rollback_tx d)" "good d \<Longrightarrow> good (del t cs d)"
  by (simp_all add: good_def wf_tx wf_del)

lemma voucher_key [simp]:
  "voucher_toRow v ''guid'' = VBytes (vou_GUID v)" "device_onboarding_toRow b ''guid'' = VBytes (do_GUID b)"
  by (simp_all add: toRow_defs)

lemma voucher_of_simps [simp]:
  "vou_GUID (voucher_of now ov b) = ov_GUID ov" "vou_CBOR (voucher_of now ov b) = b"
  by (simp_all add: voucher_of_def)

text \<open>Deleting by the key removes exactly that row.\<close>

lemma lookup_del_guid:
  assumes "good d" "t \<in> {T_vouchers, T_device_onboarding, T_rv_blobs}" "pkcols u = [c]"
  shows "lookup u (VBytes g') (del t (by_guid g) d) =
     (if u = t \<and> g' = g then None else lookup u (VBytes g') d)"
  using assms lookup_key[of u "VBytes g'" d "the (lookup u (VBytes g') d)" c]
  by (cases "lookup u (VBytes g') d") (auto simp: good_def lookup_del schema_orphan sql_eq_def)

lemma lookup_ins_guid:
  assumes "pkcols t = [''guid'']" "r ''guid'' = VBytes g" "lookup t (VBytes g) d = None"
  shows "lookup u (VBytes g') (ins t r d) = (if u = t \<and> g' = g then Some r else lookup u (VBytes g') d)"
  using assms by (auto simp: lookup_ins dupkey_lookup sql_eq_def)

lemma lookup_upd_other: "u \<noteq> t \<Longrightarrow> lookup u v (upd t cs cvs d) = lookup u v d"
  by (simp add: lookup_def upd_def)

lemma goodD: "good d \<Longrightarrow> wf d" "good d \<Longrightarrow> schema_ok d"
  by (simp_all add: good_def)

lemma good_ins: "good d \<Longrightarrow> pkcols t = [c] \<Longrightarrow> lookup t (r c) d = None \<Longrightarrow> good (ins t r d)"
  by (simp add: good_def wf_ins dupkey_lookup)

lemma good_upd: "good d \<Longrightarrow> set (pkcols t) \<inter> fst ` set cvs = {} \<Longrightarrow> good (upd t cs cvs d)"
  by (simp add: good_def wf_upd pk_ok_upd wf_pk)

text \<open>The statements on the voucher and onboarding tables.\<close>

lemma wp_create_voucher:
  assumes "good d"
  shows "wp (dbCreate T_vouchers (voucher_toRow v)) Q d \<longleftrightarrow> (\<forall>m. Q (Inl (ErrDriver m)) d) \<and>
     (if lookup T_vouchers (VBytes (vou_GUID v)) d = None then Q (Inr ()) (ins T_vouchers (voucher_toRow v) d)
      else (\<forall>e. dup_error e \<longrightarrow> Q (Inl e) d))"
  using goodD(2)[OF assms] by (auto simp: wp_dbCreate dupkey_lookup schema_fk_ok)

definition put_onboarding :: "guid \<Rightarrow> (string \<times> sqlval) list \<Rightarrow> sqldb \<Rightarrow> sqldb" where
  "put_onboarding g cvs d = (if lookup T_device_onboarding (VBytes g) d = None
        then ins T_device_onboarding (set_cols cvs (device_onboarding_toRow (new_onboarding g))) d
        else upd T_device_onboarding (by_guid g) cvs d)"

lemma wp_onboarding:
  assumes "good d" "''guid'' \<notin> fst ` set cvs"
  shows "wp (dbFirstOrCreate T_device_onboarding (by_guid g) cvs (device_onboarding_toRow (new_onboarding g))) Q d \<longleftrightarrow>
     (\<forall>m. Q (Inl (ErrDriver m)) d) \<and> Q (Inr ()) (put_onboarding g cvs d)"
  using assms goodD[OF assms(1)]
  by (simp add: wp_dbFirstOrCreate_key new_onboarding_def schema_fk_ok put_onboarding_def)

lemma good_put_onboarding:
  assumes "good d" "''guid'' \<notin> fst ` set cvs"
  shows "good (put_onboarding g cvs d)"
  using assms
  by (auto simp: put_onboarding_def good_upd set_cols_other new_onboarding_def intro!: good_ins[where c = "''guid''"])

lemma put_onboarding_simps [simp]:
  "lookup T_vouchers v (put_onboarding g cvs d) = lookup T_vouchers v d"
  "txs d \<noteq> [] \<Longrightarrow> rollback_tx (put_onboarding g cvs d) = rollback_tx d"
  "commit_tx (put_onboarding g cvs d) = put_onboarding g cvs (commit_tx d)"
  "txs (put_onboarding g cvs d) = txs d"
  by (simp_all add: put_onboarding_def) (auto simp: lookup_def upd_def)

lemma onboarding_at_put:
  assumes "good d" "''guid'' \<notin> fst ` set cvs"
  shows "onboarding_at (put_onboarding g cvs d) g' =
     (if g' = g then Some (device_onboarding_fromRow (set_cols cvs
        (case lookup T_device_onboarding (VBytes g) d of None \<Rightarrow> device_onboarding_toRow (new_onboarding g) | Some r \<Rightarrow> r)))
      else onboarding_at d g')"
proof (cases "lookup T_device_onboarding (VBytes g) d")
  case None
  with assms show ?thesis
    by (simp add: onboarding_at_def put_onboarding_def lookup_ins_guid set_cols_other new_onboarding_def)
next
  case (Some r)
  with assms lookup_key[of T_device_onboarding "VBytes g'" d _ "''guid''"] show ?thesis
    by (cases "lookup T_device_onboarding (VBytes g') d")
       (auto simp: onboarding_at_def put_onboarding_def lookup_upd sql_eq_def)
qed

lemma voucher_at_simps:
  "good d \<Longrightarrow> voucher_at C (del T_vouchers (by_guid g) d) = (voucher_at C d)(g := Inl ErrNotFound)"
  "good d \<Longrightarrow> voucher_at C (del T_device_onboarding (by_guid g) d) = voucher_at C d"
  "voucher_at C (put_onboarding g cvs d) = voucher_at C d"
  "cbor_ok C \<Longrightarrow> marshal C (GVoucher ov) = Some b \<Longrightarrow> lookup T_vouchers (VBytes (ov_GUID ov)) d = None \<Longrightarrow>
     voucher_at C (ins T_vouchers (voucher_toRow (voucher_of now ov b)) d) = (voucher_at C d)(ov_GUID ov := Inr ov)"
  by (auto simp: fun_eq_iff voucher_at_def lookup_del_guid lookup_ins_guid voucher_of_def un_marshal)

lemma wp_AddVoucher:
  assumes "good d"
  shows "wp (AddVoucher C now ov) Q d \<longleftrightarrow>
     (case marshal C (GVoucher ov) of
        None \<Rightarrow> Q (Inl (ErrMarshal ''failed to marshal voucher'')) d
      | Some b \<Rightarrow> (\<forall>m. Q (Inl (ErrDriver m)) d) \<and>
          (if has_voucher (ov_GUID ov) d then (\<forall>e. dup_error e \<longrightarrow> Q (Inl e) d)
           else Q (Inr ()) (ins T_vouchers (voucher_toRow (voucher_of now ov b)) d)))"
  using wp_create_voucher[OF assms, of "voucher_of now ov b" for b]
  by (auto simp: AddVoucher_def wp_bindE wp_ret has_voucher_def voucher_of_def split: option.splits)

lemma wp_ReplaceVoucher:
  assumes "good d"
  shows "wp (ReplaceVoucher C now g ov) Q d \<longleftrightarrow>
     (case marshal C (GVoucher ov) of
        None \<Rightarrow> Q (Inl (ErrMarshal ''failed to marshal voucher'')) d
      | Some b \<Rightarrow> (\<forall>m. Q (Inl (ErrDriver m)) d) \<and>
          (if has_voucher (ov_GUID ov) d \<and> ov_GUID ov \<noteq> g then (\<forall>e. dup_error e \<longrightarrow> Q (Inl e) d)
           else Q (Inr ()) (put_onboarding g
                  [(''new_guid'', VBytes (ov_GUID ov)), (''to2_completed'', VBool True), (''to2_completed_at'', VTime now)]
                  (ins T_vouchers (voucher_toRow (voucher_of now ov b)) (del T_vouchers (by_guid g) d)))))"
proof (cases "marshal C (GVoucher ov)")
  case None
  then show ?thesis by (simp add: ReplaceVoucher_def wp_simps)
next
  case (Some b)
  let ?d1 = "del T_vouchers (by_guid g) (begin_tx d)"
  let ?r = "voucher_toRow (voucher_of now ov b)"
  have d1: "good ?d1" using assms by (simp add: good_tx)
  have l1: "lookup T_vouchers (VBytes (ov_GUID ov)) ?d1 = None \<longleftrightarrow> \<not> (has_voucher (ov_GUID ov) d \<and> ov_GUID ov \<noteq> g)"
    using assms by (auto simp: lookup_del_guid has_voucher_def)
  have d2: "good (ins T_vouchers ?r ?d1)" if "lookup T_vouchers (VBytes (ov_GUID ov)) ?d1 = None"
    using d1 that by (intro good_ins[where c = "''guid''"]) (simp_all add: voucher_of_def)
  show ?thesis
    using Some d1 d2 l1
    by (simp add: ReplaceVoucher_def wp_transaction wp_bindE wp_ret wp_dbDelete wp_create_voucher wp_onboarding
        voucher_of_def[of now ov b, THEN arg_cong[of _ _ vou_GUID]]) auto
qed

lemma wp_RemoveVoucher:
  assumes "good d"
  shows "wp (RemoveVoucher C g) Q d \<longleftrightarrow> (\<forall>m. Q (Inl (ErrDriver m)) d) \<and>
     (case voucher_at C d g of
        Inl e \<Rightarrow> Q (Inl e) d
      | Inr ov \<Rightarrow> Q (Inr ov) (del T_device_onboarding (by_guid g) (del T_vouchers (by_guid g) d)))"
proof -
  have "rows T_vouchers (by_guid g) (begin_tx d) =
      (case lookup T_vouchers (VBytes g) d of None \<Rightarrow> [] | Some r \<Rightarrow> [r])"
    using rows_key[OF goodD(1)[OF assms], of T_vouchers "''guid''" "VBytes g"] by simp
  then show ?thesis
    by (cases "lookup T_vouchers (VBytes g) d"; cases "voucher_at C d g")
       (auto simp: RemoveVoucher_def wp_simps voucher_at_def)
qed

interpretation vouchers: voucher_map "\<lambda>ov. ov_GUID ov" "AddVoucher C now" "ReplaceVoucher C now"
  "RemoveVoucher C" "State_Voucher C" "voucher_at C" "\<lambda>_. cbor_ok C" for C now
proof
  show "wp (AddVoucher C now ov) (\<lambda>r d'. good d' \<and>
      (if r = Inr () then voucher_at C d' = (voucher_at C d)(ov_GUID ov := Inr ov) \<and>
          voucher_at C d (ov_GUID ov) = Inl ErrNotFound else d' = d)) d"
    if "good d" "cbor_ok C" for d ov
    using that
    by (auto simp: wp_AddVoucher has_voucher_def voucher_at_simps voucher_at_def[of C d]
        intro!: good_ins[where c = "''guid''"] split: option.splits)
  show "wp (ReplaceVoucher C now g ov) (\<lambda>r d'. good d' \<and>
      (if r = Inr () then voucher_at C d' = (voucher_at C d)(g := Inl ErrNotFound, ov_GUID ov := Inr ov)
       else d' = d)) d"
    if "good d" "cbor_ok C" for d ov g
  proof -
    have l: "lookup T_vouchers (VBytes (ov_GUID ov)) (del T_vouchers (by_guid g) d) = None"
      if "has_voucher (ov_GUID ov) d \<longrightarrow> ov_GUID ov = g"
      using that \<open>good d\<close> by (auto simp: lookup_del_guid has_voucher_def)
    then show ?thesis
      using that by (auto simp: wp_ReplaceVoucher voucher_at_simps good_tx good_put_onboarding
          intro!: good_put_onboarding good_ins[where c = "''guid''"] split: option.splits)
  qed
  show "wp (RemoveVoucher C g) (\<lambda>r d'. good d' \<and>
      (case r of Inr ov \<Rightarrow> voucher_at C d g = Inr ov \<and> voucher_at C d' = (voucher_at C d)(g := Inl ErrNotFound)
       | Inl e \<Rightarrow> d' = d \<and> (driver_err e \<or> voucher_at C d g = Inl e))) d"
    if "good d" for d g
    using that by (auto simp: wp_RemoveVoucher voucher_at_simps good_tx split: sum.splits)
  show "wp (State_Voucher C g) (\<lambda>r d'. d' = d \<and> (driver_failed r \<or> r = voucher_at C d g)) d"
    if "good d" for d g
    using goodD(1)[OF that]
    by (auto simp: State_Voucher_def wp_simps rows_key voucher_at_def split: option.splits)
qed

section \<open>Pending vouchers\<close>

text \<open>A voucher is pending when its device has an onboarding row that is not completed.\<close>

definition pending :: "guid \<Rightarrow> sqldb \<Rightarrow> bool" where
  "pending g d \<longleftrightarrow> has_voucher g d \<and>
     (\<exists>r. lookup T_device_onboarding (VBytes g) d = Some r \<and> r ''to2_completed'' = VBool False)"

text \<open>The column type: a GUID is stored as octets.\<close>

definition guid_typed :: "sqldb \<Rightarrow> bool" where
  "guid_typed d \<longleftrightarrow> (\<forall>r\<in>set (tabs d T_vouchers). \<exists>g. r ''guid'' = VBytes g)"

lemma join_mem:
  "(r, Some r') \<in> set (join t c u c' d) \<longleftrightarrow> r \<in> set (tabs d t) \<and> r' \<in> set (tabs d u) \<and> sql_eq (r c) (r' c')"
  by (force simp: join_def Let_def filter_empty_conv)

lemma lookup_iff:
  assumes "wf d" "pkcols t = [c]" "v \<noteq> VNull"
  shows "lookup t v d = Some r \<longleftrightarrow> r \<in> set (tabs d t) \<and> r c = v"
proof
  show "r \<in> set (tabs d t) \<and> r c = v" if "lookup t v d = Some r"
    using that lookup_mem[OF that] lookup_key[OF that assms(2)] by simp
  show "lookup t v d = Some r" if "r \<in> set (tabs d t) \<and> r c = v"
  proof -
    from that have "r \<in> set (rows t [CEq c v] d)" using assms(3) by (simp add: rows_def sql_eq_def)
    then show ?thesis by (simp add: rows_key[OF assms(1,2)] split: option.splits)
  qed
qed

lemma joined_pending:
  assumes "wf d" "guid_typed d"
  shows "(\<lambda>p. vou_GUID (voucher_fromRow (fst p))) `
     set (filter (join_cond [CEq ''to2_completed'' (VBool False)] d) (join T_vouchers ''guid'' T_device_onboarding ''guid'' d)) =
     {g. pending g d}"
proof -
  let ?S = "set (filter (join_cond [CEq ''to2_completed'' (VBool False)] d) (join T_vouchers ''guid'' T_device_onboarding ''guid'' d))"
  have S: "p \<in> ?S \<longleftrightarrow> (\<exists>r r'. p = (r, Some r') \<and> r \<in> set (tabs d T_vouchers) \<and>
      r' \<in> set (tabs d T_device_onboarding) \<and> sql_eq (r ''guid'') (r' ''guid'') \<and> r' ''to2_completed'' = VBool False)" for p
    by (cases p; cases "snd p") (auto simp: join_cond_def join_mem sql_eq_def)
  have vl: "lookup T_vouchers (VBytes g) d = Some r \<longleftrightarrow> r \<in> set (tabs d T_vouchers) \<and> r ''guid'' = VBytes g" for g r
    by (rule lookup_iff[OF assms(1)]) simp_all
  have ol: "lookup T_device_onboarding (VBytes g) d = Some r \<longleftrightarrow>
      r \<in> set (tabs d T_device_onboarding) \<and> r ''guid'' = VBytes g" for g r
    by (rule lookup_iff[OF assms(1)]) simp_all
  have pend: "pending g d \<longleftrightarrow> (\<exists>r r'. r \<in> set (tabs d T_vouchers) \<and> r ''guid'' = VBytes g \<and>
      r' \<in> set (tabs d T_device_onboarding) \<and> r' ''guid'' = VBytes g \<and> r' ''to2_completed'' = VBool False)" for g
    by (auto simp: pending_def has_voucher_def not_None_eq vl ol)
  show ?thesis
  proof (intro equalityI subsetI)
    fix g assume "g \<in> (\<lambda>p. vou_GUID (voucher_fromRow (fst p))) ` ?S"
    then obtain p where "p \<in> ?S" and g: "g = vou_GUID (voucher_fromRow (fst p))" by blast
    with S obtain r r' where r: "p = (r, Some r')" "r \<in> set (tabs d T_vouchers)"
      "r' \<in> set (tabs d T_device_onboarding)" "sql_eq (r ''guid'') (r' ''guid'')" "r' ''to2_completed'' = VBool False"
      by blast
    from assms(2) r(2) obtain g' where "r ''guid'' = VBytes g'" by (auto simp: guid_typed_def)
    with r(1) g have "r ''guid'' = VBytes g" by (simp add: voucher_fromRow_def)
    moreover from this r(4) have "r' ''guid'' = VBytes g" by (simp add: sql_eq_def)
    ultimately show "g \<in> {g. pending g d}" unfolding mem_Collect_eq pend using r(2,3,5) by blast
  next
    fix g assume "g \<in> {g. pending g d}"
    then obtain r r' where r: "r \<in> set (tabs d T_vouchers)" "r ''guid'' = VBytes g"
      "r' \<in> set (tabs d T_device_onboarding)" "r' ''guid'' = VBytes g" "r' ''to2_completed'' = VBool False"
      unfolding mem_Collect_eq pend by blast
    then have "(r, Some r') \<in> ?S" by (subst S) (auto simp: sql_eq_def)
    moreover have "g = vou_GUID (voucher_fromRow (fst (r, Some r')))" using r(2) by (simp add: voucher_fromRow_def)
    ultimately show "g \<in> (\<lambda>p. vou_GUID (voucher_fromRow (fst p))) ` ?S" by (rule rev_image_eqI)
  qed
qed

lemma wp_ListPending:
  assumes "wf d" "guid_typed d"
  shows "wp (ListPendingTO0Vouchers b) (\<lambda>r d'. d' = d \<and>
     (case r of Inl e \<Rightarrow> driver_err e | Inr vs \<Rightarrow> vou_GUID ` set vs = {g. pending g d})) d"
proof -
  have "vou_GUID ` set (map (\<lambda>p. let v = voucher_fromRow (fst p) in if b then v else v\<lparr>vou_CBOR := []\<rparr>) ps) =
      {g. pending g d}"
    if "mset ps = mset (filter (join_cond [CEq ''to2_completed'' (VBool False)] d)
          (join T_vouchers ''guid'' T_device_onboarding ''guid'' d))" for ps
    using joined_pending[OF assms] mset_eq_setD[OF that] by (simp add: Let_def image_image if_distrib[of vou_GUID] cong: if_cong)
  then show ?thesis by (simp add: ListPendingTO0Vouchers_def wp_simps)
qed

lemma wp_InsertVoucher:
  assumes "good d"
  shows "wp (InsertVoucher v) Q d \<longleftrightarrow> (\<forall>m. Q (Inl (ErrDriver m)) d) \<and>
     (if has_voucher (vou_GUID v) d then (\<forall>e. dup_error e \<longrightarrow> Q (Inl e) d)
      else Q (Inr ()) (put_onboarding (vou_GUID v) [] (ins T_vouchers (voucher_toRow v) d)))"
proof -
  have d2: "good (ins T_vouchers (voucher_toRow v) (begin_tx d))" if "\<not> has_voucher (vou_GUID v) d"
    using assms that by (intro good_ins[where c = "''guid''"]) (simp_all add: has_voucher_def)
  show ?thesis
    using assms d2 by (auto simp: InsertVoucher_def wp_transaction wp_bindE wp_create_voucher wp_onboarding has_voucher_def)
qed

lemma onboarding_at_simps [simp]:
  "good d \<Longrightarrow> onboarding_at (del T_vouchers cs d) g = onboarding_at d g"
  "onboarding_at (ins T_vouchers r d) g = onboarding_at d g"
  by (auto simp: onboarding_at_def lookup_del[OF goodD(1)] schema_orphan[OF goodD(2)] split: option.splits)
     (auto simp: lookup_def)

lemma onboarding_guid: "onboarding_at d g = Some ob \<Longrightarrow> do_GUID ob = g"
  by (auto simp: onboarding_at_def device_onboarding_fromRow_def dest: lookup_key)

lemma onboarding_completed:
  assumes "good d"
  shows "onboarding_at (put_onboarding g [(''new_guid'', VBytes g'), (''to2_completed'', VBool True),
      (''to2_completed_at'', VTime now)] d) h =
    (if h = g then Some \<lparr>do_GUID = g, do_NewGUID = Some g', do_TO2Completed = True, do_TO2CompletedAt = Some now\<rparr>
     else onboarding_at d h)"
proof -
  have "r ''guid'' = VBytes g" if "lookup T_device_onboarding (VBytes g) d = Some r" for r
    using lookup_key[OF that] by simp
  with assms show ?thesis
    by (auto simp: onboarding_at_put device_onboarding_fromRow_def new_onboarding_def split: option.splits)
qed

lemma wp_IsTO2Completed:
  assumes "wf d"
  shows "wp (IsTO2Completed g) Q d \<longleftrightarrow> (\<forall>m. Q (Inl (ErrDriver m)) d) \<and>
     Q (Inr (case onboarding_at d g of None \<Rightarrow> False | Some ob \<Rightarrow> do_TO2Completed ob)) d"
  using assms by (auto simp: IsTO2Completed_def wp_bindP wp_dbFirst wp_ret rows_key onboarding_at_def split: option.splits)

text \<open>What a completed TO2 leaves behind.\<close>

lemma replace_spec:
  assumes "good d" "cbor_ok C"
  shows "wp (ReplaceVoucher C now g ov) (\<lambda>r d'. good d' \<and>
     (if r = Inr () then
        voucher_at C d' = (voucher_at C d)(g := Inl ErrNotFound, ov_GUID ov := Inr ov) \<and>
        onboarding_at d' = (onboarding_at d)(g := Some \<lparr>do_GUID = g, do_NewGUID = Some (ov_GUID ov),
          do_TO2Completed = True, do_TO2CompletedAt = Some now\<rparr>)
      else d' = d)) d"
proof -
  have l: "lookup T_vouchers (VBytes (ov_GUID ov)) (del T_vouchers (by_guid g) d) = None"
    if "has_voucher (ov_GUID ov) d \<longrightarrow> ov_GUID ov = g"
    using that assms(1) by (auto simp: lookup_del_guid has_voucher_def)
  moreover have "good (ins T_vouchers (voucher_toRow (voucher_of now ov b)) (del T_vouchers (by_guid g) d))"
    if "has_voucher (ov_GUID ov) d \<longrightarrow> ov_GUID ov = g" for b
    using l[OF that] assms(1) by (intro good_ins[where c = "''guid''"]) (simp_all add: good_tx)
  ultimately show ?thesis
    using assms by (auto simp: wp_ReplaceVoucher voucher_at_simps good_tx good_put_onboarding onboarding_completed
        fun_eq_iff split: option.splits)
qed

section \<open>A concrete instance\<close>

definition ex_guid :: "char \<Rightarrow> guid" where
  "ex_guid c = replicate 16 c"

definition ex_ov :: "char \<Rightarrow> voucher" where
  "ex_ov c = \<lparr>ov_Version = 101, ov_Header = \<lparr>vh_Version = 101, vh_GUID = ex_guid c, vh_DeviceInfo = ''dev'',
     vh_ManufacturerKeyType = 10, vh_RvInfo = [], vh_rest = []\<rparr>, ov_rest = []\<rparr>"

definition ex_vcodec :: cbor_lib where
  "ex_vcodec = table_codec [(GVoucher (ex_ov CHR ''a''), ''A''), (GVoucher (ex_ov CHR ''b''), ''B'')]"

definition ex_vrow :: voucher_row where
  "ex_vrow = voucher_of 0 (ex_ov CHR ''a'') ''A''"

text \<open>A database with the voucher of one device, as an import leaves it.\<close>

definition ex_vdb :: sqldb where
  "ex_vdb = after sql_exec (InsertVoucher ex_vrow) (empty_db [])"

definition ex_vdb1 :: sqldb where
  "ex_vdb1 = after sql_exec (ReplaceVoucher ex_vcodec 5 (ex_guid CHR ''a'') (ex_ov CHR ''b'')) ex_vdb"

lemma good_empty: "good (empty_db [])"
  by (simp add: good_def ex_ok)

lemma ex_v_ok: "cbor_ok ex_vcodec" "good ex_vdb"
proof -
  show "cbor_ok ex_vcodec" by (simp add: ex_vcodec_def cbor_ok_table_codec)
  have "wp (InsertVoucher ex_vrow) (\<lambda>_ d. good d) (empty_db [])"
    using good_empty by (auto simp: wp_InsertVoucher has_voucher_def intro!: good_put_onboarding good_ins[where c = "''guid''"])
  from sql.wp_result[OF this] show "good ex_vdb" by (simp add: ex_vdb_def)
qed

lemma ex_v_runs:
  "result sql_exec (ReplaceVoucher ex_vcodec 5 (ex_guid CHR ''a'') (ex_ov CHR ''b'')) ex_vdb = Inr ()"
  "map (\<lambda>r. r ''guid'') (tabs ex_vdb T_vouchers) = [VBytes (ex_guid CHR ''a'')]"
  "map (\<lambda>r. r ''guid'') (tabs ex_vdb1 T_vouchers) = [VBytes (ex_guid CHR ''b'')]"
  "result sql_exec (ListPendingTO0Vouchers True) ex_vdb = Inr [ex_vrow]"
  "result sql_exec (ListPendingTO0Vouchers True) ex_vdb1 = Inr []"
  by code_simp+

lemma ex_v_typed: "guid_typed ex_vdb" "guid_typed ex_vdb1"
  using ex_v_runs(2,3) by (auto simp: guid_typed_def map_eq_Cons_conv)

section \<open>Properties\<close>

text \<open>
  C1. The end of TO2 is atomic: \<^verbatim>\<open>ReplaceVoucher\<close> either fails and leaves the database as it
  was, or the old voucher is gone, the new one is stored, the onboarding row of
  the old GUID says completed with the new GUID and the time, and nothing else
  has changed in either table.
\<close>

theorem replace_voucher_atomic:
  assumes "gorm_engine E view" "good (view db)" "cbor_ok C"
  shows "let d = view db; d' = view (after E (ReplaceVoucher C now g ov) db) in
     if result E (ReplaceVoucher C now g ov) db = Inr ()
     then voucher_at C d' = (voucher_at C d)(g := Inl ErrNotFound, ov_GUID ov := Inr ov) \<and>
          onboarding_at d' = (onboarding_at d)(g := Some \<lparr>do_GUID = g, do_NewGUID = Some (ov_GUID ov),
            do_TO2Completed = True, do_TO2CompletedAt = Some now\<rparr>)
     else d' = d"
  using gorm_engine.wp_result[OF assms(1) replace_spec[OF assms(2,3), of now g ov]] by (simp add: Let_def)

lemma replace_voucher_atomic_witness:
  "voucher_at ex_vcodec ex_vdb1 =
     (voucher_at ex_vcodec ex_vdb)(ex_guid CHR ''a'' := Inl ErrNotFound, ex_guid CHR ''b'' := Inr (ex_ov CHR ''b''))"
  using replace_voucher_atomic[OF ex_ok(5) ex_v_ok(2,1), of 5 "ex_guid CHR ''a''" "ex_ov CHR ''b''"] ex_v_runs(1)
  by (simp add: Let_def ex_vdb1_def) (simp add: ex_ov_def)

text \<open>
  After TO2 the owner finds the new voucher under the new GUID, and no longer the old one
  under the old GUID.
\<close>

theorem replaced_voucher_found:
  assumes "gorm_engine E view" "good (view db)" "cbor_ok C" "ov_GUID ov \<noteq> g"
    and "result E (ReplaceVoucher C now g ov) db = Inr ()"
  defines "db1 \<equiv> after E (ReplaceVoucher C now g ov) db"
  shows "(result E (State_Voucher C (ov_GUID ov)) db1 = Inr ov \<or> driver_failed (result E (State_Voucher C (ov_GUID ov)) db1)) \<and>
     (result E (State_Voucher C g) db1 = Inl ErrNotFound \<or> driver_failed (result E (State_Voucher C g) db1))"
  using gorm_engine.wp_seq[OF assms(1) vouchers.replace_get[OF assms(2,3), of now g ov] assms(5)]
    gorm_engine.wp_seq[OF assms(1) vouchers.replaced_gone[OF assms(2,3) assms(4)[symmetric], of now] assms(5)]
  by (simp add: db1_def)

lemma replaced_voucher_found_witness:
  "result sql_exec (State_Voucher ex_vcodec (ex_guid CHR ''b'')) ex_vdb1 = Inr (ex_ov CHR ''b'') \<or>
   driver_failed (result sql_exec (State_Voucher ex_vcodec (ex_guid CHR ''b'')) ex_vdb1)"
proof -
  have g: "ov_GUID (ex_ov CHR ''b'') = ex_guid CHR ''b''" by (simp add: ex_ov_def)
  have "ov_GUID (ex_ov CHR ''b'') \<noteq> ex_guid CHR ''a''" by (simp add: ex_ov_def ex_guid_def)
  from replaced_voucher_found[OF ex_ok(5) ex_v_ok(2,1) this ex_v_runs(1)] show ?thesis
    by (simp add: g ex_vdb1_def)
qed

text \<open>
  C15. The vouchers scheduled for TO0 are exactly those of devices whose onboarding row exists
  and is not completed.
\<close>

theorem pending_vouchers_exact:
  assumes "gorm_engine E view" "wf (view db)" "guid_typed (view db)"
    and "result E (ListPendingTO0Vouchers b) db = Inr vs"
  shows "vou_GUID ` set vs = {g. pending g (view db)}"
  using gorm_engine.wp_result[OF assms(1) wp_ListPending[OF assms(2,3), of b]] assms(4) by simp

lemma pending_vouchers_exact_witness: "{g. pending g ex_vdb} = {ex_guid CHR ''a''}"
proof -
  have "wf ex_vdb" by (rule goodD[OF ex_v_ok(2)])
  from pending_vouchers_exact[OF ex_ok(5) this ex_v_typed(1) ex_v_runs(4)] show ?thesis
    by (simp add: ex_vrow_def) (simp add: ex_ov_def)
qed

text \<open>
  A device that completed TO2 is not scheduled for TO0 under its old GUID again.
\<close>

theorem completed_not_pending:
  assumes "gorm_engine E view" "good (view db)" "cbor_ok C"
    and "result E (ReplaceVoucher C now g ov) db = Inr ()"
    and "guid_typed (view (after E (ReplaceVoucher C now g ov) db))"
    and "result E (ListPendingTO0Vouchers b) (after E (ReplaceVoucher C now g ov) db) = Inr vs"
  shows "g \<notin> vou_GUID ` set vs"
proof -
  let ?d = "view (after E (ReplaceVoucher C now g ov) db)"
  from gorm_engine.wp_result[OF assms(1) replace_spec[OF assms(2,3), of now g ov]] assms(4)
  have d: "good ?d" "onboarding_at ?d g = Some \<lparr>do_GUID = g, do_NewGUID = Some (ov_GUID ov),
            do_TO2Completed = True, do_TO2CompletedAt = Some now\<rparr>" by simp_all
  then have "\<not> pending g ?d"
    by (auto simp: pending_def onboarding_at_def device_onboarding_fromRow_def)
  with gorm_engine.wp_result[OF assms(1) wp_ListPending[OF goodD(1)[OF d(1)] assms(5), of b]] assms(6)
  show ?thesis by auto
qed

lemma completed_not_pending_witness:
  "\<exists>vs. result sql_exec (ListPendingTO0Vouchers True) ex_vdb1 = Inr vs \<and> ex_guid CHR ''a'' \<notin> vou_GUID ` set vs"
  using completed_not_pending[OF ex_ok(5) ex_v_ok(2,1) ex_v_runs(1) ex_v_typed(2)[unfolded ex_vdb1_def]
      ex_v_runs(5)[unfolded ex_vdb1_def]] ex_v_runs(5) by auto

text \<open>
  C16. Importing a voucher is atomic: on success the voucher is there and its device is tracked
  and, unless it had completed before, pending; on failure nothing has changed,
  and the failure is a duplicate GUID or the driver's.
\<close>

theorem insert_voucher_atomic:
  fixes v
  assumes "gorm_engine E view" "good (view db)"
  defines "d1 \<equiv> view (after E (InsertVoucher v) db)"
  shows "case result E (InsertVoucher v) db of
     Inr _ \<Rightarrow> lookup T_vouchers (VBytes (vou_GUID v)) d1 = Some (voucher_toRow v) \<and>
       \<not> has_voucher (vou_GUID v) (view db) \<and>
       onboarding_at d1 (vou_GUID v) = Some (case onboarding_at (view db) (vou_GUID v) of
          None \<Rightarrow> new_onboarding (vou_GUID v) | Some ob \<Rightarrow> ob)
   | Inl e \<Rightarrow> d1 = view db \<and> (driver_err e \<or> dup_error e \<and> has_voucher (vou_GUID v) (view db))"
proof -
  have "good (ins T_vouchers (voucher_toRow v) (view db))" if "\<not> has_voucher (vou_GUID v) (view db)"
    using assms(2) that by (intro good_ins[where c = "''guid''"]) (simp_all add: has_voucher_def)
  then have "wp (InsertVoucher v) (\<lambda>r d1. case r of
     Inr _ \<Rightarrow> lookup T_vouchers (VBytes (vou_GUID v)) d1 = Some (voucher_toRow v) \<and>
       \<not> has_voucher (vou_GUID v) (view db) \<and>
       onboarding_at d1 (vou_GUID v) = Some (case onboarding_at (view db) (vou_GUID v) of
          None \<Rightarrow> new_onboarding (vou_GUID v) | Some ob \<Rightarrow> ob)
   | Inl e \<Rightarrow> d1 = view db \<and> (driver_err e \<or> dup_error e \<and> has_voucher (vou_GUID v) (view db))) (view db)"
    using assms(2)
    by (auto simp: wp_InsertVoucher has_voucher_def lookup_ins_guid onboarding_at_put onboarding_at_def[of "view db"]
        onboarding_at_def[of "ins _ _ _"] split: option.splits)
  from gorm_engine.wp_result[OF assms(1) this] show ?thesis unfolding d1_def .
qed

lemma insert_voucher_atomic_witness:
  "lookup T_vouchers (VBytes (vou_GUID ex_vrow)) ex_vdb = Some (voucher_toRow ex_vrow)"
proof -
  have "result sql_exec (InsertVoucher ex_vrow) (empty_db []) = Inr ()" by code_simp
  with insert_voucher_atomic[OF ex_ok(5) good_empty, of ex_vrow] show ?thesis by (simp add: ex_vdb_def)
qed

text \<open>
  \<^verbatim>\<open>RemoveVoucher\<close> returns the stored voucher and removes it, all other vouchers stay; when it
  fails nothing has changed.
\<close>

theorem remove_voucher_effect:
  fixes C g
  assumes "gorm_engine E view" "good (view db)"
  defines "d1 \<equiv> view (after E (RemoveVoucher C g) db)"
  shows "case result E (RemoveVoucher C g) db of
     Inr ov \<Rightarrow> voucher_at C (view db) g = Inr ov \<and> voucher_at C d1 = (voucher_at C (view db))(g := Inl ErrNotFound)
   | Inl e \<Rightarrow> d1 = view db \<and> (driver_err e \<or> voucher_at C (view db) g = Inl e)"
  using gorm_engine.wp_result[OF assms(1) vouchers.remove_spec[OF assms(2), of C g]] unfolding d1_def by simp

lemma remove_voucher_effect_witness:
  "voucher_at ex_vcodec (after sql_exec (RemoveVoucher ex_vcodec (ex_guid CHR ''a'')) ex_vdb) (ex_guid CHR ''a'') =
     Inl ErrNotFound"
proof -
  have "result sql_exec (RemoveVoucher ex_vcodec (ex_guid CHR ''a'')) ex_vdb = Inr (ex_ov CHR ''a'')" by code_simp
  with remove_voucher_effect[OF ex_ok(5) ex_v_ok(2), of ex_vcodec "ex_guid CHR ''a''"] show ?thesis by simp
qed

end
