(* ===== verification/DeviceCAGen.thy ===== *)
theory DeviceCAGen
  imports OpenApi
begin

text \<open>
  The types of \<^verbatim>\<open>internal/handlers/deviceca/handler.gen.go\<close>: the enumerations and parameters of the
  list operation with their decoding, and the response objects of the four operations with what
  visiting them writes.
\<close>

section \<open>Parameters of the list\<close>

text \<open>The enumerations are strings; their \<open>Valid\<close> methods are there, but no code calls them.\<close>

definition ValidityStatus_Valid :: "string \<Rightarrow> bool" where
  "ValidityStatus_Valid e \<longleftrightarrow> e = ''expired'' \<or> e = ''not-yet-valid'' \<or> e = ''valid''"

definition SortBy_Valid :: "string \<Rightarrow> bool" where
  "SortBy_Valid e \<longleftrightarrow>
     e = ''createdAt'' \<or> e = ''issuer'' \<or> e = ''notAfter'' \<or> e = ''notBefore'' \<or> e = ''subject''"

definition SortOrder_Valid :: "string \<Rightarrow> bool" where
  "SortOrder_Valid e \<longleftrightarrow> e = ''asc'' \<or> e = ''desc''"

record list_params =
  p_Limit :: "int option"
  p_Offset :: "int option"
  p_Issuer :: "string option"
  p_Subject :: "string option"
  p_ValidityStatus :: "string option"
  p_Search :: "string option"
  p_SortBy :: "string option"
  p_SortOrder :: "string option"

definition bind_list_params :: "bind_lib \<Rightarrow> (string \<Rightarrow> string list) \<Rightarrow> param_error + list_params" where
  "bind_list_params B query =
     bound ''limit'' (BindQueryInt B ''limit'' query) (\<lambda>limit.
     bound ''offset'' (BindQueryInt B ''offset'' query) (\<lambda>offset.
     bound ''issuer'' (BindQueryString B ''issuer'' query) (\<lambda>issuer.
     bound ''subject'' (BindQueryString B ''subject'' query) (\<lambda>subject.
     bound ''validityStatus'' (BindQueryString B ''validityStatus'' query) (\<lambda>validityStatus.
     bound ''search'' (BindQueryString B ''search'' query) (\<lambda>search.
     bound ''sortBy'' (BindQueryString B ''sortBy'' query) (\<lambda>sortBy.
     bound ''sortOrder'' (BindQueryString B ''sortOrder'' query) (\<lambda>sortOrder.
       Inr \<lparr>p_Limit = limit, p_Offset = offset, p_Issuer = issuer, p_Subject = subject,
         p_ValidityStatus = validityStatus, p_Search = search, p_SortBy = sortBy, p_SortOrder = sortOrder\<rparr>))))))))"

section \<open>Response objects\<close>

datatype list_response =
    ListTrustedDeviceCACerts200JSONResponse json
  | ListTrustedDeviceCACerts200ApplicationxPemFileResponse bytes
  | ListTrustedDeviceCACerts400JSONResponse string
  | ListTrustedDeviceCACerts401JSONResponse string
  | ListTrustedDeviceCACerts403JSONResponse string
  | ListTrustedDeviceCACerts500JSONResponse string

fun VisitListTrustedDeviceCACertsResponse :: "list_response \<Rightarrow> response" where
  "VisitListTrustedDeviceCACertsResponse (ListTrustedDeviceCACerts200JSONResponse v) = json_response 200 v"
| "VisitListTrustedDeviceCACertsResponse (ListTrustedDeviceCACerts200ApplicationxPemFileResponse b) = pem_response 200 b"
| "VisitListTrustedDeviceCACertsResponse (ListTrustedDeviceCACerts400JSONResponse m) = json_response 400 (message_json m)"
| "VisitListTrustedDeviceCACertsResponse (ListTrustedDeviceCACerts401JSONResponse m) = json_response 401 (message_json m)"
| "VisitListTrustedDeviceCACertsResponse (ListTrustedDeviceCACerts403JSONResponse m) = json_response 403 (message_json m)"
| "VisitListTrustedDeviceCACertsResponse (ListTrustedDeviceCACerts500JSONResponse m) = json_response 500 (message_json m)"

datatype import_response =
    ImportTrustedDeviceCACerts200JSONResponse json
  | ImportTrustedDeviceCACerts400JSONResponse string
  | ImportTrustedDeviceCACerts401JSONResponse string
  | ImportTrustedDeviceCACerts403JSONResponse string
  | ImportTrustedDeviceCACerts413JSONResponse string
  | ImportTrustedDeviceCACerts500JSONResponse string

fun VisitImportTrustedDeviceCACertsResponse :: "import_response \<Rightarrow> response" where
  "VisitImportTrustedDeviceCACertsResponse (ImportTrustedDeviceCACerts200JSONResponse v) = json_response 200 v"
| "VisitImportTrustedDeviceCACertsResponse (ImportTrustedDeviceCACerts400JSONResponse m) = json_response 400 (message_json m)"
| "VisitImportTrustedDeviceCACertsResponse (ImportTrustedDeviceCACerts401JSONResponse m) = json_response 401 (message_json m)"
| "VisitImportTrustedDeviceCACertsResponse (ImportTrustedDeviceCACerts403JSONResponse m) = json_response 403 (message_json m)"
| "VisitImportTrustedDeviceCACertsResponse (ImportTrustedDeviceCACerts413JSONResponse m) = json_response 413 (message_json m)"
| "VisitImportTrustedDeviceCACertsResponse (ImportTrustedDeviceCACerts500JSONResponse m) = json_response 500 (message_json m)"

datatype delete_response =
    DeleteTrustedDeviceCACert204Response
  | DeleteTrustedDeviceCACert401JSONResponse string
  | DeleteTrustedDeviceCACert403JSONResponse string
  | DeleteTrustedDeviceCACert404JSONResponse string
  | DeleteTrustedDeviceCACert500JSONResponse string

fun VisitDeleteTrustedDeviceCACertResponse :: "delete_response \<Rightarrow> response" where
  "VisitDeleteTrustedDeviceCACertResponse DeleteTrustedDeviceCACert204Response = \<lparr>status = 204, resp_body = NoBody\<rparr>"
| "VisitDeleteTrustedDeviceCACertResponse (DeleteTrustedDeviceCACert401JSONResponse m) = json_response 401 (message_json m)"
| "VisitDeleteTrustedDeviceCACertResponse (DeleteTrustedDeviceCACert403JSONResponse m) = json_response 403 (message_json m)"
| "VisitDeleteTrustedDeviceCACertResponse (DeleteTrustedDeviceCACert404JSONResponse m) = json_response 404 (message_json m)"
| "VisitDeleteTrustedDeviceCACertResponse (DeleteTrustedDeviceCACert500JSONResponse m) = json_response 500 (message_json m)"

datatype get_response =
    GetTrustedDeviceCACertByFingerprint200JSONResponse json
  | GetTrustedDeviceCACertByFingerprint200ApplicationxPemFileResponse bytes
  | GetTrustedDeviceCACertByFingerprint401JSONResponse string
  | GetTrustedDeviceCACertByFingerprint403JSONResponse string
  | GetTrustedDeviceCACertByFingerprint404JSONResponse string
  | GetTrustedDeviceCACertByFingerprint500JSONResponse string

fun VisitGetTrustedDeviceCACertByFingerprintResponse :: "get_response \<Rightarrow> response" where
  "VisitGetTrustedDeviceCACertByFingerprintResponse (GetTrustedDeviceCACertByFingerprint200JSONResponse v) = json_response 200 v"
| "VisitGetTrustedDeviceCACertByFingerprintResponse (GetTrustedDeviceCACertByFingerprint200ApplicationxPemFileResponse b) =
     pem_response 200 b"
| "VisitGetTrustedDeviceCACertByFingerprintResponse (GetTrustedDeviceCACertByFingerprint401JSONResponse m) = json_response 401 (message_json m)"
| "VisitGetTrustedDeviceCACertByFingerprintResponse (GetTrustedDeviceCACertByFingerprint403JSONResponse m) = json_response 403 (message_json m)"
| "VisitGetTrustedDeviceCACertByFingerprintResponse (GetTrustedDeviceCACertByFingerprint404JSONResponse m) = json_response 404 (message_json m)"
| "VisitGetTrustedDeviceCACertByFingerprintResponse (GetTrustedDeviceCACertByFingerprint500JSONResponse m) = json_response 500 (message_json m)"

text \<open>An operation returns its response object, which is visited at once.\<close>

abbreviation reply_list :: "list_response \<Rightarrow> response prog" where
  "reply_list x \<equiv> Ret (VisitListTrustedDeviceCACertsResponse x)"

abbreviation reply_import :: "import_response \<Rightarrow> response prog" where
  "reply_import x \<equiv> Ret (VisitImportTrustedDeviceCACertsResponse x)"

abbreviation reply_delete :: "delete_response \<Rightarrow> response prog" where
  "reply_delete x \<equiv> Ret (VisitDeleteTrustedDeviceCACertResponse x)"

abbreviation reply_get :: "get_response \<Rightarrow> response prog" where
  "reply_get x \<equiv> Ret (VisitGetTrustedDeviceCACertByFingerprintResponse x)"

end
