(* ===== verification/DeviceCA.thy ===== *)
theory DeviceCA
  imports RvInfoStore DeviceCAGen
begin

text \<open>
  The trusted device CA certificates of the rendezvous and owner servers:
  \<^verbatim>\<open>internal/state/deviceca.go\<close> (the table and the certificate pool in memory) and
  \<^verbatim>\<open>internal/handlers/deviceca/handler.go\<close>.

  PEM, X.509 parsing and SHA-256 are library functions, collected in \<open>pki\<close>; the loop
  over the PEM blocks of a request runs on fuel, and \<open>pki_ok\<close> (each block consumes input)
  gives that the length of the input is enough.
\<close>

section \<open>Library functions\<close>

record pki =
  pem_Decode :: "bytes \<Rightarrow> (string \<times> bytes \<times> bytes) option"
    \<comment> \<open>type and content of the first block, and the rest\<close>
  pem_Encode :: "string \<Rightarrow> bytes \<Rightarrow> bytes"
  x509_ParseCertificate :: "bytes \<Rightarrow> x509_cert option"
  sha256 :: "bytes \<Rightarrow> bytes"

definition pki_ok :: "pki \<Rightarrow> bool" where
  "pki_ok L \<longleftrightarrow>
     (\<forall>b ty c rest. pem_Decode L b = Some (ty, c, rest) \<longrightarrow> length rest < length b) \<and>
     (\<forall>b c. x509_ParseCertificate L b = Some c \<longrightarrow> cert_Raw c = b)"

definition fingerprint :: "pki \<Rightarrow> x509_cert \<Rightarrow> string" where
  "fingerprint L c = hexEncode (sha256 L (cert_Raw c))"

section \<open>Import\<close>

record import_stats =
  Detected :: nat
  Imported :: nat
  Skipped :: nat
  Malformed :: nat
  Messages :: "string list"
  Certificates :: "device_ca_cert list"

definition zero_stats :: import_stats where
  "zero_stats = \<lparr>Detected = 0, Imported = 0, Skipped = 0, Malformed = 0, Messages = [], Certificates = []\<rparr>"

definition note_msg :: "string \<Rightarrow> import_stats \<Rightarrow> import_stats" where
  "note_msg m st = st\<lparr>Messages := Messages st @ [m]\<rparr>"

definition skip_cert :: "nat \<Rightarrow> x509_cert \<Rightarrow> string \<Rightarrow> import_stats \<Rightarrow> import_stats" where
  "skip_cert position c why st =
     note_msg (''the certificate at position '' @ FormatUint position @ '' with subject '' @ [CHR 0x27] @
       cert_Subject c @ [CHR 0x27] @ '' was skipped because it '' @ why) (st\<lparr>Skipped := Skipped st + 1\<rparr>)"

fun isDuplicateError :: "go_error \<Rightarrow> bool" where
  "isDuplicateError (ErrPg code) = (code = ''23505'')"
| "isDuplicateError (ErrSqlite code) = (code = sqlite_ErrConstraint)"
| "isDuplicateError (Wrapf _ err) = isDuplicateError err"
| "isDuplicateError _ = False"

definition ca_record :: "pki \<Rightarrow> int \<Rightarrow> x509_cert \<Rightarrow> device_ca_cert" where
  "ca_record L now c = \<lparr>ca_Fingerprint = fingerprint L c,
     ca_PEM = pem_Encode L ''CERTIFICATE'' (cert_Raw c), ca_Subject = cert_Subject c,
     ca_Issuer = cert_Issuer c, ca_NotBefore = cert_NotBefore c, ca_NotAfter = cert_NotAfter c,
     ca_CreatedAt = now\<rparr>"

abbreviation by_fingerprint :: "string \<Rightarrow> cond list" where
  "by_fingerprint f \<equiv> [CEq ''fingerprint'' (VText f)]"

text \<open>One certificate of the input, at its position, after it was parsed.\<close>

definition import_cert :: "pki \<Rightarrow> int \<Rightarrow> nat \<Rightarrow> x509_cert \<Rightarrow> import_stats \<Rightarrow> import_stats act" where
  "import_cert L now position cert stats =
     (let st = stats\<lparr>Detected := Detected stats + 1\<rparr> in
      if now > cert_NotAfter cert then retE (skip_cert position cert ''is expired'' st)
      else
        bindE (mapErr (Wrapf ''failed to check for existing certificate'')
                (dbCount T_device_ca_certificates (by_fingerprint (fingerprint L cert)))) (\<lambda>n.
          if n > 0 then retE (skip_cert position cert ''already exists'' st)
          else
            bindP (dbCreate T_device_ca_certificates (device_ca_toRow (ca_record L now cert))) (\<lambda>r. case r of
              Inl err \<Rightarrow>
                if isDuplicateError err then retE (skip_cert position cert ''already exists'' st)
                else failE (Wrapf ''failed to create device CA certificate'' err)
            | Inr _ \<Rightarrow>
                retE (note_msg (''the certificate at position '' @ FormatUint position @ '' with subject '' @
                    [CHR 0x27] @ cert_Subject cert @ [CHR 0x27] @ '' was imported successfully'')
                  (st\<lparr>Imported := Imported st + 1, Certificates := Certificates st @ [ca_record L now cert]\<rparr>)))))"

text \<open>
  The loop over the blocks; \<open>None\<close> is a loop that ran out of fuel. One reading of the clock, \<open>now\<close>, stands for
  those the source takes for each certificate.
\<close>

fun import_loop :: "pki \<Rightarrow> int \<Rightarrow> nat \<Rightarrow> bytes \<Rightarrow> nat \<Rightarrow> import_stats \<Rightarrow> import_stats option act" where
  "import_loop L now 0 remaining position stats = retE None"
| "import_loop L now (Suc fuel) remaining position stats =
     (case pem_Decode L remaining of
        None \<Rightarrow> retE (Some stats)
      | Some (ty, content, rest) \<Rightarrow>
          if ty \<noteq> ''CERTIFICATE'' then import_loop L now fuel rest position stats
          else
            (case x509_ParseCertificate L content of
               None \<Rightarrow> import_loop L now fuel rest (position + 1)
                 (note_msg (''the certificate at position '' @ FormatUint (position + 1) @ '' is malformed'')
                    (stats\<lparr>Malformed := Malformed stats + 1\<rparr>))
             | Some cert \<Rightarrow>
                 bindE (import_cert L now (position + 1) cert stats) (import_loop L now fuel rest (position + 1))))"

definition ImportDeviceCACertificates :: "pki \<Rightarrow> int \<Rightarrow> bytes \<Rightarrow> import_stats option act" where
  "ImportDeviceCACertificates L now pemData =
     import_loop L now (Suc (length pemData)) pemData 0 zero_stats"

section \<open>The other operations\<close>

datatype validity = ValidityStatusValid | ValidityStatusExpired | ValidityStatusNotYetValid

definition ValidityStatus :: "string \<Rightarrow> validity option" where
  "ValidityStatus s = (if s = ''valid'' then Some ValidityStatusValid else if s = ''expired'' then Some ValidityStatusExpired
     else if s = ''not-yet-valid'' then Some ValidityStatusNotYetValid else None)"

definition validity_conds :: "int \<Rightarrow> validity \<Rightarrow> cond list" where
  "validity_conds now v =
     (case v of
        ValidityStatusValid \<Rightarrow> [CAnd (CLe ''not_before'' (VTime now)) (CGt ''not_after'' (VTime now))]
      | ValidityStatusExpired \<Rightarrow> [CLe ''not_after'' (VTime now)]
      | ValidityStatusNotYetValid \<Rightarrow> [CGt ''not_before'' (VTime now)])"

definition text_filter :: "(string \<Rightarrow> cond) \<Rightarrow> string option \<Rightarrow> cond list" where
  "text_filter f s = (case s of None \<Rightarrow> [] | Some x \<Rightarrow> if x = [] then [] else [f x])"

definition list_conds ::
  "int \<Rightarrow> string option \<Rightarrow> string option \<Rightarrow> string option \<Rightarrow> string option \<Rightarrow> cond list" where
  "list_conds now issuer subject search validityStatus =
     text_filter (\<lambda>s. CEq ''issuer'' (VText s)) issuer @
     text_filter (\<lambda>s. CEq ''subject'' (VText s)) subject @
     text_filter (\<lambda>s. COr (CLike ''subject'' (''%'' @ s @ ''%'')) (CLike ''issuer'' (''%'' @ s @ ''%''))) search @
     (case Option.bind validityStatus ValidityStatus of None \<Rightarrow> [] | Some v \<Rightarrow> validity_conds now v)"

definition ListDeviceCACertificates ::
  "int \<Rightarrow> int \<Rightarrow> int \<Rightarrow> string option \<Rightarrow> string option \<Rightarrow> string option \<Rightarrow> string option \<Rightarrow> string \<Rightarrow> string \<Rightarrow>
   (device_ca_cert list \<times> nat) act" where
  "ListDeviceCACertificates now limit offset issuer subject search validityStatus sortBy sortOrder =
     (let cs = list_conds now issuer subject search validityStatus;
          by = (if sortBy = [] then ''created_at'' else sortBy);
          ord = (if sortOrder = [] then ''asc'' else sortOrder) in
      bindE (mapErr (Wrapf ''failed to count device CA certificates'') (dbCount T_device_ca_certificates cs)) (\<lambda>total.
      bindE (mapErr (Wrapf ''failed to list device CA certificates'')
              (dbFind T_device_ca_certificates cs (Some (by, ord = ''desc''))
                (if limit > 0 then nat limit else 0) (if offset > 0 then nat offset else 0))) (\<lambda>rs.
        retE (map device_ca_fromRow rs, total))))"

definition GetDeviceCACertificate :: "string \<Rightarrow> device_ca_cert act" where
  "GetDeviceCACertificate f =
     bindE (mapErr (\<lambda>e. if e = ErrRecordNotFound then ErrDeviceCACertNotFound
                        else Wrapf ''failed to get device CA certificate'' e)
             (dbFirst T_device_ca_certificates (by_fingerprint f))) (\<lambda>r. retE (device_ca_fromRow r))"

definition DeleteDeviceCACertificate :: "string \<Rightarrow> unit act" where
  "DeleteDeviceCACertificate f =
     bindE (mapErr (Wrapf ''failed to delete device CA certificate'')
             (dbDelete T_device_ca_certificates (by_fingerprint f))) (\<lambda>n.
       if n = 0 then failE ErrDeviceCACertNotFound else retE ())"

text \<open>
  The pool is rebuilt from the table; the caller replaces the pool of the state by the
  result under its lock, and keeps the old one when loading fails.
\<close>

definition load_cert :: "pki \<Rightarrow> device_ca_cert \<Rightarrow> x509_cert result" where
  "load_cert L c =
     (case pem_Decode L (ca_PEM c) of
        None \<Rightarrow> Inl (Errorf ''failed to decode PEM for certificate'')
      | Some (_, content, _) \<Rightarrow>
          of_opt (Wrapf ''failed to parse certificate'' (ErrExt ''x509'')) (x509_ParseCertificate L content))"

definition AddCert :: "x509_cert list \<Rightarrow> x509_cert \<Rightarrow> x509_cert list" where
  "AddCert pool c = (if cert_Raw c \<in> cert_Raw ` set pool then pool else pool @ [c])"

definition LoadTrustedDeviceCAs :: "pki \<Rightarrow> x509_cert list act" where
  "LoadTrustedDeviceCAs L =
     bindE (mapErr (Wrapf ''failed to load device CA certificates'')
             (dbFind T_device_ca_certificates [] None 0 0)) (\<lambda>rs.
       liftR (rbind (rmapM (\<lambda>r. load_cert L (device_ca_fromRow r)) rs) (\<lambda>certs. Inr (foldl AddCert [] certs))))"

section \<open>Handlers\<close>

text \<open>
  A handler that changes the pool gets it and returns it with the response. \<open>negotiate\<close> is the
  library's negotiation: the media type it picks for an \<^verbatim>\<open>Accept\<close> header, \<open>None\<close> when it fails.
\<close>

definition to_lower :: "string \<Rightarrow> string" where
  "to_lower = map (\<lambda>c. if 65 \<le> (of_char c :: nat) \<and> (of_char c :: nat) \<le> 90 then char_of ((of_char c :: nat) + 32) else c)"

definition preferredContentType :: "(string \<Rightarrow> string option) \<Rightarrow> string \<Rightarrow> string" where
  "preferredContentType negotiate acceptHeader =
     (if acceptHeader = [] then ''application/json''
      else case negotiate acceptHeader of Some m \<Rightarrow> to_lower m | None \<Rightarrow> ''application/json'')"

definition ContentNegotiationMiddleware :: "(string \<Rightarrow> string option) \<Rightarrow> ('q, 's) strict_middleware" where
  "ContentNegotiationMiddleware negotiate f operationID = (\<lambda>c r.
     f (c(''preferred-content-type'' \<mapsto> ContentType (preferredContentType negotiate (hdr_Accept r)))) r)"

definition ca_json :: "device_ca_cert \<Rightarrow> (int \<Rightarrow> string) \<Rightarrow> json" where
  "ca_json c tm = JObj [(''createdAt'', JStr (tm (ca_CreatedAt c))), (''fingerprint'', JStr (ca_Fingerprint c)),
     (''issuer'', JStr (ca_Issuer c)), (''notAfter'', JStr (tm (ca_NotAfter c))),
     (''notBefore'', JStr (tm (ca_NotBefore c))), (''pem'', JStr (ca_PEM c)), (''subject'', JStr (ca_Subject c))]"

definition sort_column :: "string \<Rightarrow> string" where
  "sort_column s = (if s = ''createdAt'' then ''created_at'' else if s = ''notAfter'' then ''not_after''
     else if s = ''notBefore'' then ''not_before'' else if s = ''subject'' then ''subject''
     else if s = ''issuer'' then ''issuer'' else ''created_at'')"

definition sort_direction :: "string \<Rightarrow> string" where
  "sort_direction s = (if s = ''asc'' then ''asc'' else if s = ''desc'' then ''desc'' else ''asc'')"

text \<open>The preferred content type the middleware left in the context, empty when it is not there.\<close>

definition preferred :: "http_ctx \<Rightarrow> string" where
  "preferred c = (case c ''preferred-content-type'' of Some (ContentType s) \<Rightarrow> s | _ \<Rightarrow> [])"

definition ListTrustedDeviceCACerts :: "int \<Rightarrow> (int \<Rightarrow> string) \<Rightarrow> http_ctx \<Rightarrow> list_params \<Rightarrow> response prog" where
  "ListTrustedDeviceCACerts now tm cx params =
     (let limit = (case p_Limit params of None \<Rightarrow> 20 | Some n \<Rightarrow> n);
          offset = (case p_Offset params of None \<Rightarrow> 0 | Some n \<Rightarrow> n);
          sortBy = (case p_SortBy params of None \<Rightarrow> ''created_at'' | Some s \<Rightarrow> sort_column s);
          sortOrder = (case p_SortOrder params of None \<Rightarrow> ''asc'' | Some s \<Rightarrow> sort_direction s) in
      tryE (ListDeviceCACertificates now limit offset (p_Issuer params) (p_Subject params) (p_Search params)
             (p_ValidityStatus params) sortBy sortOrder)
        (\<lambda>_. reply_list (ListTrustedDeviceCACerts500JSONResponse ''Failed to list device CA certificates''))
        (\<lambda>(certs, total).
           if preferred cx = ''application/x-pem-file'' then reply_list (ListTrustedDeviceCACerts200ApplicationxPemFileResponse (concat (map ca_PEM certs)))
           else reply_list (ListTrustedDeviceCACerts200JSONResponse (JObj [(''certs'', JArr (map (\<lambda>c. ca_json c tm) certs)),
                  (''limit'', json_int limit), (''offset'', json_int offset),
                  (''total'', json_nat total)]))))"

definition maxSize :: nat where
  "maxSize = 1048576"

definition import_json :: "import_stats \<Rightarrow> (int \<Rightarrow> string) \<Rightarrow> json" where
  "import_json st tm = JObj [(''certs'', JArr (map (\<lambda>c. ca_json c tm) (Certificates st))),
     (''detected'', json_nat (Detected st)), (''imported'', json_nat (Imported st)),
     (''malformed'', json_nat (Malformed st)), (''messages'', JArr (map JStr (Messages st))),
     (''skipped'', json_nat (Skipped st))]"

text \<open>The body is read through a limit of one octet more than allowed.\<close>

definition ImportTrustedDeviceCACerts ::
  "pki \<Rightarrow> int \<Rightarrow> (int \<Rightarrow> string) \<Rightarrow> x509_cert list \<Rightarrow> bytes option \<Rightarrow> (response \<times> x509_cert list) option prog" where
  "ImportTrustedDeviceCACerts L now tm pool body =
     (let done = (\<lambda>p r. bindP r (\<lambda>x. Ret (Some (x, p)))) in
      case map_option (take (maxSize + 1)) body of
        None \<Rightarrow> done pool (reply_import (ImportTrustedDeviceCACerts400JSONResponse ''Failed to read request body''))
      | Some pemData \<Rightarrow>
          if length pemData > maxSize then done pool (reply_import (ImportTrustedDeviceCACerts413JSONResponse
              (''Request payload exceeds maximum size of '' @ FormatUint maxSize @ '' bytes'')))
          else
            tryE (ImportDeviceCACertificates L now pemData)
              (\<lambda>_. done pool (reply_import (ImportTrustedDeviceCACerts500JSONResponse ''Failed to import certificates'')))
              (\<lambda>s. case s of
                 None \<Rightarrow> Ret None
               | Some stats \<Rightarrow>
                   if Imported stats > 0 then
                     tryE (LoadTrustedDeviceCAs L)
                       (\<lambda>_. done pool (reply_import (ImportTrustedDeviceCACerts500JSONResponse ''Failed to reload trusted device CA certificates'')))
                       (\<lambda>pool'. done pool' (reply_import (ImportTrustedDeviceCACerts200JSONResponse (import_json stats tm))))
                   else done pool (reply_import (ImportTrustedDeviceCACerts200JSONResponse (import_json stats tm)))))"

definition GetTrustedDeviceCACertByFingerprint :: "(int \<Rightarrow> string) \<Rightarrow> http_ctx \<Rightarrow> string \<Rightarrow> response prog" where
  "GetTrustedDeviceCACertByFingerprint tm cx f =
     tryE (GetDeviceCACertificate f)
       (\<lambda>err. if errors_is err ErrDeviceCACertNotFound then reply_get (GetTrustedDeviceCACertByFingerprint404JSONResponse ''Device CA certificate not found'')
              else reply_get (GetTrustedDeviceCACertByFingerprint500JSONResponse ''Failed to retrieve certificate''))
       (\<lambda>cert. if preferred cx = ''application/x-pem-file'' then reply_get (GetTrustedDeviceCACertByFingerprint200ApplicationxPemFileResponse (ca_PEM cert))
               else reply_get (GetTrustedDeviceCACertByFingerprint200JSONResponse (ca_json cert tm)))"

definition DeleteTrustedDeviceCACert ::
  "pki \<Rightarrow> x509_cert list \<Rightarrow> string \<Rightarrow> (response \<times> x509_cert list) prog" where
  "DeleteTrustedDeviceCACert L pool f =
     (let done = (\<lambda>p r. bindP r (\<lambda>x. Ret (x, p))) in
      tryE (DeleteDeviceCACertificate f)
        (\<lambda>err. if errors_is err ErrDeviceCACertNotFound then done pool (reply_delete (DeleteTrustedDeviceCACert404JSONResponse ''Device CA certificate not found''))
               else done pool (reply_delete (DeleteTrustedDeviceCACert500JSONResponse ''Failed to delete certificate'')))
        (\<lambda>_. tryE (LoadTrustedDeviceCAs L)
           (\<lambda>_. done pool (reply_delete (DeleteTrustedDeviceCACert500JSONResponse ''Failed to reload trusted device CA certificates'')))
           (\<lambda>pool'. done pool' (reply_delete DeleteTrustedDeviceCACert204Response))))"

section \<open>What the import does\<close>

definition has_ca :: "string \<Rightarrow> sqldb \<Rightarrow> bool" where
  "has_ca f d \<longleftrightarrow> lookup T_device_ca_certificates (VText f) d \<noteq> None"

lemma ca_key [simp]: "device_ca_toRow c ''fingerprint'' = VText (ca_Fingerprint c)"
  by (simp add: toRow_defs)

lemma dup_is_duplicate: "dup_error e \<Longrightarrow> isDuplicateError e"
  by (auto simp: dup_error_def)

definition imported_stats :: "pki \<Rightarrow> int \<Rightarrow> nat \<Rightarrow> x509_cert \<Rightarrow> import_stats \<Rightarrow> import_stats" where
  "imported_stats L now position cert st =
     note_msg (''the certificate at position '' @ FormatUint position @ '' with subject '' @
                    [CHR 0x27] @ cert_Subject cert @ [CHR 0x27] @ '' was imported successfully'')
       (st\<lparr>Detected := Detected st + 1, Imported := Imported st + 1,
          Certificates := Certificates st @ [ca_record L now cert]\<rparr>)"

lemma wp_import_cert:
  assumes "wf d" "schema_ok d"
  shows "wp (import_cert L now p c st) Q d \<longleftrightarrow>
     (if now > cert_NotAfter c then Q (Inr (skip_cert p c ''is expired'' (st\<lparr>Detected := Detected st + 1\<rparr>))) d
      else (\<forall>m. Q (Inl (Wrapf ''failed to check for existing certificate'' (ErrDriver m))) d) \<and>
        (if has_ca (fingerprint L c) d
         then Q (Inr (skip_cert p c ''already exists'' (st\<lparr>Detected := Detected st + 1\<rparr>))) d
         else (\<forall>m. Q (Inl (Wrapf ''failed to create device CA certificate'' (ErrDriver m))) d) \<and>
              Q (Inr (imported_stats L now p c st))
                (ins T_device_ca_certificates (device_ca_toRow (ca_record L now c)) d)))"
  using assms
  by (auto simp: import_cert_def Let_def wp_simps wp_bindP rows_key has_ca_def dupkey_lookup ca_record_def
      schema_fk_ok imported_stats_def split: option.splits)

definition stats_ok :: "import_stats \<Rightarrow> bool" where
  "stats_ok st \<longleftrightarrow> Detected st = Imported st + Skipped st \<and>
     length (Messages st) = Detected st + Malformed st \<and> length (Certificates st) = Imported st"

lemma stats_ok_steps:
  assumes "stats_ok st"
  shows "stats_ok (skip_cert p c why (st\<lparr>Detected := Detected st + 1\<rparr>))" "stats_ok (imported_stats L now p c st)"
    "stats_ok (note_msg m (st\<lparr>Malformed := Malformed st + 1\<rparr>))"
  using assms by (auto simp: stats_ok_def skip_cert_def imported_stats_def note_msg_def)

text \<open>Everything the loop may rely on and keeps: what was there before stays.\<close>

definition ca_grows :: "sqldb \<Rightarrow> sqldb \<Rightarrow> bool" where
  "ca_grows d d' \<longleftrightarrow> wf d' \<and> schema_ok d' \<and>
     (\<forall>f r. lookup T_device_ca_certificates (VText f) d = Some r \<longrightarrow>
            lookup T_device_ca_certificates (VText f) d' = Some r)"

lemma ca_grows_refl: "wf d \<Longrightarrow> schema_ok d \<Longrightarrow> ca_grows d d"
  by (simp add: ca_grows_def)

lemma ca_grows_trans: "ca_grows d d1 \<Longrightarrow> ca_grows d1 d2 \<Longrightarrow> ca_grows d d2"
  by (simp add: ca_grows_def)

lemma ca_grows_has: "ca_grows d d' \<Longrightarrow> has_ca f d \<Longrightarrow> has_ca f d'"
  by (auto simp: ca_grows_def has_ca_def)

lemma ca_ins:
  assumes "wf d" "schema_ok d" "\<not> has_ca (fingerprint L c) d"
  shows "ca_grows d (ins T_device_ca_certificates (device_ca_toRow (ca_record L now c)) d)"
    "has_ca (fingerprint L c) (ins T_device_ca_certificates (device_ca_toRow (ca_record L now c)) d)"
  using assms
  by (auto simp: ca_grows_def has_ca_def lookup_ins dupkey_lookup ca_record_def wf_ins sql_eq_def)

text \<open>The parsable certificates of the input.\<close>

fun pem_certs :: "pki \<Rightarrow> nat \<Rightarrow> bytes \<Rightarrow> x509_cert list" where
  "pem_certs L 0 b = []"
| "pem_certs L (Suc n) b =
     (case pem_Decode L b of
        None \<Rightarrow> []
      | Some (ty, content, rest) \<Rightarrow>
          (if ty \<noteq> ''CERTIFICATE'' then []
           else case x509_ParseCertificate L content of None \<Rightarrow> [] | Some c \<Rightarrow> [c]) @ pem_certs L n rest)"

lemma wp_import_loop:
  assumes "wf d" "schema_ok d" "stats_ok st"
  shows "wp (import_loop L now n b p st) (\<lambda>r d'. ca_grows d d' \<and>
     (\<forall>st'. r = Inr (Some st') \<longrightarrow> stats_ok st' \<and>
        (\<forall>c\<in>set (pem_certs L n b). cert_NotAfter c \<ge> now \<longrightarrow> has_ca (fingerprint L c) d'))) d"
  using assms
proof (induction n arbitrary: b p st d)
  case 0
  then show ?case by (simp add: wp_ret ca_grows_refl)
next
  case (Suc n)
  show ?case
  proof (cases "pem_Decode L b")
    case None
    with Suc.prems show ?thesis by (simp add: wp_ret ca_grows_refl)
  next
    case (Some x)
    obtain ty content rest where x: "x = (ty, content, rest)" by (cases x)
    show ?thesis
    proof (cases "ty = ''CERTIFICATE''")
      case False
      with Some x Suc.IH[OF Suc.prems] show ?thesis by simp
    next
      case True
      show ?thesis
      proof (cases "x509_ParseCertificate L content")
        case None
        with True Some x Suc.IH[OF Suc.prems(1,2) stats_ok_steps(3)[OF Suc.prems(3)]] show ?thesis by simp
      next
        case (Some c)
        have IH: "wp (import_loop L now n rest (p + 1) st1) (\<lambda>r d'. ca_grows d d' \<and>
            (\<forall>st'. r = Inr (Some st') \<longrightarrow> stats_ok st' \<and>
              (\<forall>c'\<in>set (c # pem_certs L n rest). cert_NotAfter c' \<ge> now \<longrightarrow> has_ca (fingerprint L c') d'))) d1"
          if "ca_grows d d1" "stats_ok st1" "cert_NotAfter c \<ge> now \<longrightarrow> has_ca (fingerprint L c) d1" for st1 d1
        proof -
          from that(1) have "wf d1" "schema_ok d1" by (simp_all add: ca_grows_def)
          from Suc.IH[OF this that(2)] show ?thesis
            by (rule wp_mono) (use that(1,3) in \<open>auto intro: ca_grows_trans ca_grows_has\<close>)
        qed
        have "wp (import_cert L now (p + 1) c st) (\<lambda>r d1. case r of Inl e \<Rightarrow> ca_grows d d1
             | Inr st1 \<Rightarrow> ca_grows d d1 \<and> stats_ok st1 \<and> (cert_NotAfter c \<ge> now \<longrightarrow> has_ca (fingerprint L c) d1)) d"
          using Suc.prems stats_ok_steps[OF Suc.prems(3)]
          by (simp add: wp_import_cert ca_grows_refl ca_ins)
        then have "wp (import_cert L now (p + 1) c st) (\<lambda>r d1. case r of
             Inl e \<Rightarrow> ca_grows d d1
           | Inr st1 \<Rightarrow> wp (import_loop L now n rest (p + 1) st1) (\<lambda>r d'. ca_grows d d' \<and>
            (\<forall>st'. r = Inr (Some st') \<longrightarrow> stats_ok st' \<and>
              (\<forall>c'\<in>set (c # pem_certs L n rest). cert_NotAfter c' \<ge> now \<longrightarrow> has_ca (fingerprint L c') d'))) d1) d"
          by (rule wp_mono) (use IH in \<open>auto split: sum.splits\<close>)
        with \<open>pem_Decode L b = Some x\<close> x True Some show ?thesis
          by (simp add: wp_bindE cong: sum.case_cong)
      qed
    qed
  qed
qed

text \<open>A second import of the same input finds everything there.\<close>

lemma wp_import_loop_again:
  assumes "wf d" "schema_ok d" "\<forall>c\<in>set (pem_certs L n b). cert_NotAfter c \<ge> now \<longrightarrow> has_ca (fingerprint L c) d"
  shows "wp (import_loop L now n b p st) (\<lambda>r d'. d' = d \<and>
     (\<forall>st'. r = Inr (Some st') \<longrightarrow> Imported st' = Imported st)) d"
  using assms(3)
proof (induction n arbitrary: b p st)
  case 0
  then show ?case by (simp add: wp_ret)
next
  case (Suc n)
  have IH: "wp (import_loop L now n rest q st') (\<lambda>r d'. d' = d \<and>
     (\<forall>st'. r = Inr (Some st') \<longrightarrow> Imported st' = Imported st)) d"
    if "\<forall>c\<in>set (pem_certs L n rest). cert_NotAfter c \<ge> now \<longrightarrow> has_ca (fingerprint L c) d"
      "Imported st' = Imported st" for rest q st'
    using Suc.IH[OF that(1), of q st'] that(2) by simp
  show ?case
  proof (cases "pem_Decode L b")
    case None
    then show ?thesis by (simp add: wp_ret)
  next
    case (Some x)
    obtain ty content rest where x: "x = (ty, content, rest)" by (cases x)
    from Some x Suc.prems have covered: "\<forall>c\<in>set (pem_certs L n rest). cert_NotAfter c \<ge> now \<longrightarrow> has_ca (fingerprint L c) d"
      "ty = ''CERTIFICATE'' \<Longrightarrow> x509_ParseCertificate L content = Some c \<Longrightarrow> cert_NotAfter c \<ge> now \<Longrightarrow> has_ca (fingerprint L c) d"
      for c by auto
    from Some x covered(2) show ?thesis
      by (cases "x509_ParseCertificate L content")
         (auto simp: wp_bindE wp_import_cert[OF assms(1,2)] skip_cert_def note_msg_def intro!: IH[OF covered(1)])
  qed
qed

text \<open>The fuel is enough: the loop ends before it runs out.\<close>

lemma import_loop_ends:
  assumes "pki_ok L"
  shows "length b < n \<Longrightarrow> wp (import_loop L now n b p st) (\<lambda>r d'. r \<noteq> Inr None) d"
proof (induction n arbitrary: b p st d)
  case (Suc n)
  have rest: "length rest < n" if "pem_Decode L b = Some (ty, content, rest)" for ty content rest
    using assms that Suc.prems by (fastforce simp: pki_ok_def)
  have "wp (bindE (import_cert L now q c st') (import_loop L now n rest q)) (\<lambda>r d'. r \<noteq> Inr None) d0"
    if "length rest < n" for q c st' rest d0
    unfolding wp_bindE by (rule wp_mono[OF wp_True]) (use Suc.IH[OF that] in \<open>auto split: sum.splits\<close>)
  with rest Suc.IH show ?case
    by (auto simp: wp_ret split: option.splits)
qed simp

section \<open>The pool\<close>

lemma foldl_AddCert_raw: "cert_Raw ` set (foldl AddCert pool cs) = cert_Raw ` set pool \<union> cert_Raw ` set cs"
  by (induction cs arbitrary: pool) (auto simp: AddCert_def)

lemma foldl_AddCert_sub: "set (foldl AddCert pool cs) \<subseteq> set pool \<union> set cs"
  by (induction cs arbitrary: pool) (auto simp: AddCert_def split: if_splits, fastforce+)

lemma load_cert_raw: "pki_ok L \<Longrightarrow> load_cert L c = Inr x \<Longrightarrow> x509_ParseCertificate L (cert_Raw x) = Some x"
  by (auto simp: load_cert_def pki_ok_def split: option.splits)

text \<open>The pool that was loaded holds the certificates of the table, no more and no fewer.\<close>

definition table_certs :: "pki \<Rightarrow> sqldb \<Rightarrow> x509_cert set" where
  "table_certs L d = {x. \<exists>r\<in>set (tabs d T_device_ca_certificates). load_cert L (device_ca_fromRow r) = Inr x}"

lemma table_certs_parse: "pki_ok L \<Longrightarrow> x \<in> table_certs L d \<Longrightarrow> x509_ParseCertificate L (cert_Raw x) = Some x"
  unfolding table_certs_def using load_cert_raw by blast

lemma wp_LoadTrustedDeviceCAs:
  assumes "pki_ok L"
  shows "wp (LoadTrustedDeviceCAs L) (\<lambda>r d'. d' = d \<and> (\<forall>pool. r = Inr pool \<longrightarrow> set pool = table_certs L d)) d"
proof -
  have "set (foldl AddCert [] cs) = table_certs L d"
    if "rmapM (\<lambda>r. load_cert L (device_ca_fromRow r)) rs = Inr cs"
      "mset rs = mset (tabs d T_device_ca_certificates)" for rs cs
  proof -
    have cs: "set cs = table_certs L d"
      using rmapM_image[OF that(1)] mset_eq_setD[OF that(2)] by (simp add: table_certs_def)
    have inj: "x = y" if "x \<in> set cs" "y \<in> set cs" "cert_Raw x = cert_Raw y" for x y
      using table_certs_parse[OF assms that(1)[unfolded cs]] table_certs_parse[OF assms that(2)[unfolded cs]] that(3)
      by (metis option.inject)
    have sub: "set (foldl AddCert [] cs) \<subseteq> set cs" using foldl_AddCert_sub[of "[]" cs] by simp
    have "set cs \<subseteq> set (foldl AddCert [] cs)"
    proof
      fix x assume x: "x \<in> set cs"
      then obtain y where "y \<in> set (foldl AddCert [] cs)" "cert_Raw y = cert_Raw x"
        using foldl_AddCert_raw[of "[]" cs] by (metis Un_iff image_iff)
      with sub x inj show "x \<in> set (foldl AddCert [] cs)" by blast
    qed
    with sub cs show ?thesis by auto
  qed
  then show ?thesis
    by (auto simp: LoadTrustedDeviceCAs_def wp_simps rows_def page_def)
qed

text \<open>An import that reports no new certificate has not written.\<close>

definition import_frame :: "sqldb \<Rightarrow> import_stats \<Rightarrow> sqldb \<Rightarrow> import_stats \<Rightarrow> bool" where
  "import_frame d st d' st' \<longleftrightarrow>
     Imported st \<le> Imported st' \<and> (Imported st' = Imported st \<longrightarrow> d' = d)"

lemma import_cert_frame:
  "wp (import_cert L now p c st) (\<lambda>r d'. \<forall>st'. r = Inr st' \<longrightarrow> import_frame d st d' st') d"
  by (auto simp: import_cert_def Let_def wp_simps wp_bindP skip_cert_def note_msg_def import_frame_def)

lemma import_loop_frame:
  "wp (import_loop L now n b p st) (\<lambda>r d'. \<forall>st'. r = Inr (Some st') \<longrightarrow> import_frame d st d' st') d"
proof (induction n arbitrary: b p st d)
  case (Suc n)
  have step: "wp (bindE (import_cert L now q c st) (import_loop L now n rest q))
      (\<lambda>r d'. \<forall>st'. r = Inr (Some st') \<longrightarrow> import_frame d st d' st') d" for q c rest
    unfolding wp_bindE
    by (rule wp_mono[OF import_cert_frame])
       (auto split: sum.splits intro!: wp_mono[OF Suc.IH], auto simp: import_frame_def)
  have skip: "wp (import_loop L now n rest q st1)
      (\<lambda>r d'. \<forall>st'. r = Inr (Some st') \<longrightarrow> import_frame d st d' st') d" if "Imported st1 = Imported st" for rest q st1
    by (rule wp_mono[OF Suc.IH]) (use that in \<open>auto simp: import_frame_def\<close>)
  show ?case
    using step by (auto simp: wp_ret import_frame_def[of d st d st] note_msg_def skip split: option.splits)
qed (simp add: wp_ret)

lemma wp_Import_pool:
  assumes "pki_ok L" "set pool = table_certs L d"
  shows "wp (ImportTrustedDeviceCACerts L now tm pool body)
     (\<lambda>x d'. \<forall>resp pool'. x = Some (resp, pool') \<longrightarrow> status resp = 200 \<longrightarrow> set pool' = table_certs L d') d"
proof -
  have "wp (ImportDeviceCACertificates L now b) (\<lambda>r d'. \<forall>st'. r = Inr (Some st') \<longrightarrow> Imported st' = 0 \<longrightarrow> d' = d) d" for b
    unfolding ImportDeviceCACertificates_def
    by (rule wp_mono[OF import_loop_frame]) (simp add: import_frame_def zero_stats_def)
  then show ?thesis
    unfolding ImportTrustedDeviceCACerts_def Let_def
    by (auto simp: wp_simps wp_bindP assms(2) split: option.splits sum.splits
        intro!: wp_mono[OF \<open>\<And>b. wp (ImportDeviceCACertificates L now b) _ d\<close>] wp_mono[OF wp_LoadTrustedDeviceCAs[OF assms(1)]])
qed

lemma zero_stats_ok: "stats_ok zero_stats"
  by (simp add: stats_ok_def zero_stats_def)

lemma wp_import:
  assumes "wf d" "schema_ok d"
  shows "wp (ImportDeviceCACertificates L now b) (\<lambda>r d'. ca_grows d d' \<and>
     (\<forall>st'. r = Inr (Some st') \<longrightarrow> stats_ok st' \<and>
        (\<forall>c\<in>set (pem_certs L (Suc (length b)) b). cert_NotAfter c \<ge> now \<longrightarrow> has_ca (fingerprint L c) d'))) d"
  unfolding ImportDeviceCACertificates_def by (rule wp_import_loop[OF assms zero_stats_ok])

text \<open>Right after each other, or later: what has not expired later had not expired before.\<close>

lemma import_twice:
  assumes "wf d" "schema_ok d" "now \<le> now'"
  shows "wp (ImportDeviceCACertificates L now b) (\<lambda>r d1. (\<exists>st. r = Inr (Some st)) \<longrightarrow>
     wp (ImportDeviceCACertificates L now' b) (\<lambda>r' d2. d2 = d1 \<and> (\<forall>st'. r' = Inr (Some st') \<longrightarrow> Imported st' = 0)) d1) d"
proof (rule wp_mono[OF wp_import[OF assms(1,2)]], intro impI)
  fix r d1
  assume *: "ca_grows d d1 \<and> (\<forall>st'. r = Inr (Some st') \<longrightarrow> stats_ok st' \<and>
      (\<forall>c\<in>set (pem_certs L (Suc (length b)) b). now \<le> cert_NotAfter c \<longrightarrow> has_ca (fingerprint L c) d1))"
    and "\<exists>st. r = Inr (Some st)"
  then have "wf d1" "schema_ok d1"
    "\<forall>c\<in>set (pem_certs L (Suc (length b)) b). now' \<le> cert_NotAfter c \<longrightarrow> has_ca (fingerprint L c) d1"
    using assms(3) by (auto simp: ca_grows_def simp del: pem_certs.simps)
  from wp_import_loop_again[OF this] show "wp (ImportDeviceCACertificates L now' b)
      (\<lambda>r' d2. d2 = d1 \<and> (\<forall>st'. r' = Inr (Some st') \<longrightarrow> Imported st' = 0)) d1"
    unfolding ImportDeviceCACertificates_def by (rule wp_mono) (simp add: zero_stats_def)
qed

section \<open>A concrete instance\<close>

text \<open>
  A toy encoding of blocks, each octet marked and the end marked, with certificates of one
  octet. It meets the contract of the library functions.
\<close>

definition ex_mark :: "bytes \<Rightarrow> bytes" where
  "ex_mark s = concat (map (\<lambda>c. [CHR ''1'', c]) s) @ ''0''"

fun ex_unmark :: "bytes \<Rightarrow> (bytes \<times> bytes) option" where
  "ex_unmark (a # cs) =
     (if a = CHR ''0'' then Some ([], cs)
      else if a \<noteq> CHR ''1'' then None
      else case cs of [] \<Rightarrow> None | c # cs' \<Rightarrow> map_option (\<lambda>(s, r). (c # s, r)) (ex_unmark cs'))"
| "ex_unmark [] = None"

definition ex_cert :: "bytes \<Rightarrow> x509_cert" where
  "ex_cert b = \<lparr>cert_Raw = b, cert_Subject = b, cert_Issuer = b, cert_NotBefore = 0, cert_NotAfter = 10\<rparr>"

definition ex_pki :: pki where
  "ex_pki = \<lparr>
     pem_Decode = (\<lambda>b. case ex_unmark b of None \<Rightarrow> None | Some (ty, r) \<Rightarrow>
        (case ex_unmark r of None \<Rightarrow> None | Some (c, rest) \<Rightarrow> Some (ty, c, rest))),
     pem_Encode = (\<lambda>ty c. ex_mark ty @ ex_mark c),
     x509_ParseCertificate = (\<lambda>c. if length c = 1 then Some (ex_cert c) else None),
     sha256 = (\<lambda>b. b)\<rparr>"

lemma ex_unmark_mark: "ex_unmark (ex_mark s @ r) = Some (s, r)"
  by (induction s) (simp_all add: ex_mark_def)

lemma ex_unmark_shorter: "ex_unmark b = Some (s, r) \<Longrightarrow> length r < length b"
  by (induction b arbitrary: s r rule: ex_unmark.induct) (fastforce split: if_splits list.splits)+

lemma ex_pki_ok: "pki_ok ex_pki"
  using ex_unmark_mark[of s "[]" for s]
  by (auto simp: pki_ok_def ex_pki_def ex_unmark_mark ex_cert_def split: option.splits if_splits
      dest!: ex_unmark_shorter)

text \<open>A certificate, a block of another type and a malformed certificate.\<close>

definition ex_pem :: bytes where
  "ex_pem = pem_Encode ex_pki ''CERTIFICATE'' ''a'' @ pem_Encode ex_pki ''KEY'' ''k'' @
     pem_Encode ex_pki ''CERTIFICATE'' ''xx''"

definition ex_ca_db :: sqldb where
  "ex_ca_db = after sql_exec (ImportDeviceCACertificates ex_pki 5 ex_pem) (empty_db [])"

definition ex_ca_stats :: import_stats where
  "ex_ca_stats = the (projr (result sql_exec (ImportDeviceCACertificates ex_pki 5 ex_pem) (empty_db [])))"

lemma ex_ca_run:
  "result sql_exec (ImportDeviceCACertificates ex_pki 5 ex_pem) (empty_db []) = Inr (Some ex_ca_stats)"
  by code_simp

section \<open>Properties\<close>

text \<open>
  The numbers an import reports fit together: every parsed certificate was imported or
  skipped, there is a message for each certificate and each malformed block, and the
  list of imported certificates has the reported length.
\<close>

theorem import_counts:
  assumes "gorm_engine E view" "wf (view db)" "schema_ok (view db)"
    and "result E (ImportDeviceCACertificates L now b) db = Inr (Some st)"
  shows "Detected st = Imported st + Skipped st \<and> length (Messages st) = Detected st + Malformed st \<and>
     length (Certificates st) = Imported st"
  using gorm_engine.wp_result[OF assms(1) wp_import[OF assms(2,3)]] assms(4) unfolding stats_ok_def by blast

lemma import_counts_witness: "Detected ex_ca_stats = Imported ex_ca_stats + Skipped ex_ca_stats"
  using import_counts[OF ex_ok(5,3,4) ex_ca_run] by blast

text \<open>
  C38. The import ends: when every PEM block takes some input, the loop over the blocks
  returns before the fuel (one more than the input's length) is used up.
\<close>

theorem import_terminates:
  assumes "gorm_engine E view" "pki_ok L"
  shows "result E (ImportDeviceCACertificates L now b) db \<noteq> Inr None"
  unfolding ImportDeviceCACertificates_def
  by (rule gorm_engine.wp_result[OF assms(1) import_loop_ends[OF assms(2)]]) (rule lessI)

lemma import_terminates_witness:
  "result sql_exec (ImportDeviceCACertificates ex_pki 5 ex_pem) (empty_db []) \<noteq> Inr None"
  by (rule import_terminates[OF ex_ok(5) ex_pki_ok])

text \<open>
  C14. After an import every certificate of the input that parses and has not expired is in
  the table, and every certificate that was there before still is, unchanged.
\<close>

theorem import_complete:
  assumes "gorm_engine E view" "wf (view db)" "schema_ok (view db)"
    and "result E (ImportDeviceCACertificates L now b) db = Inr (Some st)"
  defines "d1 \<equiv> view (after E (ImportDeviceCACertificates L now b) db)"
  shows "(\<forall>c\<in>set (pem_certs L (Suc (length b)) b). now \<le> cert_NotAfter c \<longrightarrow> has_ca (fingerprint L c) d1) \<and>
     (\<forall>f r. lookup T_device_ca_certificates (VText f) (view db) = Some r \<longrightarrow>
            lookup T_device_ca_certificates (VText f) d1 = Some r)"
  using gorm_engine.wp_result[OF assms(1) wp_import[OF assms(2,3), of L now b]] assms(4)
  unfolding d1_def ca_grows_def by blast

lemma import_complete_witness: "has_ca (fingerprint ex_pki (ex_cert ''a'')) ex_ca_db"
proof -
  have "ex_cert ''a'' \<in> set (pem_certs ex_pki (Suc (length ex_pem)) ex_pem)" by code_simp
  with import_complete[OF ex_ok(5,3,4) ex_ca_run] show ?thesis
    by (simp add: ex_ca_db_def ex_cert_def del: pem_certs.simps)
qed

text \<open>
  The import is idempotent: repeating it, at once or later, imports nothing and leaves the
  database as it is.
\<close>

theorem import_idempotent:
  assumes "gorm_engine E view" "wf (view db)" "schema_ok (view db)" "now \<le> now'"
    and "result E (ImportDeviceCACertificates L now b) db = Inr (Some st)"
  defines "db1 \<equiv> after E (ImportDeviceCACertificates L now b) db"
  shows "view (after E (ImportDeviceCACertificates L now' b) db1) = view db1 \<and>
     (\<forall>st'. result E (ImportDeviceCACertificates L now' b) db1 = Inr (Some st') \<longrightarrow> Imported st' = 0)"
proof -
  have "wp (ImportDeviceCACertificates L now' b) (\<lambda>r' d2. d2 = view db1 \<and>
      (\<forall>st'. r' = Inr (Some st') \<longrightarrow> Imported st' = 0)) (view db1)"
    using gorm_engine.wp_result[OF assms(1) import_twice[OF assms(2,3,4), of L b]] assms(5)
    unfolding db1_def by blast
  from gorm_engine.wp_result[OF assms(1) this] show ?thesis .
qed

lemma import_idempotent_witness:
  "after sql_exec (ImportDeviceCACertificates ex_pki 7 ex_pem) ex_ca_db = ex_ca_db"
proof -
  have "(5::int) \<le> 7" by simp
  from import_idempotent[OF ex_ok(5,3,4) this ex_ca_run] show ?thesis unfolding ex_ca_db_def by blast
qed

text \<open>
  The pool the rendezvous server trusts is rebuilt from the table: when loading succeeds it
  holds exactly the certificates stored there.
\<close>

theorem pool_mirrors_table:
  assumes "gorm_engine E view" "pki_ok L" "result E (LoadTrustedDeviceCAs L) db = Inr pool"
  shows "set pool = table_certs L (view db)"
  using gorm_engine.wp_result[OF assms(1) wp_LoadTrustedDeviceCAs[OF assms(2)], of db] assms(3) by blast

lemma pool_mirrors_table_witness: "table_certs ex_pki ex_ca_db = {ex_cert ''a''}"
proof -
  have "result sql_exec (LoadTrustedDeviceCAs ex_pki) ex_ca_db = Inr [ex_cert ''a'']" by code_simp
  from pool_mirrors_table[OF ex_ok(5) ex_pki_ok this] show ?thesis by simp
qed

text \<open>
  C29. The handler keeps the pool and the table in step: if the pool held the certificates of the
  table before an import that answered 200, it holds those of the table afterwards.
\<close>

theorem pool_in_sync:
  assumes "gorm_engine E view" "pki_ok L" "set pool = table_certs L (view db)"
    and "result E (ImportTrustedDeviceCACerts L now tm pool body) db = Some (resp, pool')" "status resp = 200"
  shows "set pool' = table_certs L (view (after E (ImportTrustedDeviceCACerts L now tm pool body) db))"
  using gorm_engine.wp_result[OF assms(1) wp_Import_pool[OF assms(2,3), of now tm body]] assms(4,5) by blast

lemma ex_ca_handler:
  "run sql_exec (ImportTrustedDeviceCACerts ex_pki 5 tm [] (Some ex_pem)) (empty_db []) =
     (Some (json_response 200 (import_json ex_ca_stats tm), [ex_cert ''a'']), ex_ca_db)"
proof -
  have len: "length ex_pem \<le> maxSize" by (simp add: ex_pem_def ex_pki_def ex_mark_def maxSize_def)
  then have t: "take (maxSize + 1) ex_pem = ex_pem" by simp
  have i: "Imported ex_ca_stats = 1" by code_simp
  have r: "run sql_exec (ImportDeviceCACertificates ex_pki 5 ex_pem) (empty_db []) = (Inr (Some ex_ca_stats), ex_ca_db)"
    using ex_ca_run by (simp add: ex_ca_db_def prod_eq_iff)
  have "result sql_exec (LoadTrustedDeviceCAs ex_pki) ex_ca_db = Inr [ex_cert ''a'']" by code_simp
  moreover have "after sql_exec (LoadTrustedDeviceCAs ex_pki) ex_ca_db = ex_ca_db"
    using sql.wp_result[OF wp_LoadTrustedDeviceCAs[OF ex_pki_ok]] by simp
  ultimately have l: "run sql_exec (LoadTrustedDeviceCAs ex_pki) ex_ca_db = (Inr [ex_cert ''a''], ex_ca_db)"
    by (simp add: prod_eq_iff)
  show ?thesis
    using len i r l t
    by (simp add: ImportTrustedDeviceCACerts_def Let_def tryE_def run_bindP)
qed

lemma pool_in_sync_witness: "set [ex_cert ''a''] = table_certs ex_pki ex_ca_db"
proof -
  have e: "set [] = table_certs ex_pki (empty_db [])" by (simp add: table_certs_def empty_db_def)
  have r: "result sql_exec (ImportTrustedDeviceCACerts ex_pki 5 (\<lambda>_. []) [] (Some ex_pem)) (empty_db []) =
      Some (json_response 200 (import_json ex_ca_stats (\<lambda>_. [])), [ex_cert ''a''])"
    by (simp add: ex_ca_handler)
  from pool_in_sync[OF ex_ok(5) ex_pki_ok e r] show ?thesis by (simp add: ex_ca_handler)
qed

text \<open>
  C38. Behind the body limit of the management interface (\<^verbatim>\<open>1<<20\<close> octets, the size the import
  allows) the import never answers 413: a longer body is cut, not refused.
\<close>

theorem import_never_413:
  assumes "gorm_engine E view"
    and "result E (bodySizeMiddleware (2 ^ 20) (\<lambda>r. ImportTrustedDeviceCACerts L now tm pool (req_body r)) r) db =
           Some (resp, pool')"
  shows "status resp \<noteq> 413"
proof -
  have "wp (bodySizeMiddleware (2 ^ 20) (\<lambda>r. ImportTrustedDeviceCACerts L now tm pool (req_body r)) r)
      (\<lambda>x d. \<forall>resp pool'. x = Some (resp, pool') \<longrightarrow> status resp \<noteq> 413) (view db)"
    by (cases "req_body r")
       (auto simp: bodySizeMiddleware_def ImportTrustedDeviceCACerts_def maxSize_def wp_bindP wp_simps Let_def
         split: sum.splits option.splits intro!: wp_mono[OF wp_True])
  from gorm_engine.wp_result[OF assms(1) this] assms(2) show ?thesis by blast
qed

lemma import_never_413_witness:
  "status \<lparr>status = 200, resp_body = Json (import_json zero_stats (\<lambda>_. []))\<rparr> \<noteq> 413"
proof (rule import_never_413[OF ex_ok(5)])
  show "result sql_exec (bodySizeMiddleware (2 ^ 20)
      (\<lambda>r. ImportTrustedDeviceCACerts ex_pki 5 (\<lambda>_. []) [] (req_body r)) (ex_request ''POST'' [])) (empty_db []) =
      Some (\<lparr>status = 200, resp_body = Json (import_json zero_stats (\<lambda>_. []))\<rparr>, [])"
    by (simp add: bodySizeMiddleware_def ImportTrustedDeviceCACerts_def ImportDeviceCACertificates_def
        ex_request_def ex_pki_def maxSize_def zero_stats_def Let_def tryE_def retE_def)
qed

text \<open>
  The three validity filters of the listing split the certificates: one whose validity
  period does not end before it begins satisfies exactly one of them at any time.
\<close>

theorem validity_partition:
  assumes "r ''not_before'' = VTime nb" "r ''not_after'' = VTime na" "nb \<le> na"
  shows "\<exists>!v. list_all (\<lambda>c. holds lk c r) (validity_conds now v)"
proof -
  have "list_all (\<lambda>c. holds lk c r) (validity_conds now v) \<longleftrightarrow>
      v = (if na \<le> now then ValidityStatusExpired else if now < nb then ValidityStatusNotYetValid
           else ValidityStatusValid)" for v
    using assms by (cases v) (auto simp: validity_conds_def sql_eq_def)
  then show ?thesis by simp
qed

lemma validity_partition_witness:
  "\<exists>!v. list_all (\<lambda>c. holds (\<lambda>_ _. False) c (device_ca_toRow (ca_record ex_pki 5 (ex_cert ''a'')))) (validity_conds 5 v)"
  by (rule validity_partition[of _ 0 10]) (simp_all add: toRow_defs ca_record_def ex_cert_def)

end
