(* ===== verification/Frame.thy ===== *)
theory Frame
  imports RvInfoStore
begin

text \<open>
  A frame rule for database programs: which tables a program may write, read off its
  statements, and that every other table, the foreign keys and the open transactions
  stay as they are.
\<close>

text \<open>
  Deleting a session cascades to other tables, and transactions and migrations change more
  than a table's rows: those statements count as writing everything.
\<close>

fun writes :: "stmt \<Rightarrow> tname set" where
  "writes (SCreate t r) = {t}"
| "writes (SCreateDoNothing t r) = {t}"
| "writes (SSave t r) = {t}"
| "writes (SDelete t cs) = (if t = T_sessions then UNIV else {t})"
| "writes (SUpdate t cs cvs) = {t}"
| "writes (SFirstOrCreate t cs cvs r) = {t}"
| "writes (SFirst t cs) = {}"
| "writes (SFind t cs ord n m) = {}"
| "writes (SCount t cs) = {}"
| "writes (SLeftJoin t c u c' cs ord) = {}"
| "writes SPing = {}"
| "writes (SHasConstraint f) = {}"
| "writes _ = UNIV"

text \<open>A property of every statement a program can come to execute, and its closure rules.\<close>

primrec all_stmts :: "(stmt \<Rightarrow> bool) \<Rightarrow> 'a prog \<Rightarrow> bool" where
  "all_stmts P (Ret x) \<longleftrightarrow> True"
| "all_stmts P (Exec s k) \<longleftrightarrow> P s \<and> (\<forall>x. all_stmts P (k x))"

abbreviation touches :: "'a prog \<Rightarrow> tname set \<Rightarrow> bool" where
  "touches p T \<equiv> all_stmts (\<lambda>s. writes s \<subseteq> T) p"

lemma all_stmts_bindP: "all_stmts P m \<Longrightarrow> (\<And>x. all_stmts P (k x)) \<Longrightarrow> all_stmts P (bindP m k)"
  by (induction m) auto

lemma all_stmts_bindE: "all_stmts P m \<Longrightarrow> (\<And>x. all_stmts P (k x)) \<Longrightarrow> all_stmts P (bindE m k)"
  unfolding bindE_def by (rule all_stmts_bindP) (auto split: sum.splits)

lemma all_stmts_tryE:
  "all_stmts P m \<Longrightarrow> (\<And>e. all_stmts P (h e)) \<Longrightarrow> (\<And>x. all_stmts P (k x)) \<Longrightarrow> all_stmts P (tryE m h k)"
  unfolding tryE_def by (rule all_stmts_bindP) (auto split: sum.splits)

lemma all_stmts_mapErr: "all_stmts P m \<Longrightarrow> all_stmts P (mapErr f m)"
  unfolding mapErr_def by (rule all_stmts_bindP) auto

lemma all_stmts_call [simp]: "all_stmts P (call s f) \<longleftrightarrow> P s"
  by (simp add: call_def)

lemma all_stmts_basic [simp]:
  "all_stmts P (retE x)" "all_stmts P (failE e)" "all_stmts P (liftR r)" "all_stmts P (respond n b)"
  "all_stmts P (http_error m n)"
  by (simp_all add: retE_def failE_def liftR_def respond_def http_error_def)

lemmas all_stmts_intros = all_stmts_bindE all_stmts_tryE all_stmts_mapErr all_stmts_bindP

text \<open>A program whose value is not used.\<close>

definition ignore :: "'a prog \<Rightarrow> unit prog" where
  "ignore p = bindP p (\<lambda>_. Ret ())"

lemma ignore_safe: "all_stmts P p \<Longrightarrow> all_stmts P (ignore p)"
  unfolding ignore_def by (rule all_stmts_bindP) auto

text \<open>An invariant of every statement is one of the program.\<close>

lemma all_stmts_invariant:
  assumes "all_stmts P p" "I d" "\<And>s d x d'. stepR s d x d' \<Longrightarrow> P s \<Longrightarrow> I d \<Longrightarrow> I d'"
  shows "wp p (\<lambda>_ d'. I d') d"
  using assms(1,2)
proof (induction p arbitrary: d)
  case (Exec s k)
  then show ?case unfolding wp.simps using assms(3) by auto
qed simp

definition same_outside :: "tname set \<Rightarrow> sqldb \<Rightarrow> sqldb \<Rightarrow> bool" where
  "same_outside T d d' \<longleftrightarrow> (\<forall>t. t \<notin> T \<longrightarrow> tabs d' t = tabs d t) \<and> fks d' = fks d \<and> txs d' = txs d"

lemma same_outside_refl [simp]: "same_outside T d d"
  by (simp add: same_outside_def)

lemma same_outside_trans: "same_outside T d d' \<Longrightarrow> same_outside T d' d'' \<Longrightarrow> same_outside T d d''"
  by (simp add: same_outside_def)

lemma tabs_other [simp]:
  "u \<noteq> t \<Longrightarrow> tabs (put t r d) u = tabs d u" "u \<noteq> t \<Longrightarrow> tabs (upd t cs cvs d) u = tabs d u"
  by (simp_all add: put_def upd_def)

lemma tabs_del_other: "schema_ok d \<Longrightarrow> t \<noteq> T_sessions \<Longrightarrow> u \<noteq> t \<Longrightarrow> tabs (del t cs d) u = tabs d u"
  by (simp add: del_def schema_orphan)

lemma frame_step:
  assumes "stepR s d x d'" "schema_ok d" "writes s \<subseteq> T" "T \<noteq> UNIV"
  shows "same_outside T d d'"
  using assms
  by (cases s) (auto simp: stepR_def same_outside_def intro!: tabs_other tabs_del_other split: if_splits)

lemma frame_schema: "same_outside T d d' \<Longrightarrow> schema_ok d' = schema_ok d"
  by (simp add: same_outside_def schema_ok_def)

lemma wp_frame:
  assumes "touches p T" "T \<noteq> UNIV" "schema_ok d"
  shows "wp p (\<lambda>_ d'. same_outside T d d') d"
proof -
  have "wp p (\<lambda>_ d'. same_outside T d d' \<and> schema_ok d') d"
  proof (rule all_stmts_invariant[OF assms(1)])
    fix s d1 x d2
    assume "stepR s d1 x d2" "writes s \<subseteq> T" "same_outside T d d1 \<and> schema_ok d1"
    then show "same_outside T d d2 \<and> schema_ok d2"
      using frame_step[of s d1 x d2 T] assms(2) frame_schema same_outside_trans by blast
  qed (simp add: assms(3))
  then show ?thesis by (rule wp_mono) simp
qed

section \<open>Which rows there can be afterwards\<close>

lemma mem_put: "x \<in> set (tabs (put t r d) u) \<Longrightarrow> u = t \<and> x = r \<or> x \<in> set (tabs d u)"
  by (auto simp: put_def split: if_splits)

lemma mem_ins: "x \<in> set (tabs (ins t r d) u) \<longleftrightarrow> u = t \<and> x = r \<or> x \<in> set (tabs d u)"
  by auto

lemma mem_del:
  "x \<in> set (tabs (del t cs d) u) \<longleftrightarrow>
     x \<in> set (tabs d u) \<and> \<not> (u = t \<and> matching t cs d x) \<and> \<not> orphan t (rows t cs d) d u x"
  by (auto simp: del_def)

section \<open>Sequencing by specifications\<close>

lemma wp_bindE_rule:
  assumes "wp m P d" "\<And>x d1. P (Inr x) d1 \<Longrightarrow> wp (k x) Q d1" "\<And>e d1. P (Inl e) d1 \<Longrightarrow> Q (Inl e) d1"
  shows "wp (bindE m k) Q d"
  unfolding wp_bindE by (rule wp_mono[OF assms(1)]) (use assms(2,3) in \<open>auto split: sum.splits\<close>)

lemma wp_bindP_rule:
  assumes "wp m P d" "\<And>x d1. P x d1 \<Longrightarrow> wp (k x) Q d1"
  shows "wp (bindP m k) Q d"
  unfolding wp_bindP by (rule wp_mono[OF assms(1)]) (use assms(2) in auto)

end
