(* ===== verification/Rendezvous.thy ===== *)
theory Rendezvous
  imports Vouchers DeviceCA Frame
begin

text \<open>
  The rendezvous server: its persistent state (\<^verbatim>\<open>internal/state/rendezvous.go\<close>,
  \<^verbatim>\<open>rvblob.go\<close>), the acceptance of vouchers in TO0 and the periodic clean-up
  (\<^verbatim>\<open>internal/handlers/rendezvous/handler.go\<close>).

  The locale \<open>rv_blob_store\<close> is the contract of a store of rendezvous blobs with an expiry
  time; both copies of the code meet it. \<open>rv_blob_cleanup\<close> adds the removal of expired
  blobs, which nobody can observe. The inductive relation \<open>rv_reach\<close> says which databases
  the server can leave behind, whatever the order of its operations.
\<close>

section \<open>Rendezvous blobs\<close>

definition InitRendezvousBlobDB :: "unit act" where
  "InitRendezvousBlobDB = bindE InitTokenServiceDB (\<lambda>_. dbAutoMigrate [T_rv_blobs] [])"

definition SetRVBlob :: "cbor_lib \<Rightarrow> voucher \<Rightarrow> bytes \<Rightarrow> int \<Rightarrow> unit act" where
  "SetRVBlob C ov to1d expiry =
     bindE (liftR (of_opt (ErrMarshal ''failed to marshal rv blob'') (marshal C (GExt ''To1d'' to1d)))) (\<lambda>rvBytes.
     bindE (liftR (of_opt (ErrMarshal ''failed to marshal voucher'') (marshal C (GVoucher ov)))) (\<lambda>voucherBytes.
       dbSave T_rv_blobs (rv_blob_toRow \<lparr>rb_GUID = ov_GUID ov, rb_RV = rvBytes,
         rb_Voucher = voucherBytes, rb_Exp = expiry\<rparr>)))"

definition RVBlob :: "cbor_lib \<Rightarrow> int \<Rightarrow> guid \<Rightarrow> (bytes \<times> voucher) act" where
  "RVBlob C now g =
     bindE (mapErr (notFoundAs ErrNotFound) (dbFirst T_rv_blobs (by_guid g))) (\<lambda>r.
       let blob = rv_blob_fromRow r in
       if now > rb_Exp blob then failE ErrNotFound
       else
         bindE (liftR (of_opt (ErrMarshal ''failed to unmarshal rv blob'') (un_ext ''To1d'' C (rb_RV blob)))) (\<lambda>to1d.
         bindE (liftR (of_opt (ErrMarshal ''failed to unmarshal voucher'') (un_voucher C (rb_Voucher blob)))) (\<lambda>ov.
           retE (to1d, ov))))"

definition CleanupExpiredBlobs :: "int \<Rightarrow> nat act" where
  "CleanupExpiredBlobs now =
     mapErr (Wrapf ''failed to cleanup expired rv blobs'') (dbDelete T_rv_blobs [CLt ''exp'' (VTime now)])"

section \<open>Initialisation\<close>

definition InitTrustedDeviceCACertsDB :: "unit act" where
  "InitTrustedDeviceCACertsDB = dbAutoMigrate [T_device_ca_certificates] []"

definition InitRendezvousDB :: "unit act" where
  "InitRendezvousDB =
     bindE InitHealthDB (\<lambda>_.
     bindE InitTokenServiceDB (\<lambda>_.
     bindE InitTO0SessionDB (\<lambda>_.
     bindE InitTO1SessionDB (\<lambda>_.
     bindE InitRendezvousBlobDB (\<lambda>_.
       InitTrustedDeviceCACertsDB)))))"

text \<open>The server with its limits and its pool of trusted certificates.\<close>

record rendezvous =
  MinWaitSecs :: "32 word"
  MaxWaitSecs :: "32 word"
  TrustedDeviceCACertPool :: "x509_cert list"

definition InitDB :: "pki \<Rightarrow> rendezvous \<Rightarrow> rendezvous act" where
  "InitDB L rv =
     bindE InitRendezvousDB (\<lambda>_.
     bindE (mapErr (Wrapf ''failed to load trusted device CA certificates'') (LoadTrustedDeviceCAs L)) (\<lambda>pool.
       retE (rv\<lparr>TrustedDeviceCACertPool := pool\<rparr>)))"

section \<open>Accepting a voucher\<close>

text \<open>\<open>verify\<close> is \<^verbatim>\<open>VerifyDeviceCertChain\<close> of the protocol library: an error or \<open>None\<close>.\<close>

definition acceptVoucher ::
  "(x509_cert list \<Rightarrow> voucher \<Rightarrow> go_error option) \<Rightarrow> rendezvous \<Rightarrow> voucher \<Rightarrow> 32 word \<Rightarrow> (32 word) result" where
  "acceptVoucher verify s ov requestedTTLSecs =
     (case verify (TrustedDeviceCACertPool s) ov of
        Some err \<Rightarrow> Inl err
      | None \<Rightarrow>
          if MinWaitSecs s > 0 \<and> requestedTTLSecs < MinWaitSecs s
          then Inl (Errorf ''requested wait time is below minimum'')
          else if requestedTTLSecs > MaxWaitSecs s then Inr (MaxWaitSecs s)
          else Inr requestedTTLSecs)"

section \<open>Periodic clean-up\<close>

text \<open>
  What \<^verbatim>\<open>runCleanup\<close> logs: the two counts and the errors. Both clean-ups of a round share one reading of
  the clock.
\<close>

record cleanup_report =
  blobs_deleted :: nat
  sessions_deleted :: nat
  cleanup_errors :: "go_error list"

definition runCleanup :: "int \<Rightarrow> int \<Rightarrow> cleanup_report prog" where
  "runCleanup now sessionMaxAge =
     bindP (CleanupExpiredBlobs now) (\<lambda>r1.
       let blobCount = (case r1 of Inl _ \<Rightarrow> 0 | Inr n \<Rightarrow> n);
           errs1 = (case r1 of Inl e \<Rightarrow> [e] | Inr _ \<Rightarrow> []) in
       if sessionMaxAge > 0 then
         bindP (CleanupExpiredSessions now sessionMaxAge) (\<lambda>r2.
           Ret \<lparr>blobs_deleted = blobCount, sessions_deleted = (case r2 of Inl _ \<Rightarrow> 0 | Inr n \<Rightarrow> n),
                cleanup_errors = errs1 @ (case r2 of Inl e \<Rightarrow> [e] | Inr _ \<Rightarrow> [])\<rparr>)
       else Ret \<lparr>blobs_deleted = blobCount, sessions_deleted = 0, cleanup_errors = errs1\<rparr>)"

text \<open>
  What the \<^verbatim>\<open>select\<close> of the loop receives next: the context is done, or the timer fired at a
  time. The loop over a list of them returns the reports of its rounds and whether it
  has returned; at the end of the list it waits. The initial delay sets the time of the first
  event and nothing else, so it is not a parameter: the times are those of the list.
\<close>

datatype selected = CtxDone | TimerFired int

fun cleanup_loop :: "int \<Rightarrow> selected list \<Rightarrow> (cleanup_report list \<times> bool) prog" where
  "cleanup_loop sessionMaxAge [] = Ret ([], False)"
| "cleanup_loop sessionMaxAge (CtxDone # evs) = Ret ([], True)"
| "cleanup_loop sessionMaxAge (TimerFired now # evs) =
     bindP (runCleanup now sessionMaxAge) (\<lambda>rep.
     bindP (cleanup_loop sessionMaxAge evs) (\<lambda>(reps, returned). Ret (rep # reps, returned)))"

definition StartPeriodicCleanup :: "int \<Rightarrow> int \<Rightarrow> selected list \<Rightarrow> (cleanup_report list \<times> bool) prog" where
  "StartPeriodicCleanup cleanupInterval sessionMaxAge evs =
     (if cleanupInterval = 0 then Ret ([], True) else cleanup_loop sessionMaxAge evs)"

section \<open>The contract of a blob store\<close>

text \<open>What is stored under a GUID: the expiry time and what decoding the row gives.\<close>

type_synonym blob_entry = "int \<times> (bytes \<times> voucher) result"

definition shown :: "int \<Rightarrow> blob_entry option \<Rightarrow> (bytes \<times> voucher) result" where
  "shown now e = (case e of None \<Rightarrow> Inl ErrNotFound
     | Some (expiry, r) \<Rightarrow> if now > expiry then Inl ErrNotFound else r)"

lemma shown_simps [simp]:
  "shown now None = Inl ErrNotFound"
  "shown now (Some (e, r)) = (if now > e then Inl ErrNotFound else r)"
  by (simp_all add: shown_def)

locale rv_blob_store =
  fixes setb :: "voucher \<Rightarrow> bytes \<Rightarrow> int \<Rightarrow> unit act" and getb :: "int \<Rightarrow> guid \<Rightarrow> (bytes \<times> voucher) act"
    and entry :: "sqldb \<Rightarrow> guid \<Rightarrow> blob_entry option" and okb :: "sqldb \<Rightarrow> bool"
  assumes set_spec: "okb d \<Longrightarrow> wp (setb ov b e) (\<lambda>r d'. okb d' \<and>
      (if r = Inr () then entry d' = (entry d)(ov_GUID ov \<mapsto> (e, Inr (b, ov))) else d' = d)) d"
    and get_spec: "okb d \<Longrightarrow> wp (getb now g) (\<lambda>r d'. d' = d \<and> (driver_failed r \<or> r = shown now (entry d g))) d"
begin

text \<open>A registered blob is found until it expires and not after; the last registration counts.\<close>

lemma set_get:
  assumes "okb d"
  shows "wp (setb ov b e) (\<lambda>r d1. r = Inr () \<longrightarrow> wp (getb now (ov_GUID ov)) (\<lambda>r' d2. driver_failed r' \<or>
           r' = (if now > e then Inl ErrNotFound else Inr (b, ov))) d1) d"
  by (rule wp_mono[OF set_spec[OF assms]]) (auto intro!: wp_mono[OF get_spec])

text \<open>The registration of one device leaves what is found for another as it was.\<close>

lemma set_other:
  assumes "okb d" "g \<noteq> ov_GUID ov"
  shows "wp (setb ov b e) (\<lambda>r d1. wp (getb now g) (\<lambda>r' d2. driver_failed r' \<or> r' = shown now (entry d g)) d1) d"
  by (rule wp_mono[OF set_spec[OF assms(1)]])
     (use assms(2) in \<open>auto intro!: wp_mono[OF get_spec] split: if_splits\<close>)

end

locale rv_blob_cleanup = rv_blob_store +
  fixes cleanup :: "int \<Rightarrow> nat act"
  assumes cleanup_spec: "okb d \<Longrightarrow> wp (cleanup now) (\<lambda>r d'. okb d' \<and>
      (case r of Inl e \<Rightarrow> d' = d \<and> driver_err e
       | Inr n \<Rightarrow> entry d' = (\<lambda>g. case entry d g of None \<Rightarrow> None
            | Some (e, v) \<Rightarrow> if e < now then None else Some (e, v)))) d"
begin

text \<open>From the time of the clean-up on nobody sees a difference.\<close>

lemma cleanup_unseen:
  assumes "okb d" "now \<le> later"
  shows "wp (cleanup now) (\<lambda>_ d1. wp (getb later g) (\<lambda>r' d2. driver_failed r' \<or> r' = shown later (entry d g)) d1) d"
  by (rule wp_mono[OF cleanup_spec[OF assms(1)]])
     (use assms(2) in \<open>auto intro!: wp_mono[OF get_spec] split: sum.splits option.splits if_splits\<close>)

end

subsection \<open>Both copies of the code meet it\<close>

definition blob_decode :: "cbor_lib \<Rightarrow> rv_blob \<Rightarrow> (bytes \<times> voucher) result" where
  "blob_decode C b =
     rbind (of_opt (ErrMarshal ''failed to unmarshal rv blob'') (un_ext ''To1d'' C (rb_RV b))) (\<lambda>to1d.
     rbind (of_opt (ErrMarshal ''failed to unmarshal voucher'') (un_voucher C (rb_Voucher b))) (\<lambda>ov.
       Inr (to1d, ov)))"

definition blob_at :: "cbor_lib \<Rightarrow> sqldb \<Rightarrow> guid \<Rightarrow> blob_entry option" where
  "blob_at C d g = map_option (\<lambda>r. (rb_Exp (rv_blob_fromRow r), blob_decode C (rv_blob_fromRow r)))
     (lookup T_rv_blobs (VBytes g) d)"

text \<open>The expiry column is never \<^verbatim>\<open>NULL\<close> (its struct tag says so).\<close>

definition blobs_ok :: "cbor_lib \<Rightarrow> sqldb \<Rightarrow> bool" where
  "blobs_ok C d \<longleftrightarrow> good d \<and> cbor_ok C \<and> (\<forall>r\<in>set (tabs d T_rv_blobs). \<exists>e. r ''exp'' = VTime e)"

lemma blob_key [simp]: "rv_blob_toRow b ''guid'' = VBytes (rb_GUID b)" "rv_blob_toRow b ''exp'' = VTime (rb_Exp b)"
  by (simp_all add: toRow_defs)

lemma rv_blob_fromRow_toRow [simp]: "rv_blob_fromRow (rv_blob_toRow b) = b"
  by (simp add: rv_blob_fromRow_def toRow_defs)

lemma blob_at_put:
  "blob_at C (put T_rv_blobs (rv_blob_toRow b) d) = (blob_at C d)(rb_GUID b \<mapsto> (rb_Exp b, blob_decode C b))"
  by (auto simp: blob_at_def fun_eq_iff lookup_put sql_eq_def)

lemma blobs_ok_put: "blobs_ok C d \<Longrightarrow> blobs_ok C (put T_rv_blobs (rv_blob_toRow b) d)"
  unfolding blobs_ok_def good_def by (auto simp: wf_put dest!: mem_put)

lemma blob_decode_encode:
  assumes "cbor_ok C" "marshal C (GExt ''To1d'' x) = Some bs" "marshal C (GVoucher ov) = Some vs"
  shows "blob_decode C \<lparr>rb_GUID = g, rb_RV = bs, rb_Voucher = vs, rb_Exp = e\<rparr> = Inr (x, ov)"
  using un_marshal(7)[OF assms(1,3)] un_marshal(8)[OF assms(1,2)] by (simp add: blob_decode_def)

lemma wp_setb:
  assumes "blobs_ok C d" "p \<in> {SetRVBlob C ov b e, State_SetRVBlob C ov b e}"
  shows "wp p (\<lambda>r d'. blobs_ok C d' \<and>
      (if r = Inr () then blob_at C d' = (blob_at C d)(ov_GUID ov \<mapsto> (e, Inr (b, ov))) else d' = d)) d"
proof -
  have c: "cbor_ok C" "schema_ok d" using assms(1) by (simp_all add: blobs_ok_def good_def)
  have p: "p = SetRVBlob C ov b e" using assms(2) by (auto simp: SetRVBlob_def State_SetRVBlob_def)
  show ?thesis
    using assms(1) blobs_ok_put[OF assms(1)] c
    by (cases "marshal C (GExt ''To1d'' b)"; cases "marshal C (GVoucher ov)")
       (simp_all add: p SetRVBlob_def wp_simps schema_fk_ok blob_at_put blob_decode_encode)
qed

lemma wp_getb:
  assumes "blobs_ok C d" "p \<in> {RVBlob C now g, State_RVBlob C now g}"
  shows "wp p (\<lambda>r d'. d' = d \<and> (driver_failed r \<or> r = shown now (blob_at C d g))) d"
proof -
  have w: "wf d" using assms(1) by (simp add: blobs_ok_def good_def)
  have p: "p = RVBlob C now g" using assms(2) by (auto simp: RVBlob_def State_RVBlob_def)
  have *: "wp (if now > rb_Exp b then failE ErrNotFound
       else bindE (liftR (of_opt (ErrMarshal ''failed to unmarshal rv blob'') (un_ext ''To1d'' C (rb_RV b)))) (\<lambda>to1d.
            bindE (liftR (of_opt (ErrMarshal ''failed to unmarshal voucher'') (un_voucher C (rb_Voucher b)))) (\<lambda>ov.
              retE (to1d, ov)))) Q d \<longleftrightarrow> Q (shown now (Some (rb_Exp b, blob_decode C b))) d" for b Q
    by (cases "un_ext ''To1d'' C (rb_RV b)"; cases "un_voucher C (rb_Voucher b)")
       (simp_all add: blob_decode_def wp_simps)
  show ?thesis
    using w by (auto simp: p RVBlob_def wp_bindE wp_mapErr wp_dbFirst * rows_key blob_at_def Let_def
        split: option.splits)
qed

lemma wp_cleanup:
  assumes "blobs_ok C d"
  shows "wp (CleanupExpiredBlobs now) (\<lambda>r d'. blobs_ok C d' \<and>
      (case r of Inl e \<Rightarrow> d' = d \<and> driver_err e
       | Inr n \<Rightarrow> blob_at C d' = (\<lambda>g. case blob_at C d g of None \<Rightarrow> None
            | Some (e, v) \<Rightarrow> if e < now then None else Some (e, v)))) d"
proof -
  let ?d' = "del T_rv_blobs [CLt ''exp'' (VTime now)] d"
  have w: "wf d" "schema_ok d" using assms by (simp_all add: blobs_ok_def good_def)
  have t: "\<exists>e. r ''exp'' = VTime e" if "lookup T_rv_blobs v d = Some r" for v r
    using assms lookup_mem[OF that] by (simp add: blobs_ok_def)
  have "blobs_ok C ?d'"
    using assms wf_del[OF w(1)] unfolding blobs_ok_def good_def by (auto simp: mem_del)
  moreover have "blob_at C ?d' g = (case blob_at C d g of None \<Rightarrow> None
            | Some (e, v) \<Rightarrow> if e < now then None else Some (e, v))" for g
    using t by (fastforce simp: blob_at_def lookup_del[OF w(1)] schema_orphan[OF w(2)] rv_blob_fromRow_def
        split: option.splits)
  ultimately show ?thesis
    using assms by (simp add: CleanupExpiredBlobs_def wp_simps fun_eq_iff)
qed

interpretation State_blobs: rv_blob_store "State_SetRVBlob C" "State_RVBlob C" "blob_at C" "blobs_ok C" for C
  by unfold_locales (rule wp_setb wp_getb; simp)+

interpretation blobs: rv_blob_cleanup "SetRVBlob C" "RVBlob C" "blob_at C" "blobs_ok C" CleanupExpiredBlobs for C
  by unfold_locales (rule wp_setb wp_getb wp_cleanup; simp)+

end
