(* ===== verification/RvServer.thy ===== *)
theory RvServer
  imports Rendezvous
begin

text \<open>
  The rendezvous server as a state machine: requests and the clean-up run concurrently, each
  statement of each of them is a step. The invariant (primary keys, foreign keys, no
  protocol row without its session) is proved for every statement of a database that enforces
  foreign keys, hence for every interleaving.
\<close>

section \<open>Configuration\<close>

record rendezvous_config =
  cfg_MinWaitSecs :: "32 word"
  cfg_MaxWaitSecs :: "32 word"
  cfg_CleanupIntervalSecs :: "32 word"
  cfg_SessionMaxAgeSecs :: "32 word"
  cfg_InitialCleanupDelaySecs :: "32 word"

definition default_rendezvous_config :: rendezvous_config where
  "default_rendezvous_config = \<lparr>cfg_MinWaitSecs = 0, cfg_MaxWaitSecs = 86400,
     cfg_CleanupIntervalSecs = 3600, cfg_SessionMaxAgeSecs = 3600, cfg_InitialCleanupDelaySecs = 300\<rparr>"

definition RendezvousConfig_validate :: "rendezvous_config \<Rightarrow> unit result" where
  "RendezvousConfig_validate rv =
     (if cfg_MinWaitSecs rv > cfg_MaxWaitSecs rv
      then Inl (Errorf ''to0_max_wait must be greater or equal than to0_min_wait'') else Inr ())"

definition NewRendezvous :: "32 word \<Rightarrow> 32 word \<Rightarrow> rendezvous" where
  "NewRendezvous minWaitSecs maxWaitSecs =
     \<lparr>MinWaitSecs = minWaitSecs, MaxWaitSecs = maxWaitSecs, TrustedDeviceCACertPool = []\<rparr>"

section \<open>The operations and their interleavings\<close>

datatype rv_op =
    NewTokenOp int "bytes option" int
  | InvalidateTokenOp ctx
  | SetTO0Op ctx bytes
  | TO0NonceOp ctx
  | SetTO1Op ctx bytes
  | TO1NonceOp ctx
  | SetRVBlobOp voucher bytes int
  | RVBlobOp int guid
  | CleanupOp int int
  | ImportOp int "x509_cert list" "bytes option"
  | DeleteCAOp "x509_cert list" string
  | HealthOp string

fun rv_prog :: "cbor_lib \<Rightarrow> pki \<Rightarrow> (int \<Rightarrow> string) \<Rightarrow> rv_op \<Rightarrow> unit prog" where
  "rv_prog C L tm (NewTokenOp now rnd proto) = ignore (TokenService_NewToken now rnd proto)"
| "rv_prog C L tm (InvalidateTokenOp c) = ignore (TokenService_InvalidateToken c)"
| "rv_prog C L tm (SetTO0Op c n) = ignore (TO0SessionState_SetTO0SignNonce c n)"
| "rv_prog C L tm (TO0NonceOp c) = ignore (TO0SessionState_TO0SignNonce c)"
| "rv_prog C L tm (SetTO1Op c n) = ignore (TO1SessionState_SetTO1ProofNonce c n)"
| "rv_prog C L tm (TO1NonceOp c) = ignore (TO1SessionState_TO1ProofNonce c)"
| "rv_prog C L tm (SetRVBlobOp ov b e) = ignore (SetRVBlob C ov b e)"
| "rv_prog C L tm (RVBlobOp now g) = ignore (RVBlob C now g)"
| "rv_prog C L tm (CleanupOp now age) = ignore (runCleanup now age)"
| "rv_prog C L tm (ImportOp now pool body) = ignore (ImportTrustedDeviceCACerts L now tm pool body)"
| "rv_prog C L tm (DeleteCAOp pool f) = ignore (DeleteTrustedDeviceCACert L pool f)"
| "rv_prog C L tm (HealthOp v) = ignore (GetHealth v)"

text \<open>
  A configuration is the engine's database and the programs under way. A program starts at
  any time, and any of them executes its next statement.
\<close>

inductive rv_run ::
  "(stmt \<Rightarrow> 'db \<Rightarrow> sqlres \<times> 'db) \<Rightarrow> cbor_lib \<Rightarrow> pki \<Rightarrow> (int \<Rightarrow> string) \<Rightarrow> 'db \<Rightarrow> unit prog list \<Rightarrow> 'db \<Rightarrow> bool"
  for E C L tm db0 where
  started: "result E InitRendezvousDB db0 = Inr () \<Longrightarrow> rv_run E C L tm db0 [] (after E InitRendezvousDB db0)"
| request: "rv_run E C L tm db0 ps db \<Longrightarrow> rv_run E C L tm db0 (ps @ [rv_prog C L tm op]) db"
| statement: "rv_run E C L tm db0 ps db \<Longrightarrow> i < length ps \<Longrightarrow> ps ! i = Exec s k \<Longrightarrow> E s db = (x, db') \<Longrightarrow>
     rv_run E C L tm db0 (ps[i := k x]) db'"

section \<open>The invariant\<close>

text \<open>Every TO0 and TO1 row belongs to a session.\<close>

definition session_closed :: "sqldb \<Rightarrow> bool" where
  "session_closed d \<longleftrightarrow> (\<forall>t\<in>{T_to0_sessions, T_to1_sessions}. \<forall>r\<in>set (tabs d t).
     \<exists>p\<in>set (tabs d T_sessions). sql_eq (p ''id'') (r ''session''))"

definition times_ok :: "sqldb \<Rightarrow> bool" where
  "times_ok d \<longleftrightarrow> (\<forall>r\<in>set (tabs d T_rv_blobs). \<exists>e. r ''exp'' = VTime e) \<and>
     (\<forall>r\<in>set (tabs d T_sessions). \<exists>e. r ''created_at'' = VTime e)"

definition rv_start :: "sqldb \<Rightarrow> bool" where
  "rv_start d \<longleftrightarrow> wf d \<and> set (fks d) \<subseteq> {to0_SessionRef, to1_SessionRef} \<and> session_closed d \<and> times_ok d"

definition rv_inv :: "sqldb \<Rightarrow> bool" where
  "rv_inv d \<longleftrightarrow> wf d \<and> set (fks d) = {to0_SessionRef, to1_SessionRef} \<and> session_closed d \<and> times_ok d"

fun safe_stmt :: "stmt \<Rightarrow> bool" where
  "safe_stmt (SCreate t r) \<longleftrightarrow> t = T_sessions \<and> (\<exists>e. r ''created_at'' = VTime e) \<or> t = T_device_ca_certificates"
| "safe_stmt (SSave t r) \<longleftrightarrow> t \<in> {T_to0_sessions, T_to1_sessions} \<or> t = T_rv_blobs \<and> (\<exists>e. r ''exp'' = VTime e)"
| "safe_stmt (SDelete t cs) \<longleftrightarrow> True"
| "safe_stmt (SFirst t cs) \<longleftrightarrow> True"
| "safe_stmt (SFind t cs ord n m) \<longleftrightarrow> True"
| "safe_stmt (SCount t cs) \<longleftrightarrow> True"
| "safe_stmt SPing \<longleftrightarrow> True"
| "safe_stmt _ \<longleftrightarrow> False"

lemma rv_inv_schema: "rv_inv d \<Longrightarrow> schema_ok d"
  by (auto simp: rv_inv_def schema_ok_def)

lemma session_closed_put:
  assumes "session_closed d" "fk_ok t r d" "t \<noteq> T_sessions" "set (fks d) = {to0_SessionRef, to1_SessionRef}"
  shows "session_closed (put t r d)"
proof -
  have s: "tabs (put t r d) T_sessions = tabs d T_sessions" using assms(3) by simp
  have r: "\<exists>p\<in>set (tabs d T_sessions). sql_eq (p ''id'') (r ''session'')"
    if "t \<in> {T_to0_sessions, T_to1_sessions}"
    using assms(2,4) that by (auto simp: fk_ok_def)
  show ?thesis
    unfolding session_closed_def s
    using assms(1)[unfolded session_closed_def] r by (blast dest: mem_put)
qed

lemma session_closed_ins:
  "session_closed d \<Longrightarrow> t \<in> {T_sessions, T_device_ca_certificates} \<Longrightarrow> session_closed (ins t r d)"
  by (auto simp: session_closed_def)

text \<open>Deleting sessions takes their rows along.\<close>

lemma session_closed_del:
  assumes "session_closed d" "set (fks d) = {to0_SessionRef, to1_SessionRef}"
  shows "session_closed (del t cs d)"
  unfolding session_closed_def
proof (intro ballI)
  fix u r assume u: "u \<in> {T_to0_sessions, T_to1_sessions}" and r: "r \<in> set (tabs (del t cs d) u)"
  from assms(1) u r obtain p where p: "p \<in> set (tabs d T_sessions)" "sql_eq (p ''id'') (r ''session'')"
    unfolding session_closed_def mem_del by blast
  from r have "\<not> orphan t (rows t cs d) d u r" by (simp add: mem_del)
  with u p assms(2) have "\<not> (t = T_sessions \<and> matching t cs d p)"
    by (auto simp: orphan_def rows_def)
  moreover have "\<not> orphan t (rows t cs d) d T_sessions p" using assms(2) by (simp add: orphan_def)
  ultimately have "p \<in> set (tabs (del t cs d) T_sessions)" using p(1) by (simp add: mem_del)
  with p(2) show "\<exists>p\<in>set (tabs (del t cs d) T_sessions). sql_eq (p ''id'') (r ''session'')" by blast
qed

lemma times_ok_steps:
  "times_ok d \<Longrightarrow> times_ok (del t cs d)"
  "times_ok d \<Longrightarrow> t \<notin> {T_sessions, T_rv_blobs} \<or> t = T_rv_blobs \<and> (\<exists>e. r ''exp'' = VTime e) \<Longrightarrow> times_ok (put t r d)"
  "times_ok d \<Longrightarrow> t = T_device_ca_certificates \<or> t = T_sessions \<and> (\<exists>e. r ''created_at'' = VTime e) \<Longrightarrow>
     times_ok (ins t r d)"
  by (auto simp: times_ok_def mem_del dest!: mem_put)

lemma rv_inv_step:
  assumes "stepR s d x d'" "safe_stmt s" "rv_inv d"
  shows "rv_inv d'"
proof -
  have "wf d'" using wf_step[OF assms(1)] assms(3) by (simp add: rv_inv_def)
  moreover have "fks d' = fks d"
    using assms(1,2) by (cases s) (auto simp: stepR_def split: if_splits)
  moreover have "session_closed d'" using assms
    by (cases s) (auto simp: stepR_def rv_inv_def intro: session_closed_put session_closed_ins session_closed_del
        split: if_splits)
  moreover have "times_ok d'" using assms
    by (cases s) (auto simp: stepR_def rv_inv_def intro!: times_ok_steps split: if_splits)
  ultimately show ?thesis using assms(3) by (simp add: rv_inv_def)
qed

text \<open>Every operation of the server consists of such statements.\<close>

lemma import_loop_safe: "all_stmts safe_stmt (import_loop L now n b p st)"
proof (induction n arbitrary: b p st)
  case (Suc n)
  then show ?case
    by (auto simp: import_cert_def Let_def db_calls split: option.splits sum.splits intro!: all_stmts_intros)
qed simp

lemma Load_safe: "all_stmts safe_stmt (LoadTrustedDeviceCAs L)"
  by (auto simp: LoadTrustedDeviceCAs_def db_calls intro!: all_stmts_intros)

lemma getSessionID_safe: "all_stmts safe_stmt (TokenService_getSessionID c)"
  by (auto simp: TokenService_getSessionID_def db_calls split: option.splits intro!: all_stmts_intros)

lemma handlers_safe:
  "all_stmts safe_stmt (ImportTrustedDeviceCACerts L now tm pool body)"
  "all_stmts safe_stmt (DeleteTrustedDeviceCACert L pool f)"
  by (auto simp: ImportTrustedDeviceCACerts_def ImportDeviceCACertificates_def DeleteTrustedDeviceCACert_def
      DeleteDeviceCACertificate_def db_calls Let_def import_loop_safe Load_safe simp del: import_loop.simps
      split: option.splits intro!: all_stmts_intros)

lemma rv_prog_safe: "all_stmts safe_stmt (rv_prog C L tm op)"
proof (cases op)
  case (SetRVBlobOp ov b e)
  then show ?thesis
    by (auto simp: SetRVBlob_def db_calls split: option.splits intro!: ignore_safe all_stmts_intros)
next
  case (RVBlobOp now g)
  then show ?thesis
    by (auto simp: RVBlob_def db_calls Let_def intro!: ignore_safe all_stmts_intros)
next
  case (CleanupOp now age)
  then show ?thesis
    by (auto simp: runCleanup_def CleanupExpiredBlobs_def CleanupExpiredSessions_def db_calls Let_def
        intro!: ignore_safe all_stmts_intros)
next
  case (NewTokenOp now rnd proto)
  then show ?thesis
    by (auto simp: TokenService_NewToken_def db_calls toRow_defs split: option.splits
        intro!: ignore_safe all_stmts_intros)
qed (auto simp: handlers_safe TokenService_InvalidateToken_def TO0SessionState_SetTO0SignNonce_def
      TO0SessionState_TO0SignNonce_def TO1SessionState_SetTO1ProofNonce_def TO1SessionState_TO1ProofNonce_def
      GetHealth_def HealthState_Ping_def db_calls split: option.splits
      intro!: ignore_safe all_stmts_intros getSessionID_safe)

text \<open>The start-up establishes the invariant; it creates the foreign keys that are missing.\<close>

lemma rv_start_add: "rv_start d \<Longrightarrow> set fs \<subseteq> {to0_SessionRef, to1_SessionRef} \<Longrightarrow> rv_start (add_fks fs d)"
  unfolding rv_start_def by (auto simp: add_fks_def session_closed_def times_ok_def wf_def)

definition start_with :: "fkey set \<Rightarrow> sqldb \<Rightarrow> bool" where
  "start_with F d \<longleftrightarrow> rv_start d \<and> F \<subseteq> set (fks d)"

lemma start_with_mono: "start_with F d \<Longrightarrow> G \<subseteq> F \<Longrightarrow> start_with G d"
  by (auto simp: start_with_def)

lemma wp_migrate_start:
  assumes "start_with F d" "set fs \<subseteq> {to0_SessionRef, to1_SessionRef}"
  shows "wp (dbAutoMigrate ts fs) (\<lambda>r d'. start_with F d') d"
  using assms by (auto simp: wp_simps start_with_def intro!: rv_start_add) (auto simp: add_fks_def)

lemma wp_ensure:
  assumes "start_with F d" "f \<in> {to0_SessionRef, to1_SessionRef}"
  shows "wp (bindP (dbHasConstraint f) (\<lambda>has. if \<not> has then mapErr g (dbCreateConstraint f) else retE ()))
     (\<lambda>r d'. start_with F d' \<and> (r = Inr () \<longrightarrow> start_with (insert f F) d')) d"
  using assms by (auto simp: wp_bindP wp_simps start_with_def intro!: rv_start_add) (auto simp: add_fks_def)

lemma wp_InitTokens: "start_with F d \<Longrightarrow> wp InitTokenServiceDB (\<lambda>r d'. start_with F d') d"
  by (simp add: InitTokenServiceDB_def wp_migrate_start)

lemma wp_InitSessions:
  assumes "start_with F d"
  shows "wp InitTO0SessionDB (\<lambda>r d'. start_with F d' \<and> (r = Inr () \<longrightarrow> start_with (insert to0_SessionRef F) d')) d"
    "wp InitTO1SessionDB (\<lambda>r d'. start_with F d' \<and> (r = Inr () \<longrightarrow> start_with (insert to1_SessionRef F) d')) d"
  unfolding InitTO0SessionDB_def InitTO1SessionDB_def
  by (rule wp_bindE_rule[OF wp_InitTokens[OF assms]] wp_bindE_rule[OF wp_migrate_start] wp_ensure; simp)+

lemma wp_InitBlobs: "start_with F d \<Longrightarrow> wp InitRendezvousBlobDB (\<lambda>r d'. start_with F d') d"
  unfolding InitRendezvousBlobDB_def by (rule wp_bindE_rule[OF wp_InitTokens]) (simp_all add: wp_migrate_start)

lemma wp_InitRendezvousDB:
  assumes "rv_start d"
  shows "wp InitRendezvousDB (\<lambda>r d'. rv_start d' \<and> (r = Inr () \<longrightarrow> rv_inv d')) d"
proof -
  let ?F = "{to1_SessionRef, to0_SessionRef}"
  have ca: "wp InitTrustedDeviceCACertsDB (\<lambda>r d'. rv_start d' \<and> (r = Inr () \<longrightarrow> rv_inv d')) d4" if "start_with ?F d4" for d4
    unfolding InitTrustedDeviceCACertsDB_def
    by (rule wp_mono[OF wp_migrate_start[OF that]]) (auto simp: start_with_def rv_start_def rv_inv_def)
  have blob: "wp (bindE InitRendezvousBlobDB (\<lambda>_. InitTrustedDeviceCACertsDB))
      (\<lambda>r d'. rv_start d' \<and> (r = Inr () \<longrightarrow> rv_inv d')) d3" if "start_with ?F d3" for d3
    by (rule wp_bindE_rule[OF wp_InitBlobs[OF that]]) (auto simp: ca start_with_def)
  have to1: "wp (bindE InitTO1SessionDB (\<lambda>_. bindE InitRendezvousBlobDB (\<lambda>_. InitTrustedDeviceCACertsDB)))
      (\<lambda>r d'. rv_start d' \<and> (r = Inr () \<longrightarrow> rv_inv d')) d2" if "start_with {to0_SessionRef} d2" for d2
    by (rule wp_bindE_rule[OF wp_InitSessions(2)[OF that]]) (use blob in \<open>auto simp: start_with_def\<close>)
  have to0: "wp (bindE InitTO0SessionDB (\<lambda>_. bindE InitTO1SessionDB (\<lambda>_. bindE InitRendezvousBlobDB (\<lambda>_.
      InitTrustedDeviceCACertsDB)))) (\<lambda>r d'. rv_start d' \<and> (r = Inr () \<longrightarrow> rv_inv d')) d1" if "start_with {} d1" for d1
    by (rule wp_bindE_rule[OF wp_InitSessions(1)[OF that]]) (use to1 in \<open>auto simp: start_with_def\<close>)
  have "wp (bindE InitTokenServiceDB (\<lambda>_. bindE InitTO0SessionDB (\<lambda>_. bindE InitTO1SessionDB (\<lambda>_.
      bindE InitRendezvousBlobDB (\<lambda>_. InitTrustedDeviceCACertsDB)))))
      (\<lambda>r d'. rv_start d' \<and> (r = Inr () \<longrightarrow> rv_inv d')) d"
    by (rule wp_bindE_rule[OF wp_InitTokens[of "{}"]]) (use to0 assms in \<open>auto simp: start_with_def\<close>)
  with assms show ?thesis
    by (simp add: InitRendezvousDB_def InitHealthDB_def HealthState_Ping_def wp_bindE[of dbPing] wp_dbPing)
qed

text \<open>Every configuration the server reaches satisfies the invariant, and runs safe programs only.\<close>

lemma rv_run_inv:
  assumes "gorm_engine E view" "rv_start (view db0)" "rv_run E C L tm db0 ps db"
  shows "rv_inv (view db) \<and> (\<forall>p\<in>set ps. all_stmts safe_stmt p)"
  using assms(3)
proof (induction rule: rv_run.induct)
  case started
  then show ?case using gorm_engine.wp_result[OF assms(1) wp_InitRendezvousDB[OF assms(2)]] by simp
next
  case (request ps db op)
  then show ?case by (auto simp: rv_prog_safe)
next
  case (statement ps db i s k x db')
  have "ps ! i \<in> set ps" using statement.hyps(2) by simp
  then have "all_stmts safe_stmt (Exec s k)" using statement by metis
  then have p: "safe_stmt s" "all_stmts safe_stmt (k x)" by simp_all
  have "rv_inv (view db')"
    using rv_inv_step[OF gorm_engine.step[OF assms(1) statement.hyps(4)] p(1)] statement.IH by simp
  moreover have "set (ps[i := k x]) \<subseteq> insert (k x) (set ps)" by (rule set_update_subset_insert)
  ultimately show ?case using statement.IH p(2) by blast
qed

end
