(* ===== verification/RvProperties.thy ===== *)
theory RvProperties
  imports RvServer
begin

text \<open>
  What the rendezvous server promises: tokens and session state, blobs and their clean-up, and the
  limits of accepted vouchers. The invariant under every interleaving is in \<open>RvPool\<close>.
\<close>

section \<open>Effects of the clean-up\<close>

lemma lookup_unique:
  assumes "wf d" "pkcols t = [c]" "r \<in> set (tabs d t)" "sql_eq (r c) v"
  shows "lookup t v d = Some r"
proof -
  have "r \<in> set (rows t [CEq c v] d)" using assms(3,4) by (simp add: rows_def)
  then show ?thesis using rows_key[OF assms(1,2), of v] by (auto split: option.splits)
qed

definition created :: "bytes \<Rightarrow> sqldb \<Rightarrow> int option" where
  "created s d = Option.bind (lookup T_sessions (VBytes s) d) (\<lambda>r. asTime (r ''created_at''))"

lemma session_row:
  assumes "rv_inv d" "lookup T_sessions (VBytes s) d = Some r"
  shows "\<exists>t. r ''created_at'' = VTime t \<and> created s d = Some t"
  using assms lookup_mem[OF assms(2)] by (auto simp: rv_inv_def times_ok_def created_def)

text \<open>A protocol row is only there with its session.\<close>

lemma protocol_row_live:
  assumes "rv_inv d" "t \<in> {T_to0_sessions, T_to1_sessions}" "lookup t (VBytes s) d = Some r"
  shows "live s d"
proof -
  have k: "r ''session'' = VBytes s" using assms(2) lookup_key[OF assms(3)] by auto
  from assms lookup_mem[OF assms(3)] obtain p where
    "p \<in> set (tabs d T_sessions)" "sql_eq (p ''id'') (r ''session'')"
    unfolding rv_inv_def session_closed_def by blast
  with k have "lookup T_sessions (VBytes s) d = Some p"
    using lookup_unique[of d T_sessions "''id''" p "VBytes s"] assms(1) by (simp add: rv_inv_def)
  then show ?thesis by (simp add: live_def)
qed

text \<open>The sessions that go are those created before the cut-off.\<close>

lemma live_del:
  assumes "rv_inv d"
  shows "live s (del T_sessions [CLt ''created_at'' (VTime t0)] d) \<longleftrightarrow>
     live s d \<and> (\<forall>t. created s d = Some t \<longrightarrow> t0 \<le> t)"
proof -
  have w: "wf d" "\<And>gone r. \<not> orphan T_sessions gone d T_sessions r"
    using assms by (auto simp: rv_inv_def orphan_def)
  show ?thesis
    using session_row[OF assms, of s]
    by (cases "lookup T_sessions (VBytes s) d") (auto simp: live_def lookup_del[OF w(1)] w(2))
qed

lemma nonce_del:
  assumes "rv_inv d" "t \<in> {T_to0_sessions, T_to1_sessions}"
  shows "nonce_cell t s (del T_sessions cs d) =
     (if live s (del T_sessions cs d) then nonce_cell t s d else None)"
proof (cases "lookup t (VBytes s) d")
  case None
  have "wf d" using assms(1) by (simp add: rv_inv_def)
  with None assms(2) show ?thesis by (auto simp: nonce_cell_def lookup_del)
next
  case (Some r)
  have w: "wf d" "\<And>gone r. \<not> orphan T_sessions gone d T_sessions r"
    using assms by (auto simp: rv_inv_def orphan_def)
  have k: "r ''session'' = VBytes s" using assms(2) lookup_key[OF Some] by auto
  obtain p where p: "lookup T_sessions (VBytes s) d = Some p"
    using protocol_row_live[OF assms Some] by (auto simp: live_def)
  have only: "p' \<in> set (tabs d T_sessions) \<and> sql_eq (p' ''id'') (VBytes s) \<longleftrightarrow> p' = p" for p'
  proof
    assume "p' \<in> set (tabs d T_sessions) \<and> sql_eq (p' ''id'') (VBytes s)"
    then have "lookup T_sessions (VBytes s) d = Some p'" using lookup_unique[OF w(1)] by simp
    with p show "p' = p" by simp
  qed (use lookup_mem[OF p] lookup_key[OF p] in \<open>auto simp: sql_eq_def\<close>)
  have hit: "(\<exists>q\<in>set (filter P (tabs d T_sessions)). sql_eq (q ''id'') (VBytes s)) \<longleftrightarrow> P p" for P
  proof -
    have "(\<exists>q\<in>set (filter P (tabs d T_sessions)). sql_eq (q ''id'') (VBytes s)) \<longleftrightarrow>
        (\<exists>q. (q \<in> set (tabs d T_sessions) \<and> sql_eq (q ''id'') (VBytes s)) \<and> P q)" by auto
    then show ?thesis unfolding only by simp
  qed
  have "orphan T_sessions gone d t r \<longleftrightarrow> (\<exists>q\<in>set gone. sql_eq (q ''id'') (VBytes s))" for gone
    using assms k by (auto simp: orphan_def rv_inv_def)
  then have o: "orphan T_sessions (rows T_sessions cs d) d t r \<longleftrightarrow> matching T_sessions cs d p"
    unfolding rows_def by (simp only: hit)
  from assms(2) have "pkcols t = [''session'']" "t \<noteq> T_sessions" by auto
  then show ?thesis
    using Some p by (auto simp: nonce_cell_def live_def lookup_del[OF w(1)] w(2) o)
qed

lemma wp_CleanupSessions:
  assumes "rv_inv d"
  shows "wp (CleanupExpiredSessions now age) (\<lambda>r d'. case r of Inl e \<Rightarrow> d' = d \<and> driver_err e
     | Inr n \<Rightarrow> rv_inv d' \<and> (\<forall>s. live s d' \<longleftrightarrow> live s d \<and> (\<forall>t. created s d = Some t \<longrightarrow> now - age \<le> t)) \<and>
         (\<forall>t\<in>{T_to0_sessions, T_to1_sessions}. \<forall>s. nonce_cell t s d' = (if live s d' then nonce_cell t s d else None)))
     d"
proof -
  have "rv_inv (del T_sessions cs d)" for cs
    using rv_inv_step[of "SDelete T_sessions cs" d "ok_n (length (rows T_sessions cs d))"] assms
    by (simp add: stepR_def)
  then show ?thesis
    using live_del[OF assms] nonce_del[OF assms]
    by (auto simp: CleanupExpiredSessions_def wp_simps)
qed

text \<open>No round of the clean-up changes what is shown from then on.\<close>

definition blobs_shown_from :: "int \<Rightarrow> cbor_lib \<Rightarrow> sqldb \<Rightarrow> sqldb \<Rightarrow> bool" where
  "blobs_shown_from now C d d' \<longleftrightarrow> blobs_ok C d' \<and>
     (\<forall>later\<ge>now. \<forall>g. shown later (blob_at C d' g) = shown later (blob_at C d g))"

lemma tabs_del_blobs: "schema_ok d \<Longrightarrow> tabs (del T_sessions cs d) T_rv_blobs = tabs d T_rv_blobs"
  by (fastforce simp: del_def schema_ok_def orphan_def intro!: filter_True)

lemma blob_at_del_sessions: "schema_ok d \<Longrightarrow> blob_at C (del T_sessions cs d) = blob_at C d"
  by (simp add: fun_eq_iff blob_at_def lookup_def tabs_del_blobs)

lemma wp_CleanupBlobs_shown:
  assumes "blobs_ok C d"
  shows "wp (CleanupExpiredBlobs now) (\<lambda>_. blobs_shown_from now C d) d"
  by (rule wp_mono[OF wp_cleanup[OF assms]])
     (use assms in \<open>auto simp: blobs_shown_from_def split: sum.splits option.splits\<close>)

lemma wp_runCleanup:
  assumes "blobs_ok C d"
  shows "wp (runCleanup now age) (\<lambda>_. blobs_shown_from now C d) d"
proof -
  have "wp (CleanupExpiredSessions now age) (\<lambda>_. blobs_shown_from now C d) d1" if "blobs_shown_from now C d d1" for d1
  proof -
    have g: "good d1" using that by (simp add: blobs_shown_from_def blobs_ok_def)
    then have "blobs_shown_from now C d (del T_sessions cs d1)" for cs
      using that by (auto simp: blobs_shown_from_def blobs_ok_def good_def wf_del tabs_del_blobs blob_at_del_sessions)
    with that show ?thesis by (simp add: CleanupExpiredSessions_def wp_simps)
  qed
  note sess = this
  show ?thesis unfolding runCleanup_def
    by (rule wp_bindP_rule[OF wp_CleanupBlobs_shown[OF assms]])
       (auto simp: Let_def intro!: wp_bindP_rule[OF sess])
qed

definition fires_by :: "int \<Rightarrow> selected list \<Rightarrow> bool" where
  "fires_by later evs = list_all (\<lambda>ev. case ev of CtxDone \<Rightarrow> True | TimerFired t \<Rightarrow> t \<le> later) evs"

lemma blobs_shown_refl: "blobs_ok C d \<Longrightarrow> blobs_shown_from now C d d"
  by (simp add: blobs_shown_from_def)

lemma blobs_shown_trans:
  "blobs_shown_from n C d d1 \<Longrightarrow> blobs_shown_from m C d1 d2 \<Longrightarrow> n \<le> k \<Longrightarrow> m \<le> k \<Longrightarrow> blobs_shown_from k C d d2"
  by (simp add: blobs_shown_from_def)

lemma wp_cleanup_loop:
  assumes "blobs_ok C d" "fires_by later evs"
  shows "wp (cleanup_loop age evs) (\<lambda>_. blobs_shown_from later C d) d"
  using assms
proof (induction evs arbitrary: d)
  case (Cons ev evs)
  show ?case
  proof (cases ev)
    case CtxDone
    with Cons.prems show ?thesis by (simp add: blobs_shown_refl)
  next
    case (TimerFired now)
    with Cons.prems have t: "now \<le> later" "fires_by later evs" by (simp_all add: fires_by_def)
    have "wp (bindP (cleanup_loop age evs) (\<lambda>(reps, returned). Ret (rep # reps, returned)))
        (\<lambda>_. blobs_shown_from later C d) d1" if "blobs_shown_from now C d d1" for rep d1
    proof -
      from that have "blobs_ok C d1" by (simp add: blobs_shown_from_def)
      from Cons.IH[OF this t(2)] show ?thesis
        by (rule wp_bindP_rule) (use that t(1) blobs_shown_trans in \<open>fastforce split: prod.splits\<close>)
    qed
    then show ?thesis
      unfolding TimerFired by simp (rule wp_bindP_rule[OF wp_runCleanup[OF Cons.prems(1)]])
  qed
qed (simp add: blobs_shown_refl)

section \<open>Tokens\<close>

lemma NewToken_live:
  assumes "wf d"
  shows "wp (TokenService_NewToken now (Some sid) proto) (\<lambda>r d'. wf d' \<and>
     (\<forall>tok. r = Inr tok \<longrightarrow> tok = b64Encode sid \<and> live sid d' \<and> \<not> live sid d)) d"
proof -
  have "wp (TokenService_NewToken now (Some sid) proto) (\<lambda>r d'.
     \<forall>tok. r = Inr tok \<longrightarrow> tok = b64Encode sid \<and> live sid d' \<and> \<not> live sid d) d"
    by (auto simp: TokenService_NewToken_def wp_simps live_def lookup_ins dupkey_lookup sql_eq_def toRow_defs)
  with wf_wp[OF assms] show ?thesis by (simp add: wp_conj)
qed

lemma sid_of_token: "TokenService_sid (TokenService_TokenContext c (b64Encode sid)) = Some sid"
  by (simp add: TokenService_sid_def TokenService_TokenFromContext_def TokenService_TokenContext_def)

lemma Invalidate_effect:
  assumes "wf d" "schema_ok d"
  shows "wp (TokenService_InvalidateToken c) (\<lambda>r d'. r = Inr () \<longrightarrow> (\<exists>s. TokenService_sid c = Some s \<and>
     live s d \<and> (\<forall>s'. live s' d' \<longleftrightarrow> live s' d \<and> s' \<noteq> s))) d"
proof (cases "TokenService_sid c")
  case None
  then show ?thesis
    by (auto simp: TokenService_InvalidateToken_def TokenService_sid_def wp_simps bind_eq_None_conv split: option.splits)
next
  case (Some s)
  have o: "\<not> orphan T_sessions gone d T_sessions r" for gone r
    using assms(2) by (fastforce simp: schema_ok_def orphan_def)
  have "live s' (del T_sessions [CEq ''id'' (VBytes s)] d) \<longleftrightarrow> live s' d \<and> s' \<noteq> s" for s'
    using lookup_key[of T_sessions "VBytes s'" d _ "''id''"]
    by (auto simp: live_def lookup_del[OF assms(1)] o sql_eq_def split: option.splits)
  moreover obtain tok where "TokenService_TokenFromContext c = Some tok" "b64Decode tok = Some s"
    using Some by (auto simp: TokenService_sid_def bind_eq_Some_conv)
  ultimately show ?thesis
    using Some by (auto simp: TokenService_InvalidateToken_def wp_simps rows_key[OF assms(1)] live_def split: option.splits)
qed

section \<open>Runs of whole operations\<close>

text \<open>An operation that runs without interruption is one of the interleavings.\<close>

lemma rv_run_prog:
  assumes "rv_run E C L tm db0 ps db" "i < length ps" "ps ! i = p"
  shows "rv_run E C L tm db0 (ps[i := Ret (result E p db)]) (after E p db)"
  using assms
proof (induction p arbitrary: ps db)
  case (Ret x)
  then have "ps[i := Ret x] = ps" by (metis list_update_id)
  with Ret show ?case by simp
next
  case (Exec s k)
  obtain x db1 where e: "E s db = (x, db1)" by fastforce
  from rv_run.statement[OF Exec.prems this] have "rv_run E C L tm db0 (ps[i := k x]) db1" .
  from Exec.IH[OF _ this] Exec.prems(2) e show ?case by simp
qed

lemma rv_run_op:
  assumes "rv_run E C L tm db0 ps db"
  shows "rv_run E C L tm db0 (ps @ [Ret ()]) (after E (rv_prog C L tm op) db)"
  using rv_run_prog[OF rv_run.request[OF assms, of op], of "length ps" "rv_prog C L tm op"]
  by (simp add: nth_append)

section \<open>A concrete instance\<close>

definition ex_rv_codec :: cbor_lib where
  "ex_rv_codec = table_codec [(GExt ''To1d'' ''x'', ''X''), (GVoucher (ex_ov CHR ''a''), ''A'')]"

definition ex_rv_db :: sqldb where
  "ex_rv_db = after sql_exec InitRendezvousDB (empty_db [])"

definition ex_ctx :: ctx where
  "ex_ctx = TokenService_TokenContext \<lparr>db_token = None, state_token = None\<rparr> (b64Encode ''s'')"

definition ex_nonce :: bytes where
  "ex_nonce = replicate 16 CHR ''n''"

text \<open>A session that started at time 0 with a TO0 nonce, and a blob that expires at time 5.\<close>

definition ex_rv_db1 :: sqldb where
  "ex_rv_db1 = after sql_exec (TokenService_NewToken 0 (Some ''s'') 0) ex_rv_db"

definition ex_rv_db2 :: sqldb where
  "ex_rv_db2 = after sql_exec (TO0SessionState_SetTO0SignNonce ex_ctx ex_nonce) ex_rv_db1"

lemma ex_rv_start: "rv_start (empty_db [])"
  using wf_empty_db by (simp add: rv_start_def session_closed_def times_ok_def empty_db_def)

lemma ex_rv_init: "result sql_exec InitRendezvousDB (empty_db []) = Inr ()"
  by code_simp

lemma ex_rv_inv: "rv_inv ex_rv_db"
  using sql.wp_result[OF wp_InitRendezvousDB[OF ex_rv_start]] ex_rv_init by (simp add: ex_rv_db_def)

lemma ex_rv_run2: "\<exists>ps. rv_run sql_exec C L tm (empty_db []) ps ex_rv_db2"
proof -
  have "rv_run sql_exec C L tm (empty_db []) [] ex_rv_db"
    unfolding ex_rv_db_def by (rule rv_run.started[OF ex_rv_init])
  from rv_run_op[OF rv_run_op[OF this, of "NewTokenOp 0 (Some ''s'') 0"], of "SetTO0Op ex_ctx ex_nonce"]
  show ?thesis by (auto simp: ignore_def ex_rv_db2_def ex_rv_db1_def run_bindP split_beta)
qed

lemma ex_rv_inv2: "rv_inv ex_rv_db2"
  using ex_rv_run2[of ex_codec ex_pki "\<lambda>_. []"] rv_run_inv[OF ex_ok(5) ex_rv_start] by blast

lemma ex_rv_tokens:
  "result sql_exec (TokenService_NewToken 0 (Some ''s'') 0) ex_rv_db = Inr (b64Encode ''s'')"
  "result sql_exec (TO0SessionState_SetTO0SignNonce ex_ctx ex_nonce) ex_rv_db1 = Inr ()"
  "result sql_exec (TokenService_InvalidateToken ex_ctx) ex_rv_db2 = Inr ()"
  "result sql_exec (TokenService_getSessionID ex_ctx) ex_rv_db2 = Inr ''s''"
  "result sql_exec (CleanupExpiredSessions 100 50) ex_rv_db2 = Inr 1"
  by code_simp+

lemma ex_rv_live: "live ''s'' ex_rv_db2"
proof -
  have "wp (TokenService_getSessionID ex_ctx) (\<lambda>r _. \<forall>s. r = Inr s \<longrightarrow> live s ex_rv_db2) ex_rv_db2"
    using ex_rv_inv2 by (auto simp: rv_inv_def wp_getSessionID split: option.splits)
  from sql.wp_result[OF this] show ?thesis using ex_rv_tokens(4) by simp
qed

lemma ex_rv_blobs_ok: "blobs_ok ex_rv_codec ex_rv_db"
  using ex_rv_inv rv_inv_schema[OF ex_rv_inv]
  by (simp add: blobs_ok_def good_def rv_inv_def times_ok_def ex_rv_codec_def cbor_ok_table_codec)

section \<open>Properties\<close>

text \<open>
  C28. The session clean-up removes exactly the sessions created before the cut-off, and with
  them their TO0 and TO1 nonces; the nonces of all other sessions stay.
\<close>

theorem session_cleanup_exact:
  assumes "gorm_engine E view" "rv_inv (view db)" "result E (CleanupExpiredSessions now age) db = Inr n"
  defines "d1 \<equiv> view (after E (CleanupExpiredSessions now age) db)"
  shows "(\<forall>s. live s d1 \<longleftrightarrow> live s (view db) \<and> (\<forall>t. created s (view db) = Some t \<longrightarrow> now - age \<le> t)) \<and>
     (\<forall>t\<in>{T_to0_sessions, T_to1_sessions}. \<forall>s.
        nonce_cell t s d1 = (if live s d1 then nonce_cell t s (view db) else None))"
  using gorm_engine.wp_result[OF assms(1) wp_CleanupSessions[OF assms(2), of now age]] assms(3)
  unfolding d1_def by simp

lemma session_cleanup_exact_witness:
  "\<not> live ''s'' (after sql_exec (CleanupExpiredSessions 100 50) ex_rv_db2)"
proof -
  have "created ''s'' ex_rv_db2 = Some 0" by code_simp
  with session_cleanup_exact[OF ex_ok(5) ex_rv_inv2 ex_rv_tokens(5)] show ?thesis by auto
qed

text \<open>
  C31. The periodic clean-up cannot be observed through the blobs: after any rounds of it up to
  a time, a device that asks at that time or later gets what it would have got.
\<close>

theorem periodic_cleanup_unseen:
  fixes age interval g
  assumes "gorm_engine E view" "blobs_ok C (view db)" "fires_by later evs"
  defines "r \<equiv> result E (RVBlob C later g) (after E (StartPeriodicCleanup interval age evs) db)"
  shows "driver_failed r \<or> r = shown later (blob_at C (view db) g)"
proof -
  have "wp (StartPeriodicCleanup interval age evs) (\<lambda>_. blobs_shown_from later C (view db)) (view db)"
    using wp_cleanup_loop[OF assms(2,3)] assms(2) by (simp add: StartPeriodicCleanup_def blobs_shown_refl)
  from gorm_engine.wp_result[OF assms(1) this]
  have d: "blobs_ok C (view (after E (StartPeriodicCleanup interval age evs) db))"
    "shown later (blob_at C (view (after E (StartPeriodicCleanup interval age evs) db)) g) = shown later (blob_at C (view db) g)"
    by (simp_all add: blobs_shown_from_def)
  from gorm_engine.wp_result[OF assms(1) blobs.get_spec[OF d(1), of later g]] d(2)
  show ?thesis by (simp add: r_def)
qed

lemma periodic_cleanup_unseen_witness:
  "let r = result sql_exec (RVBlob ex_rv_codec 20 (ex_guid CHR ''a''))
      (after sql_exec (StartPeriodicCleanup 10 5 [TimerFired 10, TimerFired 20, CtxDone]) ex_rv_db) in
   driver_failed r \<or> r = shown 20 (blob_at ex_rv_codec ex_rv_db (ex_guid CHR ''a''))"
  unfolding Let_def
  by (rule periodic_cleanup_unseen[OF ex_ok(5) ex_rv_blobs_ok]) (simp add: fires_by_def)

text \<open>
  C18. A registered rendezvous blob is what the device finds until it expires, and from then on
  the device finds nothing; the registration leaves all other devices alone.
\<close>

theorem rvblob_set_get:
  fixes b
  assumes "gorm_engine E view" "blobs_ok C (view db)" "result E (SetRVBlob C ov b expiry) db = Inr ()"
  defines "found \<equiv> \<lambda>now g. result E (RVBlob C now g) (after E (SetRVBlob C ov b expiry) db)"
  shows "driver_failed (found now g) \<or> found now g =
     (if g \<noteq> ov_GUID ov then shown now (blob_at C (view db) g)
      else if now > expiry then Inl ErrNotFound else Inr (b, ov))"
proof (cases "g = ov_GUID ov")
  case True
  from gorm_engine.wp_seq[OF assms(1) blobs.set_get[OF assms(2), of ov b expiry now] assms(3)] True
  show ?thesis by (simp add: found_def)
next
  case False
  from gorm_engine.wp_result[OF assms(1) blobs.set_spec[OF assms(2), of ov b expiry]] assms(3) False
  have "blobs_ok C (view (after E (SetRVBlob C ov b expiry) db))"
    "blob_at C (view (after E (SetRVBlob C ov b expiry) db)) g = blob_at C (view db) g" by simp_all
  from gorm_engine.wp_result[OF assms(1) blobs.get_spec[OF this(1), of now g]] this(2) False
  show ?thesis by (simp add: found_def)
qed

lemma ex_rv_blob_runs:
  "result sql_exec (SetRVBlob ex_rv_codec (ex_ov CHR ''a'') ''x'' 5) ex_rv_db = Inr ()"
  "result sql_exec (RVBlob ex_rv_codec 5 (ex_guid CHR ''a''))
     (after sql_exec (SetRVBlob ex_rv_codec (ex_ov CHR ''a'') ''x'' 5) ex_rv_db) = Inr (''x'', ex_ov CHR ''a'')"
  by code_simp+

lemma rvblob_set_get_witness:
  "let r = result sql_exec (RVBlob ex_rv_codec 6 (ex_guid CHR ''a''))
     (after sql_exec (SetRVBlob ex_rv_codec (ex_ov CHR ''a'') ''x'' 5) ex_rv_db) in
   driver_failed r \<or> r = Inl ErrNotFound"
  using rvblob_set_get[OF ex_ok(5) ex_rv_blobs_ok ex_rv_blob_runs(1), of 6 "ex_guid CHR ''a''"]
  by (simp add: Let_def ex_ov_def)

text \<open>
  C3. A voucher is accepted only if its device certificate chain verifies against the trusted
  pool; with a validated configuration the granted time is the requested one, capped at
  the maximum, and lies between the two limits.
\<close>

theorem accept_within_limits:
  assumes "RendezvousConfig_validate cfg = Inr ()"
    and "s = (NewRendezvous (cfg_MinWaitSecs cfg) (cfg_MaxWaitSecs cfg))\<lparr>TrustedDeviceCACertPool := pool\<rparr>"
    and "acceptVoucher verify s ov requested = Inr ttl"
  shows "verify pool ov = None \<and> ttl = min requested (cfg_MaxWaitSecs cfg) \<and>
     cfg_MinWaitSecs cfg \<le> ttl \<and> ttl \<le> cfg_MaxWaitSecs cfg"
  using assms
  by (auto simp: RendezvousConfig_validate_def NewRendezvous_def acceptVoucher_def min_def word_not_simps
      not_less not_le word_gt_0 split: option.splits if_splits)

lemma accept_within_limits_witness:
  "min (100000 :: 32 word) (cfg_MaxWaitSecs default_rendezvous_config) = 86400"
proof -
  have v: "RendezvousConfig_validate default_rendezvous_config = Inr ()" by code_simp
  have "acceptVoucher (\<lambda>_ _. None)
     ((NewRendezvous (cfg_MinWaitSecs default_rendezvous_config) (cfg_MaxWaitSecs default_rendezvous_config))
        \<lparr>TrustedDeviceCACertPool := []\<rparr>) (ex_ov CHR ''a'') 100000 = Inr 86400" by code_simp
  from accept_within_limits[OF v refl this] show ?thesis by simp
qed

text \<open>
  A TO0 session from its token on: the token that was issued names a new session, the nonce
  stored under it is the nonce read back under it.
\<close>

theorem token_nonce_roundtrip:
  fixes c0
  assumes "gorm_engine E view" "wf (view db)" "length nonce = 16"
    and "result E (TokenService_NewToken now (Some sid) proto) db = Inr tok"
  defines "c \<equiv> TokenService_TokenContext c0 tok" and "db1 \<equiv> after E (TokenService_NewToken now (Some sid) proto) db"
  assumes set_ok: "result E (TO0SessionState_SetTO0SignNonce c nonce) db1 = Inr ()"
  defines "r \<equiv> result E (TO0SessionState_TO0SignNonce c) (after E (TO0SessionState_SetTO0SignNonce c nonce) db1)"
  shows "\<not> live sid (view db) \<and> TokenService_sid c = Some sid \<and> (r = Inr nonce \<or> driver_failed r)"
proof -
  from gorm_engine.wp_result[OF assms(1) NewToken_live[OF assms(2)], of now sid proto] assms(4)
  have t: "tok = b64Encode sid" "\<not> live sid (view db)" "wf (view db1)" by (auto simp: db1_def)
  from gorm_engine.wp_seq[OF assms(1) Rv_to0.roundtrip[OF t(3), of nonce c] set_ok] assms(3)
  have "r = Inr nonce \<or> driver_failed r" by (simp add: nonce_ok_def r_def)
  with t show ?thesis by (simp add: c_def sid_of_token)
qed

lemma token_nonce_roundtrip_witness: "\<not> live ''s'' ex_rv_db \<and> TokenService_sid ex_ctx = Some ''s''"
proof -
  have w: "wf ex_rv_db" "length ex_nonce = 16" using ex_rv_inv by (simp_all add: rv_inv_def ex_nonce_def)
  from token_nonce_roundtrip[OF ex_ok(5) w ex_rv_tokens(1), of "\<lparr>db_token = None, state_token = None\<rparr>"]
    ex_rv_tokens(2)
  show ?thesis by (simp add: ex_ctx_def ex_rv_db1_def)
qed

text \<open>
  C27. After a token was invalidated its session is refused, and no other session is affected.
\<close>

theorem session_invalidated:
  assumes "gorm_engine E view" "wf (view db)" "schema_ok (view db)"
    and "result E (TokenService_InvalidateToken c) db = Inr ()"
  defines "db1 \<equiv> after E (TokenService_InvalidateToken c) db"
  defines "r \<equiv> result E (TokenService_getSessionID c) db1"
  shows "(r = Inl ErrInvalidSession \<or> driver_failed r) \<and>
     (\<exists>s. TokenService_sid c = Some s \<and> (\<forall>s'. live s' (view db1) \<longleftrightarrow> live s' (view db) \<and> s' \<noteq> s))"
proof -
  have w: "wf (view db1)"
    using gorm_engine.wp_result[OF assms(1) wf_wp[OF assms(2)]] by (simp add: db1_def)
  from gorm_engine.wp_result[OF assms(1) Invalidate_effect[OF assms(2,3), of c]] assms(4)
  obtain s where s: "TokenService_sid c = Some s" "\<forall>s'. live s' (view db1) \<longleftrightarrow> live s' (view db) \<and> s' \<noteq> s"
    by (auto simp: db1_def)
  have "wp (TokenService_getSessionID c) (\<lambda>r _. r = Inl ErrInvalidSession \<or> driver_failed r) (view db1)"
    using s w by (simp add: wp_getSessionID)
  from gorm_engine.wp_result[OF assms(1) this] s show ?thesis by (auto simp: r_def)
qed

lemma session_invalidated_witness:
  "\<not> live ''s'' (after sql_exec (TokenService_InvalidateToken ex_ctx) ex_rv_db2)"
proof -
  have w: "wf ex_rv_db2" "schema_ok ex_rv_db2"
    using ex_rv_inv2 rv_inv_schema[OF ex_rv_inv2] by (simp_all add: rv_inv_def)
  have "TokenService_sid ex_ctx = Some ''s''" unfolding ex_ctx_def by (rule sid_of_token)
  with session_invalidated[OF ex_ok(5) w ex_rv_tokens(3)] show ?thesis by auto
qed

text \<open>
  Sessions do not see each other: storing a TO1 nonce in one session leaves what another
  session reads as it was.
\<close>

theorem to1_nonce_isolated:
  assumes "gorm_engine E view" "wf (view db)" "length nonce = 16"
    and "TokenService_sid c' = Some s'" "TokenService_sid c \<noteq> Some s'"
  defines "r \<equiv> result E (TO1SessionState_TO1ProofNonce c') (after E (TO1SessionState_SetTO1ProofNonce c nonce) db)"
  shows "driver_failed r \<or> r = (if \<not> live s' (view db) then Inl ErrInvalidSession
     else case nonce_cell T_to1_sessions s' (view db) of None \<Rightarrow> Inl ErrNotFound | Some n \<Rightarrow> Inr n)"
proof -
  have "nonce_ok nonce" using assms(3) by (simp add: nonce_ok_def)
  from gorm_engine.wp_result[OF assms(1) Rv_to1.isolation[OF assms(2) this assms(4,5)]]
  have "wp (TO1SessionState_TO1ProofNonce c') (\<lambda>r' d2. driver_failed r' \<or>
      r' = (if \<not> live s' (view db) then Inl ErrInvalidSession
            else case nonce_cell T_to1_sessions s' (view db) of None \<Rightarrow> Inl ErrNotFound | Some w \<Rightarrow> Inr w))
      (view (after E (TO1SessionState_SetTO1ProofNonce c nonce) db))" .
  from gorm_engine.wp_result[OF assms(1) this] show ?thesis by (simp add: r_def)
qed

lemma to1_nonce_isolated_witness:
  "let r = result sql_exec (TO1SessionState_TO1ProofNonce ex_ctx)
     (after sql_exec (TO1SessionState_SetTO1ProofNonce
        (TokenService_TokenContext ex_ctx (b64Encode ''z'')) ex_nonce) ex_rv_db2) in
   driver_failed r \<or> r = Inl ErrNotFound"
proof -
  have w: "wf ex_rv_db2" "length ex_nonce = 16" using ex_rv_inv2 by (simp_all add: rv_inv_def ex_nonce_def)
  have s: "TokenService_sid ex_ctx = Some ''s''"
    "TokenService_sid (TokenService_TokenContext ex_ctx (b64Encode ''z'')) \<noteq> Some ''s''"
    unfolding ex_ctx_def sid_of_token by simp_all
  have "nonce_cell T_to1_sessions ''s'' ex_rv_db2 = None" by code_simp
  with to1_nonce_isolated[OF ex_ok(5) w s] show ?thesis by (simp add: ex_rv_live Let_def)
qed

end
