(* ===== verification/RvPool.thy ===== *)
theory RvPool
  imports RvProperties
begin

text \<open>
  The rendezvous server on a pool of connections. \<^verbatim>\<open>database/sql\<close> runs each statement outside a
  transaction on any idle connection, and the server opens no transaction on these tables. PostgreSQL enforces
  foreign keys on every connection; SQLite only on those that executed \<^verbatim>\<open>PRAGMA foreign_keys = ON\<close>,
  and \<^verbatim>\<open>getDB\<close> executes it once, on one connection of the pool.
\<close>

section \<open>Connections\<close>

text \<open>
  A statement on a connection: without enforcement it neither checks foreign keys nor cascades,
  while the schema keeps them.
\<close>

definition conn_step :: "bool \<Rightarrow> stmt \<Rightarrow> sqldb \<Rightarrow> sqlres \<Rightarrow> sqldb \<Rightarrow> bool" where
  "conn_step enforced s d x d' \<longleftrightarrow>
     (if enforced then stepR s d x d'
      else \<exists>d1. stepR s (d\<lparr>fks := []\<rparr>) x d1 \<and> d' = d1\<lparr>fks := fks d\<rparr>)"

text \<open>What a whole program may do, by the contract of the database.\<close>

inductive outcome :: "'a prog \<Rightarrow> sqldb \<Rightarrow> 'a \<Rightarrow> sqldb \<Rightarrow> bool" where
  "outcome (Ret v) d v d"
| "stepR s d x d1 \<Longrightarrow> outcome (k x) d1 v d2 \<Longrightarrow> outcome (Exec s k) d v d2"

text \<open>
  The server on \<open>n\<close> connections, of which those with \<open>enforced\<close> enforce foreign keys: after the start-up,
  which creates the schema, any program under way executes its next statement on any connection.
\<close>

inductive pool_run ::
  "nat \<Rightarrow> (nat \<Rightarrow> bool) \<Rightarrow> cbor_lib \<Rightarrow> pki \<Rightarrow> (int \<Rightarrow> string) \<Rightarrow> sqldb \<Rightarrow> unit prog list \<Rightarrow> sqldb \<Rightarrow> bool"
  for n enforced C L tm d0 where
  started: "outcome InitRendezvousDB d0 (Inr ()) d \<Longrightarrow> pool_run n enforced C L tm d0 [] d"
| request: "pool_run n enforced C L tm d0 ps d \<Longrightarrow> pool_run n enforced C L tm d0 (ps @ [rv_prog C L tm op]) d"
| statement: "pool_run n enforced C L tm d0 ps d \<Longrightarrow> i < length ps \<Longrightarrow> ps ! i = Exec s k \<Longrightarrow> c < n \<Longrightarrow>
     conn_step (enforced c) s d x d' \<Longrightarrow> pool_run n enforced C L tm d0 (ps[i := k x]) d'"

lemma wp_outcome: "outcome p d v d' \<Longrightarrow> wp p Q d \<Longrightarrow> Q v d'"
  by (induction rule: outcome.induct) (auto simp: wp.simps(2))

lemma outcome_sql_exec: "outcome p d (result sql_exec p d) (after sql_exec p d)"
proof (induction p arbitrary: d)
  case (Exec s k)
  obtain x d1 where e: "sql_exec s d = (x, d1)" by fastforce
  from outcome.intros(2)[OF sql.step[OF e]] Exec[of "k x" d1] e show ?case by simp
qed (simp add: outcome.intros)

section \<open>Every connection enforces the foreign keys\<close>

lemma pool_run_inv:
  assumes "pool_run n enforced C L tm d0 ps d" "rv_start d0" "\<forall>c<n. enforced c"
  shows "rv_inv d \<and> (\<forall>p\<in>set ps. all_stmts safe_stmt p)"
  using assms
proof (induction rule: pool_run.induct)
  case (started d)
  then show ?case using wp_outcome[OF started.hyps wp_InitRendezvousDB] by simp
next
  case (request ps d op)
  then show ?case by (auto simp: rv_prog_safe)
next
  case (statement ps d i s k c x d')
  then have inv: "rv_inv d" "\<forall>p\<in>set ps. all_stmts safe_stmt p" by simp_all
  have "all_stmts safe_stmt (Exec s k)" using inv(2) statement.hyps(2,3) by (metis nth_mem)
  then have p: "safe_stmt s" "all_stmts safe_stmt (k x)" by simp_all
  have "rv_inv d'" using rv_inv_step[OF _ p(1) inv(1)] statement by (simp add: conn_step_def)
  with inv(2) p(2) show ?case using set_update_subset_insert[of ps i "k x"] by blast
qed

section \<open>One connection does not\<close>

definition sql_on :: "bool \<Rightarrow> stmt \<Rightarrow> sqldb \<Rightarrow> sqlres \<times> sqldb" where
  "sql_on enforced s d =
     (if enforced then sql_exec s d else case sql_exec s (d\<lparr>fks := []\<rparr>) of (x, d1) \<Rightarrow> (x, d1\<lparr>fks := fks d\<rparr>))"

lemma sql_on_step: "sql_on e s d = (x, d') \<Longrightarrow> conn_step e s d x d'"
  using sql.step by (fastforce simp: sql_on_def conn_step_def split: prod.splits if_splits)

text \<open>A program that runs on one connection without interruption.\<close>

lemma pool_run_prog:
  assumes "pool_run n enforced C L tm d0 ps d" "c < n" "i < length ps" "ps ! i = p"
  shows "pool_run n enforced C L tm d0 (ps[i := Ret (result (sql_on (enforced c)) p d)]) (after (sql_on (enforced c)) p d)"
  using assms
proof (induction p arbitrary: ps d)
  case (Ret x)
  then have "ps[i := Ret x] = ps" by (metis list_update_id)
  with Ret show ?case by simp
next
  case (Exec s k)
  obtain x d1 where e: "sql_on (enforced c) s d = (x, d1)" by fastforce
  from pool_run.statement[OF Exec.prems(1,3,4,2) sql_on_step[OF this]]
  have "pool_run n enforced C L tm d0 (ps[i := k x]) d1" .
  from Exec.IH[OF _ this] Exec.prems(2,3) e show ?case by simp
qed

lemma pool_run_op:
  assumes "pool_run n enforced C L tm d0 ps d" "c < n" "enforced c = e"
  shows "pool_run n enforced C L tm d0 (ps @ [Ret ()]) (after (sql_on e) (rv_prog C L tm op) d)"
  using assms(3) pool_run_prog[OF pool_run.request[OF assms(1), of op] assms(2), of "length ps" "rv_prog C L tm op"]
  by (simp add: nth_append)

lemma after_ignore [simp]: "after E (ignore p) d = after E p d"
  by (simp add: ignore_def run_bindP split_beta)

text \<open>
  A session with a TO0 nonce; where nothing cascades, the nonce outlives the session if its token is invalidated.
\<close>

definition ex_nonce_db :: "bool \<Rightarrow> sqldb" where
  "ex_nonce_db e = after (sql_on e) (TO0SessionState_SetTO0SignNonce ex_ctx ex_nonce)
     (after (sql_on e) (TokenService_NewToken 0 (Some ''s'') 0) ex_rv_db)"

definition ex_orphan_db :: sqldb where
  "ex_orphan_db = after (sql_on False) (TokenService_InvalidateToken ex_ctx) (ex_nonce_db False)"

lemma ex_nonce_run:
  assumes "c < n" "enforced c = e"
  shows "\<exists>ps. pool_run n enforced C L tm (empty_db []) ps (ex_nonce_db e)"
proof -
  have "pool_run n enforced C L tm (empty_db []) [] ex_rv_db"
    using pool_run.started[of "empty_db []" ex_rv_db] outcome_sql_exec[of InitRendezvousDB "empty_db []"]
    unfolding ex_rv_db_def ex_rv_init by blast
  from pool_run_op[OF pool_run_op[OF this assms, of "NewTokenOp 0 (Some ''s'') 0"] assms,
      of "SetTO0Op ex_ctx ex_nonce"]
  show ?thesis by (auto simp: ex_nonce_db_def)
qed

lemma ex_orphan_run:
  assumes "c < n" "\<not> enforced c"
  shows "\<exists>ps. pool_run n enforced C L tm (empty_db []) ps ex_orphan_db"
proof -
  from assms have e: "enforced c = False" by simp
  obtain ps where "pool_run n enforced C L tm (empty_db []) ps (ex_nonce_db False)"
    using ex_nonce_run[where enforced = enforced, OF assms(1) e] by blast
  from pool_run_op[where enforced = enforced, OF this assms(1) e, of "InvalidateTokenOp ex_ctx"]
  show ?thesis by (auto simp: ex_orphan_db_def)
qed

lemma ex_nonce: "\<exists>r. lookup T_to0_sessions (VBytes ''s'') (ex_nonce_db True) = Some r"
proof -
  have "\<not> Option.is_none (lookup T_to0_sessions (VBytes ''s'') (ex_nonce_db True))" by code_simp
  then show ?thesis by (simp add: Option.is_none_def)
qed

lemma ex_orphan: "\<exists>r. lookup T_to0_sessions (VBytes ''s'') ex_orphan_db = Some r" "\<not> live ''s'' ex_orphan_db"
proof -
  have "\<not> Option.is_none (lookup T_to0_sessions (VBytes ''s'') ex_orphan_db)"
    "Option.is_none (lookup T_sessions (VBytes ''s'') ex_orphan_db)" by code_simp+
  then show "\<exists>r. lookup T_to0_sessions (VBytes ''s'') ex_orphan_db = Some r" "\<not> live ''s'' ex_orphan_db"
    by (simp_all add: Option.is_none_def live_def)
qed

section \<open>Properties\<close>

text \<open>
  C8. Every TO0 and TO1 row belongs to a session that exists, whatever requests the rendezvous server
  handles, in whatever interleaving of their statements with each other and with the clean-up,
  whichever of them fail and whichever connection of the pool each runs on: this holds
  if every connection of the pool enforces foreign keys, and only then. One connection without
  (as with SQLite and the one \<^verbatim>\<open>PRAGMA\<close> of \<^verbatim>\<open>getDB\<close>) is enough for a row that outlives its session.
\<close>

theorem rv_sessions_closed:
  "(\<forall>c<n. enforced c) \<longleftrightarrow>
   (\<forall>d0 ps d. rv_start d0 \<longrightarrow> pool_run n enforced C L tm d0 ps d \<longrightarrow>
      (\<forall>t\<in>{T_to0_sessions, T_to1_sessions}. \<forall>s r. lookup t (VBytes s) d = Some r \<longrightarrow> live s d))"
proof
  assume "\<forall>c<n. enforced c"
  then show "\<forall>d0 ps d. rv_start d0 \<longrightarrow> pool_run n enforced C L tm d0 ps d \<longrightarrow>
      (\<forall>t\<in>{T_to0_sessions, T_to1_sessions}. \<forall>s r. lookup t (VBytes s) d = Some r \<longrightarrow> live s d)"
    using protocol_row_live pool_run_inv by blast
next
  assume "\<forall>d0 ps d. rv_start d0 \<longrightarrow> pool_run n enforced C L tm d0 ps d \<longrightarrow>
      (\<forall>t\<in>{T_to0_sessions, T_to1_sessions}. \<forall>s r. lookup t (VBytes s) d = Some r \<longrightarrow> live s d)"
  then have "\<not> (\<exists>ps. pool_run n enforced C L tm (empty_db []) ps ex_orphan_db)" using ex_rv_start ex_orphan by blast
  then show "\<forall>c<n. enforced c" using ex_orphan_run by blast
qed

lemma rv_sessions_closed_witness:
  "(\<exists>d0 ps d t s r. rv_start d0 \<and> pool_run 2 (\<lambda>c. c = 0) ex_codec ex_pki (\<lambda>_. []) d0 ps d \<and>
      t \<in> {T_to0_sessions, T_to1_sessions} \<and> lookup t (VBytes s) d = Some r \<and> \<not> live s d) \<and>
   (\<exists>ps r. pool_run 2 (\<lambda>c. c < 2) ex_codec ex_pki (\<lambda>_. []) (empty_db []) ps (ex_nonce_db True) \<and>
      lookup T_to0_sessions (VBytes ''s'') (ex_nonce_db True) = Some r \<and> live ''s'' (ex_nonce_db True))"
  (is "?off \<and> ?on")
proof
  have "\<not> (\<forall>c<(2::nat). c = 0)" by (auto intro!: exI[of _ 1])
  with rv_sessions_closed[of 2 "\<lambda>c. c = 0" ex_codec ex_pki "\<lambda>_. []"] show ?off by blast
next
  obtain ps where "pool_run 2 (\<lambda>c. c < 2) ex_codec ex_pki (\<lambda>_. []) (empty_db []) ps (ex_nonce_db True)"
    using ex_nonce_run[of 0 2 "\<lambda>c. c < 2" True ex_codec ex_pki "\<lambda>_. []"] by auto
  with rv_sessions_closed[of 2 "\<lambda>c. c < 2" ex_codec ex_pki "\<lambda>_. []"] ex_rv_start ex_nonce show ?on by blast
qed

end
