(* ===== verification/TO0.thy ===== *)
theory TO0
  imports OwnerInfo Vouchers Frame
begin

text \<open>
  The owner server's part of TO0: registering a device with the rendezvous servers of its
  voucher (\<^verbatim>\<open>internal/to0/to0.go\<close>) and the background scheduler that keeps the
  registrations alive (\<^verbatim>\<open>serveOwner\<close> in \<^verbatim>\<open>cmd/owner.go\<close>).
\<close>

section \<open>Registration\<close>

text \<open>
  What the protocol library makes of rendezvous instructions for the owner, and its TO0
  client. The network answers the \<open>n\<close>-th call as it likes: the number is an argument.
\<close>

record owner_rv =
  Bypass :: bool
  URLs :: "string list"

record to0_lib =
  ParseOwnerRvInfo :: "rv_info \<Rightarrow> owner_rv list"
  RegisterBlob :: "nat \<Rightarrow> string \<Rightarrow> bool \<Rightarrow> 32 word \<Rightarrow> guid \<Rightarrow> rv_to2_addr list \<Rightarrow> (32 word) result"

text \<open>The URLs of one directive, the first success ends the search.\<close>

fun try_urls :: "(nat \<Rightarrow> string \<Rightarrow> (32 word) result) \<Rightarrow> nat \<Rightarrow> string list \<Rightarrow> string list \<times> (32 word) option" where
  "try_urls reg n [] = ([], None)"
| "try_urls reg n (url # urls) =
     (case reg n url of
        Inr refresh \<Rightarrow> ([url], Some refresh)
      | Inl err \<Rightarrow> (let (tried, r) = try_urls reg (n + 1) urls in (url # tried, r)))"

text \<open>The loop over the directives: the URLs tried, the result, and whether all were bypassed.\<close>

fun try_directives ::
  "(nat \<Rightarrow> string \<Rightarrow> (32 word) result) \<Rightarrow> nat \<Rightarrow> bool \<Rightarrow> owner_rv list \<Rightarrow> string list \<times> (32 word) option \<times> bool" where
  "try_directives reg n allBypass [] = ([], None, allBypass)"
| "try_directives reg n allBypass (rv # rvs) =
     (if Bypass rv then try_directives reg n allBypass rvs
      else if URLs rv = [] then try_directives reg n False rvs
      else
        (case try_urls reg n (URLs rv) of
           (tried, Some refresh) \<Rightarrow> (tried, Some refresh, False)
         | (tried, None) \<Rightarrow>
             (let (tried', r) = try_directives reg (n + length tried) False rvs in (tried @ tried', r))))"

text \<open>Result: the URLs that were tried, in order, and what the function returns.\<close>

definition RegisterRvBlob ::
  "to0_lib \<Rightarrow> json_lib \<Rightarrow> nat \<Rightarrow> rv_info \<Rightarrow> string \<Rightarrow> bool \<Rightarrow> 32 word \<Rightarrow> (string list \<times> (32 word) result) prog" where
  "RegisterRvBlob L J n rvInfo to0Guid insecureTLS defaultTTL =
     (case hexDecode to0Guid of
        None \<Rightarrow> Ret ([], Inl (Wrapf ''error parsing hex GUID of device to register RV blob'' (ErrExt ''hex'')))
      | Some guidBytes \<Rightarrow>
          if length guidBytes \<noteq> 16
          then Ret ([], Inl (Errorf ''error parsing hex GUID of device to register RV blob: must be 16 bytes''))
          else
            tryE (FetchOwnerInfo J) (\<lambda>err. Ret ([], Inl (Wrapf ''error fetching ownerinfo'' err))) (\<lambda>to2Addrs.
              let ownerRvInfo = ParseOwnerRvInfo L rvInfo in
              if ownerRvInfo = [] then Ret ([], Inl (Errorf ''no RV info found that is usable for the owner''))
              else
                case try_directives (\<lambda>k url. RegisterBlob L k url insecureTLS defaultTTL guidBytes to2Addrs) n True ownerRvInfo of
                  (tried, Some refresh, _) \<Rightarrow> Ret (tried, Inr refresh)
                | (tried, None, True) \<Rightarrow> Ret (tried, Inr 0)
                | (tried, None, False) \<Rightarrow> Ret (tried, Inl (Errorf ''unable to register any RVTO2Addr URL''))))"

section \<open>The scheduler\<close>

definition defaultTo0TTL :: "32 word" where
  "defaultTo0TTL = 300"

text \<open>
  Times are in seconds, and the clock is read once, when a round begins. \<open>nextTry\<close> is the backoff map from hexadecimal GUIDs; what the scheduler
  did is logged as events.
\<close>

type_synonym next_try = "string \<Rightarrow> int option"

datatype to0_event =
    Completed string
  | Attempt string int int "string list"
      \<comment> \<open>GUID, time the round began, seconds from then to the next attempt, URLs tried\<close>

fun to0_vouchers ::
  "to0_lib \<Rightarrow> cbor_lib \<Rightarrow> json_lib \<Rightarrow> bool \<Rightarrow> int \<Rightarrow> voucher_row list \<Rightarrow> next_try \<Rightarrow> nat \<Rightarrow>
   (next_try \<times> nat \<times> to0_event list) prog" where
  "to0_vouchers L C J insecure now [] nextTry n = Ret (nextTry, n, [])"
| "to0_vouchers L C J insecure now (v # vs) nextTry n =
     (case un_voucher C (vou_CBOR v) of
        None \<Rightarrow> to0_vouchers L C J insecure now vs nextTry n
      | Some ov \<Rightarrow>
          let guidHex = hexEncode (ov_GUID ov) in
          tryE (IsTO2Completed (ov_GUID ov))
            (\<lambda>err. to0_vouchers L C J insecure now vs nextTry n)
            (\<lambda>completed.
              if completed then
                bindP (to0_vouchers L C J insecure now vs (nextTry(guidHex := None)) n) (\<lambda>(m, k, evs).
                  Ret (m, k, Completed guidHex # evs))
              else if (case nextTry guidHex of None \<Rightarrow> False | Some t \<Rightarrow> now < t)
              then to0_vouchers L C J insecure now vs nextTry n
              else
                bindP (RegisterRvBlob L J n (vh_RvInfo (ov_Header ov)) guidHex insecure defaultTo0TTL) (\<lambda>(tried, r).
                  let wait = (case r of Inl err \<Rightarrow> 10
                              | Inr refresh \<Rightarrow> uint (if refresh = 0 then defaultTo0TTL else refresh)) in
                  bindP (to0_vouchers L C J insecure now vs (nextTry(guidHex \<mapsto> now + wait)) (n + length tried))
                    (\<lambda>(m, k, evs). Ret (m, k, Attempt guidHex now wait tried # evs)))))"

text \<open>
  One round of the loop at a tick, and the rounds at a list of ticks, on a database that is not written in
  between; the state \<open>nextTry\<close> they start from is arbitrary, so that a run with other operations in between is a
  sequence of such rounds, each on the database it finds.
\<close>

definition to0_round ::
  "to0_lib \<Rightarrow> cbor_lib \<Rightarrow> json_lib \<Rightarrow> bool \<Rightarrow> int \<Rightarrow> next_try \<Rightarrow> nat \<Rightarrow> (next_try \<times> nat \<times> to0_event list) prog" where
  "to0_round L C J insecure now nextTry n =
     tryE (ListPendingTO0Vouchers True) (\<lambda>err. Ret (nextTry, n, []))
       (\<lambda>vouchers. to0_vouchers L C J insecure now vouchers nextTry n)"

fun to0_rounds ::
  "to0_lib \<Rightarrow> cbor_lib \<Rightarrow> json_lib \<Rightarrow> bool \<Rightarrow> int list \<Rightarrow> next_try \<Rightarrow> nat \<Rightarrow> (next_try \<times> nat \<times> to0_event list) prog" where
  "to0_rounds L C J insecure [] nextTry n = Ret (nextTry, n, [])"
| "to0_rounds L C J insecure (now # ticks) nextTry n =
     bindP (to0_round L C J insecure now nextTry n) (\<lambda>(m, k, evs).
     bindP (to0_rounds L C J insecure ticks m k) (\<lambda>(m', k', evs'). Ret (m', k', evs @ evs')))"

section \<open>What the registration does\<close>

text \<open>The URLs that count, in order; the nested loops are one search over them.\<close>

definition usable :: "owner_rv list \<Rightarrow> string list" where
  "usable rvs = concat (map URLs (filter (\<lambda>rv. \<not> Bypass rv) rvs))"

lemma usable_simps [simp]:
  "usable [] = []" "usable (rv # rvs) = (if Bypass rv then usable rvs else URLs rv @ usable rvs)"
  by (simp_all add: usable_def)

lemma try_urls_append:
  "try_urls reg n (us @ vs) = (case try_urls reg n us of
      (tried, Some r) \<Rightarrow> (tried, Some r)
    | (tried, None) \<Rightarrow> (let (tried', r) = try_urls reg (n + length us) vs in (tried @ tried', r)))"
  by (induction us arbitrary: n) (auto split: prod.splits option.splits sum.splits)

lemma try_urls_None: "try_urls reg n us = (tried, None) \<Longrightarrow> tried = us \<and> (\<forall>i<length us. \<exists>e. reg (n + i) (us ! i) = Inl e)"
proof (induction us arbitrary: n tried)
  case (Cons u us)
  then obtain e tried' where e: "reg n u = Inl e" "try_urls reg (n + 1) us = (tried', None)" "tried = u # tried'"
    by (auto split: sum.splits prod.splits)
  with Cons.IH[OF e(2)] show ?case by (auto simp: nth_Cons' gr0_conv_Suc less_Suc_eq_0_disj)
qed simp

lemma try_urls_Some:
  "try_urls reg n us = (tried, Some r) \<Longrightarrow> \<exists>k<length us. tried = take (Suc k) us \<and> reg (n + k) (us ! k) = Inr r \<and>
     (\<forall>i<k. \<exists>e. reg (n + i) (us ! i) = Inl e)"
proof (induction us arbitrary: n tried)
  case (Cons u us)
  show ?case
  proof (cases "reg n u")
    case (Inl e)
    with Cons.prems obtain tried' where t: "try_urls reg (n + 1) us = (tried', Some r)" "tried = u # tried'"
      by (auto split: prod.splits)
    from Cons.IH[OF t(1)] obtain k where "k < length us" "tried' = take (Suc k) us" "reg (n + 1 + k) (us ! k) = Inr r"
      "\<forall>i<k. \<exists>e. reg (n + 1 + i) (us ! i) = Inl e" by blast
    with Inl t(2) show ?thesis by (intro exI[of _ "Suc k"]) (auto simp: less_Suc_eq_0_disj)
  next
    case (Inr x)
    with Cons.prems show ?thesis by (intro exI[of _ 0]) auto
  qed
qed simp

lemma try_directives_flat:
  "try_directives reg n b rvs = (let (tried, r) = try_urls reg n (usable rvs) in
     (tried, r, r = None \<and> b \<and> list_all Bypass rvs))"
proof (induction rvs arbitrary: n b)
  case (Cons rv rvs)
  show ?case
  proof (cases "Bypass rv \<or> URLs rv = []")
    case True
    with Cons.IH show ?thesis by (auto simp: Let_def split: prod.splits)
  next
    case False
    obtain tried r where t: "try_urls reg n (URLs rv) = (tried, r)" by fastforce
    show ?thesis
    proof (cases r)
      case None
      with try_urls_None[of reg n "URLs rv"] t have "tried = URLs rv" by simp
      with False Cons.IH t None show ?thesis by (auto simp: try_urls_append Let_def split: prod.splits)
    next
      case (Some x)
      with False t show ?thesis by (simp add: try_urls_append)
    qed
  qed
qed simp

lemma usable_bypass: "list_all Bypass rvs \<Longrightarrow> usable rvs = []"
  by (induction rvs) auto

text \<open>The registration reads the database and leaves it alone.\<close>

lemma wp_RegisterRvBlob: "wp (RegisterRvBlob L J n rvInfo guidHex insec ttl) (\<lambda>_ d'. d' = d) d"
  by (auto simp: RegisterRvBlob_def FetchOwnerInfo_def FetchOwnerInfoJSON_def wp_simps Let_def
      split: option.splits sum.splits prod.splits bool.splits)

lemma result_tryE:
  "result E (tryE m h k) db =
     (case result E m db of Inl e \<Rightarrow> result E (h e) (after E m db) | Inr x \<Rightarrow> result E (k x) (after E m db))"
  by (simp add: tryE_def run_bindP split_beta split: sum.split)

section \<open>What the scheduler does\<close>

fun ev_upd :: "to0_event \<Rightarrow> next_try \<Rightarrow> next_try" where
  "ev_upd (Completed g) m = m(g := None)"
| "ev_upd (Attempt g t w us) m = m(g \<mapsto> t + w)"

fun log_ok :: "next_try \<Rightarrow> to0_event list \<Rightarrow> bool" where
  "log_ok m [] \<longleftrightarrow> True"
| "log_ok m (Completed g # es) \<longleftrightarrow> log_ok (ev_upd (Completed g) m) es"
| "log_ok m (Attempt g t w us # es) \<longleftrightarrow>
     (case m g of None \<Rightarrow> True | Some u \<Rightarrow> u \<le> t) \<and> 0 < w \<and> log_ok (ev_upd (Attempt g t w us) m) es"

text \<open>The map stays as it is written below.\<close>

declare fun_upd_apply [simp del]

text \<open>Until a completion for a GUID no attempt comes before its entry's time.\<close>

lemma log_ok_spaced:
  assumes "log_ok m (bs @ Attempt g t w us # cs)" "m g = Some u" "Completed g \<notin> set bs"
  shows "u \<le> t"
  using assms
proof (induction bs arbitrary: m u)
  case (Cons e bs)
  show ?case
  proof (cases e)
    case (Completed h)
    with Cons show ?thesis by (intro Cons.IH[of "ev_upd e m" u]) (auto simp: fun_upd_other)
  next
    case (Attempt h t' w' us')
    show ?thesis
    proof (cases "h = g")
      case True
      with Attempt Cons.prems have "u \<le> t'" "0 < w'" by auto
      moreover have "t' + w' \<le> t"
        using Attempt True Cons.prems by (intro Cons.IH[of "ev_upd e m"]) (auto simp: fun_upd_same)
      ultimately show ?thesis by simp
    next
      case False
      with Attempt Cons.prems show ?thesis by (intro Cons.IH[of "ev_upd e m" u]) (auto simp: fun_upd_other)
    qed
  qed
qed simp

lemma log_ok_append [simp]: "log_ok m (a @ b) \<longleftrightarrow> log_ok m a \<and> log_ok (fold ev_upd a m) b"
proof (induction a arbitrary: m)
  case (Cons e a)
  then show ?case by (cases e) simp_all
qed simp

definition completed_in :: "sqldb \<Rightarrow> guid \<Rightarrow> bool" where
  "completed_in d g = (case onboarding_at d g of None \<Rightarrow> False | Some ob \<Rightarrow> do_TO2Completed ob)"

text \<open>Attempts are for devices that have not completed TO2, and bear the time of their round.\<close>

definition attempts_open :: "int set \<Rightarrow> sqldb \<Rightarrow> to0_event list \<Rightarrow> bool" where
  "attempts_open ts d evs \<longleftrightarrow>
     (\<forall>h t w us. Attempt h t w us \<in> set evs \<longrightarrow> t \<in> ts \<and> (\<exists>g. h = hexEncode g \<and> \<not> completed_in d g))"

lemma attempts_open_simps [simp]:
  "attempts_open ts d []" "attempts_open ts d (Completed h # evs) \<longleftrightarrow> attempts_open ts d evs"
  "attempts_open ts d (Attempt h t w us # evs) \<longleftrightarrow>
     t \<in> ts \<and> (\<exists>g. h = hexEncode g \<and> \<not> completed_in d g) \<and> attempts_open ts d evs"
  "attempts_open ts d (a @ b) \<longleftrightarrow> attempts_open ts d a \<and> attempts_open ts d b"
  unfolding attempts_open_def by auto blast+

lemma attempts_open_mono: "attempts_open ts d evs \<Longrightarrow> ts \<subseteq> ts' \<Longrightarrow> attempts_open ts' d evs"
  unfolding attempts_open_def by blast

definition round_ok :: "int set \<Rightarrow> sqldb \<Rightarrow> next_try \<Rightarrow> next_try \<times> nat \<times> to0_event list \<Rightarrow> sqldb \<Rightarrow> bool" where
  "round_ok ts d m x d' \<longleftrightarrow> (case x of (m', k, evs) \<Rightarrow>
     d' = d \<and> log_ok m evs \<and> m' = fold ev_upd evs m \<and> attempts_open ts d evs)"

lemma wp_to0_vouchers:
  assumes "wf d"
  shows "wp (to0_vouchers L C J insecure now vs m n) (round_ok {now} d m) d"
proof (induction vs arbitrary: m n)
  case (Cons v vs)
  have cons: "wp (bindP (to0_vouchers L C J insecure now vs (ev_upd e m) k) (\<lambda>(m, k, evs). Ret (m, k, e # evs)))
      (round_ok {now} d m) d" if "log_ok m [e]" "attempts_open {now} d [e]" for e k
    by (rule wp_bindP_rule[OF Cons.IH])
       (use that in \<open>cases e; simp add: round_ok_def split_beta\<close>)
  have attempt: "wp (bindP (RegisterRvBlob L J n rv h insecure defaultTo0TTL) (\<lambda>(tried, r).
          let wait = (case r of Inl err \<Rightarrow> 10 | Inr refresh \<Rightarrow> uint (if refresh = 0 then defaultTo0TTL else refresh)) in
          bindP (to0_vouchers L C J insecure now vs (m(h \<mapsto> now + wait)) (n + length tried))
            (\<lambda>(m, k, evs). Ret (m, k, Attempt h now wait tried # evs)))) (round_ok {now} d m) d"
    if "h = hexEncode g" "\<not> completed_in d g" "\<not> (case m h of None \<Rightarrow> False | Some t \<Rightarrow> now < t)" for rv h g
  proof -
    have pos: "0 < (case r of Inl err \<Rightarrow> 10 | Inr refresh \<Rightarrow> uint (if refresh = 0 then defaultTo0TTL else refresh))"
      for r :: "(32 word) result"
      by (auto simp: defaultTo0TTL_def word_neq_0_conv[symmetric] uint_0_iff order_less_le split: sum.splits)
    have "\<exists>ga. h = hexEncode ga \<and> \<not> completed_in d ga" using that(1,2) by blast
    moreover have "case m h of None \<Rightarrow> True | Some u \<Rightarrow> u \<le> now" using that(3) by (auto split: option.splits)
    ultimately have go: "wp (bindP (to0_vouchers L C J insecure now vs (m(h \<mapsto> now + wait)) k)
        (\<lambda>(m, k, evs). Ret (m, k, Attempt h now wait tried # evs))) (round_ok {now} d m) d" if "0 < wait" for wait tried k
      using cons[of "Attempt h now wait tried" k] that by simp
    show ?thesis unfolding that(1)
      by (rule wp_bindP_rule[OF wp_RegisterRvBlob])
         (auto simp: Let_def that(1)[symmetric] intro!: go pos)
  qed
  show ?case
  proof (cases "un_voucher C (vou_CBOR v)")
    case None
    with Cons.IH show ?thesis by simp
  next
    case (Some ov)
    with Cons.IH attempt cons[of "Completed (hexEncode (ov_GUID ov))"] show ?thesis
      by (auto simp: Let_def wp_tryE wp_IsTO2Completed[OF assms] completed_in_def[symmetric])
  qed
qed (simp add: round_ok_def)

lemma wp_to0_rounds:
  assumes "wf d"
  shows "wp (to0_rounds L C J insecure ticks m n) (round_ok (set ticks) d m) d"
proof (induction ticks arbitrary: m n)
  case (Cons now ticks)
  have "wp (to0_round L C J insecure now m n) (round_ok {now} d m) d"
    using wp_to0_vouchers[OF assms]
    by (auto simp: to0_round_def ListPendingTO0Vouchers_def wp_simps) (simp add: round_ok_def)
  then show ?case unfolding to0_rounds.simps
  proof (rule wp_bindP_rule)
    fix x d1 assume x: "round_ok {now} d m x d1"
    obtain m1 k evs where x1: "x = (m1, k, evs)" by (cases x)
    with x have d: "d1 = d" "log_ok m evs" "m1 = fold ev_upd evs m" "attempts_open {now} d evs" by (simp_all add: round_ok_def)
    show "wp (case x of (m, k, evs) \<Rightarrow> bindP (to0_rounds L C J insecure ticks m k)
        (\<lambda>(m', k', evs'). Ret (m', k', evs @ evs'))) (round_ok (set (now # ticks)) d m) d1"
      unfolding x1 prod.case d(1)
      by (rule wp_bindP_rule[OF Cons.IH])
         (use d in \<open>auto simp: round_ok_def intro: attempts_open_mono\<close>)
  qed
qed (simp add: round_ok_def)

declare fun_upd_apply [simp]

section \<open>A concrete instance\<close>

definition ex_to0_lib :: to0_lib where
  "ex_to0_lib = \<lparr>ParseOwnerRvInfo = (\<lambda>_. [\<lparr>Bypass = True, URLs = [''b'']\<rparr>, \<lparr>Bypass = False, URLs = [''u'', ''v'']\<rparr>]),
     RegisterBlob = (\<lambda>n url insecure ttl g addrs. if url = ''u'' then Inl (ErrExt ''net'') else Inr 60)\<rparr>"

definition ex_to0_db :: sqldb where
  "ex_to0_db = after sql_exec (InsertOwnerInfo ex_owner_json ''o'') ex_vdb"

lemma ex_to0_ok: "good ex_to0_db"
proof -
  have "touches (InsertOwnerInfo ex_owner_json ''o'') {T_owner_info}"
    by (auto simp: InsertOwnerInfo_def db_calls intro!: all_stmts_intros)
  from sql.wp_result[OF wp_frame[OF this]] have "same_outside {T_owner_info} ex_vdb ex_to0_db"
    using goodD(2)[OF ex_v_ok(2)] by (auto simp: ex_to0_db_def)
  moreover have "wf ex_to0_db"
    using sql.wp_result[OF wf_wp[OF goodD(1)[OF ex_v_ok(2)]]] by (simp add: ex_to0_db_def)
  ultimately show ?thesis using frame_schema goodD(2)[OF ex_v_ok(2)] by (simp add: good_def)
qed

lemma ex_to0_runs:
  "result sql_exec (RegisterRvBlob ex_to0_lib ex_owner_json 0 [] (hexEncode (ex_guid CHR ''a'')) False 300) ex_to0_db =
     ([''u'', ''v''], Inr 60)"
  "snd (snd (result sql_exec (to0_rounds ex_to0_lib ex_vcodec ex_owner_json False [0, 10, 70] (\<lambda>_. None) 0) ex_to0_db)) =
     [Attempt (hexEncode (ex_guid CHR ''a'')) 0 60 [''u'', ''v''], Attempt (hexEncode (ex_guid CHR ''a'')) 70 60 [''u'', ''v'']]"
  by code_simp+

section \<open>Properties\<close>

text \<open>
  C13. What the registration does, on every branch. With a GUID that is not one, without
  owner information and without directives it reports an error and calls no server. If all directives are for the device only
  it succeeds without a call. Otherwise the URLs of the other directives are tried in order: either
  up to the first that accepts, whose answer is returned, or all of them, each refused,
  and an error is returned.
\<close>

theorem to0_registration:
  fixes E L J n rvInfo guidHex insecure ttl db
  defines "r \<equiv> result E (RegisterRvBlob L J n rvInfo guidHex insecure ttl) db"
    and "directives \<equiv> ParseOwnerRvInfo L rvInfo"
  defines "urls \<equiv> usable directives"
  defines "reply \<equiv> \<lambda>g addrs k. RegisterBlob L (n + k) (urls ! k) insecure ttl g addrs"
  shows "case hexDecode guidHex of
     None \<Rightarrow> \<exists>e. r = ([], Inl e)
   | Some g \<Rightarrow>
       if length g \<noteq> 16 then \<exists>e. r = ([], Inl e)
       else (case result E (FetchOwnerInfo J) db of
           Inl err \<Rightarrow> r = ([], Inl (Wrapf ''error fetching ownerinfo'' err))
         | Inr addrs \<Rightarrow>
             if directives = [] then \<exists>e. r = ([], Inl e)
             else if list_all Bypass directives then r = ([], Inr 0)
             else (\<exists>k<length urls. \<exists>refresh. reply g addrs k = Inr refresh \<and> (\<forall>i<k. isl (reply g addrs i)) \<and>
                     r = (take (Suc k) urls, Inr refresh)) \<or>
                  (\<forall>k<length urls. isl (reply g addrs k)) \<and> (\<exists>e. r = (urls, Inl e)))"
proof (cases "hexDecode guidHex")
  case None
  then show ?thesis by (simp add: r_def RegisterRvBlob_def)
next
  case (Some g)
  show ?thesis
  proof (cases "length g = 16 \<and> directives \<noteq> []")
    case False
    with Some show ?thesis by (auto simp: r_def RegisterRvBlob_def result_tryE directives_def split: sum.splits)
  next
    case True
    show ?thesis
    proof (cases "result E (FetchOwnerInfo J) db")
      case (Inl err)
      with Some True show ?thesis by (simp add: r_def RegisterRvBlob_def result_tryE)
    next
      case (Inr addrs)
      let ?reg = "\<lambda>k url. RegisterBlob L k url insecure ttl g addrs"
      obtain tried a where t: "try_urls ?reg n urls = (tried, a)" by fastforce
      have "r = (case a of Some refresh \<Rightarrow> (tried, Inr refresh)
          | None \<Rightarrow> if list_all Bypass directives then (tried, Inr 0)
                    else (tried, Inl (Errorf ''unable to register any RVTO2Addr URL'')))"
        using Some True Inr t[unfolded urls_def directives_def]
        by (auto simp: r_def RegisterRvBlob_def result_tryE try_directives_flat directives_def split: option.splits)
      moreover have "list_all Bypass directives \<Longrightarrow> urls = []" using usable_bypass by (simp add: urls_def)
      ultimately show ?thesis
        using Some True Inr t try_urls_None[of ?reg n urls tried] try_urls_Some[of ?reg n urls tried]
        by (cases a) (fastforce simp: reply_def isl_def)+
    qed
  qed
qed

lemma to0_registration_witness:
  "result sql_exec (RegisterRvBlob ex_to0_lib ex_owner_json 0 [] (hexEncode (ex_guid CHR ''a'')) False 300) ex_to0_db =
     ([''u'', ''v''], Inr 60) \<and>
   \<not> isl (RegisterBlob ex_to0_lib 1 ''v'' False 300 (ex_guid CHR ''a'')
       (projr (result sql_exec (FetchOwnerInfo ex_owner_json) ex_to0_db)))"
proof -
  let ?o = "result sql_exec (FetchOwnerInfo ex_owner_json) ex_to0_db"
  have "isl ?o = False" by code_simp
  then obtain addrs where o: "?o = Inr addrs" by (cases ?o) auto
  have u: "usable (ParseOwnerRvInfo ex_to0_lib []) = [''u'', ''v'']" "length (ex_guid CHR ''a'') = 16"
    "ParseOwnerRvInfo ex_to0_lib [] \<noteq> []" "\<not> list_all Bypass (ParseOwnerRvInfo ex_to0_lib [])"
    by (simp_all add: ex_to0_lib_def ex_guid_def)
  from to0_registration[where guidHex = "hexEncode (ex_guid CHR ''a'')" and E = sql_exec and L = ex_to0_lib
      and J = ex_owner_json and n = 0 and rvInfo = "[]" and insecure = False and ttl = 300 and db = ex_to0_db] u o ex_to0_runs(1)
  show ?thesis by (auto simp: less_Suc_eq)
qed



end
