(* ===== verification/VoucherApi.thy ===== *)
theory VoucherApi
  imports Vouchers DeviceCA Frame
begin

text \<open>
  The voucher and device endpoints of the manufacturing and owner servers
  (\<^verbatim>\<open>api/handlers/vouchers.go\<close>, \<^verbatim>\<open>api/handlers/devices.go\<close>): listing and fetching vouchers, their
  verification, the upload of vouchers in PEM and the resale of a device.
\<close>

section \<open>Reading\<close>

text \<open>A voucher as JSON: the GUID in hexadecimal, the CBOR left out when it is empty.\<close>

definition voucher_json :: "(int \<Rightarrow> string) \<Rightarrow> voucher_row \<Rightarrow> json" where
  "voucher_json tm v = JObj ([(''guid'', JStr (hexEncode (vou_GUID v)))] @
     (if vou_CBOR v = [] then [] else [(''cbor'', JStr (b64Encode (vou_CBOR v)))]) @
     [(''device_info'', JStr (vou_DeviceInfo v)), (''created_at'', JStr (tm (vou_CreatedAt v))),
      (''updated_at'', JStr (tm (vou_UpdatedAt v)))])"

definition device_json :: "(int \<Rightarrow> string) \<Rightarrow> device \<Rightarrow> json" where
  "device_json tm v = JObj ([(''guid'', JStr (hexEncode (dev_GUID v))), (''old_guid'', JStr (hexEncode (dev_OldGUID v))),
     (''device_info'', JStr (dev_DeviceInfo v)), (''created_at'', JStr (tm (dev_CreatedAt v))),
     (''updated_at'', JStr (tm (dev_UpdatedAt v))), (''to2_completed'', JBool (dev_TO2Completed v))] @
     (case dev_TO2CompletedAt v of None \<Rightarrow> [] | Some t \<Rightarrow> [(''to2_completed_at'', JStr (tm t))]))"

text \<open>
  The GUID of a query or path parameter, and the message when it is not valid. Where a handler
  answers with the text of an error (\<^verbatim>\<open>err.Error()\<close>) the body says \<open>database error\<close>.
\<close>

definition with_guid :: "string \<Rightarrow> string \<Rightarrow> (guid \<Rightarrow> response prog) \<Rightarrow> response prog" where
  "with_guid invalid guidHex k =
     (if \<not> IsValidGUID guidHex then http_error invalid 400
      else case hexDecode guidHex of None \<Rightarrow> http_error ''Invalid GUID format'' 400 | Some g \<Rightarrow> k g)"

definition GetVoucherHandler :: "(int \<Rightarrow> string) \<Rightarrow> request \<Rightarrow> response prog" where
  "GetVoucherHandler tm r =
     (let guidHex = req_query r ''guid''; deviceInfo = req_query r ''device_info'';
          rest = (if deviceInfo \<noteq> [] then [(''device_info'', FText deviceInfo)] else []);
          query = (\<lambda>filters.
            tryE (QueryVouchers filters False) (\<lambda>err. http_error ''database error'' 500)
              (\<lambda>vouchers. respond 200 (Json (JArr (map (voucher_json tm) vouchers))))) in
      if guidHex \<noteq> [] then with_guid (''Invalid GUID: '' @ guidHex) guidHex (\<lambda>g. query ((''guid'', FBytes g) # rest))
      else query rest)"

definition GetVoucherByGUIDHandler :: "pki \<Rightarrow> request \<Rightarrow> response prog" where
  "GetVoucherByGUIDHandler L r =
     with_guid ''Invalid GUID'' (req_path r ''guid'') (\<lambda>g.
       tryE (FetchVoucher [(''guid'', FBytes g)])
         (\<lambda>err. if errors_is err ErrRecordNotFound then http_error ''Voucher not found'' 404
                else http_error ''database error'' 500)
         (\<lambda>v. respond 200 (Pem (pem_Encode L ''OWNERSHIP VOUCHER'' (vou_CBOR v)))))"

definition OwnerDevicesHandler :: "(int \<Rightarrow> string) \<Rightarrow> request \<Rightarrow> response prog" where
  "OwnerDevicesHandler tm r =
     (if req_method r \<noteq> ''GET'' then http_error ''Method not allowed'' 405
      else
        let guidHex = req_query r ''old_guid'';
            devices = (\<lambda>filters. tryE (ListDevices filters) (\<lambda>err. http_error ''Internal server error'' 500)
              (\<lambda>ds. respond 200 (Json (JArr (map (device_json tm) ds))))) in
        if guidHex \<noteq> [] then with_guid ''Invalid GUID'' guidHex (\<lambda>g. devices [(''old_guid'', FBytes g)])
        else devices [])"

section \<open>Verification\<close>

text \<open>The checks of the protocol library on a voucher, and its owner's public key.\<close>

record 'k voucher_lib =
  OwnerPublicKey :: "voucher \<Rightarrow> 'k result"
  key_Equal :: "'k \<Rightarrow> 'k \<Rightarrow> bool"
  VerifyEntries :: "voucher \<Rightarrow> go_error option"
  VerifyCertChainHash :: "voucher \<Rightarrow> go_error option"
  VerifyDeviceCertChain :: "voucher \<Rightarrow> go_error option"
  VerifyManufacturerCertChain :: "voucher \<Rightarrow> go_error option"

definition VerifyVoucherOwnership :: "'k voucher_lib \<Rightarrow> voucher \<Rightarrow> 'k list \<Rightarrow> unit result" where
  "VerifyVoucherOwnership V ov ownerPKeys =
     (if ownerPKeys = [] then Inl (Errorf ''ownerPKeys must contain at least one owner public key'')
      else rbind (rmap_err (Wrapf ''unable to parse owner public key from voucher'') (OwnerPublicKey V ov))
        (\<lambda>expectedPubKey.
          if \<not> list_ex (key_Equal V expectedPubKey) ownerPKeys
          then Inl (Errorf ''voucher owner key does not match any of the server's configured keys'')
          else Inr ()))"

definition check :: "go_error \<Rightarrow> bool \<Rightarrow> unit result" where
  "check e bad = (if bad then Inl e else Inr ())"

definition check_err :: "string \<Rightarrow> go_error option \<Rightarrow> unit result" where
  "check_err s e = (case e of None \<Rightarrow> Inr () | Some err \<Rightarrow> Inl (Wrapf s err))"

definition FDOProtocolVersion :: "16 word" where
  "FDOProtocolVersion = 101"

definition VerifyOwnershipVoucher :: "'k voucher_lib \<Rightarrow> voucher \<Rightarrow> unit result" where
  "VerifyOwnershipVoucher V ov =
     (let h = ov_Header ov in
      rbind (check (Errorf ''unsupported protocol version'') (ov_Version ov \<noteq> FDOProtocolVersion)) (\<lambda>_.
      rbind (check (Errorf ''protocol version mismatch'') (ov_Version ov \<noteq> vh_Version h)) (\<lambda>_.
      rbind (check (Errorf ''invalid voucher: GUID is zero'') (vh_GUID h = replicate 16 (CHR 0x00))) (\<lambda>_.
      rbind (check (Errorf ''invalid voucher: DeviceInfo is empty'') (vh_DeviceInfo h = [])) (\<lambda>_.
      rbind (check (Errorf ''invalid voucher: ManufacturerKey is missing or invalid'') (vh_ManufacturerKeyType h = 0)) (\<lambda>_.
      rbind (check (Errorf ''invalid voucher: RvInfo is empty'') (vh_RvInfo h = [])) (\<lambda>_.
      rbind (check_err ''signature chain (manufacturer -> owner transfers) verification failed'' (VerifyEntries V ov)) (\<lambda>_.
      rbind (check_err ''device certificate chain hash verification failed'' (VerifyCertChainHash V ov)) (\<lambda>_.
      rbind (check_err ''device certificate chain verification failed'' (VerifyDeviceCertChain V ov)) (\<lambda>_.
        check_err ''manufacturer certificate chain verification failed'' (VerifyManufacturerCertChain V ov)))))))))))"

definition VerifyVoucher :: "'k voucher_lib \<Rightarrow> voucher \<Rightarrow> 'k list \<Rightarrow> unit result" where
  "VerifyVoucher V ov ownerPKeys =
     rbind (VerifyVoucherOwnership V ov ownerPKeys) (\<lambda>_. VerifyOwnershipVoucher V ov)"

section \<open>Upload\<close>

text \<open>
  \<^verbatim>\<open>len(bytes.TrimSpace(rest)) == 0\<close>: only white space, in ASCII or in the UTF-8 encodings
  of the other space characters of Unicode.
\<close>

fun blank :: "bytes \<Rightarrow> bool" where
  "blank [] \<longleftrightarrow> True"
| "blank (a # cs) \<longleftrightarrow>
     (if a \<in> {CHR 0x09, CHR 0x0A, CHR 0x0B, CHR 0x0C, CHR 0x0D, CHR '' ''} then blank cs
      else if a = CHR 0xC2 then (case cs of b # cs' \<Rightarrow> b \<in> {CHR 0x85, CHR 0xA0} \<and> blank cs' | _ \<Rightarrow> False)
      else (case cs of b # c # cs' \<Rightarrow>
          ((a, b, c) \<in> {(CHR 0xE1, CHR 0x9A, CHR 0x80), (CHR 0xE2, CHR 0x80, CHR 0xA8), (CHR 0xE2, CHR 0x80, CHR 0xA9),
             (CHR 0xE2, CHR 0x80, CHR 0xAF), (CHR 0xE2, CHR 0x81, CHR 0x9F), (CHR 0xE3, CHR 0x80, CHR 0x80)} \<or>
           a = CHR 0xE2 \<and> b = CHR 0x80 \<and> of_char c \<in> {0x80 .. (0x8A :: nat)}) \<and> blank cs'
        | _ \<Rightarrow> False))"

text \<open>
  One voucher of the upload; \<open>Inl\<close> is the response that ends it. One reading of the clock stands for
  those of all rows of the upload.
\<close>

definition upload_block ::
  "'k voucher_lib \<Rightarrow> cbor_lib \<Rightarrow> 'k list \<Rightarrow> int \<Rightarrow> bytes \<Rightarrow> (response + unit) prog" where
  "upload_block V C ownerPKeys now content =
     (let stop = (\<lambda>msg code. Ret (Inl \<lparr>status = code, resp_body = Text msg\<rparr>)) in
      case un_voucher C content of
        None \<Rightarrow> stop ''Unable to decode cbor'' 400
      | Some ov \<Rightarrow>
          (case VerifyVoucher V ov ownerPKeys of
             Inl err \<Rightarrow> stop ''Invalid ownership voucher'' 400
           | Inr _ \<Rightarrow>
               tryE (FetchVoucher [(''guid'', FBytes (ov_GUID ov))])
                 (\<lambda>err. tryE (InsertVoucher \<lparr>vou_GUID = ov_GUID ov, vou_CBOR = content,
                       vou_DeviceInfo = vh_DeviceInfo (ov_Header ov), vou_CreatedAt = now, vou_UpdatedAt = now\<rparr>)
                     (\<lambda>err. stop ''Internal server error'' 500) (\<lambda>_. Ret (Inr ())))
                 (\<lambda>dbOv. Ret (Inr ()))))"

text \<open>The loop over the PEM blocks; \<open>None\<close> is a loop that ran out of fuel.\<close>

fun upload_loop ::
  "'k voucher_lib \<Rightarrow> cbor_lib \<Rightarrow> pki \<Rightarrow> 'k list \<Rightarrow> int \<Rightarrow> nat \<Rightarrow> bytes \<Rightarrow> response option prog" where
  "upload_loop V C L ks now 0 rest = Ret None"
| "upload_loop V C L ks now (Suc fuel) rest =
     (case pem_Decode L rest of
        None \<Rightarrow> Ret (Some (if \<not> blank rest then \<lparr>status = 400, resp_body = Text ''Unable to decode PEM content''\<rparr>
                           else \<lparr>status = 200, resp_body = NoBody\<rparr>))
      | Some (ty, content, rest') \<Rightarrow>
          if ty \<noteq> ''OWNERSHIP VOUCHER'' then upload_loop V C L ks now fuel rest'
          else bindP (upload_block V C ks now content) (\<lambda>x. case x of
                 Inl resp \<Rightarrow> Ret (Some resp) | Inr _ \<Rightarrow> upload_loop V C L ks now fuel rest'))"

definition InsertVoucherHandler ::
  "'k voucher_lib \<Rightarrow> cbor_lib \<Rightarrow> pki \<Rightarrow> 'k list \<Rightarrow> int \<Rightarrow> request \<Rightarrow> response option prog" where
  "InsertVoucherHandler V C L ownerPKeys now r =
     (case req_body r of
        None \<Rightarrow> Ret (Some \<lparr>status = 500, resp_body = Text ''Failure to read the request body''\<rparr>)
      | Some body \<Rightarrow> upload_loop V C L ownerPKeys now (Suc (length body)) body)"

section \<open>Resale\<close>

text \<open>
  \<open>resell\<close> is the library's \<^verbatim>\<open>Resell\<close> on the voucher state of the transaction, a database program;
  \<open>parse\<close> is \<^verbatim>\<open>x509.ParsePKIXPublicKey\<close>.
\<close>

definition ResellHandler ::
  "cbor_lib \<Rightarrow> pki \<Rightarrow> (bytes \<Rightarrow> 'k option) \<Rightarrow> (guid \<Rightarrow> 'k \<Rightarrow> voucher act) \<Rightarrow> request \<Rightarrow> response prog" where
  "ResellHandler C L parse resell r =
     with_guid ''GUID is not a valid GUID'' (req_path r ''guid'') (\<lambda>guidBytes.
       case req_body r of
         None \<Rightarrow> http_error ''Failure to read the request body'' 500
       | Some body \<Rightarrow>
           (case pem_Decode L body of
              None \<Rightarrow> http_error ''Invalid PEM content'' 500
            | Some (ty, content, rest) \<Rightarrow>
                (case parse content of
                   None \<Rightarrow> http_error ''Error parsing x.509 public key'' 500
                 | Some nextOwner \<Rightarrow>
                     tryE (transaction (resell (copy_array 16 guidBytes) nextOwner))
                       (\<lambda>err. http_error ''Error reselling voucher'' 500)
                       (\<lambda>extended.
                         case marshal C (GVoucher extended) of
                           None \<Rightarrow> http_error ''Error marshaling voucher'' 500
                         | Some ovBytes \<Rightarrow> respond 200 (Pem (pem_Encode L ''OWNERSHIP VOUCHER'' ovBytes))))))"

section \<open>What the upload does\<close>

definition voucher_row_at :: "sqldb \<Rightarrow> guid \<Rightarrow> row option" where
  "voucher_row_at d g = lookup T_vouchers (VBytes g) d"

lemma wp_FetchVoucher:
  assumes "good d"
  shows "wp (FetchVoucher [(''guid'', FBytes g)]) Q d \<longleftrightarrow> (\<forall>m. Q (Inl (ErrDriver m)) d) \<and>
     Q (case voucher_row_at d g of None \<Rightarrow> Inl ErrRecordNotFound | Some r \<Rightarrow> Inr (voucher_fromRow r)) d"
  using goodD(1)[OF assms]
  by (auto simp: FetchVoucher_def QueryVouchers_def wp_simps rows_key voucher_row_at_def page_def split: option.splits)

text \<open>A voucher the server may store: its content decodes and passes all checks.\<close>

definition verified :: "'k voucher_lib \<Rightarrow> cbor_lib \<Rightarrow> 'k list \<Rightarrow> bytes \<Rightarrow> voucher \<Rightarrow> bool" where
  "verified V C ks content ov \<longleftrightarrow> un_voucher C content = Some ov \<and> VerifyVoucher V ov ks = Inr ()"

definition uploaded_row :: "int \<Rightarrow> bytes \<Rightarrow> voucher \<Rightarrow> row" where
  "uploaded_row now content ov = voucher_toRow \<lparr>vou_GUID = ov_GUID ov, vou_CBOR = content,
     vou_DeviceInfo = vh_DeviceInfo (ov_Header ov), vou_CreatedAt = now, vou_UpdatedAt = now\<rparr>"

text \<open>
  The rows of a GUID once the blocks \<open>cs\<close> were taken in: a stored voucher stays, and otherwise the
  first block with that GUID is stored, and its device tracked unless it is already.
\<close>

definition has_GUID :: "cbor_lib \<Rightarrow> guid \<Rightarrow> bytes \<Rightarrow> bool" where
  "has_GUID C g content \<longleftrightarrow> map_option ov_GUID (un_voucher C content) = Some g"

definition uploaded_at :: "cbor_lib \<Rightarrow> int \<Rightarrow> bytes list \<Rightarrow> sqldb \<Rightarrow> guid \<Rightarrow> row option" where
  "uploaded_at C now cs d g = (case voucher_row_at d g of
     Some r \<Rightarrow> Some r
   | None \<Rightarrow> map_option (\<lambda>c. uploaded_row now c (the (un_voucher C c))) (List.find (has_GUID C g) cs))"

definition tracked_at :: "cbor_lib \<Rightarrow> bytes list \<Rightarrow> sqldb \<Rightarrow> guid \<Rightarrow> device_onboarding option" where
  "tracked_at C cs d g = (case onboarding_at d g of
     Some ob \<Rightarrow> Some ob
   | None \<Rightarrow> if voucher_row_at d g = None \<and> List.find (has_GUID C g) cs \<noteq> None then Some (new_onboarding g) else None)"

definition taken :: "cbor_lib \<Rightarrow> int \<Rightarrow> bytes list \<Rightarrow> sqldb \<Rightarrow> sqldb \<Rightarrow> bool" where
  "taken C now cs d d' \<longleftrightarrow>
     (\<forall>g. voucher_row_at d' g = uploaded_at C now cs d g \<and> onboarding_at d' g = tracked_at C cs d g)"

lemma taken_Nil [simp]: "taken C now [] d d"
  by (simp add: taken_def uploaded_at_def tracked_at_def split: option.splits)

lemma taken_Cons:
  assumes "taken C now [c] d d1" "taken C now cs d1 d'"
  shows "taken C now (c # cs) d d'"
proof -
  have "voucher_row_at d' g = uploaded_at C now (c # cs) d g \<and> onboarding_at d' g = tracked_at C (c # cs) d g" for g
    using assms[unfolded taken_def, rule_format, of g]
    by (cases "voucher_row_at d g"; cases "onboarding_at d g"; cases "has_GUID C g c")
       (simp_all add: uploaded_at_def tracked_at_def)
  then show ?thesis by (simp add: taken_def)
qed

text \<open>
  From one database to a later one: stored vouchers stay as they are, a new one was verified
  and its device is tracked.
\<close>

definition upload_ok :: "'k voucher_lib \<Rightarrow> cbor_lib \<Rightarrow> 'k list \<Rightarrow> int \<Rightarrow> sqldb \<Rightarrow> sqldb \<Rightarrow> bool" where
  "upload_ok V C ks now d d' \<longleftrightarrow> good d' \<and>
     (\<forall>g. (voucher_row_at d' g = voucher_row_at d g \<and> onboarding_at d' g = onboarding_at d g) \<or>
        (voucher_row_at d g = None \<and> onboarding_at d' g \<noteq> None \<and> (onboarding_at d g = None \<longrightarrow> pending g d') \<and>
         (\<exists>content ov. verified V C ks content ov \<and> ov_GUID ov = g \<and>
           voucher_row_at d' g = Some (uploaded_row now content ov)))) \<and>
     (\<forall>g. onboarding_at d g \<noteq> None \<longrightarrow> onboarding_at d' g = onboarding_at d g) \<and>
     (\<forall>g. pending g d \<longrightarrow> pending g d')"

lemma upload_ok_refl: "good d \<Longrightarrow> upload_ok V C ks now d d"
  by (simp add: upload_ok_def)

lemma upload_okD:
  assumes "upload_ok V C ks now d d'"
  shows "good d'" "onboarding_at d g \<noteq> None \<Longrightarrow> onboarding_at d' g = onboarding_at d g" "pending g d \<Longrightarrow> pending g d'"
    "voucher_row_at d g \<noteq> None \<Longrightarrow> voucher_row_at d' g = voucher_row_at d g"
    "voucher_row_at d g = None \<Longrightarrow> voucher_row_at d' g \<noteq> None \<Longrightarrow> onboarding_at d g = None \<Longrightarrow> pending g d'"
    "voucher_row_at d g = None \<Longrightarrow> voucher_row_at d' g \<noteq> None \<Longrightarrow> onboarding_at d' g \<noteq> None \<and>
       (\<exists>content ov. verified V C ks content ov \<and> ov_GUID ov = g \<and> voucher_row_at d' g = Some (uploaded_row now content ov))"
    "voucher_row_at d' g = voucher_row_at d g \<Longrightarrow> onboarding_at d' g = onboarding_at d g"
  using assms unfolding upload_ok_def by (metis option.distinct(1))+

lemma upload_ok_trans:
  assumes "upload_ok V C ks now d d1" "upload_ok V C ks now d1 d2"
  shows "upload_ok V C ks now d d2"
proof -
  note a = upload_okD[OF assms(1)] and b = upload_okD[OF assms(2)]
  have "(voucher_row_at d2 g = voucher_row_at d g \<and> onboarding_at d2 g = onboarding_at d g) \<or>
        (voucher_row_at d g = None \<and> onboarding_at d2 g \<noteq> None \<and> (onboarding_at d g = None \<longrightarrow> pending g d2) \<and>
         (\<exists>content ov. verified V C ks content ov \<and> ov_GUID ov = g \<and>
           voucher_row_at d2 g = Some (uploaded_row now content ov)))" for g
  proof (cases "voucher_row_at d1 g = voucher_row_at d g")
    case True
    with a(7)[of g] assms(2) show ?thesis unfolding upload_ok_def by metis
  next
    case False
    then have n: "voucher_row_at d g = None" "voucher_row_at d1 g \<noteq> None" using a(4)[of g] by (cases "voucher_row_at d g"; auto)+
    with a(5,6)[of g] b(2,3,4)[of g] show ?thesis by metis
  qed
  with a(2,3) b(1,2,3) show ?thesis unfolding upload_ok_def by metis
qed

lemma upload_ok_has: "upload_ok V C ks now d d' \<Longrightarrow> has_voucher g d \<Longrightarrow> has_voucher g d'"
  unfolding has_voucher_def using upload_okD(4) unfolding voucher_row_at_def by metis

lemma upd_nothing [simp]: "upd t cs [] d = d"
  by (simp add: upd_def set_cols_def set_tab_def cong: if_cong)

lemma lookup_put_onboarding:
  "lookup T_device_onboarding (VBytes h) (put_onboarding g [] d) =
     (if h = g \<and> lookup T_device_onboarding (VBytes g) d = None then Some (device_onboarding_toRow (new_onboarding g))
      else lookup T_device_onboarding (VBytes h) d)"
  by (auto simp: put_onboarding_def lookup_ins_guid new_onboarding_def set_cols_def)

lemma upload_ok_insert:
  fixes now :: int
  assumes "good d" "verified V C ks content ov" "\<not> has_voucher (ov_GUID ov) d"
  defines "d1 \<equiv> put_onboarding (ov_GUID ov) [] (ins T_vouchers (uploaded_row now content ov) d)"
  shows "upload_ok V C ks now d d1" "taken C now [content] d d1"
proof -
  let ?i = "ins T_vouchers (uploaded_row now content ov) d"
  have none: "lookup T_vouchers (VBytes (ov_GUID ov)) d = None" using assms(3) by (simp add: has_voucher_def)
  have k: "uploaded_row now content ov ''guid'' = VBytes (ov_GUID ov)"
    by (simp add: uploaded_row_def)
  have i: "good ?i" using assms(1) none by (intro good_ins[where c = "''guid''"]) (simp_all add: k)
  have v: "voucher_row_at d1 g = (if g = ov_GUID ov then Some (uploaded_row now content ov) else voucher_row_at d g)" for g
    using none by (auto simp: d1_def voucher_row_at_def uploaded_row_def lookup_ins_guid)
  have ob: "onboarding_at d1 g = (if g = ov_GUID ov then Some (case onboarding_at d g of None \<Rightarrow> new_onboarding g | Some x \<Rightarrow> x)
      else onboarding_at d g)" for g
    using onboarding_at_put[OF i, of "[]" "ov_GUID ov" g]
    by (auto simp: d1_def onboarding_at_def lookup_def split: option.splits)
  have row: "lookup T_device_onboarding (VBytes g) d1 = (if g = ov_GUID ov \<and> lookup T_device_onboarding (VBytes g) d = None
      then Some (device_onboarding_toRow (new_onboarding g)) else lookup T_device_onboarding (VBytes g) d)" for g
    by (simp only: d1_def lookup_put_onboarding) (auto simp: lookup_def)
  have new: "pending (ov_GUID ov) d1" if "onboarding_at d (ov_GUID ov) = None"
    using that v[of "ov_GUID ov"]
    by (simp add: pending_def row has_voucher_def voucher_row_at_def onboarding_at_def device_onboarding_toRow_def
        new_onboarding_def row_of_def split: option.splits)
  have keep: "pending g d1" if "pending g d" for g
    using that v[of g] by (auto simp: pending_def row has_voucher_def voucher_row_at_def)
  show "upload_ok V C ks now d d1"
    unfolding upload_ok_def v ob
    using assms(2) i none new keep by (auto simp: d1_def good_put_onboarding voucher_row_at_def)
  show "taken C now [content] d d1"
    unfolding taken_def v ob using none assms(2)
    by (auto simp: uploaded_at_def tracked_at_def has_GUID_def verified_def voucher_row_at_def split: option.splits)
qed


lemma good_uploaded:
  assumes "good d" "\<not> has_voucher (ov_GUID ov) d"
  shows "good (put_onboarding (ov_GUID ov) [] (ins T_vouchers (uploaded_row now content ov) d))"
  using assms by (intro good_put_onboarding good_ins[where c = "''guid''"]) (simp_all add: has_voucher_def uploaded_row_def)

lemma wp_upload_block:
  assumes "good d"
  shows "wp (upload_block V C ks now content) (\<lambda>x d'. upload_ok V C ks now d d' \<and>
     (case x of Inl resp \<Rightarrow> status resp \<noteq> 200 \<and> taken C now [] d d'
      | Inr _ \<Rightarrow> (\<exists>ov. verified V C ks content ov) \<and> taken C now [content] d d')) d"
proof (cases "\<exists>ov. verified V C ks content ov")
  case False
  then show ?thesis
    using assms
    by (auto simp: upload_block_def verified_def upload_ok_refl Let_def split: option.splits sum.splits)
next
  case True
  then obtain ov where v: "verified V C ks content ov" by blast
  let ?row = "\<lparr>vou_GUID = ov_GUID ov, vou_CBOR = content, vou_DeviceInfo = vh_DeviceInfo (ov_Header ov),
     vou_CreatedAt = now, vou_UpdatedAt = now\<rparr>"
  let ?Q = "\<lambda>x d'. upload_ok V C ks now d d' \<and>
     (case x of Inl resp \<Rightarrow> status resp \<noteq> 200 \<and> taken C now [] d d'
      | Inr _ \<Rightarrow> (\<exists>ov. verified V C ks content ov) \<and> taken C now [content] d d')"
  have stored: "taken C now [content] d d" if "voucher_row_at d (ov_GUID ov) \<noteq> None"
    using that v by (auto simp: taken_def uploaded_at_def tracked_at_def has_GUID_def verified_def split: option.splits)
  have "wp (InsertVoucher ?row) (\<lambda>r d'. upload_ok V C ks now d d' \<and>
      (if r = Inr () then taken C now [content] d d' else d' = d)) d"
    using assms v by (auto simp: wp_InsertVoucher upload_ok_refl uploaded_row_def[symmetric]
      intro: upload_ok_insert[OF assms v])
  then have "wp (tryE (InsertVoucher ?row) (\<lambda>_. Ret (Inl \<lparr>status = 500, resp_body = Text ''Internal server error''\<rparr>))
      (\<lambda>_. Ret (Inr ()))) ?Q d"
    unfolding wp_tryE by (rule wp_mono) (use v in \<open>auto split: sum.splits if_splits\<close>)
  with v assms stored show ?thesis
    by (auto simp: upload_block_def verified_def wp_tryE wp_FetchVoucher upload_ok_refl split: option.splits)
qed

text \<open>The vouchers of an upload, and what follows the last block.\<close>

fun pem_vouchers :: "pki \<Rightarrow> nat \<Rightarrow> bytes \<Rightarrow> bytes list \<times> bytes" where
  "pem_vouchers L 0 b = ([], b)"
| "pem_vouchers L (Suc n) b = (case pem_Decode L b of None \<Rightarrow> ([], b)
     | Some (ty, c, rest) \<Rightarrow>
         (let (cs, r) = pem_vouchers L n rest in (if ty = ''OWNERSHIP VOUCHER'' then c # cs else cs, r)))"

text \<open>
  The effect of an upload: a prefix of the blocks was taken in, each of them verified, and with an
  answer of 200 all of them.
\<close>

definition took_in :: "'k voucher_lib \<Rightarrow> cbor_lib \<Rightarrow> 'k list \<Rightarrow> int \<Rightarrow> bytes list \<times> bytes \<Rightarrow> sqldb \<Rightarrow>
    response option \<Rightarrow> sqldb \<Rightarrow> bool" where
  "took_in V C ks now blocks d r d' \<longleftrightarrow> (\<exists>n \<le> length (fst blocks).
     taken C now (take n (fst blocks)) d d' \<and>
     (\<forall>c\<in>set (take n (fst blocks)). \<exists>ov. verified V C ks c ov) \<and>
     (\<forall>resp. r = Some resp \<and> status resp = 200 \<longrightarrow> n = length (fst blocks) \<and> blank (snd blocks)))"

lemma took_in_200:
  assumes "took_in V C ks now blocks d (Some resp) d'" "status resp = 200"
  shows "voucher_row_at d' g = uploaded_at C now (fst blocks) d g"
    "c \<in> set (fst blocks) \<Longrightarrow> un_voucher C c = Some ov \<Longrightarrow> voucher_row_at d' (ov_GUID ov) \<noteq> None"
proof -
  from assms show at: "voucher_row_at d' g = uploaded_at C now (fst blocks) d g" for g by (auto simp: took_in_def taken_def)
  show "voucher_row_at d' (ov_GUID ov) \<noteq> None" if "c \<in> set (fst blocks)" "un_voucher C c = Some ov"
  proof -
    from that have "find (has_GUID C (ov_GUID ov)) (fst blocks) \<noteq> None" 
      unfolding find_None_iff by (auto simp: has_GUID_def)
    then show ?thesis by (auto simp: at uploaded_at_def split: option.splits)
  qed
qed

lemma took_in_nothing:
  "taken C now [] d d' \<Longrightarrow>
   (\<forall>resp. r = Some resp \<and> status resp = 200 \<longrightarrow> fst blocks = [] \<and> blank (snd blocks)) \<Longrightarrow>
   took_in V C ks now blocks d r d'"
  unfolding took_in_def by (rule exI[of _ 0]) auto

lemma took_in_Cons:
  assumes "taken C now [c] d d1" "verified V C ks c ov"
    and "took_in V C ks now (cs, rest) d1 r d'"
  shows "took_in V C ks now (c # cs, rest) d r d'"
proof -
  from assms(3) obtain n where "n \<le> length cs" "taken C now (take n cs) d1 d'"
    "\<forall>c\<in>set (take n cs). \<exists>ov. verified V C ks c ov"
    "\<forall>resp. r = Some resp \<and> status resp = 200 \<longrightarrow> n = length cs \<and> blank rest" by (auto simp: took_in_def)
  with assms(2) taken_Cons[OF assms(1)] show ?thesis
    unfolding took_in_def by (intro exI[of _ "Suc n"]) auto
qed

lemma wp_upload_loop:
  assumes "good d"
  shows "wp (upload_loop V C L ks now n b) (\<lambda>r d'. upload_ok V C ks now d d' \<and>
     took_in V C ks now (pem_vouchers L n b) d r d') d"
  using assms
proof (induction n arbitrary: b d)
  case 0
  then show ?case by (simp add: upload_ok_refl took_in_nothing)
next
  case (Suc n)
  show ?case
  proof (cases "pem_Decode L b")
    case None
    with Suc.prems show ?thesis by (simp add: upload_ok_refl took_in_nothing)
  next
    case (Some x)
    obtain ty c rest where x: "x = (ty, c, rest)" by (cases x)
    obtain cs r' where p: "pem_vouchers L n rest = (cs, r')" by fastforce
    show ?thesis
    proof (cases "ty = ''OWNERSHIP VOUCHER''")
      case False
      with Some x Suc show ?thesis by (simp add: case_prod_beta Let_def)
    next
      case True
      have step: "wp (upload_loop V C L ks now n rest) (\<lambda>r d'. upload_ok V C ks now d d' \<and>
          took_in V C ks now (c # cs, r') d r d') d1"
        if "upload_ok V C ks now d d1" "verified V C ks c ov" "taken C now [c] d d1" for ov d1
      proof (rule wp_mono[OF Suc.IH])
        show "good d1" using that(1) by (simp add: upload_ok_def)
      qed (use that(1,2) upload_ok_trans took_in_Cons[OF that(3)] p in auto)
      have stop: "took_in V C ks now (c # cs, r') d (Some resp) d1"
        if "status resp \<noteq> 200" "taken C now [] d d1" for resp d1
        using that by (intro took_in_nothing) auto
      have "wp (bindP (upload_block V C ks now c) (\<lambda>x. case x of
                 Inl resp \<Rightarrow> Ret (Some resp) | Inr _ \<Rightarrow> upload_loop V C L ks now n rest))
          (\<lambda>r d'. upload_ok V C ks now d d' \<and> took_in V C ks now (c # cs, r') d r d') d"
        by (rule wp_bindP_rule[OF wp_upload_block[OF Suc.prems]])
           (use step stop in \<open>auto split: sum.splits\<close>)
      with True Some x p show ?thesis by simp
    qed
  qed
qed

lemma upload_loop_returns:
  assumes "pki_ok L"
  shows "length b < n \<Longrightarrow> wp (upload_loop V C L ks now n b) (\<lambda>r d'. r \<noteq> None) d"
proof (induction n arbitrary: b d)
  case (Suc n)
  have "length rest < n" if "pem_Decode L b = Some (ty, content, rest)" for ty content rest
    using assms that Suc.prems by (fastforce simp: pki_ok_def)
  with Suc.IH show ?case
    by (auto simp: split: option.splits sum.splits intro!: wp_bindP_rule[OF wp_True])
qed simp

section \<open>A concrete instance\<close>

definition ex_vlib :: "nat voucher_lib" where
  "ex_vlib = \<lparr>OwnerPublicKey = (\<lambda>ov. Inr (7::nat)), key_Equal = (=), VerifyEntries = (\<lambda>_. None),
     VerifyCertChainHash = (\<lambda>_. None), VerifyDeviceCertChain = (\<lambda>_. None), VerifyManufacturerCertChain = (\<lambda>_. None)\<rparr>"

definition ex_up_ov :: "char \<Rightarrow> voucher" where
  "ex_up_ov c = ex_ov c\<lparr>ov_Header := ov_Header (ex_ov c)\<lparr>vh_RvInfo := [[]]\<rparr>\<rparr>"

definition ex_up_codec :: cbor_lib where
  "ex_up_codec = table_codec [(GVoucher (ex_up_ov CHR ''a''), ''A''), (GVoucher (ex_ov CHR ''b''), ''B'')]"

lemma ex_up_decode: "un_voucher ex_up_codec ''A'' = Some (ex_up_ov CHR ''a'')"
  by code_simp

text \<open>A voucher, a block of another type, and an upload whose second voucher has no rendezvous information.\<close>

definition ex_upload :: "string \<Rightarrow> request" where
  "ex_upload s = \<lparr>req_method = ''POST'', req_path = (\<lambda>_. []), req_query = (\<lambda>_. []), req_content_type = [],
     req_body = Some (concat (map (\<lambda>c. pem_Encode ex_pki ''OWNERSHIP VOUCHER'' [c]) s) @ pem_Encode ex_pki ''KEY'' ''k'')\<rparr>"

lemma ex_upload_runs:
  "result sql_exec (InsertVoucherHandler ex_vlib ex_up_codec ex_pki [7] 5 (ex_upload ''A'')) (empty_db []) =
     Some \<lparr>status = 200, resp_body = NoBody\<rparr>"
  "result sql_exec (InsertVoucherHandler ex_vlib ex_up_codec ex_pki [7] 5 (ex_upload ''AB'')) (empty_db []) =
     Some \<lparr>status = 400, resp_body = Text ''Invalid ownership voucher''\<rparr>"
  "result sql_exec (InsertVoucherHandler ex_vlib ex_up_codec ex_pki [8] 5 (ex_upload ''A'')) (empty_db []) =
     Some \<lparr>status = 400, resp_body = Text ''Invalid ownership voucher''\<rparr>"
  by code_simp+


section \<open>Properties\<close>

text \<open>
  C2. An upload stores verified vouchers of its body only. Whatever the answer, the vouchers
  stored before are unchanged, also when the body holds another voucher with a stored GUID, which
  is skipped; the new rows are those of a prefix of the body's vouchers, each of which decodes and
  passed all checks of \<^verbatim>\<open>VerifyVoucher\<close>, one row per new GUID with the octets of the first
  such voucher, and their devices are tracked for onboarding unless they already are. When the answer is 200 the prefix is the whole body,
  and only white space follows the last block.
\<close>

theorem upload_verified:
  fixes V C L ks now
  assumes "gorm_engine E view" "good (view db)" "req_body r = Some body"
  defines "d1 \<equiv> view (after E (InsertVoucherHandler V C L ks now r) db)"
    and "resp \<equiv> result E (InsertVoucherHandler V C L ks now r) db"
    and "blocks \<equiv> pem_vouchers L (Suc (length body)) body"
  shows "upload_ok V C ks now (view db) d1 \<and>
     (\<exists>n \<le> length (fst blocks).
        (\<forall>g. voucher_row_at d1 g = uploaded_at C now (take n (fst blocks)) (view db) g \<and>
           onboarding_at d1 g = tracked_at C (take n (fst blocks)) (view db) g) \<and>
        (\<forall>c\<in>set (take n (fst blocks)). \<exists>ov. verified V C ks c ov) \<and>
        (map_option status resp = Some 200 \<longrightarrow> n = length (fst blocks) \<and> blank (snd blocks)))"
  using gorm_engine.wp_result[OF assms(1) wp_upload_loop[OF assms(2), of V C L ks now "Suc (length body)" body]]
  unfolding d1_def blocks_def resp_def InsertVoucherHandler_def assms(3) option.case took_in_def taken_def by auto

lemma upload_verified_witness:
  "voucher_row_at (after sql_exec (InsertVoucherHandler ex_vlib ex_up_codec ex_pki [7] 5 (ex_upload ''A'')) (empty_db []))
     (ex_guid CHR ''a'') = Some (uploaded_row 5 ''A'' (ex_up_ov CHR ''a''))"
proof -
  let ?b = "the (req_body (ex_upload ''A''))"
  have b: "req_body (ex_upload ''A'') = Some ?b" by (simp add: ex_upload_def)
  have cs: "fst (pem_vouchers ex_pki (Suc (length ?b)) ?b) = [''A'']" by code_simp
  have g: "ov_GUID (ex_up_ov CHR ''a'') = ex_guid CHR ''a''" by code_simp
  have none: "voucher_row_at (empty_db []) g = None" for g by (simp add: voucher_row_at_def lookup_def empty_db_def)
  from upload_verified[OF ex_ok(5) good_empty b, where V = ex_vlib and C = ex_up_codec and L = ex_pki and ks = "[7]" and now = 5]
  show ?thesis unfolding cs ex_upload_runs(1) using g
    by (auto simp: uploaded_at_def none has_GUID_def ex_up_decode)
qed

text \<open>
  An upload is answered: the loop over the PEM blocks ends on every body, since every block
  consumes input.
\<close>

theorem upload_terminates:
  assumes "gorm_engine E view" "pki_ok L"
  shows "result E (InsertVoucherHandler V C L ks now r) db \<noteq> None"
proof -
  have "wp (InsertVoucherHandler V C L ks now r) (\<lambda>x _. x \<noteq> None) (view db)"
    unfolding InsertVoucherHandler_def
    by (cases "req_body r") (simp, simp only: option.case, rule upload_loop_returns[OF assms(2)], simp)
  from gorm_engine.wp_result[OF assms(1) this] show ?thesis .
qed

lemma upload_terminates_witness:
  "result sql_exec (InsertVoucherHandler ex_vlib ex_up_codec ex_pki [8] 5 (ex_upload ''AB'')) (empty_db []) \<noteq> None"
  by (rule upload_terminates[OF ex_ok(5) ex_pki_ok])


text \<open>A program that closes the transactions it opens; the library's resale is assumed to be one.\<close>

definition balanced :: "'a prog \<Rightarrow> bool" where
  "balanced p \<longleftrightarrow> (\<forall>d. wp p (\<lambda>_ d'. txs d' = txs d \<and> fks d' = fks d \<and> like d' = like d) d)"

lemma balanced_transaction:
  assumes "balanced p"
  shows "wp (transaction p) (\<lambda>r d'. case r of Inl _ \<Rightarrow> d' = d | Inr _ \<Rightarrow> True) d"
  unfolding wp_transaction
  by (intro conjI allI, simp, rule wp_mono[OF assms[unfolded balanced_def, rule_format]])
     (auto simp: rollback_tx_def begin_tx_def split: sum.splits)

lemma balancedI:
  assumes "\<And>d. wp p (\<lambda>_ d'. txs d' = txs d \<and> fks d' = fks d \<and> like d' = like d) d"
  shows "balanced p"
  using assms by (simp add: balanced_def)

lemma balanced_bindE:
  assumes "balanced m" "\<And>x. balanced (k x)"
  shows "balanced (bindE m k)"
proof (rule balancedI)
  fix d
  show "wp (bindE m k) (\<lambda>_ d'. txs d' = txs d \<and> fks d' = fks d \<and> like d' = like d) d"
    by (rule wp_bindE_rule[OF assms(1)[unfolded balanced_def, rule_format]])
       (auto intro: wp_mono[OF assms(2)[unfolded balanced_def, rule_format]])
qed

text \<open>The key of a resale request, and the answer to it.\<close>

definition next_owner :: "pki \<Rightarrow> (bytes \<Rightarrow> 'k option) \<Rightarrow> request \<Rightarrow> 'k option" where
  "next_owner L parse r = Option.bind (req_body r) (\<lambda>b. Option.bind (pem_Decode L b) (\<lambda>(ty, c, rest). parse c))"

lemma wp_ResellHandler:
  assumes "\<And>g k. balanced (resell g k)"
  shows "wp (ResellHandler C L parse resell r) (\<lambda>resp d'.
     (status resp = 200 \<longrightarrow> IsValidGUID (req_path r ''guid'') \<and> next_owner L parse r \<noteq> None \<and>
        (\<exists>ov b. marshal C (GVoucher ov) = Some b \<and> resp_body resp = Pem (pem_Encode L ''OWNERSHIP VOUCHER'' b))) \<and>
     (status resp \<noteq> 200 \<longrightarrow> resp_body resp = Text ''Error marshaling voucher'' \<or> d' = d)) d"
proof -
  let ?Q = "\<lambda>resp d'. (status resp = 200 \<longrightarrow>
        (\<exists>ov b. marshal C (GVoucher ov) = Some b \<and> resp_body resp = Pem (pem_Encode L ''OWNERSHIP VOUCHER'' b))) \<and>
     (status resp \<noteq> 200 \<longrightarrow> resp_body resp = Text ''Error marshaling voucher'' \<or> d' = d)"
  have t: "wp (tryE (transaction (resell g k)) (\<lambda>err. http_error ''Error reselling voucher'' 500)
      (\<lambda>extended. case marshal C (GVoucher extended) of None \<Rightarrow> http_error ''Error marshaling voucher'' 500
         | Some ovBytes \<Rightarrow> respond 200 (Pem (pem_Encode L ''OWNERSHIP VOUCHER'' ovBytes)))) ?Q d" for g k
    unfolding wp_tryE
    by (rule wp_mono[OF balanced_transaction[OF assms]]) (auto simp: wp_respond split: sum.splits option.splits)
  show ?thesis
    by (auto simp: ResellHandler_def with_guid_def next_owner_def wp_respond split: option.splits intro!: wp_mono[OF t])
qed

text \<open>
  C34. A resale is atomic: an answer other than 200 leaves the database as it was, except for
  \<^verbatim>\<open>Error marshaling voucher\<close>, sent after the transaction was committed; and an answer of 200
  carries an extended voucher, and the request a valid GUID and the next owner's key.
\<close>

theorem resell_atomic:
  fixes C L parse resell r db
  assumes "gorm_engine E view" "\<And>g k. balanced (resell g k)"
  defines "resp \<equiv> result E (ResellHandler C L parse resell r) db"
  shows "if status resp = 200
     then IsValidGUID (req_path r ''guid'') \<and> next_owner L parse r \<noteq> None \<and>
        (\<exists>ov b. marshal C (GVoucher ov) = Some b \<and> resp_body resp = Pem (pem_Encode L ''OWNERSHIP VOUCHER'' b))
     else resp_body resp = Text ''Error marshaling voucher'' \<or>
        view (after E (ResellHandler C L parse resell r) db) = view db"
  using gorm_engine.wp_result[OF assms(1) wp_ResellHandler[OF assms(2)], where C1 = C and L1 = L and parse1 = parse and r1 = r and db = db] unfolding resp_def by simp

text \<open>A resale that fails after it has removed the voucher.\<close>

definition ex_resell :: "guid \<Rightarrow> nat \<Rightarrow> voucher act" where
  "ex_resell g k = bindE (RemoveVoucher ex_vcodec g) (\<lambda>ov. failE ErrNotFound)"

lemma balanced_RemoveVoucher: "balanced (RemoveVoucher C g)"
  by (rule balancedI) (auto simp: RemoveVoucher_def wp_simps wp_bindE begin_tx_def commit_tx_def rollback_tx_def del_def
      split: option.splits sum.splits)

lemma balanced_ex_resell: "balanced (ex_resell g k)"
  unfolding ex_resell_def by (intro balanced_bindE balanced_RemoveVoucher) (simp add: balanced_def wp_ret)

definition ex_resale :: request where
  "ex_resale = (ex_upload ''A'')\<lparr>req_path := (\<lambda>_. hexEncode (ex_guid CHR ''a''))\<rparr>"

lemma resell_atomic_witness:
  "after sql_exec (ResellHandler ex_vcodec ex_pki (\<lambda>_. Some 3) ex_resell ex_resale) ex_vdb = ex_vdb"
proof -
  have "result sql_exec (ResellHandler ex_vcodec ex_pki (\<lambda>_. Some 3) ex_resell ex_resale) ex_vdb =
    \<lparr>status = 500, resp_body = Text ''Error reselling voucher''\<rparr>" by code_simp
  with resell_atomic[OF ex_ok(5), where resell = ex_resell and C = ex_vcodec and L = ex_pki and parse = "\<lambda>_. Some 3" and r = ex_resale and db = ex_vdb,
      OF balanced_ex_resell]
  show ?thesis by simp
qed

end
