(* ===== verification/Smooth.thy ===== *)
theory Smooth
  imports Http
begin

text \<open>
  Runs in which the database answers. The contract of the engine lets every statement fail in the
  driver; a claim that something does happen is about the runs in which no statement of the
  program fails so. \<open>wpb f\<close> is the weakest precondition with (\<open>f\<close>) or without driver failures.
\<close>

primrec smooth :: "(stmt \<Rightarrow> 'db \<Rightarrow> sqlres \<times> 'db) \<Rightarrow> 'a prog \<Rightarrow> 'db \<Rightarrow> bool" where
  "smooth E (Ret x) = (\<lambda>db. True)"
| "smooth E (Exec s k) = (\<lambda>db. (\<forall>m. fst (E s db) \<noteq> fail (ErrDriver m)) \<and> smooth E (k (fst (E s db))) (snd (E s db)))"

primrec wpb :: "bool \<Rightarrow> 'a prog \<Rightarrow> ('a \<Rightarrow> sqldb \<Rightarrow> bool) \<Rightarrow> sqldb \<Rightarrow> bool" where
  "wpb f (Ret x) = (\<lambda>Q d. Q x d)"
| "wpb f (Exec s k) = (\<lambda>Q d. \<forall>x d'. (if f then stepR s d x d' else sqlR s d x d') \<longrightarrow> wpb f (k x) Q d')"

abbreviation wps :: "'a prog \<Rightarrow> ('a \<Rightarrow> sqldb \<Rightarrow> bool) \<Rightarrow> sqldb \<Rightarrow> bool" where
  "wps \<equiv> wpb False"

lemma wpb_True [simp]: "wpb True p Q d = wp p Q d"
  by (induction p arbitrary: d) (simp_all add: wp.simps(2))

lemma wp_wpb: "wp p Q d \<Longrightarrow> wpb f p Q d"
  by (induction p arbitrary: d) (auto simp: wp_Exec stepR_def)

lemmas wps_wp = wp_wpb[of _ _ _ False]

lemma wpb_mono: "wpb f p Q d \<Longrightarrow> (\<And>x d'. Q x d' \<Longrightarrow> R x d') \<Longrightarrow> wpb f p R d"
  by (induction p arbitrary: d) auto

lemma wpb_bindP: "wpb f (bindP m k) Q d = wpb f m (\<lambda>x. wpb f (k x) Q) d"
  by (induction m arbitrary: d) auto

lemma wpb_bindP_rule: "wpb f m P d \<Longrightarrow> (\<And>x d1. P x d1 \<Longrightarrow> wpb f (k x) Q d1) \<Longrightarrow> wpb f (bindP m k) Q d"
  unfolding wpb_bindP by (rule wpb_mono)

lemma wpb_bindE:
  "wpb f (bindE m k) Q d = wpb f m (\<lambda>r d'. case r of Inl e \<Rightarrow> Q (Inl e) d' | Inr x \<Rightarrow> wpb f (k x) Q d') d"
proof -
  have *: "(\<lambda>r. wpb f (case r of Inl e \<Rightarrow> Ret (Inl e) | Inr x \<Rightarrow> k x) Q) =
        (\<lambda>r d'. case r of Inl e \<Rightarrow> Q (Inl e) d' | Inr x \<Rightarrow> wpb f (k x) Q d')"
    by (auto simp: fun_eq_iff split: sum.splits)
  show ?thesis by (simp add: bindE_def wpb_bindP *)
qed

lemma wpb_tryE:
  "wpb f (tryE m h k) Q d = wpb f m (\<lambda>r d'. case r of Inl e \<Rightarrow> wpb f (h e) Q d' | Inr x \<Rightarrow> wpb f (k x) Q d') d"
proof -
  have *: "(\<lambda>r. wpb f (case r of Inl e \<Rightarrow> h e | Inr x \<Rightarrow> k x) Q) =
        (\<lambda>r d'. case r of Inl e \<Rightarrow> wpb f (h e) Q d' | Inr x \<Rightarrow> wpb f (k x) Q d')"
    by (auto simp: fun_eq_iff split: sum.splits)
  show ?thesis by (simp add: tryE_def wpb_bindP *)
qed

lemma wpb_mapErr: "wpb f (mapErr h m) Q d = wpb f m (\<lambda>r. Q (rmap_err h r)) d"
  by (simp add: mapErr_def wpb_bindP)

lemma wpb_ret:
  "wpb f (retE x) Q d = Q (Inr x) d" "wpb f (failE e) Q d = Q (Inl e) d" "wpb f (liftR r) Q d = Q r d"
  by (simp_all add: retE_def failE_def liftR_def)

lemma wps_call:
  "wps (call s h) Q d \<longleftrightarrow> (\<forall>x d'. sqlR s d x d' \<longrightarrow> Q (case rerr x of Some e \<Rightarrow> Inl e | None \<Rightarrow> Inr (h x)) d')"
  by (simp add: call_def)

lemma wpb_dbFirst:
  "wpb f (dbFirst t cs) Q d \<longleftrightarrow> (f \<longrightarrow> (\<forall>m. Q (Inl (ErrDriver m)) d)) \<and>
     (if rows t cs d = [] then Q (Inl ErrRecordNotFound) d else \<forall>r\<in>set (rows t cs d). Q (Inr r) d)"
  by (cases f) (simp add: wp_dbFirst, auto simp: dbFirst_def wps_call)

lemmas wpb_simps = wpb_bindP wpb_bindE wpb_tryE wpb_mapErr wpb_ret wpb_dbFirst

lemma wpb_getSessionID:
  assumes "wf d"
  shows "wpb f (State_getSessionID c) Q d \<longleftrightarrow>
     (case State_sid c of
        None \<Rightarrow> Q (Inl ErrInvalidSession) d
      | Some sid \<Rightarrow> (f \<longrightarrow> (\<forall>m. Q (Inl (ErrDriver m)) d)) \<and>
                    (if live sid d then Q (Inr sid) d else Q (Inl ErrInvalidSession) d))"
  using assms
  by (auto simp: State_getSessionID_def State_sid_def live_def wpb_simps rows_key split: option.splits)

context gorm_engine
begin

lemma wpb_run: "wpb f p Q (abs db) \<Longrightarrow> f \<or> smooth E p db \<Longrightarrow> Q (result E p db) (abs (after E p db))"
proof (induction p arbitrary: db)
  case (Exec s k)
  obtain x db1 where e: "E s db = (x, db1)" by fastforce
  from Exec.prems(2) e step[OF e] have "if f then stepR s (abs db) x (abs db1) else sqlR s (abs db) x (abs db1)"
    by (auto simp: stepR_def)
  with e Exec show ?case by (cases f) auto
qed simp

lemmas wps_run = wpb_run[where f = False, simplified]

end

lemma smooth_sql_exec: "smooth sql_exec p d"
proof (induction p arbitrary: d)
  case (Exec s k)
  have "fst (sql_exec s d) \<noteq> fail (ErrDriver m)" for m
    by (cases s) (auto simp: fail_def ok_rows_def ok_n_def ok_pairs_def split: list.splits)
  with Exec show ?case by simp
qed simp

end
