(* ===== verification/TO0Progress.thy ===== *)
theory TO0Progress
  imports TO0 VoucherApi Smooth
begin

text \<open>
  Progress of the TO0 scheduler: as long as the database answers, a pending device is attempted
  at the first tick its backoff allows; and with it an uploaded voucher at the next tick.
\<close>

section \<open>The scheduler makes progress\<close>

definition due :: "next_try \<Rightarrow> string \<Rightarrow> int \<Rightarrow> bool" where
  "due m h now \<longleftrightarrow> (case m h of None \<Rightarrow> True | Some t \<Rightarrow> t \<le> now)"

definition attempted :: "string \<Rightarrow> int set \<Rightarrow> to0_event list \<Rightarrow> bool" where
  "attempted h ts evs \<longleftrightarrow> (\<exists>t\<in>ts. \<exists>w us. Attempt h t w us \<in> set evs)"

lemma attempted_simps [simp]:
  "\<not> attempted h ts []" "attempted h ts (Completed h' # evs) \<longleftrightarrow> attempted h ts evs"
  "attempted h ts (Attempt h' t w us # evs) \<longleftrightarrow> (h' = h \<and> t \<in> ts) \<or> attempted h ts evs"
  "attempted h ts (a @ b) \<longleftrightarrow> attempted h ts a \<or> attempted h ts b"
  unfolding attempted_def by auto

lemma attempted_mono: "attempted h ts evs \<Longrightarrow> ts \<subseteq> ts' \<Longrightarrow> attempted h ts' evs"
  unfolding attempted_def by blast

text \<open>After a pass: an attempt if one was due, and otherwise the same backoff.\<close>

definition pass_ok :: "sqldb \<Rightarrow> string \<Rightarrow> int \<Rightarrow> bool \<Rightarrow> next_try \<Rightarrow> next_try \<times> nat \<times> to0_event list \<Rightarrow> sqldb \<Rightarrow> bool" where
  "pass_ok d h now listed m x d' \<longleftrightarrow> d' = d \<and> (case x of (m', k, evs) \<Rightarrow>
     attempted h {now} evs \<or> (m' h = m h \<and> (listed \<longrightarrow> \<not> due m h now)))"

definition lists :: "cbor_lib \<Rightarrow> guid \<Rightarrow> voucher_row list \<Rightarrow> bool" where
  "lists C g vs \<longleftrightarrow> (\<exists>v\<in>set vs. \<exists>ov. un_voucher C (vou_CBOR v) = Some ov \<and> ov_GUID ov = g)"

lemma hexEncode_inj [simp]: "hexEncode a = hexEncode b \<longleftrightarrow> a = b"
  by (metis hexDecode_hexEncode option.inject)

lemma wps_IsTO2Completed: "wf d \<Longrightarrow> wps (IsTO2Completed g) (\<lambda>r d'. r = Inr (completed_in d g) \<and> d' = d) d"
  by (auto simp: IsTO2Completed_def wpb_bindP dbFirst_def wps_call retE_def failE_def rows_key completed_in_def
      onboarding_at_def fail_def ok_rows_def split: option.splits)

lemma wps_to0_vouchers:
  assumes "wf d" "\<not> completed_in d g"
  shows "wps (to0_vouchers L C J insecure now vs m n) (pass_ok d (hexEncode g) now (lists C g vs) m) d"
proof (induction vs arbitrary: m n)
  case Nil
  then show ?case by (simp add: pass_ok_def lists_def)
next
  case (Cons v vs)
  let ?h = "hexEncode g"
  show ?case
  proof (cases "un_voucher C (vou_CBOR v)")
    case None
    then have "lists C g (v # vs) = lists C g vs" by (auto simp: lists_def)
    with None Cons.IH show ?thesis by simp
  next
    case (Some ov)
    let ?h' = "hexEncode (ov_GUID ov)"
    have here: "lists C g (v # vs) = (ov_GUID ov = g \<or> lists C g vs)" using Some by (auto simp: lists_def)
    have other: "wps (bindP (to0_vouchers L C J insecure now vs (m(?h' := b)) k) (\<lambda>(m, k, evs). Ret (m, k, e # evs)))
        (pass_ok d ?h now (lists C g (v # vs)) m) d"
      if "ov_GUID ov \<noteq> g \<or> (\<exists>w us. e = Attempt ?h now w us)" for b e k
    proof (rule wpb_bindP_rule[OF Cons.IH])
      fix x d1 assume "pass_ok d ?h now (lists C g vs) (m(?h' := b)) x d1"
      with that here
      show "wps (case x of (m, k, evs) \<Rightarrow> Ret (m, k, e # evs)) (pass_ok d ?h now (lists C g (v # vs)) m) d1"
        by (cases x; cases e) (auto simp: pass_ok_def due_def)
    qed
    have skip: "wps (to0_vouchers L C J insecure now vs m n) (pass_ok d ?h now (lists C g (v # vs)) m) d"
      if "\<not> due m ?h' now"
      by (rule wpb_mono[OF Cons.IH]) (use that here in \<open>auto simp: pass_ok_def\<close>)
    have go: "wps (bindP (RegisterRvBlob L J n rv ?h' insecure defaultTo0TTL) (\<lambda>(tried, r).
          let wait = (case r of Inl err \<Rightarrow> 10 | Inr refresh \<Rightarrow> uint (if refresh = 0 then defaultTo0TTL else refresh)) in
          bindP (to0_vouchers L C J insecure now vs (m(?h' \<mapsto> now + wait)) (n + length tried))
            (\<lambda>(m, k, evs). Ret (m, k, Attempt ?h' now wait tried # evs))))
        (pass_ok d ?h now (lists C g (v # vs)) m) d" for rv
    proof -
      have reg: "wps (RegisterRvBlob L J n rv ?h' insecure defaultTo0TTL) (\<lambda>x d'. d' = d) d"
        by (rule wpb_mono[OF wps_wp[OF wp_RegisterRvBlob]]) auto
      show ?thesis
        by (rule wpb_bindP_rule[OF reg]) (use other in \<open>cases "ov_GUID ov = g"; auto simp: Let_def\<close>)
    qed
    show ?thesis
      unfolding to0_vouchers.simps Some option.case Let_def[of ?h'] wpb_tryE
      by (rule wpb_mono[OF wps_IsTO2Completed[OF assms(1)]])
         (use other go skip assms(2) in \<open>auto simp: due_def not_le split: option.splits\<close>)
  qed
qed

lemma wps_ListPending:
  assumes "wf d" "pending g d" "voucher_at C d g = Inr ov" "ov_GUID ov = g"
  shows "wps (ListPendingTO0Vouchers True) (\<lambda>r d'. d' = d \<and> (\<exists>vs. r = Inr vs \<and> lists C g vs)) d"
proof -
  from assms(2) obtain r r' where r: "lookup T_vouchers (VBytes g) d = Some r" "lookup T_device_onboarding (VBytes g) d = Some r'"
    "r' ''to2_completed'' = VBool False" by (auto simp: pending_def has_voucher_def)
  have k: "r ''guid'' = VBytes g" "r' ''guid'' = VBytes g" "r \<in> set (tabs d T_vouchers)" "r' \<in> set (tabs d T_device_onboarding)"
    using r lookup_key[OF r(1), of "''guid''"] lookup_key[OF r(2), of "''guid''"] lookup_mem[OF r(1)] lookup_mem[OF r(2)] by simp_all
  have "(r, Some r') \<in> set (filter (join_cond [CEq ''to2_completed'' (VBool False)] d)
      (join T_vouchers ''guid'' T_device_onboarding ''guid'' d))"
    using k r(3) by (auto simp: join_cond_def join_mem sql_eq_def)
  then have "lists C g (map (\<lambda>p. voucher_fromRow (fst p)) ps)"
    if "mset ps = mset (filter (join_cond [CEq ''to2_completed'' (VBool False)] d)
      (join T_vouchers ''guid'' T_device_onboarding ''guid'' d))" for ps
    using mset_eq_setD[OF that] assms(3,4) r(1) unfolding lists_def
    by (intro bexI[of _ "voucher_fromRow r"] exI[of _ ov])
       (force simp: voucher_at_def of_opt_def split: option.splits if_splits)+
  then show ?thesis
    by (auto simp: ListPendingTO0Vouchers_def bindE_def wpb_bindP dbLeftJoin_def wps_call retE_def ok_pairs_def)
qed

lemma wps_to0_round:
  assumes "wf d" "pending g d" "\<not> completed_in d g" "voucher_at C d g = Inr ov" "ov_GUID ov = g"
  shows "wps (to0_round L C J insecure now m n) (pass_ok d (hexEncode g) now True m) d"
  unfolding to0_round_def wpb_tryE
  by (rule wpb_mono[OF wps_ListPending[OF assms(1,2,4,5)]])
     (auto intro!: wpb_mono[OF wps_to0_vouchers[OF assms(1,3)]])

definition rounds_ok :: "sqldb \<Rightarrow> string \<Rightarrow> int list \<Rightarrow> next_try \<Rightarrow> next_try \<times> nat \<times> to0_event list \<Rightarrow> sqldb \<Rightarrow> bool" where
  "rounds_ok d h ticks m x d' \<longleftrightarrow> d' = d \<and> (\<forall>bs now cs. ticks = bs @ now # cs \<longrightarrow> due m h now \<longrightarrow>
     attempted h (insert now (set bs)) (snd (snd x)))"

lemma wps_to0_rounds:
  assumes "wf d" "pending g d" "\<not> completed_in d g" "voucher_at C d g = Inr ov" "ov_GUID ov = g"
  shows "wps (to0_rounds L C J insecure ticks m n) (rounds_ok d (hexEncode g) ticks m) d"
proof (induction ticks arbitrary: m n)
  case (Cons t ticks)
  let ?h = "hexEncode g"
  show ?case unfolding to0_rounds.simps
  proof (rule wpb_bindP_rule[OF wps_to0_round[OF assms]])
    fix x d1 assume x: "pass_ok d ?h t True m x d1"
    obtain m1 k evs where x1: "x = (m1, k, evs)" by (cases x)
    have "wps (bindP (to0_rounds L C J insecure ticks m1 k) (\<lambda>(m', k', evs'). Ret (m', k', evs @ evs')))
        (rounds_ok d ?h (t # ticks) m) d"
    proof (rule wpb_bindP_rule[OF Cons.IH])
      fix y d2 assume y: "rounds_ok d ?h ticks m1 y d2"
      have "attempted ?h (insert now (set bs)) (evs @ snd (snd y))" if "t # ticks = bs @ now # cs" "due m ?h now" for bs now cs
      proof (cases "attempted ?h {t} evs")
        case True
        with that(1) show ?thesis by (cases bs) (auto elim!: attempted_mono)
      next
        case False
        with x x1 have m: "m1 ?h = m ?h" "\<not> due m ?h t" by (auto simp: pass_ok_def)
        with that obtain bs' where bs: "bs = t # bs'" "ticks = bs' @ now # cs" by (cases bs) auto
        with y that(2) m(1) have "attempted ?h (insert now (set bs')) (snd (snd y))" by (simp add: rounds_ok_def due_def)
        then show ?thesis using bs(1) attempted_mono[of ?h "insert now (set bs')" _ "insert now (set bs)"] by auto
      qed
      with y show "wps (case y of (m', k', evs') \<Rightarrow> Ret (m', k', evs @ evs')) (rounds_ok d ?h (t # ticks) m) d2"
        by (cases y) (simp add: rounds_ok_def)
    qed
    with x x1 show "wps (case x of (m, k, evs) \<Rightarrow> bindP (to0_rounds L C J insecure ticks m k)
        (\<lambda>(m', k', evs'). Ret (m', k', evs @ evs'))) (rounds_ok d ?h (t # ticks) m) d1"
      by (simp add: pass_ok_def)
  qed
qed (simp add: rounds_ok_def)

lemma pending_open: "pending g d \<Longrightarrow> \<not> completed_in d g"
  by (auto simp: pending_def completed_in_def onboarding_at_def device_onboarding_fromRow_def)

lemma rounds_attempt:
  assumes "gorm_engine E view" "wf (view db)" "pending g (view db)"
    and "voucher_at C (view db) g = Inr ov" "ov_GUID ov = g"
    and "smooth E (to0_rounds L C J insecure (bs @ now # cs) nextTry n) db" "due nextTry (hexEncode g) now"
    and "result E (to0_rounds L C J insecure (bs @ now # cs) nextTry n) db = (m, k, evs)"
  shows "attempted (hexEncode g) (insert now (set bs)) evs"
  using gorm_engine.wps_run[OF assms(1) wps_to0_rounds[OF assms(2,3) pending_open[OF assms(3)] assms(4,5)] assms(6)] assms(7,8)
  by (auto simp: rounds_ok_def)

section \<open>Properties\<close>

text \<open>
  C10. Progress: as long as the database answers, a device whose voucher is pending is attempted at
  the latest at the first tick its backoff allows, whatever the other vouchers are and whatever the
  rendezvous servers answer.
\<close>

theorem to0_progress:
  assumes "gorm_engine E view" "wf (view db)" "pending g (view db)"
    and "voucher_at C (view db) g = Inr ov" "ov_GUID ov = g"
    and "smooth E (to0_rounds L C J insecure (bs @ now # cs) nextTry n) db" "due nextTry (hexEncode g) now"
    and "result E (to0_rounds L C J insecure (bs @ now # cs) nextTry n) db = (m, k, evs)"
  shows "\<exists>t\<in>insert now (set bs). \<exists>w us. Attempt (hexEncode g) t w us \<in> set evs"
  using rounds_attempt[OF assms] by (auto simp: attempted_def)

lemma to0_progress_witness:
  "\<exists>t\<in>{0, 10}. \<exists>w us. Attempt (hexEncode (ex_guid CHR ''a'')) t w us \<in>
     set (snd (snd (result sql_exec (to0_rounds ex_to0_lib ex_vcodec ex_owner_json False ([0] @ 10 # [70]) (\<lambda>_. None) 0) ex_to0_db)))"
proof -
  let ?r = "result sql_exec (to0_rounds ex_to0_lib ex_vcodec ex_owner_json False ([0] @ 10 # [70]) (\<lambda>_. None) 0) ex_to0_db"
  obtain m k evs where r: "?r = (m, k, evs)" by (cases ?r)
  have "lookup T_vouchers (VBytes (ex_guid CHR ''a'')) ex_to0_db \<noteq> None \<and>
     map_option (\<lambda>r. r ''to2_completed'') (lookup T_device_onboarding (VBytes (ex_guid CHR ''a'')) ex_to0_db) = Some (VBool False) \<and>
     voucher_at ex_vcodec ex_to0_db (ex_guid CHR ''a'') = Inr (ex_ov CHR ''a'') \<and> ov_GUID (ex_ov CHR ''a'') = ex_guid CHR ''a''"
    by code_simp
  then have p: "pending (ex_guid CHR ''a'') ex_to0_db" "voucher_at ex_vcodec ex_to0_db (ex_guid CHR ''a'') = Inr (ex_ov CHR ''a'')"
    "ov_GUID (ex_ov CHR ''a'') = ex_guid CHR ''a''"
    by (auto simp: pending_def has_voucher_def)
  from to0_progress[OF ex_ok(5) goodD(1)[OF ex_to0_ok] p smooth_sql_exec _ r] r show ?thesis
    by (simp add: due_def insert_commute)
qed

text \<open>
  C11. From the upload to the rendezvous server: when an upload was answered with 200, a voucher of
  its body that is new to the server, whose GUID has neither a stored voucher nor an onboarding
  row from before, is attempted at the next tick its backoff allows (any, if the scheduler has not
  attempted it before), as long as the database answers. A voucher of a GUID that is already stored
  is skipped by the upload, and a device that has onboarded stays so.
\<close>

theorem uploaded_gets_registered:
  assumes "gorm_engine E view" "good (view db)" "req_body r = Some body"
    and "result E (InsertVoucherHandler V C L ks now r) db = Some resp" "status resp = 200"
    and "c \<in> set (fst (pem_vouchers L (Suc (length body)) body))" "un_voucher C c = Some ov"
    and "\<not> has_voucher (ov_GUID ov) (view db)" "onboarding_at (view db) (ov_GUID ov) = None"
  defines "db1 \<equiv> after E (InsertVoucherHandler V C L ks now r) db"
  assumes "smooth E (to0_rounds T C J insecure [tick] nextTry n) db1" "due nextTry (hexEncode (ov_GUID ov)) tick"
    and "result E (to0_rounds T C J insecure [tick] nextTry n) db1 = (m, k, evs)"
  shows "\<exists>w us. Attempt (hexEncode (ov_GUID ov)) tick w us \<in> set evs"
proof -
  let ?g = "ov_GUID ov"
  from gorm_engine.wp_result[OF assms(1) wp_upload_loop[OF assms(2), of V C L ks now "Suc (length body)" body]] assms(4-7)
  have up: "upload_ok V C ks now (view db) (view db1)" "voucher_row_at (view db1) ?g \<noteq> None"
    unfolding db1_def InsertVoucherHandler_def assms(3) option.case
    by (auto dest!: took_in_200(2)[OF _ assms(5-7)] simp del: upload_loop.simps pem_vouchers.simps)
  have new: "voucher_row_at (view db) ?g = None" "voucher_row_at (view db1) ?g \<noteq> None"
    using assms(8) up(2) by (simp_all add: has_voucher_def voucher_row_at_def)
  with upload_okD(6)[OF up(1) new] obtain content ov' where c: "verified V C ks content ov'" "ov_GUID ov' = ?g"
    "voucher_row_at (view db1) ?g = Some (uploaded_row now content ov')" by blast
  then have at: "voucher_at C (view db1) ?g = Inr ov'"
    by (simp add: voucher_at_def voucher_row_at_def uploaded_row_def verified_def)
  from rounds_attempt[OF assms(1) goodD(1)[OF upload_okD(1)[OF up(1)]] upload_okD(5)[OF up(1) new assms(9)] at c(2),
      where bs = "[]" and cs = "[]" and now = tick, unfolded append_Nil, OF assms(11-13)]
  show ?thesis by (auto simp: attempted_def)
qed

definition ex_up_to0 :: "next_try \<times> nat \<times> to0_event list" where
  "ex_up_to0 = result sql_exec (to0_rounds ex_to0_lib ex_up_codec ex_owner_json False [10] (\<lambda>_. None) 0)
     (after sql_exec (InsertVoucherHandler ex_vlib ex_up_codec ex_pki [7] 5 (ex_upload ''A'')) (empty_db []))"

lemma uploaded_gets_registered_witness:
  "\<exists>w us. Attempt (hexEncode (ex_guid CHR ''a'')) 10 w us \<in> set (snd (snd ex_up_to0))"
proof -
  let ?b = "the (req_body (ex_upload ''A''))"
  have b: "req_body (ex_upload ''A'') = Some ?b" by (simp add: ex_upload_def)
  have c: "''A'' \<in> set (fst (pem_vouchers ex_pki (Suc (length ?b)) ?b))" by code_simp
  have g: "ov_GUID (ex_up_ov CHR ''a'') = ex_guid CHR ''a''" by code_simp
  obtain m k evs where r: "ex_up_to0 = (m, k, evs)" by (cases ex_up_to0)
  have n: "\<not> has_voucher (ov_GUID (ex_up_ov CHR ''a'')) (empty_db [])" "onboarding_at (empty_db []) (ov_GUID (ex_up_ov CHR ''a'')) = None"
    by (simp_all add: has_voucher_def onboarding_at_def lookup_def empty_db_def)
  from uploaded_gets_registered[OF ex_ok(5) good_empty b ex_upload_runs(1) _ c ex_up_decode n smooth_sql_exec _ r[unfolded ex_up_to0_def]] g
  show ?thesis unfolding r by (simp add: due_def)
qed

end
