(* ===== verification/OwnerServer.thy ===== *)
theory OwnerServer
  imports VoucherApi TO0
begin

text \<open>
  The owner and manufacturing servers as sequences of voucher operations. The two tables they
  keep refine two maps, from GUIDs to vouchers and to the state of the onboarding. Each operation is one step,
  since those that write more than one row do so in a transaction; an upload is one such operation
  per voucher of its body.
\<close>

section \<open>The operations\<close>

datatype owner_op =
    UploadOp int request
  | ListVouchersOp request
  | GetVoucherOp request
  | DevicesOp request
  | PendingOp bool
  | VoucherOp guid
  | NewVoucherOp int voucher
  | AddVoucherOp int voucher
  | ReplaceVoucherOp int guid voucher
  | RemoveVoucherOp guid
  | CompletedOp bytes

text \<open>An operation reports whether it succeeded; an upload does when it answers 200.\<close>

definition succeeds :: "('a \<Rightarrow> bool) \<Rightarrow> 'a prog \<Rightarrow> bool prog" where
  "succeeds P p = bindP p (\<lambda>x. Ret (P x))"

fun owner_prog ::
  "'k voucher_lib \<Rightarrow> cbor_lib \<Rightarrow> pki \<Rightarrow> (int \<Rightarrow> string) \<Rightarrow> 'k list \<Rightarrow> owner_op \<Rightarrow> bool prog" where
  "owner_prog V C L tm ks (UploadOp now r) =
     succeeds (\<lambda>x. map_option status x = Some 200) (InsertVoucherHandler V C L ks now r)"
| "owner_prog V C L tm ks (ListVouchersOp r) = succeeds (\<lambda>x. status x = 200) (GetVoucherHandler tm r)"
| "owner_prog V C L tm ks (GetVoucherOp r) = succeeds (\<lambda>x. status x = 200) (GetVoucherByGUIDHandler L r)"
| "owner_prog V C L tm ks (DevicesOp r) = succeeds (\<lambda>x. status x = 200) (OwnerDevicesHandler tm r)"
| "owner_prog V C L tm ks (PendingOp b) = succeeds (\<lambda>x. \<not> isl x) (ListPendingTO0Vouchers b)"
| "owner_prog V C L tm ks (VoucherOp g) = succeeds (\<lambda>x. \<not> isl x) (State_Voucher C g)"
| "owner_prog V C L tm ks (NewVoucherOp now ov) = succeeds (\<lambda>x. \<not> isl x) (NewVoucher C now ov)"
| "owner_prog V C L tm ks (AddVoucherOp now ov) = succeeds (\<lambda>x. \<not> isl x) (AddVoucher C now ov)"
| "owner_prog V C L tm ks (ReplaceVoucherOp now g ov) = succeeds (\<lambda>x. \<not> isl x) (ReplaceVoucher C now g ov)"
| "owner_prog V C L tm ks (RemoveVoucherOp g) = succeeds (\<lambda>x. \<not> isl x) (RemoveVoucher C g)"
| "owner_prog V C L tm ks (CompletedOp g) = succeeds (\<lambda>x. \<not> isl x) (IsTO2Completed g)"

text \<open>A run, with its operations and their success.\<close>

inductive owner_run ::
  "(stmt \<Rightarrow> 'db \<Rightarrow> sqlres \<times> 'db) \<Rightarrow> 'k voucher_lib \<Rightarrow> cbor_lib \<Rightarrow> pki \<Rightarrow> (int \<Rightarrow> string) \<Rightarrow> 'k list \<Rightarrow>
   'db \<Rightarrow> (owner_op \<times> bool) list \<Rightarrow> 'db \<Rightarrow> bool"
  for E V C L tm ks db0 where
  start: "owner_run E V C L tm ks db0 [] db0"
| operation: "owner_run E V C L tm ks db0 ops db \<Longrightarrow> run E (owner_prog V C L tm ks op) db = (ok, db') \<Longrightarrow>
     owner_run E V C L tm ks db0 (ops @ [(op, ok)]) db'"

section \<open>What the operations promise\<close>

type_synonym owner_maps = "(guid \<Rightarrow> voucher result) \<times> (guid \<Rightarrow> device_onboarding option)"

definition owner_maps :: "cbor_lib \<Rightarrow> sqldb \<Rightarrow> owner_maps" where
  "owner_maps C d = (voucher_at C d, onboarding_at d)"

text \<open>The vouchers of a body, and the maps once they were taken in.\<close>

definition body_vouchers :: "pki \<Rightarrow> request \<Rightarrow> bytes list" where
  "body_vouchers L r = (case req_body r of None \<Rightarrow> [] | Some b \<Rightarrow> fst (pem_vouchers L (Suc (length b)) b))"

definition take_in :: "cbor_lib \<Rightarrow> bytes list \<Rightarrow> owner_maps \<Rightarrow> owner_maps" where
  "take_in C cs s = (case s of (vm, ob) \<Rightarrow>
     let new = (\<lambda>g. if vm g = Inl ErrNotFound then List.find (has_GUID C g) cs else None) in
     (\<lambda>g. case new g of None \<Rightarrow> vm g | Some c \<Rightarrow> Inr (the (un_voucher C c)),
      \<lambda>g. if ob g = None \<and> new g \<noteq> None then Some (new_onboarding g) else ob g))"

text \<open>The abstract step of an operation: a map update if it succeeds, and nothing if it fails.\<close>

fun owner_spec ::
  "'k voucher_lib \<Rightarrow> cbor_lib \<Rightarrow> pki \<Rightarrow> 'k list \<Rightarrow> owner_op \<Rightarrow> bool \<Rightarrow> owner_maps \<Rightarrow> owner_maps \<Rightarrow> bool" where
  "owner_spec V C L ks (UploadOp now r) ok s s' \<longleftrightarrow> (\<exists>n \<le> length (body_vouchers L r).
     s' = take_in C (take n (body_vouchers L r)) s \<and>
     (\<forall>c\<in>set (take n (body_vouchers L r)). \<exists>ov. verified V C ks c ov) \<and>
     (ok \<longrightarrow> n = length (body_vouchers L r)))"
| "owner_spec V C L ks (NewVoucherOp now ov) ok s s' \<longleftrightarrow>
     (if ok then fst s (ov_GUID ov) = Inl ErrNotFound \<and> s' = ((fst s)(ov_GUID ov := Inr ov), snd s) else s' = s)"
| "owner_spec V C L ks (AddVoucherOp now ov) ok s s' \<longleftrightarrow>
     (if ok then fst s (ov_GUID ov) = Inl ErrNotFound \<and> s' = ((fst s)(ov_GUID ov := Inr ov), snd s) else s' = s)"
| "owner_spec V C L ks (ReplaceVoucherOp now g ov) ok s s' \<longleftrightarrow>
     (if ok then s' = ((fst s)(g := Inl ErrNotFound, ov_GUID ov := Inr ov),
        (snd s)(g := Some \<lparr>do_GUID = g, do_NewGUID = Some (ov_GUID ov), do_TO2Completed = True,
          do_TO2CompletedAt = Some now\<rparr>)) else s' = s)"
| "owner_spec V C L ks (RemoveVoucherOp g) ok s s' \<longleftrightarrow>
     (if ok then (\<exists>ov. fst s g = Inr ov) \<and> s' = ((fst s)(g := Inl ErrNotFound), (snd s)(g := None)) else s' = s)"
| "owner_spec V C L ks _ ok s s' \<longleftrightarrow> s' = s"

fun owner_specs ::
  "'k voucher_lib \<Rightarrow> cbor_lib \<Rightarrow> pki \<Rightarrow> 'k list \<Rightarrow> (owner_op \<times> bool) list \<Rightarrow> owner_maps \<Rightarrow> owner_maps \<Rightarrow> bool" where
  "owner_specs V C L ks [] s s' \<longleftrightarrow> s' = s"
| "owner_specs V C L ks ((op, ok) # ops) s s' \<longleftrightarrow>
     (\<exists>s1. owner_spec V C L ks op ok s s1 \<and> owner_specs V C L ks ops s1 s')"

section \<open>Reading\<close>

fun read_stmt :: "stmt \<Rightarrow> bool" where
  "read_stmt (SFirst t cs) \<longleftrightarrow> True"
| "read_stmt (SFind t cs ord n m) \<longleftrightarrow> True"
| "read_stmt (SLeftJoin t c u c' cs ord) \<longleftrightarrow> True"
| "read_stmt _ \<longleftrightarrow> False"

lemma read_step: "stepR s d x d' \<Longrightarrow> read_stmt s \<Longrightarrow> d' = d"
  by (cases s) (auto simp: stepR_def)

lemma wp_reads: "all_stmts read_stmt p \<Longrightarrow> wp p (\<lambda>_ d'. d' = d) d"
  by (rule all_stmts_invariant[where P = read_stmt]) (auto dest: read_step)

lemma all_stmts_mono: "all_stmts P p \<Longrightarrow> (\<And>s. P s \<Longrightarrow> Q s) \<Longrightarrow> all_stmts Q p"
  by (induction p) auto

lemma read_stmt_query: "all_stmts read_stmt (QueryVouchers fs b)"
  unfolding QueryVouchers_def db_calls by (auto split: option.splits filter_val.splits intro!: all_stmts_intros)

lemma fetch_reads: "all_stmts read_stmt (FetchVoucher fs)"
  by (auto simp: FetchVoucher_def read_stmt_query split: list.splits intro!: all_stmts_intros)

lemma respond_reads:
  "all_stmts P (respond n b)" "all_stmts P (http_error m n)"
  by (simp_all add: respond_def http_error_def)

lemma with_guid_reads: "(\<And>g. all_stmts P (k g)) \<Longrightarrow> all_stmts P (with_guid m s k)"
  by (auto simp: with_guid_def respond_reads split: option.splits)

lemma store_reads:
  "all_stmts read_stmt (ListDevices fs)"
  "all_stmts read_stmt (ListPendingTO0Vouchers b)"
  "all_stmts read_stmt (State_Voucher C g)"
  "all_stmts read_stmt (IsTO2Completed g)"
  unfolding ListDevices_def ListPendingTO0Vouchers_def State_Voucher_def IsTO2Completed_def db_calls
  by (auto split: option.splits sum.splits filter_val.splits intro!: all_stmts_intros)

lemma handlers_read:
  "all_stmts read_stmt (GetVoucherHandler tm r)"
  "all_stmts read_stmt (GetVoucherByGUIDHandler L r)"
  "all_stmts read_stmt (OwnerDevicesHandler tm r)"
  by (auto simp: GetVoucherHandler_def GetVoucherByGUIDHandler_def OwnerDevicesHandler_def Let_def read_stmt_query fetch_reads
      store_reads respond_reads intro!: with_guid_reads all_stmts_tryE)

section \<open>The operations keep their promise\<close>

lemma wp_succeeds [wp_simps]: "wp (succeeds P p) Q d = wp p (\<lambda>x. Q (P x)) d"
  by (simp add: succeeds_def wp_bindP)

lemma onboarding_at_del:
  "good d \<Longrightarrow> onboarding_at (del T_device_onboarding (by_guid g) d) = (onboarding_at d)(g := None)"
  by (auto simp: fun_eq_iff onboarding_at_def lookup_del_guid)

lemma not_found: "voucher_at C d g = Inl ErrNotFound \<longleftrightarrow> voucher_row_at d g = None"
  by (auto simp: voucher_at_def voucher_row_at_def of_opt_def ErrMarshal_def split: option.splits)

lemma take_in_Nil [simp]: "take_in C [] s = s"
  by (cases s) (auto simp: take_in_def Let_def fun_eq_iff)

lemma taken_maps:
  assumes "taken C now cs d d'" "\<forall>c\<in>set cs. \<exists>ov. un_voucher C c = Some ov"
  shows "owner_maps C d' = take_in C cs (owner_maps C d)"
proof -
  have f: "find (has_GUID C g) cs = Some c \<Longrightarrow> \<exists>ov. un_voucher C c = Some ov" for g c
    using assms(2) by (auto simp: find_Some_iff)
  have "voucher_at C d' g = fst (take_in C cs (owner_maps C d)) g \<and>
      onboarding_at d' g = snd (take_in C cs (owner_maps C d)) g" for g
    using assms(1)[unfolded taken_def, rule_format, of g] f[of g] not_found[of C d g]
    by (cases "voucher_row_at d g"; cases "find (has_GUID C g) cs"; cases "onboarding_at d g")
       (auto simp: owner_maps_def take_in_def uploaded_at_def tracked_at_def Let_def voucher_at_def
          voucher_row_at_def uploaded_row_def of_opt_def)
  then show ?thesis by (simp add: owner_maps_def[of C d'] prod_eq_iff fun_eq_iff)
qed

lemma NewVoucher_AddVoucher: "NewVoucher C now ov = AddVoucher C now ov"
  by (simp add: NewVoucher_def AddVoucher_def)

lemma wp_owner_prog:
  assumes "good d" "cbor_ok C"
  shows "wp (owner_prog V C L tm ks op) (\<lambda>ok d'. good d' \<and>
     owner_spec V C L ks op ok (owner_maps C d) (owner_maps C d')) d"
proof -
  have add: "wp (AddVoucher C now ov) (\<lambda>r d'. good d' \<and>
      owner_spec V C L ks (AddVoucherOp now ov) (\<not> isl r) (owner_maps C d) (owner_maps C d')) d" for now ov
    using assms by (auto simp: wp_AddVoucher has_voucher_def voucher_at_simps voucher_at_def[of C d] owner_maps_def
        fun_eq_iff intro!: good_ins[where c = "''guid''"] split: option.splits)
  have read: "wp p (\<lambda>_ d'. good d' \<and> owner_maps C d' = owner_maps C d) d" if "all_stmts read_stmt p" for p :: "'x prog"
    by (rule wp_mono[OF wp_reads[OF that]]) (use assms in simp)
  show ?thesis
  proof (cases op)
    case (UploadOp now r)
    show ?thesis
    proof (cases "req_body r")
      case None
      with UploadOp assms(1) show ?thesis
        by (simp add: wp_simps InsertVoucherHandler_def body_vouchers_def)
    next
      case (Some b)
      let ?cs = "body_vouchers L r"
      have maps: "owner_maps C d' = take_in C (take n ?cs) (owner_maps C d)"
        if "taken C now (take n ?cs) d d'" "\<forall>c\<in>set (take n ?cs). \<exists>ov. verified V C ks c ov" for n d'
        by (rule taken_maps[OF that(1)]) (use that(2) in \<open>auto simp: verified_def\<close>)
      have "wp (upload_loop V C L ks now (Suc (length b)) b) (\<lambda>x d'. good d' \<and>
          owner_spec V C L ks op (map_option status x = Some 200) (owner_maps C d) (owner_maps C d')) d"
        by (rule wp_mono[OF wp_upload_loop[OF assms(1)]])
           (use maps Some UploadOp in \<open>auto simp: upload_okD(1) took_in_def body_vouchers_def simp del: pem_vouchers.simps; blast\<close>)
      with UploadOp Some show ?thesis by (simp add: wp_simps InsertVoucherHandler_def del: upload_loop.simps owner_spec.simps)
    qed
  next
    case (NewVoucherOp now ov)
    with add[of now ov] show ?thesis by (simp add: wp_simps NewVoucher_AddVoucher)
  next
    case (AddVoucherOp now ov)
    with add[of now ov] show ?thesis by (simp add: wp_simps)
  next
    case (ReplaceVoucherOp now g ov)
    have unit: "isl r \<or> r = Inr ()" for r :: "unit result" by (cases r) auto
    have "wp (ReplaceVoucher C now g ov) (\<lambda>r d'. good d' \<and>
        owner_spec V C L ks op (\<not> isl r) (owner_maps C d) (owner_maps C d')) d"
      by (rule wp_mono[OF replace_spec[OF assms]]) 
         (use unit in \<open>auto simp: ReplaceVoucherOp owner_maps_def split: if_splits\<close>)
    with ReplaceVoucherOp show ?thesis by (simp add: wp_simps del: owner_spec.simps)
  next
    case (RemoveVoucherOp g)
    with assms(1) show ?thesis
      by (auto simp: wp_simps wp_RemoveVoucher owner_maps_def voucher_at_simps good_tx onboarding_at_del split: sum.splits)
  qed (simp_all add: wp_simps read handlers_read store_reads)
qed

lemma owner_run_refines:
  assumes "gorm_engine E view" "good (view db0)" "cbor_ok C" "owner_run E V C L tm ks db0 ops db"
  shows "good (view db) \<and> owner_specs V C L ks ops (owner_maps C (view db0)) (owner_maps C (view db))"
  using assms(4)
proof (induction rule: owner_run.induct)
  case start
  then show ?case using assms(2) by simp
next
  case (operation ops db op ok db')
  have snoc: "owner_specs V C L ks (l @ [(op, ok)]) s s' \<longleftrightarrow> (\<exists>s1. owner_specs V C L ks l s s1 \<and> owner_spec V C L ks op ok s1 s')"
    for l s s'
  proof (induction l arbitrary: s)
    case (Cons a l)
    then show ?case by (cases a) (simp del: split_paired_Ex, blast)
  qed (simp del: split_paired_Ex)
  from gorm_engine.wp_result[OF assms(1) wp_owner_prog[where V = V and L = L and tm = tm and ks = ks and op = op], of db C]
    operation.IH operation.hyps(2) assms(3)
  show ?case unfolding snoc by (auto simp del: split_paired_Ex)
qed

text \<open>Only the removal of its voucher takes a device back from completed.\<close>

definition onboarded :: "guid \<Rightarrow> owner_maps \<Rightarrow> bool" where
  "onboarded g s \<longleftrightarrow> (case snd s g of None \<Rightarrow> False | Some ob \<Rightarrow> do_TO2Completed ob)"

lemma onboarded_step: "owner_spec V C L ks op ok s s' \<Longrightarrow> op \<noteq> RemoveVoucherOp g \<Longrightarrow> onboarded g s \<Longrightarrow> onboarded g s'"
  by (cases op) (auto simp: onboarded_def take_in_def Let_def split: if_splits option.splits prod.splits)

lemma onboarded_steps:
  "owner_specs V C L ks ops s s' \<Longrightarrow> RemoveVoucherOp g \<notin> fst ` set ops \<Longrightarrow> onboarded g s \<Longrightarrow> onboarded g s'"
  by (induction ops arbitrary: s) (fastforce intro: onboarded_step)+

section \<open>Typed tables\<close>

text \<open>A row that is a record of the model: reading it back loses nothing.\<close>

definition typed_row :: "tname \<Rightarrow> row \<Rightarrow> bool" where
  "typed_row t r \<longleftrightarrow>
     (t = T_vouchers \<longrightarrow> (\<exists>v. r = voucher_toRow v)) \<and>
     (t = T_device_onboarding \<longrightarrow> (\<exists>ob. r = device_onboarding_toRow ob))"

definition typed_tabs :: "(tname \<Rightarrow> row list) \<Rightarrow> bool" where
  "typed_tabs s \<longleftrightarrow> (\<forall>t. \<forall>r\<in>set (s t). typed_row t r)"

definition owner_inv :: "sqldb \<Rightarrow> bool" where
  "owner_inv d \<longleftrightarrow> good d \<and> (\<forall>s\<in>set (tabs d # txs d). typed_tabs s)"

fun typed_stmt :: "stmt \<Rightarrow> bool" where
  "typed_stmt (SCreate t r) \<longleftrightarrow> typed_row t r"
| "typed_stmt (SFirstOrCreate t cs cvs r) \<longleftrightarrow> typed_row t (set_cols cvs r) \<and>
     (\<forall>r'. typed_row t r' \<longrightarrow> typed_row t (set_cols cvs r'))"
| "typed_stmt (SDelete t cs) \<longleftrightarrow> True"
| "typed_stmt (SFirst t cs) \<longleftrightarrow> True"
| "typed_stmt (SFind t cs ord n m) \<longleftrightarrow> True"
| "typed_stmt (SLeftJoin t c u c' cs ord) \<longleftrightarrow> True"
| "typed_stmt SBegin \<longleftrightarrow> True"
| "typed_stmt SCommit \<longleftrightarrow> True"
| "typed_stmt SRollback \<longleftrightarrow> True"
| "typed_stmt _ \<longleftrightarrow> False"

lemma typed_tabs_steps:
  "typed_tabs (tabs d) \<Longrightarrow> typed_row t r \<Longrightarrow> typed_tabs (tabs (ins t r d))"
  "typed_tabs (tabs d) \<Longrightarrow> typed_tabs (tabs (del t cs d))"
  "typed_tabs (tabs d) \<Longrightarrow> (\<forall>r'. typed_row t r' \<longrightarrow> typed_row t (set_cols cvs r')) \<Longrightarrow> typed_tabs (tabs (upd t cs cvs d))"
  unfolding typed_tabs_def by (auto simp: mem_del upd_def)

lemma txs_steps [simp]:
  "txs (ins t r d) = txs d" "txs (del t cs d) = txs d" "txs (upd t cs cvs d) = txs d"
  by (simp_all add: ins_def del_def upd_def)

lemma set_tl: "x \<in> set (tl xs) \<Longrightarrow> x \<in> set xs"
  by (cases xs) auto

lemma owner_inv_step:
  assumes "stepR s d x d'" "typed_stmt s" "owner_inv d"
  shows "owner_inv d'"
proof -
  have "wf d'" using wf_step[OF assms(1)] assms(3) by (simp add: owner_inv_def good_def)
  moreover have "fks d' = fks d"
    using assms(1,2) by (cases s) (auto simp: stepR_def begin_tx_def commit_tx_def rollback_tx_def split: if_splits list.splits)
  moreover have "\<forall>s\<in>set (tabs d' # txs d'). typed_tabs s"
    using assms by (cases s) (auto simp: stepR_def owner_inv_def begin_tx_def commit_tx_def rollback_tx_def
        intro: typed_tabs_steps dest!: set_tl split: if_splits list.splits)
  ultimately show ?thesis using assms(3) by (simp add: owner_inv_def good_def schema_ok_def)
qed

lemma typed_rows [simp]:
  "typed_row T_vouchers (voucher_toRow v)"
  "typed_row T_device_onboarding (device_onboarding_toRow ob)"
  by (auto simp: typed_row_def)

lemma typed_completed:
  assumes "typed_row T_device_onboarding r"
  shows "typed_row T_device_onboarding
     (r(''new_guid'' := VBytes g, ''to2_completed'' := VBool True, ''to2_completed_at'' := VTime now))"
proof -
  from assms obtain ob where "r = device_onboarding_toRow ob" by (auto simp: typed_row_def)
  then have "r(''new_guid'' := VBytes g, ''to2_completed'' := VBool True, ''to2_completed_at'' := VTime now) =
      device_onboarding_toRow (ob\<lparr>do_NewGUID := Some g, do_TO2Completed := True, do_TO2CompletedAt := Some now\<rparr>)"
    by (auto simp: device_onboarding_toRow_def row_of_def nullable_def fun_eq_iff)
  then show ?thesis by simp
qed

lemma set_cols_Nil [simp]: "set_cols [] r = r"
  by (simp add: set_cols_def)

text \<open>Every operation of the server consists of such statements.\<close>

lemma typed_transaction: "all_stmts typed_stmt p \<Longrightarrow> all_stmts typed_stmt (transaction p)"
  unfolding transaction_def by (auto split: option.splits sum.splits intro!: all_stmts_bindP)

lemma read_typed: "all_stmts read_stmt p \<Longrightarrow> all_stmts typed_stmt p"
  by (erule all_stmts_mono) (rename_tac s, case_tac s; simp)

lemma insert_typed: "all_stmts typed_stmt (InsertVoucher v)"
  by (auto simp: InsertVoucher_def db_calls intro!: typed_transaction all_stmts_intros)

lemma upload_loop_typed: "all_stmts typed_stmt (upload_loop V C L ks now n b)"
proof (induction n arbitrary: b)
  case (Suc n)
  then show ?case
    by (auto simp: upload_block_def fetch_reads[THEN read_typed] insert_typed Let_def split: option.splits sum.splits intro!: all_stmts_intros)
qed simp

lemma store_typed:
  "all_stmts typed_stmt (NewVoucher C now ov)"
  "all_stmts typed_stmt (AddVoucher C now ov)"
  "all_stmts typed_stmt (RemoveVoucher C g)"
  unfolding NewVoucher_def AddVoucher_def RemoveVoucher_def db_calls
  by (auto split: option.splits sum.splits intro!: typed_transaction all_stmts_intros)

lemma replace_typed: "all_stmts typed_stmt (ReplaceVoucher C now g ov)"
  unfolding ReplaceVoucher_def db_calls
  by (auto simp: typed_completed split: option.splits intro!: typed_transaction all_stmts_intros)

lemma succeeds_typed: "all_stmts P p \<Longrightarrow> all_stmts P (succeeds Q p)"
  by (auto simp: succeeds_def intro: all_stmts_bindP)

lemma owner_prog_typed: "all_stmts typed_stmt (owner_prog V C L tm ks op)"
proof (cases op)
  case (UploadOp now r)
  then show ?thesis
    by (auto simp: InsertVoucherHandler_def upload_loop_typed simp del: upload_loop.simps split: option.splits intro!: succeeds_typed)
qed (simp_all add: handlers_read[THEN read_typed] store_reads[THEN read_typed] store_typed replace_typed succeeds_typed)

text \<open>So the columns of the GUIDs hold GUIDs in every state the server reaches.\<close>

lemma owner_run_inv:
  assumes "gorm_engine E view" "owner_inv (view db0)" "owner_run E V C L tm ks db0 ops db"
  shows "owner_inv (view db)" "guid_typed (view db)"
  using assms(3)
proof (induction rule: owner_run.induct)
  case start
  {
    case 1
    show ?case by (rule assms(2))
  next
    case 2
    show ?case using assms(2) by (force simp: owner_inv_def typed_tabs_def typed_row_def guid_typed_def)
  }
next
  case (operation ops db op ok db')
  have "wp (owner_prog V C L tm ks op) (\<lambda>_ d'. owner_inv d') (view db)"
    by (rule all_stmts_invariant[OF owner_prog_typed, where I = owner_inv])
       (use operation.IH owner_inv_step in \<open>auto\<close>)
  from gorm_engine.wp_result[OF assms(1) this] operation.hyps(2) have "owner_inv (view db')" by simp
  then show "owner_inv (view db')" "guid_typed (view db')"
    by (force simp: owner_inv_def typed_tabs_def typed_row_def guid_typed_def)+
qed

section \<open>The device list\<close>

lemma wp_ListDevices:
  assumes "good d" "has_voucher g' d" "onboarding_at d g = Some ob" "do_NewGUID ob = Some g'"
  shows "wp (ListDevices [(''old_guid'', FBytes g)]) (\<lambda>r d'. \<forall>ds. r = Inr ds \<longrightarrow>
     (\<exists>v\<in>set ds. dev_GUID v = g' \<and> dev_OldGUID v = g \<and> dev_TO2Completed v = do_TO2Completed ob \<and>
        dev_TO2CompletedAt v = do_TO2CompletedAt ob)) d"
proof -
  from assms(2) obtain r where r: "lookup T_vouchers (VBytes g') d = Some r" by (auto simp: has_voucher_def)
  from assms(3) obtain r' where r': "lookup T_device_onboarding (VBytes g) d = Some r'"
    and ob: "ob = device_onboarding_fromRow r'" by (auto simp: onboarding_at_def)
  have k: "r ''guid'' = VBytes g'" "r' ''guid'' = VBytes g" using lookup_key[OF r] lookup_key[OF r'] by simp_all
  have n: "r' ''new_guid'' = VBytes g'"
    using assms(4) by (cases "r' ''new_guid''") (simp_all add: ob device_onboarding_fromRow_def)
  have "(r, Some r') \<in> set (filter (join_cond (by_guid g) d) (join T_vouchers ''guid'' T_device_onboarding ''new_guid'' d))"
    using lookup_mem[OF r] lookup_mem[OF r'] k n by (auto simp: join_mem join_cond_def sql_eq_def)
  then have m: "(r, Some r') \<in> set ps"
    if "mset ps = mset (filter (join_cond (by_guid g) d) (join T_vouchers ''guid'' T_device_onboarding ''new_guid'' d))" for ps
    using mset_eq_setD[OF that] by blast
  have d: "dev_GUID (device_of (r, Some r')) = g' \<and> dev_OldGUID (device_of (r, Some r')) = g \<and>
      dev_TO2Completed (device_of (r, Some r')) = do_TO2Completed ob \<and>
      dev_TO2CompletedAt (device_of (r, Some r')) = do_TO2CompletedAt ob"
    using k by (simp add: device_of_def voucher_fromRow_def ob device_onboarding_fromRow_def)
  have "\<exists>x\<in>set ps. dev_GUID (device_of x) = g' \<and> dev_OldGUID (device_of x) = g \<and>
      dev_TO2Completed (device_of x) = do_TO2Completed ob \<and> dev_TO2CompletedAt (device_of x) = do_TO2CompletedAt ob"
    if "mset ps = mset (filter (join_cond (by_guid g) d) (join T_vouchers ''guid'' T_device_onboarding ''new_guid'' d))" for ps
    using d m[OF that] by (rule bexI)
  then show ?thesis
    by (simp add: ListDevices_def wp_bindE wp_ret wp_dbLeftJoin)
qed

section \<open>Properties\<close>

text \<open>
  C17. The voucher and onboarding tables refine two maps. Along any sequence of voucher operations a
  voucher that is added was not there and is then; \<^verbatim>\<open>ReplaceVoucher\<close> exchanges the voucher of the old
  GUID for the new one and marks the old GUID as onboarded; \<^verbatim>\<open>RemoveVoucher\<close> takes the
  voucher and its onboarding state away; an upload adds a prefix of the verified vouchers of its
  body, all of them when it succeeds; and an operation that fails, or reads, changes neither map.
\<close>

theorem owner_vouchers_refine:
  assumes "gorm_engine E view" "good (view db0)" "cbor_ok C" "owner_run E V C L tm ks db0 ops db"
  shows "owner_specs V C L ks ops (owner_maps C (view db0)) (owner_maps C (view db))"
  using owner_run_refines[OF assms] by blast

text \<open>A device is uploaded, onboarded and sold.\<close>

definition ex_owner_ops :: "owner_op list" where
  "ex_owner_ops = [UploadOp 5 (ex_upload ''A''), ReplaceVoucherOp 9 (ex_guid CHR ''a'') (ex_ov CHR ''b''),
     RemoveVoucherOp (ex_guid CHR ''b'')]"

definition ex_owner_step :: "owner_op \<Rightarrow> sqldb \<Rightarrow> bool \<times> sqldb" where
  "ex_owner_step op = run sql_exec (owner_prog ex_vlib ex_up_codec ex_pki (\<lambda>_. []) [7] op)"

definition ex_owner_db :: "nat \<Rightarrow> sqldb" where
  "ex_owner_db n = fold (\<lambda>op d. snd (ex_owner_step op d)) (take n ex_owner_ops) (empty_db [])"

lemma ex_owner_run:
  "owner_run sql_exec ex_vlib ex_up_codec ex_pki (\<lambda>_. []) [7] (empty_db []) [] (ex_owner_db 0)"
  "owner_run sql_exec ex_vlib ex_up_codec ex_pki (\<lambda>_. []) [7] (empty_db []) (map (\<lambda>op. (op, True)) ex_owner_ops) (ex_owner_db 3)"
proof -
  have ok: "fst (ex_owner_step (ex_owner_ops ! 0) (ex_owner_db 0))" "fst (ex_owner_step (ex_owner_ops ! 1) (ex_owner_db 1))"
    "fst (ex_owner_step (ex_owner_ops ! 2) (ex_owner_db 2))" by code_simp+
  have s: "snd (ex_owner_step (ex_owner_ops ! 0) (ex_owner_db 0)) = ex_owner_db 1"
    "snd (ex_owner_step (ex_owner_ops ! 1) (ex_owner_db 1)) = ex_owner_db 2"
    "snd (ex_owner_step (ex_owner_ops ! 2) (ex_owner_db 2)) = ex_owner_db 3"
    by (simp_all add: ex_owner_db_def ex_owner_ops_def numeral_eq_Suc)
  have step: "run sql_exec (owner_prog ex_vlib ex_up_codec ex_pki (\<lambda>_. []) [7] op) d = (True, d')"
    if "fst (ex_owner_step op d)" "snd (ex_owner_step op d) = d'" for op d d'
    using that by (cases "ex_owner_step op d") (simp add: ex_owner_step_def)
  show z: "owner_run sql_exec ex_vlib ex_up_codec ex_pki (\<lambda>_. []) [7] (empty_db []) [] (ex_owner_db 0)"
    by (simp add: ex_owner_db_def owner_run.start)
  from owner_run.operation[OF owner_run.operation[OF owner_run.operation[OF z step[OF ok(1) s(1)]] step[OF ok(2) s(2)]] step[OF ok(3) s(3)]]
  show "owner_run sql_exec ex_vlib ex_up_codec ex_pki (\<lambda>_. []) [7] (empty_db []) (map (\<lambda>op. (op, True)) ex_owner_ops) (ex_owner_db 3)"
    by (simp add: ex_owner_ops_def)
qed

lemma ex_up_codec_ok: "cbor_ok ex_up_codec"
  by (simp add: ex_up_codec_def cbor_ok_table_codec)

lemma owner_vouchers_refine_witness:
  "voucher_at ex_up_codec (ex_owner_db 3) (ex_guid CHR ''b'') = Inl ErrNotFound \<and>
   map_option do_TO2Completed (onboarding_at (ex_owner_db 3) (ex_guid CHR ''a'')) = Some True"
  using owner_vouchers_refine[OF ex_ok(5) good_empty ex_up_codec_ok ex_owner_run(2)]
  by (auto simp: ex_owner_ops_def owner_maps_def ex_guid_def)

text \<open>
  C26. Once TO2 has replaced a device's voucher, the scheduler never registers the device under
  its old GUID again, whatever voucher operations follow, in rounds between any of them, unless
  the voucher of the old GUID is removed, as a resale of the device under that GUID does.
\<close>

theorem to0_not_after_to2:
  assumes "gorm_engine E view" "good (view db0)" "cbor_ok C"
    and "result E (ReplaceVoucher C now g ov) db0 = Inr ()"
    and "owner_run E V C L tm ks (after E (ReplaceVoucher C now g ov) db0) ops db"
    and "RemoveVoucherOp g \<notin> fst ` set ops"
    and "result E (to0_rounds T C J insecure ticks nextTry n) db = (m, k, evs)"
  shows "Attempt (hexEncode g) t w us \<notin> set evs"
proof
  let ?d1 = "view (after E (ReplaceVoucher C now g ov) db0)"
  assume "Attempt (hexEncode g) t w us \<in> set evs"
  moreover from gorm_engine.wp_result[OF assms(1) replace_spec[OF assms(2,3), of now g ov]] assms(4)
  have d1: "good ?d1" "onboarded g (owner_maps C ?d1)" by (simp_all add: onboarded_def owner_maps_def)
  from owner_run_refines[OF assms(1) d1(1) assms(3,5)]
  have d: "good (view db)" "owner_specs V C L ks ops (owner_maps C ?d1) (owner_maps C (view db))" by blast+
  moreover from onboarded_steps[OF d(2) assms(6) d1(2)]
  have c: "completed_in (view db) g" by (simp add: onboarded_def owner_maps_def completed_in_def)
  moreover from gorm_engine.wp_result[OF assms(1) wp_to0_rounds[OF goodD(1)[OF d(1)], of T C J insecure ticks nextTry n]] assms(7)
  have "attempts_open (set ticks) (view db) evs" by (simp only: round_ok_def prod.case)
  ultimately obtain g' where "hexEncode g = hexEncode g'" "\<not> completed_in (view db) g'" unfolding attempts_open_def by blast
  with c show False using hexDecode_hexEncode by (metis option.inject)
qed

lemma to0_not_after_to2_witness:
  "Attempt (hexEncode (ex_guid CHR ''a'')) 20 60 [''u'', ''v''] \<notin>
     set (snd (snd (result sql_exec (to0_rounds ex_to0_lib ex_vcodec ex_owner_json False [20] (\<lambda>_. None) 0)
       (after sql_exec (owner_prog ex_vlib ex_vcodec ex_pki (\<lambda>_. []) [7] (RemoveVoucherOp (ex_guid CHR ''b''))) ex_vdb1))))"
proof -
  let ?op = "RemoveVoucherOp (ex_guid CHR ''b'')"
  let ?p = "owner_prog ex_vlib ex_vcodec ex_pki (\<lambda>_. []) [7] ?op"
  let ?r = "result sql_exec (to0_rounds ex_to0_lib ex_vcodec ex_owner_json False [20] (\<lambda>_. None) 0) (after sql_exec ?p ex_vdb1)"
  obtain m k evs where r: "?r = (m, k, evs)" by (cases ?r)
  have run: "owner_run sql_exec ex_vlib ex_vcodec ex_pki (\<lambda>_. []) [7] (after sql_exec (ReplaceVoucher ex_vcodec 5 (ex_guid CHR ''a'') (ex_ov CHR ''b'')) ex_vdb)
      ([] @ [(?op, result sql_exec ?p ex_vdb1)]) (after sql_exec ?p ex_vdb1)"
    unfolding ex_vdb1_def[symmetric] by (rule owner_run.operation[OF owner_run.start]) (simp del: owner_prog.simps)
  have "?op \<noteq> RemoveVoucherOp (ex_guid CHR ''a'')" by (simp add: ex_guid_def)
  with to0_not_after_to2[OF ex_ok(5) ex_v_ok(2,1) ex_v_runs(1) run _ r] r show ?thesis by auto
qed

text \<open>
  C37. A device that completed TO2 is found in the device list by its old GUID, under its new
  GUID, as completed at the time of the completion.
\<close>

theorem onboarded_device_listed:
  assumes "gorm_engine E view" "good (view db)" "cbor_ok C"
    and "result E (ReplaceVoucher C now g ov) db = Inr ()"
    and "result E (ListDevices [(''old_guid'', FBytes g)]) (after E (ReplaceVoucher C now g ov) db) = Inr ds"
  shows "\<exists>v\<in>set ds. dev_GUID v = ov_GUID ov \<and> dev_OldGUID v = g \<and> dev_TO2Completed v \<and> dev_TO2CompletedAt v = Some now"
proof -
  let ?ob = "\<lparr>do_GUID = g, do_NewGUID = Some (ov_GUID ov), do_TO2Completed = True, do_TO2CompletedAt = Some now\<rparr>"
  have "wp (ReplaceVoucher C now g ov) (\<lambda>r d1. r = Inr () \<longrightarrow>
     wp (ListDevices [(''old_guid'', FBytes g)]) (\<lambda>r d'. \<forall>ds. r = Inr ds \<longrightarrow>
       (\<exists>v\<in>set ds. dev_GUID v = ov_GUID ov \<and> dev_OldGUID v = g \<and> dev_TO2Completed v = do_TO2Completed ?ob \<and>
        dev_TO2CompletedAt v = do_TO2CompletedAt ?ob)) d1) (view db)"
  proof (rule wp_mono[OF replace_spec[OF assms(2,3), of now g ov]], intro impI)
    fix r d1
    assume "good d1 \<and> (if r = Inr () then
        voucher_at C d1 = (voucher_at C (view db))(g := Inl ErrNotFound, ov_GUID ov := Inr ov) \<and>
        onboarding_at d1 = (onboarding_at (view db))(g := Some ?ob) else d1 = view db)" and "r = Inr ()"
    then have "good d1" "voucher_at C d1 (ov_GUID ov) = Inr ov" "onboarding_at d1 g = Some ?ob" by simp_all
    moreover from this(2) have "has_voucher (ov_GUID ov) d1"
      by (auto simp: voucher_at_def has_voucher_def split: option.splits)
    ultimately show "wp (ListDevices [(''old_guid'', FBytes g)]) (\<lambda>r d'. \<forall>ds. r = Inr ds \<longrightarrow>
       (\<exists>v\<in>set ds. dev_GUID v = ov_GUID ov \<and> dev_OldGUID v = g \<and> dev_TO2Completed v = do_TO2Completed ?ob \<and>
        dev_TO2CompletedAt v = do_TO2CompletedAt ?ob)) d1"
      by (intro wp_ListDevices) simp_all
  qed
  from gorm_engine.wp_seq[OF assms(1) this assms(4)] assms(5) show ?thesis by simp
qed

lemma onboarded_device_listed_witness:
  "\<exists>v\<in>set (projr (result sql_exec (ListDevices [(''old_guid'', FBytes (ex_guid CHR ''a''))]) ex_vdb1)).
     dev_GUID v = ex_guid CHR ''b'' \<and> dev_OldGUID v = ex_guid CHR ''a'' \<and> dev_TO2Completed v \<and>
     dev_TO2CompletedAt v = Some 5"
proof -
  let ?r = "result sql_exec (ListDevices [(''old_guid'', FBytes (ex_guid CHR ''a''))]) ex_vdb1"
  have "isl ?r = False" by code_simp
  then obtain ds where "?r = Inr ds" by (cases ?r) auto
  with onboarded_device_listed[OF ex_ok(5) ex_v_ok(2,1) ex_v_runs(1), of ds] show ?thesis
    by (simp add: ex_vdb1_def) (simp add: ex_ov_def)
qed

end
