(* ===== verification/Filepath.thy ===== *)
theory Filepath
  imports NetIP "HOL-Library.Sublist"
begin

text \<open>
  What the server uses of Go's \<^verbatim>\<open>path/filepath\<close> on Unix: \<^verbatim>\<open>IsAbs\<close>, \<^verbatim>\<open>Clean\<close>, \<^verbatim>\<open>Join\<close> of
  two elements, \<^verbatim>\<open>Dir\<close> and \<^verbatim>\<open>Base\<close>. A path is read as its list of components.
\<close>

abbreviation slash :: char where
  "slash \<equiv> CHR ''/''"

definition IsAbs :: "string \<Rightarrow> bool" where
  "IsAbs p \<longleftrightarrow> (case p of c # cs \<Rightarrow> c = slash | [] \<Rightarrow> False)"

section \<open>Clean\<close>

text \<open>
  The output is a stack, the last component first. A \<open>..\<close> removes the component before it;
  at the front it stays in a relative path and is dropped in a rooted one.
\<close>

fun clean_elems :: "bool \<Rightarrow> string list \<Rightarrow> string list \<Rightarrow> string list" where
  "clean_elems rooted out [] = rev out"
| "clean_elems rooted out (e # es) =
     (if e = [] \<or> e = ''.'' then clean_elems rooted out es
      else if e = ''..'' then
        (case out of
           [] \<Rightarrow> clean_elems rooted (if rooted then [] else [''..'']) es
         | o1 # out' \<Rightarrow> if o1 = ''..'' then clean_elems rooted (''..'' # out) es else clean_elems rooted out' es)
      else clean_elems rooted (e # out) es)"

fun join_slash :: "string list \<Rightarrow> string" where
  "join_slash [] = []"
| "join_slash [e] = e"
| "join_slash (e # es) = e @ slash # join_slash es"

text \<open>The components of the cleaned path.\<close>

definition elems :: "string \<Rightarrow> string list" where
  "elems p = clean_elems (IsAbs p) [] (split_on slash p)"

definition Clean :: "string \<Rightarrow> string" where
  "Clean p = (if IsAbs p then slash # join_slash (elems p)
     else if elems p = [] then ''.'' else join_slash (elems p))"

section \<open>Join, Dir and Base\<close>

definition Join :: "string \<Rightarrow> string \<Rightarrow> string" where
  "Join a b = (if a \<noteq> [] then Clean (a @ slash # b) else if b \<noteq> [] then Clean b else [])"

definition Dir :: "string \<Rightarrow> string" where
  "Dir p = Clean (rev (dropWhile (\<lambda>c. c \<noteq> slash) (rev p)))"

definition Base :: "string \<Rightarrow> string" where
  "Base p = (if p = [] then ''.''
     else let q = dropWhile (\<lambda>c. c = slash) (rev p) in
       if q = [] then [slash] else rev (takeWhile (\<lambda>c. c \<noteq> slash) q))"

section \<open>Laws\<close>

lemma split_on_nonempty [simp]: "split_on c s \<noteq> []"
  by (cases s) (auto split: list.splits)

lemma split_on_Cons_neq: "x \<noteq> c \<Longrightarrow> split_on c (x # xs) = (x # hd (split_on c xs)) # tl (split_on c xs)"
  by (auto split: list.splits)

lemma split_on_append: "split_on c (a @ c # b) = split_on c a @ split_on c b"
proof (induction a)
  case (Cons x a)
  then show ?case
    by (cases "x = c") (simp_all add: split_on_Cons_neq del: split_on.simps(2) add: split_on.simps(2)[of c c])
qed simp

lemma split_on_elems: "e \<in> set (split_on c s) \<Longrightarrow> c \<notin> set e"
  by (induction s arbitrary: e) (auto split: if_splits list.splits)

lemma split_on_join: "es \<noteq> [] \<Longrightarrow> \<forall>e\<in>set es. slash \<notin> set e \<Longrightarrow> split_on slash (join_slash es) = es"
proof (induction es rule: join_slash.induct)
  case (3 e e' es)
  then show ?case by (simp add: split_on_app)
qed (simp_all add: split_on_single)

definition proper :: "string \<Rightarrow> bool" where
  "proper e \<longleftrightarrow> e \<noteq> [] \<and> e \<noteq> ''.'' \<and> e \<noteq> ''..'' \<and> slash \<notin> set e"

text \<open>Components without \<open>..\<close> are kept in order behind what is there.\<close>

lemma clean_elems_no_dotdot:
  assumes "''..'' \<notin> set es"
  shows "clean_elems r out es = rev out @ filter (\<lambda>e. e \<noteq> [] \<and> e \<noteq> ''.'') es"
  using assms by (induction es arbitrary: out) auto

lemma clean_elems_append: "clean_elems r out (es @ fs) = clean_elems r (rev (clean_elems r out es)) fs"
  by (induction r out es rule: clean_elems.induct) (auto split: list.splits)

text \<open>The stack: \<open>..\<close> only below everything else and only in a relative path.\<close>

fun stack_ok :: "bool \<Rightarrow> string list \<Rightarrow> bool" where
  "stack_ok r [] \<longleftrightarrow> True"
| "stack_ok r (e # out) \<longleftrightarrow> (if e = ''..'' then \<not> r \<and> set out \<subseteq> {''..''} else proper e) \<and> stack_ok r out"

lemma stack_ok_suffix: "stack_ok r (st @ out) \<Longrightarrow> stack_ok r out"
  by (induction st) auto

lemma clean_elems_stack:
  "\<forall>e\<in>set es. slash \<notin> set e \<Longrightarrow> stack_ok r out \<Longrightarrow> stack_ok r (rev (clean_elems r out es))"
proof (induction r out es rule: clean_elems.induct)
  case (2 r out e es)
  show ?case
  proof (cases "e = ''..''")
    case True
    with 2 show ?thesis by (cases out) auto
  next
    case False
    with 2 show ?thesis by (cases "e = [] \<or> e = ''.''") (auto simp: proper_def)
  qed
qed simp

lemma clean_elems_fixed: "stack_ok r (st @ out) \<Longrightarrow> clean_elems r out (rev st) = rev out @ rev st"
proof (induction st arbitrary: out rule: rev_induct)
  case (snoc e st)
  from snoc.prems have e: "stack_ok r (e # out)" "stack_ok r (st @ e # out)"
    using stack_ok_suffix[of r st "e # out"] by simp_all
  show ?case
  proof (cases "e = ''..''")
    case True
    with e snoc.IH[OF e(2)] show ?thesis by (cases out) auto
  next
    case False
    with e snoc.IH[OF e(2)] show ?thesis by (auto simp: proper_def)
  qed
qed simp

lemma elems_ok: "stack_ok (IsAbs p) (rev (elems p))"
  unfolding elems_def by (rule clean_elems_stack) (auto dest: split_on_elems)

lemma stack_ok_slash: "stack_ok r st \<Longrightarrow> e \<in> set st \<Longrightarrow> e \<noteq> [] \<and> slash \<notin> set e"
  by (induction st) (auto simp: proper_def split: if_splits)

lemma elems_parts: "e \<in> set (elems p) \<Longrightarrow> e \<noteq> [] \<and> slash \<notin> set e"
  using stack_ok_slash[OF elems_ok, of e p] by simp

lemma IsAbs_simps [simp]: "IsAbs (c # cs) \<longleftrightarrow> c = slash" "\<not> IsAbs []" "a \<noteq> [] \<Longrightarrow> IsAbs (a @ b) \<longleftrightarrow> IsAbs a"
  by (simp_all add: IsAbs_def) (cases a; simp)

lemma IsAbs_join: "e \<noteq> [] \<Longrightarrow> IsAbs (join_slash (e # es)) \<longleftrightarrow> IsAbs e"
  by (cases es) auto

lemma IsAbs_Clean: "IsAbs (Clean p) \<longleftrightarrow> IsAbs p"
proof (cases "elems p")
  case (Cons e es)
  then have "e \<noteq> [] \<and> slash \<notin> set e" using elems_parts[of e p] by simp
  with Cons show ?thesis by (cases e) (auto simp: Clean_def IsAbs_join)
qed (simp add: Clean_def)

lemma elems_Clean: "elems (Clean p) = elems p"
proof -
  have fixed: "clean_elems (IsAbs p) [] (elems p) = elems p"
    using clean_elems_fixed[of "IsAbs p" "rev (elems p)" "[]"] elems_ok[of p] by simp
  have s: "split_on slash (join_slash (elems p)) = elems p" if "elems p \<noteq> []"
    using that elems_parts[of _ p] by (intro split_on_join) auto
  show ?thesis
    unfolding elems_def[of "Clean p"] IsAbs_Clean
    using fixed s by (cases "elems p = []") (auto simp: Clean_def)
qed

lemma Clean_Clean: "Clean (Clean p) = Clean p"
  by (simp add: Clean_def[of "Clean p"] elems_Clean IsAbs_Clean) (simp add: Clean_def)

lemma elems_append:
  assumes "a \<noteq> []"
  shows "elems (a @ slash # b) = clean_elems (IsAbs a) (rev (elems a)) (split_on slash b)"
  using assms by (simp add: elems_def split_on_append clean_elems_append)

lemma elems_Join_inside:
  assumes "a \<noteq> []" "''..'' \<notin> set (split_on slash b)"
  shows "elems (Join a b) = elems a @ filter (\<lambda>e. e \<noteq> [] \<and> e \<noteq> ''.'') (split_on slash b)"
  using assms by (simp add: Join_def elems_Clean elems_append clean_elems_no_dotdot)

lemma elems_inside: "''..'' \<notin> set (split_on slash p) \<Longrightarrow> elems p = filter (\<lambda>e. e \<noteq> [] \<and> e \<noteq> ''.'') (split_on slash p)"
  by (simp add: elems_def clean_elems_no_dotdot)

lemma Clean_nonempty [simp]: "Clean p \<noteq> []"
proof (cases "elems p")
  case (Cons e es)
  then have "e \<noteq> []" using elems_parts[of e p] by simp
  with Cons show ?thesis by (cases es) (simp_all add: Clean_def)
qed (simp add: Clean_def)

lemma Join_nonempty [simp]: "a \<noteq> [] \<Longrightarrow> Join a b \<noteq> []"
  by (simp add: Join_def)

lemma IsAbs_Join: "a \<noteq> [] \<Longrightarrow> IsAbs (Join a b) \<longleftrightarrow> IsAbs a"
  by (simp add: Join_def IsAbs_Clean)

lemma split_on_Clean: "set (split_on slash (Clean p)) \<subseteq> insert [] (insert ''.'' (set (elems p)))"
proof (cases "elems p = []")
  case False
  then have "split_on slash (join_slash (elems p)) = elems p"
    using elems_parts[of _ p] by (intro split_on_join) auto
  with False show ?thesis by (auto simp: Clean_def)
qed (simp add: Clean_def)

text \<open>The directory of a path without \<open>..\<close> has none either; the base name is one component.\<close>

lemma Dir_inside:
  assumes "''..'' \<notin> set (split_on slash p)"
  shows "''..'' \<notin> set (split_on slash (Dir p))"
proof -
  let ?q = "rev (dropWhile (\<lambda>c. c \<noteq> slash) (rev p))" and ?s = "rev (takeWhile (\<lambda>c. c \<noteq> slash) (rev p))"
  have p: "p = ?q @ ?s" by (simp flip: rev_append)
  have "''..'' \<notin> set (split_on slash ?q)"
  proof (cases "dropWhile (\<lambda>c. c \<noteq> slash) (rev p)")
    case (Cons c cs)
    then have "c = slash" using hd_dropWhile[of "\<lambda>c. c \<noteq> slash" "rev p"] by simp
    with Cons have q: "?q = rev cs @ slash # []" by simp
    from p have "split_on slash p = split_on slash (rev cs) @ split_on slash ?s"
      unfolding q by (metis append.assoc append_Cons append_Nil split_on_append)
    with assms have "''..'' \<notin> set (split_on slash (rev cs))" by (metis UnI1 set_append)
    with q show ?thesis by (simp add: split_on_append)
  qed (simp del: dropWhile_eq_Nil_conv)
  then show ?thesis using split_on_Clean[of ?q] by (auto simp: Dir_def elems_inside)
qed

lemma Base_no_slash: "Base p = [slash] \<or> slash \<notin> set (Base p)"
  by (auto simp: Base_def Let_def dest: set_takeWhileD)

end
