(* ===== verification/TO2State.thy ===== *)
theory TO2State
  imports Sessions
begin

text \<open>
  The TO2 session state of \<^verbatim>\<open>internal/db/state_to2.go\<close>: the values the owner server
  keeps between the messages of one TO2 run. \<^verbatim>\<open>SetGUID\<close> and \<^verbatim>\<open>SetReplacementGUID\<close>
  create the session's row; the other setters update it and report success even
  when there is no row to update.
\<close>

section \<open>Operations\<close>

definition first_session :: "tname \<Rightarrow> bytes \<Rightarrow> row act" where
  "first_session t sid =
     mapErr (notFoundAs ErrNotFound) (dbFirst t [CEq ''session'' (VBytes sid)])"

definition update_session :: "tname \<Rightarrow> bytes \<Rightarrow> (string \<times> sqlval) list \<Rightarrow> unit act" where
  "update_session t sid cvs =
     bindE (dbUpdate t [CEq ''session'' (VBytes sid)] cvs) (\<lambda>_. retE ())"

definition assign_session :: "tname \<Rightarrow> bytes \<Rightarrow> (string \<times> sqlval) list \<Rightarrow> row \<Rightarrow> unit act" where
  "assign_session t sid cvs r0 = dbFirstOrCreate t [CEq ''session'' (VBytes sid)] cvs r0"

definition SetGUID :: "ctx \<Rightarrow> guid \<Rightarrow> unit act" where
  "SetGUID c g =
     bindE (State_getSessionID c) (\<lambda>sid.
       assign_session T_to2_sessions sid [(''guid'', VBytes g)]
         (to2_session_toRow \<lparr>to2_Session = sid, to2_GUID = Some g, to2_RvInfo = None,
            to2_ProveDevice = None, to2_SetupDevice = None, to2_MTU = None, to2_Devmod = None,
            to2_Modules = None, to2_DevmodComplete = None\<rparr>))"

definition GUID :: "ctx \<Rightarrow> guid act" where
  "GUID c =
     bindE (State_getSessionID c) (\<lambda>sid.
     bindE (first_session T_to2_sessions sid) (\<lambda>r.
       retE (copy_array 16 (orNil (to2_GUID (to2_session_fromRow r))))))"

definition SetRvInfo :: "cbor_lib \<Rightarrow> ctx \<Rightarrow> rv_info \<Rightarrow> unit act" where
  "SetRvInfo C c rv =
     bindE (State_getSessionID c) (\<lambda>sid.
     bindE (liftR (of_opt (Wrapf ''failed to marshal rvInfo'' (ErrExt ''cbor'')) (marshal C (GRvInfo rv)))) (\<lambda>b.
       update_session T_to2_sessions sid [(''rv_info'', VBytes b)]))"

definition RvInfo :: "cbor_lib \<Rightarrow> ctx \<Rightarrow> rv_info act" where
  "RvInfo C c =
     bindE (State_getSessionID c) (\<lambda>sid.
     bindE (first_session T_to2_sessions sid) (\<lambda>r.
       case to2_RvInfo (to2_session_fromRow r) of
         None \<Rightarrow> failE ErrNotFound
       | Some b \<Rightarrow> liftR (of_opt (Wrapf ''failed to unmarshal rvInfo'' (ErrExt ''cbor'')) (un_rvinfo C b))))"

definition SetReplacementGUID :: "ctx \<Rightarrow> guid \<Rightarrow> unit act" where
  "SetReplacementGUID c g =
     bindE (State_getSessionID c) (\<lambda>sid.
       assign_session T_replacement_vouchers sid [(''guid'', VBytes g)]
         (replacement_voucher_toRow \<lparr>rep_Session = sid, rep_GUID = Some g, rep_Hmac = None\<rparr>))"

definition ReplacementGUID :: "ctx \<Rightarrow> guid act" where
  "ReplacementGUID c =
     bindE (State_getSessionID c) (\<lambda>sid.
     bindE (first_session T_replacement_vouchers sid) (\<lambda>r.
       retE (copy_array 16 (orNil (rep_GUID (replacement_voucher_fromRow r))))))"

text \<open>
  The same value for the upload directory of the owner modules (\<^verbatim>\<open>state.go\<close>). The
  conversion \<^verbatim>\<open>protocol.GUID(slice)\<close> panics on fewer than sixteen octets; \<open>None\<close> is
  that panic.
\<close>

definition GetReplacementGUID :: "ctx \<Rightarrow> guid option act" where
  "GetReplacementGUID c =
     bindE (State_getSessionID c) (\<lambda>sid.
     bindE (first_session T_replacement_vouchers sid) (\<lambda>r.
       let g = orNil (rep_GUID (replacement_voucher_fromRow r))
       in retE (if length g < 16 then None else Some (take 16 g))))"

definition SetReplacementHmac :: "cbor_lib \<Rightarrow> ctx \<Rightarrow> bytes \<Rightarrow> unit act" where
  "SetReplacementHmac C c hmac =
     bindE (State_getSessionID c) (\<lambda>sid.
     bindE (liftR (of_opt (Wrapf ''failed to marshal hmac'' (ErrExt ''cbor''))
                     (marshal C (GExt ''Hmac'' hmac)))) (\<lambda>b.
       update_session T_replacement_vouchers sid [(''hmac'', VBytes b)]))"

definition ReplacementHmac :: "cbor_lib \<Rightarrow> ctx \<Rightarrow> bytes act" where
  "ReplacementHmac C c =
     bindE (State_getSessionID c) (\<lambda>sid.
     bindE (first_session T_replacement_vouchers sid) (\<lambda>r.
       liftR (of_opt (Wrapf ''failed to unmarshal hmac'' (ErrExt ''cbor''))
                (un_ext ''Hmac'' C (orNil (rep_Hmac (replacement_voucher_fromRow r)))))))"

text \<open>
  The key exchange session. \<open>mbin\<close> is the session's \<^verbatim>\<open>MarshalBinary\<close> (outer \<open>None\<close>: it
  is not a \<^verbatim>\<open>BinaryMarshaler\<close>), \<open>ubin suite\<close> the \<^verbatim>\<open>UnmarshalBinary\<close> of a new session of
  the suite.
\<close>

definition SetXSession :: "('k \<Rightarrow> bytes option option) \<Rightarrow> ctx \<Rightarrow> string \<Rightarrow> 'k \<Rightarrow> unit act" where
  "SetXSession mbin c suite sess =
     bindE (State_getSessionID c) (\<lambda>sid.
       case mbin sess of
         None \<Rightarrow> failE (Errorf ''key exchange session does not support binary marshaling'')
       | Some None \<Rightarrow> failE (Wrapf ''failed to marshal session'' (ErrExt ''kex''))
       | Some (Some b) \<Rightarrow>
           dbSave T_key_exchanges (key_exchange_toRow \<lparr>kex_Session = sid, kex_Suite = suite, kex_CBOR = b\<rparr>))"

definition XSession :: "(string \<Rightarrow> (bytes \<Rightarrow> 'k option) option) \<Rightarrow> ctx \<Rightarrow> (string \<times> 'k) act" where
  "XSession ubin c =
     bindE (State_getSessionID c) (\<lambda>sid.
     bindE (first_session T_key_exchanges sid) (\<lambda>r.
       let k = key_exchange_fromRow r in
       case ubin (kex_Suite k) of
         None \<Rightarrow> failE (Errorf ''key exchange session does not support binary unmarshaling'')
       | Some u \<Rightarrow>
           (case u (kex_CBOR k) of
              None \<Rightarrow> failE (Wrapf ''failed to unmarshal session'' (ErrExt ''kex''))
            | Some sess \<Rightarrow> retE (kex_Suite k, sess))))"

definition SetProveDeviceNonce :: "ctx \<Rightarrow> bytes \<Rightarrow> unit act" where
  "SetProveDeviceNonce c nonce =
     bindE (State_getSessionID c) (\<lambda>sid.
       update_session T_to2_sessions sid [(''prove_device'', VBytes nonce)])"

definition ProveDeviceNonce :: "ctx \<Rightarrow> bytes act" where
  "ProveDeviceNonce c =
     bindE (State_getSessionID c) (\<lambda>sid.
     bindE (first_session T_to2_sessions sid) (\<lambda>r.
       case to2_ProveDevice (to2_session_fromRow r) of
         None \<Rightarrow> failE ErrNotFound
       | Some b \<Rightarrow> retE (copy_array 16 b)))"

definition SetSetupDeviceNonce :: "ctx \<Rightarrow> bytes \<Rightarrow> unit act" where
  "SetSetupDeviceNonce c nonce =
     bindE (State_getSessionID c) (\<lambda>sid.
       update_session T_to2_sessions sid [(''setup_device'', VBytes nonce)])"

definition SetupDeviceNonce :: "ctx \<Rightarrow> bytes act" where
  "SetupDeviceNonce c =
     bindE (State_getSessionID c) (\<lambda>sid.
     bindE (first_session T_to2_sessions sid) (\<lambda>r.
       case to2_SetupDevice (to2_session_fromRow r) of
         None \<Rightarrow> failE ErrNotFound
       | Some b \<Rightarrow> retE (copy_array 16 b)))"

definition SetMTU :: "ctx \<Rightarrow> 16 word \<Rightarrow> unit act" where
  "SetMTU c mtu =
     bindE (State_getSessionID c) (\<lambda>sid.
       update_session T_to2_sessions sid [(''mtu'', VInt (uint mtu))])"

definition MTU :: "ctx \<Rightarrow> 16 word act" where
  "MTU c =
     bindE (State_getSessionID c) (\<lambda>sid.
     bindE (first_session T_to2_sessions sid) (\<lambda>r.
       case to2_MTU (to2_session_fromRow r) of
         None \<Rightarrow> failE ErrNotFound
       | Some i \<Rightarrow>
           if i < 0 \<or> i > 65535 then failE (Errorf ''MTU value out of valid range'')
           else retE (word_of_int i)))"

definition SetDevmod :: "cbor_lib \<Rightarrow> ctx \<Rightarrow> bytes \<Rightarrow> string list \<Rightarrow> bool \<Rightarrow> unit act" where
  "SetDevmod C c devmod modules complete =
     bindE (State_getSessionID c) (\<lambda>sid.
     bindE (liftR (of_opt (Wrapf ''failed to marshal devmod'' (ErrExt ''cbor''))
                     (marshal C (GExt ''Devmod'' devmod)))) (\<lambda>db.
     bindE (liftR (of_opt (Wrapf ''failed to marshal modules'' (ErrExt ''cbor''))
                     (marshal C (GStrs modules)))) (\<lambda>mb.
       update_session T_to2_sessions sid
         [(''devmod'', VBytes db), (''modules'', VBytes mb), (''devmod_complete'', VBool complete)])))"

text \<open>The named results start as the zero values: no device information, no modules, not complete.\<close>

definition Devmod :: "cbor_lib \<Rightarrow> bytes \<Rightarrow> ctx \<Rightarrow> (bytes \<times> string list \<times> bool) act" where
  "Devmod C zero c =
     bindE (State_getSessionID c) (\<lambda>sid.
     bindE (first_session T_to2_sessions sid) (\<lambda>r.
       let s = to2_session_fromRow r in
       liftR (rbind (case to2_Devmod s of None \<Rightarrow> Inr zero
                     | Some b \<Rightarrow> of_opt (Wrapf ''failed to unmarshal devmod'' (ErrExt ''cbor''))
                                   (un_ext ''Devmod'' C b)) (\<lambda>dm.
              rbind (case to2_Modules s of None \<Rightarrow> Inr []
                     | Some b \<Rightarrow> of_opt (Wrapf ''failed to unmarshal modules'' (ErrExt ''cbor''))
                                   (un_strs C b)) (\<lambda>ms.
                Inr (dm, ms, orFalse (to2_DevmodComplete s)))))))"

section \<open>Interpretations of the session contract\<close>

definition to2_row :: "bytes \<Rightarrow> sqldb \<Rightarrow> to2_session option" where
  "to2_row s d = map_option to2_session_fromRow (lookup T_to2_sessions (VBytes s) d)"

definition rep_row :: "bytes \<Rightarrow> sqldb \<Rightarrow> replacement_voucher option" where
  "rep_row s d = map_option replacement_voucher_fromRow (lookup T_replacement_vouchers (VBytes s) d)"

definition guid_cell :: "bytes \<Rightarrow> sqldb \<Rightarrow> guid option" where
  "guid_cell s d = map_option (\<lambda>x. copy_array 16 (orNil (to2_GUID x))) (to2_row s d)"

definition rep_guid_cell :: "bytes \<Rightarrow> sqldb \<Rightarrow> guid option" where
  "rep_guid_cell s d = map_option (\<lambda>x. copy_array 16 (orNil (rep_GUID x))) (rep_row s d)"

definition prove_cell :: "bytes \<Rightarrow> sqldb \<Rightarrow> bytes option" where
  "prove_cell s d = map_option (copy_array 16) (Option.bind (to2_row s d) to2_ProveDevice)"

definition setup_cell :: "bytes \<Rightarrow> sqldb \<Rightarrow> bytes option" where
  "setup_cell s d = map_option (copy_array 16) (Option.bind (to2_row s d) to2_SetupDevice)"

definition has_to2 :: "bytes \<Rightarrow> sqldb \<Rightarrow> bool" where
  "has_to2 s d \<longleftrightarrow> to2_row s d \<noteq> None"

lemma wp_first_session [wp_simps]:
  assumes "wf d" "pkcols t = [''session'']"
  shows "wp (first_session t sid) Q d \<longleftrightarrow> (\<forall>m. Q (Inl (ErrDriver m)) d) \<and>
     (case lookup t (VBytes sid) d of None \<Rightarrow> Q (Inl ErrNotFound) d | Some r \<Rightarrow> Q (Inr r) d)"
  using assms by (auto simp: first_session_def wp_simps rows_key split: option.splits)

lemma wf_pk_ok: "wf d \<Longrightarrow> pk_ok t (tabs d t)"
  by (simp add: wf_def)

lemma wp_update_session [wp_simps]:
  assumes "wf d" "pkcols t = [''session'']" "''session'' \<notin> fst ` set cvs"
  shows "wp (update_session t sid cvs) Q d \<longleftrightarrow> (\<forall>m. Q (Inl (ErrDriver m)) d) \<and>
     Q (Inr ()) (upd t [CEq ''session'' (VBytes sid)] cvs d)"
  using assms by (simp add: update_session_def wp_simps pk_ok_upd wf_pk_ok)

text \<open>Updating one session's row: its columns change, nothing else does.\<close>

lemma lookup_upd_session:
  assumes "pkcols t = [''session'']" "''session'' \<notin> fst ` set cvs" "pkcols u = [k]" "u \<noteq> t \<or> k = ''session''"
  shows "lookup u (VBytes s) (upd t [CEq ''session'' (VBytes sid)] cvs d) =
     (if u = t \<and> s = sid then map_option (set_cols cvs) (lookup u (VBytes s) d) else lookup u (VBytes s) d)"
proof (cases "u = t")
  case True
  with assms show ?thesis
    by (cases "lookup t (VBytes s) d") (auto simp: lookup_upd sql_eq_def dest: lookup_key)
next
  case False
  then have "tabs (upd t [CEq ''session'' (VBytes sid)] cvs d) u = tabs d u"
    by (simp add: upd_def)
  with False show ?thesis by (simp add: lookup_def)
qed

lemma wp_assign_session [wp_simps]:
  assumes "wf d" "pkcols t = [''session'']" "''session'' \<notin> fst ` set cvs" "r0 ''session'' = VBytes sid"
  shows "wp (assign_session t sid cvs r0) Q d \<longleftrightarrow>
     (\<forall>m. Q (Inl (ErrDriver m)) d) \<and>
     (if lookup t (VBytes sid) d = None
      then (if fk_ok t (set_cols cvs r0) d then Q (Inr ()) (ins t (set_cols cvs r0) d)
            else (\<forall>e. fk_error e \<longrightarrow> Q (Inl e) d))
      else Q (Inr ()) (upd t [CEq ''session'' (VBytes sid)] cvs d))"
  using assms unfolding assign_session_def by (rule wp_dbFirstOrCreate_key)

lemma lookup_ins_session:
  assumes "pkcols t = [''session'']" "r ''session'' = VBytes sid" "lookup t (VBytes sid) d = None"
  shows "lookup u (VBytes s) (ins t r d) =
     (if u = t \<and> s = sid then Some r else lookup u (VBytes s) d)"
  using assms by (auto simp: lookup_ins dupkey_lookup sql_eq_def)

lemmas to2_simps = wp_getSessionID wp_simps lookup_upd_session
  lookup_ins_session live_def fk_error_def fromRow_defs to2_row_def rep_row_def

interpretation to2_guid: session_cell State_sid SetGUID GUID guid_cell "\<lambda>_ _. True" nonce_ok
  by unfold_locales
     (auto simp: SetGUID_def GUID_def guid_cell_def nonce_ok_def to2_simps toRow_defs
       split: option.splits)

interpretation to2_rep_guid: session_cell State_sid SetReplacementGUID ReplacementGUID rep_guid_cell
  "\<lambda>_ _. True" nonce_ok
  by unfold_locales
     (auto simp: SetReplacementGUID_def ReplacementGUID_def rep_guid_cell_def nonce_ok_def to2_simps
       toRow_defs split: option.splits)

interpretation to2_prove: session_cell State_sid SetProveDeviceNonce ProveDeviceNonce prove_cell
  has_to2 nonce_ok
  by unfold_locales
     (auto simp: SetProveDeviceNonce_def ProveDeviceNonce_def prove_cell_def has_to2_def nonce_ok_def
       to2_simps split: option.splits)

interpretation to2_setup: session_cell State_sid SetSetupDeviceNonce SetupDeviceNonce setup_cell
  has_to2 nonce_ok
  by unfold_locales
     (auto simp: SetSetupDeviceNonce_def SetupDeviceNonce_def setup_cell_def has_to2_def nonce_ok_def
       to2_simps split: option.splits)

end
