(* ===== verification/TO2Properties.thy ===== *)
theory TO2Properties
  imports TO2State Frame
begin

text \<open>
  The TO2 session of the owner server as a record: every setter of \<^verbatim>\<open>state_to2.go\<close> refines an
  update of the record's field, in any order and number, and the getters read the fields.
\<close>

section \<open>The abstract session\<close>

datatype to2_put =
    PutGUID guid
  | PutRvInfo rv_info
  | PutProveDevice bytes
  | PutSetupDevice bytes
  | PutMTU "16 word"
  | PutDevmod bytes "string list" bool

fun to2_set :: "cbor_lib \<Rightarrow> ctx \<Rightarrow> to2_put \<Rightarrow> unit act" where
  "to2_set C c (PutGUID g) = SetGUID c g"
| "to2_set C c (PutRvInfo rv) = SetRvInfo C c rv"
| "to2_set C c (PutProveDevice n) = SetProveDeviceNonce c n"
| "to2_set C c (PutSetupDevice n) = SetSetupDeviceNonce c n"
| "to2_set C c (PutMTU m) = SetMTU c m"
| "to2_set C c (PutDevmod dm ms fin) = SetDevmod C c dm ms fin"

text \<open>A sequence of setters, up to the first error.\<close>

primrec to2_sets :: "cbor_lib \<Rightarrow> ctx \<Rightarrow> to2_put list \<Rightarrow> unit act" where
  "to2_sets C c [] = retE ()"
| "to2_sets C c (x # xs) = bindE (to2_set C c x) (\<lambda>_. to2_sets C c xs)"

definition new_to2 :: "bytes \<Rightarrow> guid \<Rightarrow> to2_session" where
  "new_to2 sid g = \<lparr>to2_Session = sid, to2_GUID = Some g, to2_RvInfo = None, to2_ProveDevice = None,
     to2_SetupDevice = None, to2_MTU = None, to2_Devmod = None, to2_Modules = None, to2_DevmodComplete = None\<rparr>"

text \<open>The updates of the record: \<^verbatim>\<open>SetGUID\<close> creates it, the others do nothing without it.\<close>

fun abs_set :: "cbor_lib \<Rightarrow> bytes \<Rightarrow> to2_put \<Rightarrow> to2_session option \<Rightarrow> to2_session option" where
  "abs_set C sid (PutGUID g) x = Some (case x of None \<Rightarrow> new_to2 sid g | Some y \<Rightarrow> y\<lparr>to2_GUID := Some g\<rparr>)"
| "abs_set C sid (PutRvInfo rv) x = map_option (to2_RvInfo_update (\<lambda>_. marshal C (GRvInfo rv))) x"
| "abs_set C sid (PutProveDevice n) x = map_option (to2_ProveDevice_update (\<lambda>_. Some n)) x"
| "abs_set C sid (PutSetupDevice n) x = map_option (to2_SetupDevice_update (\<lambda>_. Some n)) x"
| "abs_set C sid (PutMTU m) x = map_option (to2_MTU_update (\<lambda>_. Some (uint m))) x"
| "abs_set C sid (PutDevmod dm ms fin) x =
     map_option (\<lambda>y. y\<lparr>to2_Devmod := marshal C (GExt ''Devmod'' dm), to2_Modules := marshal C (GStrs ms),
       to2_DevmodComplete := Some fin\<rparr>) x"

text \<open>A setter that succeeds has encoded its value.\<close>

fun encodable :: "cbor_lib \<Rightarrow> to2_put \<Rightarrow> bool" where
  "encodable C (PutRvInfo rv) \<longleftrightarrow> marshal C (GRvInfo rv) \<noteq> None"
| "encodable C (PutDevmod dm ms fin) \<longleftrightarrow> marshal C (GExt ''Devmod'' dm) \<noteq> None \<and> marshal C (GStrs ms) \<noteq> None"
| "encodable C _ \<longleftrightarrow> True"

lemma to2_fromRow_new: "to2_session_fromRow (to2_session_toRow (new_to2 sid g)) = new_to2 sid g"
  by (simp add: new_to2_def fromRow_defs toRow_defs)

lemma to2_key [simp]: "to2_session_toRow x ''session'' = VBytes (to2_Session x)"
  by (simp add: toRow_defs)

lemma wp_to2_set:
  assumes "wf d" "State_sid c = Some sid"
  shows "wp (to2_set C c x) (\<lambda>r d'. wf d' \<and> (r = Inr () \<longrightarrow>
     live sid d \<and> live sid d' \<and> encodable C x \<and> to2_row sid d' = abs_set C sid x (to2_row sid d) \<and>
     (\<forall>s. s \<noteq> sid \<longrightarrow> to2_row s d' = to2_row s d))) d"
proof -
  have "wp (to2_set C c x) (\<lambda>r d'. r = Inr () \<longrightarrow>
     live sid d \<and> live sid d' \<and> encodable C x \<and> to2_row sid d' = abs_set C sid x (to2_row sid d) \<and>
     (\<forall>s. s \<noteq> sid \<longrightarrow> to2_row s d' = to2_row s d)) d"
    using assms
    by (cases x)
       (auto simp: SetGUID_def SetRvInfo_def SetProveDeviceNonce_def SetSetupDeviceNonce_def SetMTU_def SetDevmod_def
         to2_simps toRow_defs new_to2_def case_of_opt option.map_comp comp_def split: option.splits)
  with wf_wp[OF assms(1)] show ?thesis by (simp add: wp_conj)
qed

lemma wp_to2_sets:
  assumes "wf d" "State_sid c = Some sid"
  shows "wp (to2_sets C c xs) (\<lambda>r d'. wf d' \<and> (r = Inr () \<longrightarrow>
     (xs \<noteq> [] \<longrightarrow> live sid d') \<and> (\<forall>x\<in>set xs. encodable C x) \<and>
     to2_row sid d' = fold (abs_set C sid) xs (to2_row sid d) \<and>
     (\<forall>s. s \<noteq> sid \<longrightarrow> to2_row s d' = to2_row s d))) d"
  using assms(1)
proof (induction xs arbitrary: d)
  case (Cons x xs)
  show ?case unfolding to2_sets.simps
  proof (rule wp_bindE_rule[OF wp_to2_set[OF Cons.prems assms(2), of C x]])
    fix u d1
    assume 1: "wf d1 \<and> (Inr u = Inr () \<longrightarrow> live sid d \<and> live sid d1 \<and> encodable C x \<and>
       to2_row sid d1 = abs_set C sid x (to2_row sid d) \<and> (\<forall>s. s \<noteq> sid \<longrightarrow> to2_row s d1 = to2_row s d))"
    then have "wf d1" by simp
    from Cons.IH[OF this]
    show "wp (to2_sets C c xs) (\<lambda>r d'. wf d' \<and> (r = Inr () \<longrightarrow> (x # xs \<noteq> [] \<longrightarrow> live sid d') \<and>
        (\<forall>x\<in>set (x # xs). encodable C x) \<and> to2_row sid d' = fold (abs_set C sid) (x # xs) (to2_row sid d) \<and>
        (\<forall>s. s \<noteq> sid \<longrightarrow> to2_row s d' = to2_row s d))) d1"
    proof (cases xs)
      case Nil
      with 1 show ?thesis by (simp add: wp_ret)
    next
      case (Cons y ys)
      show ?thesis by (rule wp_mono[OF \<open>wp (to2_sets C c xs) _ d1\<close>]) (use 1 Cons in auto)
    qed
  qed auto
qed (simp add: wp_ret)

section \<open>Reading the session\<close>

text \<open>Each getter reports its field, \<open>ErrNotFound\<close> where there is none, up to driver failures.\<close>

definition to2_read :: "bytes option \<Rightarrow> (to2_session \<Rightarrow> 'a result) \<Rightarrow> sqldb \<Rightarrow> 'a result" where
  "to2_read s f d = (case s of None \<Rightarrow> Inl ErrInvalidSession
     | Some sid \<Rightarrow> if \<not> live sid d then Inl ErrInvalidSession
                   else case to2_row sid d of None \<Rightarrow> Inl ErrNotFound | Some x \<Rightarrow> f x)"

definition mtu_value :: "to2_session \<Rightarrow> (16 word) result" where
  "mtu_value x = (case to2_MTU x of None \<Rightarrow> Inl ErrNotFound
     | Some i \<Rightarrow> if i < 0 \<or> i > 65535 then Inl (Errorf ''MTU value out of valid range'') else Inr (word_of_int i))"

definition devmod_value :: "cbor_lib \<Rightarrow> bytes \<Rightarrow> to2_session \<Rightarrow> (bytes \<times> string list \<times> bool) result" where
  "devmod_value C zero s =
     rbind (case to2_Devmod s of None \<Rightarrow> Inr zero
            | Some b \<Rightarrow> of_opt (Wrapf ''failed to unmarshal devmod'' (ErrExt ''cbor'')) (un_ext ''Devmod'' C b)) (\<lambda>dm.
     rbind (case to2_Modules s of None \<Rightarrow> Inr []
            | Some b \<Rightarrow> of_opt (Wrapf ''failed to unmarshal modules'' (ErrExt ''cbor'')) (un_strs C b)) (\<lambda>ms.
       Inr (dm, ms, orFalse (to2_DevmodComplete s))))"

definition rvinfo_value :: "cbor_lib \<Rightarrow> to2_session \<Rightarrow> rv_info result" where
  "rvinfo_value C x = (case to2_RvInfo x of None \<Rightarrow> Inl ErrNotFound
     | Some b \<Rightarrow> of_opt (Wrapf ''failed to unmarshal rvInfo'' (ErrExt ''cbor'')) (un_rvinfo C b))"

lemmas getter_simps = to2_read_def to2_simps Let_def case_of_opt

lemma wp_to2_getters:
  assumes "wf d"
  shows "wp (GUID c) (\<lambda>r d'. d' = d \<and> (driver_failed r \<or>
      r = to2_read (State_sid c) (\<lambda>x. Inr (copy_array 16 (orNil (to2_GUID x)))) d)) d"
    "wp (ProveDeviceNonce c) (\<lambda>r d'. d' = d \<and> (driver_failed r \<or>
      r = to2_read (State_sid c) (\<lambda>x. of_opt ErrNotFound (map_option (copy_array 16) (to2_ProveDevice x))) d)) d"
    "wp (MTU c) (\<lambda>r d'. d' = d \<and> (driver_failed r \<or> r = to2_read (State_sid c) mtu_value d)) d"
    "wp (RvInfo C c) (\<lambda>r d'. d' = d \<and> (driver_failed r \<or> r = to2_read (State_sid c) (rvinfo_value C) d)) d"
    "wp (Devmod C zero c) (\<lambda>r d'. d' = d \<and> (driver_failed r \<or> r = to2_read (State_sid c) (devmod_value C zero) d)) d"
  using assms
  by (auto simp: GUID_def ProveDeviceNonce_def MTU_def mtu_value_def RvInfo_def rvinfo_value_def Devmod_def
      devmod_value_def getter_simps split: option.splits)

section \<open>A concrete instance\<close>

definition ex_to2_codec :: cbor_lib where
  "ex_to2_codec = table_codec [(GRvInfo ex_rv, ''R''), (GExt ''Devmod'' ''d'', ''D''), (GStrs [''m''], ''M'')]"

definition ex_to2_ctx :: ctx where
  "ex_to2_ctx = State_TokenContext \<lparr>db_token = None, state_token = None\<rparr> (b64Encode ''s'')"

definition ex_to2_db :: sqldb where
  "ex_to2_db = after sql_exec (State_NewToken (Some ''s'') 2) (empty_db [])"

definition ex_to2_puts :: "to2_put list" where
  "ex_to2_puts = [PutGUID (replicate 16 CHR ''g''), PutRvInfo ex_rv, PutProveDevice (replicate 16 CHR ''p''),
     PutMTU 1300, PutDevmod ''d'' [''m''] True]"

lemma ex_to2_ok: "wf ex_to2_db" "State_sid ex_to2_ctx = Some ''s''" "cbor_ok ex_to2_codec"
proof -
  show "wf ex_to2_db" using sql.wp_result[OF wf_wp[OF ex_ok(3)]] by (simp add: ex_to2_db_def)
  show "State_sid ex_to2_ctx = Some ''s''"
    by (simp only: ex_to2_ctx_def State_sid_def State_TokenFromContext_def State_TokenContext_def
        ctx.simps bind.bind_lunit b64Decode_b64Encode)
  show "cbor_ok ex_to2_codec" by (simp add: ex_to2_codec_def cbor_ok_table_codec)
qed

lemma ex_to2_run: "result sql_exec (to2_sets ex_to2_codec ex_to2_ctx ex_to2_puts) ex_to2_db = Inr ()"
  by code_simp

section \<open>Properties\<close>

text \<open>
  C4. The setters of a TO2 session, in any order and number, refine the updates of one record:
  after a sequence of them without an error the session's row is the record the
  updates give, and the rows of all other sessions are as before.
\<close>

theorem to2_setters_refine:
  assumes "gorm_engine E view" "wf (view db)" "State_sid c = Some sid"
    and "result E (to2_sets C c xs) db = Inr ()"
  shows "to2_row sid (view (after E (to2_sets C c xs) db)) = fold (abs_set C sid) xs (to2_row sid (view db)) \<and>
     (\<forall>s. s \<noteq> sid \<longrightarrow> to2_row s (view (after E (to2_sets C c xs) db)) = to2_row s (view db))"
  using gorm_engine.wp_result[OF assms(1) wp_to2_sets[OF assms(2,3), of C xs]] assms(4) by simp

lemma to2_setters_refine_witness:
  "to2_row ''s'' (after sql_exec (to2_sets ex_to2_codec ex_to2_ctx ex_to2_puts) ex_to2_db) =
   fold (abs_set ex_to2_codec ''s'') ex_to2_puts None"
proof -
  have "to2_row ''s'' ex_to2_db = None" by code_simp
  with to2_setters_refine[OF ex_ok(5) ex_to2_ok(1,2) ex_to2_run] show ?thesis by simp
qed

text \<open>
  What was set in a TO2 session reads back unchanged through every getter, the maximum
  transfer unit over its whole 16-bit range; only the driver can fail.
\<close>

theorem to2_roundtrip:
  fixes zero
  assumes "gorm_engine E view" "wf (view db)" "cbor_ok C" "State_sid c = Some sid" "length g = 16" "length n = 16"
    and "result E (to2_sets C c [PutGUID g, PutRvInfo rv, PutProveDevice n, PutMTU m, PutDevmod dm ms fin]) db = Inr ()"
  defines "db1 \<equiv> after E (to2_sets C c [PutGUID g, PutRvInfo rv, PutProveDevice n, PutMTU m, PutDevmod dm ms fin]) db"
  shows "result E (GUID c) db1 \<in> {Inr g} \<union> {r. driver_failed r} \<and>
     result E (RvInfo C c) db1 \<in> {Inr rv} \<union> {r. driver_failed r} \<and>
     result E (ProveDeviceNonce c) db1 \<in> {Inr n} \<union> {r. driver_failed r} \<and>
     result E (MTU c) db1 \<in> {Inr m} \<union> {r. driver_failed r} \<and>
     result E (Devmod C zero c) db1 \<in> {Inr (dm, ms, fin)} \<union> {r. driver_failed r}"
proof -
  let ?xs = "[PutGUID g, PutRvInfo rv, PutProveDevice n, PutMTU m, PutDevmod dm ms fin]"
  from gorm_engine.wp_result[OF assms(1) wp_to2_sets[OF assms(2,4), of C ?xs]] assms(7)
  have d: "wf (view db1)" "live sid (view db1)" "\<forall>x\<in>set ?xs. encodable C x"
    "to2_row sid (view db1) = fold (abs_set C sid) ?xs (to2_row sid (view db))"
    by (simp_all add: db1_def)
  then obtain x where x: "to2_row sid (view db1) = Some x" "to2_GUID x = Some g" "to2_ProveDevice x = Some n"
    "to2_MTU x = Some (uint m)" "to2_RvInfo x = marshal C (GRvInfo rv)" "to2_Devmod x = marshal C (GExt ''Devmod'' dm)"
    "to2_Modules x = marshal C (GStrs ms)" "to2_DevmodComplete x = Some fin"
    by (auto split: option.splits simp: new_to2_def)
  have m: "\<not> uint m < 0" "\<not> uint m > 65535" using uint_lt2p[of m] by (simp_all add: not_less)
  have v: "mtu_value x = Inr m" "rvinfo_value C x = Inr rv" "devmod_value C zero x = Inr (dm, ms, fin)"
    using x m d(3) un_marshal[OF assms(3)]
    by (auto simp: mtu_value_def rvinfo_value_def devmod_value_def)
  note get = wp_to2_getters[OF d(1), where c = c]
  show ?thesis
    using gorm_engine.wp_result[OF assms(1) get(1)] gorm_engine.wp_result[OF assms(1) get(2)]
      gorm_engine.wp_result[OF assms(1) get(3)] gorm_engine.wp_result[OF assms(1) get(4)[where C = C]]
      gorm_engine.wp_result[OF assms(1) get(5)[where C = C and zero = zero]] d(2) x v assms(4,5,6)
    by (auto simp: to2_read_def)
qed

lemma to2_roundtrip_witness:
  "result sql_exec (MTU ex_to2_ctx) (after sql_exec (to2_sets ex_to2_codec ex_to2_ctx ex_to2_puts) ex_to2_db) \<in>
   {Inr 1300} \<union> {r. driver_failed r}"
  using to2_roundtrip[OF ex_ok(5) ex_to2_ok(1,3,2) _ _ ex_to2_run[unfolded ex_to2_puts_def]]
  by (simp add: ex_to2_puts_def)

text \<open>
  Without the session's row the update of a field is lost without a word: \<^verbatim>\<open>SetMTU\<close> reports
  success (or a driver failure), and the value cannot be read.
\<close>

theorem to2_update_without_row:
  fixes m
  assumes "gorm_engine E view" "wf (view db)" "State_sid c = Some sid" "live sid (view db)"
    and "to2_row sid (view db) = None"
  defines "r \<equiv> result E (SetMTU c m) db" and "r' \<equiv> result E (MTU c) (after E (SetMTU c m) db)"
  shows "(r = Inr () \<or> driver_failed r) \<and> (r' = Inl ErrNotFound \<or> driver_failed r')"
proof -
  have "wp (SetMTU c m) (\<lambda>r d'. (r = Inr () \<or> driver_failed r) \<and> wf d' \<and> live sid d' \<and> to2_row sid d' = None) (view db)"
    using wf_wp[OF assms(2), of "SetMTU c m"] assms(2-5)
    by (auto simp: wp_conj) (auto simp: SetMTU_def to2_simps split: option.splits)
  from gorm_engine.wp_result[OF assms(1) this]
  have d: "r = Inr () \<or> driver_failed r" "wf (view (after E (SetMTU c m) db))"
    "live sid (view (after E (SetMTU c m) db))" "to2_row sid (view (after E (SetMTU c m) db)) = None"
    by (simp_all add: r_def)
  from gorm_engine.wp_result[OF assms(1) wp_to2_getters(3)[OF d(2), where c = c]] d assms(3)
  show ?thesis by (auto simp: r'_def to2_read_def)
qed

lemma to2_update_without_row_witness:
  "let r = result sql_exec (SetMTU ex_to2_ctx 1300) ex_to2_db in r = Inr () \<or> driver_failed r"
proof -
  have "Option.is_none (lookup T_sessions (VBytes ''s'') ex_to2_db) = False" by code_simp
  then have l: "live ''s'' ex_to2_db" by (simp add: live_def Option.is_none_def)
  have "to2_row ''s'' ex_to2_db = None" by code_simp
  note l = l this
  from to2_update_without_row[OF ex_ok(5) ex_to2_ok(1,2) l] show ?thesis by (simp add: Let_def)
qed

end
