(* ===== verification/ServiceInfo.thy ===== *)
theory ServiceInfo
  imports Filepath Hex TO2Properties
begin

text \<open>
  The service-info modules the owner runs on a device in TO2: their configuration and its
  validation (\<^verbatim>\<open>cmd/config.go\<close>), the sequence of modules built from it and the state machine
  of each session (\<^verbatim>\<open>ownerModules\<close> and \<^verbatim>\<open>moduleStateMachines\<close> in \<^verbatim>\<open>cmd/owner.go\<close>).
\<close>

section \<open>Configuration\<close>

record FSIMCommandParams =
  Command :: string
  Args :: "string list"
  MayFail :: bool
  RetStdout :: bool
  RetStderr :: bool

record FSIMFileSpec =
  Src :: string
  Dst :: string

record FSIMDownloadFileSpec = FSIMFileSpec +
  file_MayFail :: bool

record 'f FSIMFilesParams =
  files_Dir :: string
  Files :: "'f list"

record FSIMWgetFileSpec =
  URL :: string
  wget_Dst :: string
  Length :: int
  Checksum :: string

type_synonym FSIMUploadParams = "FSIMFileSpec FSIMFilesParams"
type_synonym FSIMDownloadParams = "FSIMDownloadFileSpec FSIMFilesParams"
type_synonym FSIMWgetParams = "FSIMWgetFileSpec FSIMFilesParams"

record DefaultEntry =
  def_FSIM :: string
  def_Dir :: string

text \<open>\<open>'raw\<close> is the untyped map of parameters as the configuration file has it.\<close>

record 'raw ServiceInfoOperation =
  FSIM :: string
  RawParams :: "'raw option"
  CommandParams :: "FSIMCommandParams option"
  UploadParams :: "FSIMUploadParams option"
  DownloadParams :: "FSIMDownloadParams option"
  WgetParams :: "FSIMWgetParams option"

record 'raw ServiceInfoConfig =
  Defaults :: "DefaultEntry list"
  Fsims :: "'raw ServiceInfoOperation list"

text \<open>
  Parameters: \<^verbatim>\<open>mapstructure.Decode\<close> at the four parameter types, \<^verbatim>\<open>url.Parse\<close>, and what the
  operating system answers, the flag of \<open>os_Stat\<close> being \<^verbatim>\<open>IsDir()\<close>.
\<close>

record 'raw mapstructure =
  decode_command :: "'raw \<Rightarrow> FSIMCommandParams result"
  decode_upload :: "'raw \<Rightarrow> FSIMUploadParams result"
  decode_download :: "'raw \<Rightarrow> FSIMDownloadParams result"
  decode_wget :: "'raw \<Rightarrow> FSIMWgetParams result"

record url =
  Scheme :: string
  Host :: string
  url_Path :: string

record os_env =
  os_Stat :: "string \<Rightarrow> bool result"
  os_Open :: "string \<Rightarrow> bool"
  os_MkdirAll :: "string \<Rightarrow> bool"
  url_Parse :: "string \<Rightarrow> url result"

definition UnmarshalParams ::
  "'raw mapstructure \<Rightarrow> 'raw ServiceInfoOperation \<Rightarrow> 'raw ServiceInfoOperation \<times> unit result" where
  "UnmarshalParams M s =
     (case RawParams s of
        None \<Rightarrow> (s, Inl (Errorf ''params field is required for fsim''))
      | Some raw \<Rightarrow>
          if FSIM s = ''fdo.command'' then
            (case decode_command M raw of
                Inl e \<Rightarrow> (s, Inl (Wrapf ''failed to decode params for fdo.command'' e))
              | Inr params \<Rightarrow> (s\<lparr>RawParams := None, CommandParams := Some params\<rparr>, Inr ()))
          else if FSIM s = ''fdo.upload'' then
            (case decode_upload M raw of
                Inl e \<Rightarrow> (s, Inl (Wrapf ''failed to decode params for fdo.upload'' e))
              | Inr params \<Rightarrow> (s\<lparr>RawParams := None, UploadParams := Some params\<rparr>, Inr ()))
          else if FSIM s = ''fdo.download'' then
            (case decode_download M raw of
                Inl e \<Rightarrow> (s, Inl (Wrapf ''failed to decode params for fdo.download'' e))
              | Inr params \<Rightarrow> (s\<lparr>RawParams := None, DownloadParams := Some params\<rparr>, Inr ()))
          else if FSIM s = ''fdo.wget'' then
            (case decode_wget M raw of
                Inl e \<Rightarrow> (s, Inl (Wrapf ''failed to decode params for fdo.wget'' e))
              | Inr params \<Rightarrow> (s\<lparr>RawParams := None, WgetParams := Some params\<rparr>, Inr ()))
          else (s, Inl (Errorf ''unsupported FSIM type'')))"

definition getDefaultDir :: "DefaultEntry list \<Rightarrow> string \<Rightarrow> string" where
  "getDefaultDir ds fsimName = (case find (\<lambda>d. def_FSIM d = fsimName) ds of None \<Rightarrow> [] | Some d \<Rightarrow> def_Dir d)"

section \<open>Validation\<close>

text \<open>The loop over the defaults, with the FSIMs seen.\<close>

definition validate_default :: "os_env \<Rightarrow> string set \<Rightarrow> DefaultEntry \<Rightarrow> unit result" where
  "validate_default env seenFsims d =
     (if def_FSIM d = [] then Inl (Errorf ''defaults entry: fsim field is required'')
      else if def_FSIM d \<noteq> ''fdo.download'' \<and> def_FSIM d \<noteq> ''fdo.upload'' \<and> def_FSIM d \<noteq> ''fdo.wget''
      then Inl (Errorf ''defaults entry: fsim must be one of: fdo.download, fdo.upload, fdo.wget'')
      else if def_FSIM d \<in> seenFsims then Inl (Errorf ''defaults entry: duplicate fsim value'')
      else if def_Dir d \<noteq> [] \<and> \<not> IsAbs (def_Dir d) then Inl (Errorf ''defaults entry: dir must be an absolute path'')
      else if def_FSIM d = ''fdo.download'' \<or> def_FSIM d = ''fdo.upload'' then
        (case os_Stat env (def_Dir d) of
           Inl e \<Rightarrow> Inl (Wrapf ''defaults entry: cannot access directory'' e)
         | Inr isDir \<Rightarrow> if \<not> isDir then Inl (Errorf ''defaults entry: path is not a directory'') else Inr ())
      else Inr ())"

fun validate_defaults :: "os_env \<Rightarrow> string set \<Rightarrow> DefaultEntry list \<Rightarrow> unit result" where
  "validate_defaults env seenFsims [] = Inr ()"
| "validate_defaults env seenFsims (d # ds) =
     rbind (validate_default env seenFsims d) (\<lambda>_. validate_defaults env (insert (def_FSIM d) seenFsims) ds)"

text \<open>A directory that is not given is the default of the FSIM.\<close>

definition set_dir :: "DefaultEntry list \<Rightarrow> string \<Rightarrow> 'f FSIMFilesParams \<Rightarrow> 'f FSIMFilesParams" where
  "set_dir ds fsimName p = (if files_Dir p = [] then p\<lparr>files_Dir := getDefaultDir ds fsimName\<rparr> else p)"

definition apply_defaults :: "DefaultEntry list \<Rightarrow> 'raw ServiceInfoOperation \<Rightarrow> 'raw ServiceInfoOperation" where
  "apply_defaults ds op =
     (if FSIM op = ''fdo.download'' then op\<lparr>DownloadParams := map_option (set_dir ds ''fdo.download'') (DownloadParams op)\<rparr>
      else if FSIM op = ''fdo.upload'' then op\<lparr>UploadParams := map_option (set_dir ds ''fdo.upload'') (UploadParams op)\<rparr>
      else if FSIM op = ''fdo.wget'' then op\<lparr>WgetParams := map_option (set_dir ds ''fdo.wget'') (WgetParams op)\<rparr>
      else op)"

text \<open>The absolute path of a file to download, as the validation and the modules compute it.\<close>

definition src_path :: "string \<Rightarrow> string \<Rightarrow> string" where
  "src_path dir src = (if IsAbs src then src else Join dir src)"

definition validate_upload_file :: "FSIMFileSpec \<Rightarrow> unit result" where
  "validate_upload_file f =
     (if Src f = [] then Inl (Errorf ''src is required'')
      else if Dst f \<noteq> [] \<and> IsAbs (Dst f) then Inl (Errorf ''dst must be a relative path'')
      else Inr ())"

definition validate_download_file :: "os_env \<Rightarrow> string \<Rightarrow> FSIMDownloadFileSpec \<Rightarrow> unit result" where
  "validate_download_file env dir f =
     (if Src f = [] then Inl (Errorf ''src is required'')
      else if Dst f = [] then Inl (Errorf ''dst is required'')
      else rbind (rmap_err (Wrapf ''cannot access file'') (os_Stat env (src_path dir (Src f)))) (\<lambda>_. Inr ()))"

definition expectedChecksumLength :: nat where
  "expectedChecksumLength = 48"

definition validate_wget_file :: "os_env \<Rightarrow> FSIMWgetFileSpec \<Rightarrow> unit result" where
  "validate_wget_file env f =
     (if URL f = [] then Inl (Errorf ''url is required'')
      else rbind (rmap_err (Wrapf ''invalid URL'') (url_Parse env (URL f))) (\<lambda>parsedURL.
        if Scheme parsedURL \<noteq> ''http'' \<and> Scheme parsedURL \<noteq> ''https'' then Inl (Errorf ''URL must use http or https scheme'')
        else if Host parsedURL = [] then Inl (Errorf ''URL missing host'')
        else if Checksum f \<noteq> [] then
          (case hexDecode (Checksum f) of
             None \<Rightarrow> Inl (Errorf ''error decoding checksum'')
           | Some decoded \<Rightarrow> if length decoded \<noteq> expectedChecksumLength then Inl (Errorf ''checksum has invalid length'')
                             else Inr ())
        else Inr ()))"

text \<open>The files of an operation, the first error ends the loop; then one operation.\<close>

definition validate_files :: "string \<Rightarrow> ('f \<Rightarrow> unit result) \<Rightarrow> 'f FSIMFilesParams option \<Rightarrow> unit result" where
  "validate_files what check ps =
     (case ps of
        None \<Rightarrow> Inl (Errorf (what @ '' parameters are required''))
      | Some p \<Rightarrow> if Files p = [] then Inl (Errorf (''at least one file must be specified for '' @ what))
                  else rbind (rmapM check (Files p)) (\<lambda>_. Inr ()))"

definition validate_op :: "os_env \<Rightarrow> 'raw ServiceInfoOperation \<Rightarrow> unit result" where
  "validate_op env op =
     (if FSIM op = ''fdo.command'' then
        (case CommandParams op of
           None \<Rightarrow> Inl (Errorf ''command parameters are required for fdo.command'')
         | Some p \<Rightarrow> if Command p = [] then Inl (Errorf ''command is required'') else Inr ())
      else if FSIM op = ''fdo.upload'' then validate_files ''upload'' validate_upload_file (UploadParams op)
      else if FSIM op = ''fdo.download'' then
        validate_files ''download''
          (validate_download_file env (case DownloadParams op of None \<Rightarrow> [] | Some p \<Rightarrow> files_Dir p)) (DownloadParams op)
      else if FSIM op = ''fdo.wget'' then validate_files ''wget'' (validate_wget_file env) (WgetParams op)
      else Inl (Errorf ''unsupported FSIM type''))"

text \<open>The loop over the operations changes them in place; an error leaves the rest untouched.\<close>

fun validate_ops ::
  "os_env \<Rightarrow> 'raw mapstructure \<Rightarrow> DefaultEntry list \<Rightarrow> 'raw ServiceInfoOperation list \<Rightarrow>
   'raw ServiceInfoOperation list \<times> unit result" where
  "validate_ops env M ds [] = ([], Inr ())"
| "validate_ops env M ds (s # ss) =
     (case UnmarshalParams M s of
        (s1, Inl e) \<Rightarrow> (s1 # ss, Inl (Wrapf ''service_info operation'' e))
      | (s1, Inr _) \<Rightarrow>
          if FSIM s1 = [] then (s1 # ss, Inl (Errorf ''service_info operation: fsim type is required''))
          else
            let op = apply_defaults ds s1 in
            (case validate_op env op of
               Inl e \<Rightarrow> (op # ss, Inl e)
             | Inr _ \<Rightarrow> (let (ops, r) = validate_ops env M ds ss in (op # ops, r))))"

definition ServiceInfoConfig_validate ::
  "os_env \<Rightarrow> 'raw mapstructure \<Rightarrow> 'raw ServiceInfoConfig option \<Rightarrow> 'raw ServiceInfoConfig option \<times> unit result" where
  "ServiceInfoConfig_validate env M c =
     (case c of
        None \<Rightarrow> (None, Inr ())
      | Some s \<Rightarrow>
          (case validate_defaults env {} (Defaults s) of
             Inl e \<Rightarrow> (Some s, Inl e)
           | Inr _ \<Rightarrow> (let (ops, r) = validate_ops env M (Defaults s) (Fsims s) in (Some (s\<lparr>Fsims := ops\<rparr>), r))))"


section \<open>The modules of a session\<close>

text \<open>What the protocol library is given to run: the fields \<^verbatim>\<open>ownerModules\<close> sets.\<close>

datatype owner_module =
    DownloadContents string string bool                 \<comment> \<open>\<open>Name\<close>, path of \<open>Contents\<close>, \<open>MustDownload\<close>\<close>
  | UploadRequest string string string                  \<comment> \<open>\<open>Dir\<close> (also of the temporary file), \<open>Name\<close>, \<open>Rename\<close>\<close>
  | WgetCommand string url int bytes                    \<comment> \<open>\<open>Name\<close>, \<open>URL\<close>, \<open>Length\<close>, \<open>Checksum\<close>\<close>
  | RunCommand string "string list" bool bool bool      \<comment> \<open>\<open>Command\<close>, \<open>Args\<close>, \<open>MayFail\<close>, whether it has \<open>Stdout\<close>, \<open>Stderr\<close>\<close>

text \<open>
  The nested loops of \<^verbatim>\<open>ownerModules\<close> as the list of their innermost iterations; \<open>INil\<close> is the
  access to parameters that are not there, a panic.
\<close>

datatype item =
    IDownload string FSIMDownloadFileSpec
  | IUpload string FSIMFileSpec
  | IWget string FSIMWgetFileSpec
  | ICommand FSIMCommandParams
  | INil

definition file_items :: "(string \<Rightarrow> 'f \<Rightarrow> item) \<Rightarrow> 'f FSIMFilesParams option \<Rightarrow> item list" where
  "file_items mk ps = (case ps of None \<Rightarrow> [INil] | Some p \<Rightarrow> map (mk (files_Dir p)) (Files p))"

definition op_items :: "'raw ServiceInfoOperation \<Rightarrow> item list" where
  "op_items op =
     (if FSIM op = ''fdo.download'' then file_items IDownload (DownloadParams op)
      else if FSIM op = ''fdo.upload'' then file_items IUpload (UploadParams op)
      else if FSIM op = ''fdo.wget'' then file_items IWget (WgetParams op)
      else if FSIM op = ''fdo.command'' then (case CommandParams op of None \<Rightarrow> [INil] | Some p \<Rightarrow> [ICommand p])
      else [])"

definition ownerModules :: "'raw ServiceInfoConfig option \<Rightarrow> string list \<Rightarrow> item list" where
  "ownerModules config modules = (case config of
     None \<Rightarrow> []
   | Some c \<Rightarrow> concat (map op_items (filter (\<lambda>op. FSIM op \<in> set modules) (Fsims c))))"

text \<open>The directory of an upload and the new name of the file.\<close>

definition device_dir :: "string \<Rightarrow> guid \<Rightarrow> string" where
  "device_dir dir g = Join (if dir = [] then ''.'' else dir) (hexEncode g)"

definition upload_dir :: "string \<Rightarrow> guid \<Rightarrow> string \<Rightarrow> string" where
  "upload_dir dir g dst =
     (if dst \<noteq> [] \<and> Dir dst \<noteq> ''.'' then Join (device_dir dir g) (Dir dst) else device_dir dir g)"

definition upload_rename :: "string \<Rightarrow> string" where
  "upload_rename dst = (if dst \<noteq> [] then Base dst else [])"

definition wget_name :: "string \<Rightarrow> FSIMWgetFileSpec \<Rightarrow> url \<Rightarrow> string" where
  "wget_name dir f parsedURL =
     (if wget_Dst f \<noteq> [] then
        if IsAbs (wget_Dst f) then wget_Dst f
        else if dir \<noteq> [] then Join dir (wget_Dst f) else wget_Dst f
      else if dir \<noteq> [] then Join dir (Base (url_Path parsedURL)) else Base (url_Path parsedURL))"

definition wget_module :: "os_env \<Rightarrow> string \<Rightarrow> FSIMWgetFileSpec \<Rightarrow> owner_module option" where
  "wget_module env dir f =
     (case url_Parse env (URL f) of
        Inl _ \<Rightarrow> None
      | Inr parsedURL \<Rightarrow>
          let mk = WgetCommand (wget_name dir f parsedURL) parsedURL (if Length f > 0 then Length f else 0) in
          if Checksum f \<noteq> [] then map_option mk (hexDecode (Checksum f)) else Some (mk []))"

text \<open>One call of the iterator: run on to the next \<^verbatim>\<open>yield\<close>; what is left of the loops is returned.\<close>

datatype pull = Yield string owner_module | End | Panic

fun pull_next :: "os_env \<Rightarrow> ctx \<Rightarrow> item list \<Rightarrow> (pull \<times> item list) prog" where
  "pull_next env c [] = Ret (End, [])"
| "pull_next env c (IDownload dir f # items) =
     (let srcPath = src_path dir (Src f) in
      if os_Open env srcPath
      then Ret (Yield ''fdo.download'' (DownloadContents (Dst f) srcPath (\<not> file_MayFail f)), items)
      else pull_next env c items)"
| "pull_next env c (IUpload dir f # items) =
     tryE (GetReplacementGUID c) (\<lambda>err. Ret (End, [])) (\<lambda>replacementGUID. case replacementGUID of
       None \<Rightarrow> Ret (Panic, [])
     | Some g \<Rightarrow>
         let uploadDir = upload_dir dir g (Dst f) in
         if os_MkdirAll env uploadDir
         then Ret (Yield ''fdo.upload'' (UploadRequest uploadDir (Src f) (upload_rename (Dst f))), items)
         else pull_next env c items)"
| "pull_next env c (IWget dir f # items) =
     (case wget_module env dir f of
        None \<Rightarrow> pull_next env c items
      | Some m \<Rightarrow> Ret (Yield ''fdo.wget'' m, items))"
| "pull_next env c (ICommand p # items) =
     Ret (Yield ''fdo.command'' (RunCommand (Command p) (Args p) (MayFail p) (RetStdout p) (RetStderr p)), items)"
| "pull_next env c (INil # items) = Ret (Panic, [])"

section \<open>The state machines of all sessions\<close>

record moduleStateMachineState =
  Name :: string
  Impl :: "owner_module option"
  Next :: "item list"   \<comment> \<open>the iterator: what is left for it, and the context it was made with\<close>
  Next_ctx :: ctx

type_synonym machines = "string \<Rightarrow> moduleStateMachineState option"

definition Module :: "ctx \<Rightarrow> machines \<Rightarrow> (string \<times> owner_module option) result" where
  "Module c states =
     (case State_TokenFromContext c of
        None \<Rightarrow> Inl (Errorf ''invalid context: no token'')
      | Some token \<Rightarrow>
          (case states token of
             None \<Rightarrow> Inl (Errorf ''NextModule not called'')
           | Some m \<Rightarrow> Inr (Name m, Impl m)))"

text \<open>The outcome of \<^verbatim>\<open>NextModule\<close>: whether there is a module, an error, or a panic.\<close>

datatype next_outcome = NextOk bool | NextErr go_error | NextPanic

definition moved :: "string \<Rightarrow> machines \<Rightarrow> moduleStateMachineState \<Rightarrow> pull \<Rightarrow> item list \<Rightarrow> machines \<times> next_outcome" where
  "moved token states m p rest = (case p of
     Yield n i \<Rightarrow> (states(token \<mapsto> \<lparr>Name = n, Impl = Some i, Next = rest, Next_ctx = Next_ctx m\<rparr>), NextOk True)
   | End \<Rightarrow> (states(token \<mapsto> \<lparr>Name = [], Impl = None, Next = rest, Next_ctx = Next_ctx m\<rparr>), NextOk False)
   | Panic \<Rightarrow> (states(token \<mapsto> m\<lparr>Next := rest\<rparr>), NextPanic))"

definition advance ::
  "os_env \<Rightarrow> string \<Rightarrow> machines \<Rightarrow> moduleStateMachineState \<Rightarrow> (machines \<times> next_outcome) prog" where
  "advance env token states m =
     bindP (pull_next env (Next_ctx m) (Next m)) (\<lambda>(p, rest). Ret (moved token states m p rest))"

definition NextModule ::
  "os_env \<Rightarrow> cbor_lib \<Rightarrow> bytes \<Rightarrow> 'raw ServiceInfoConfig option \<Rightarrow> ctx \<Rightarrow> machines \<Rightarrow> (machines \<times> next_outcome) prog" where
  "NextModule env C zero config c states =
     (case State_TokenFromContext c of
        None \<Rightarrow> Ret (states, NextErr (Errorf ''invalid context: no token''))
      | Some token \<Rightarrow>
          (case states token of
             Some m \<Rightarrow> advance env token states m
           | None \<Rightarrow>
               tryE (Devmod C zero c) (\<lambda>err. Ret (states, NextErr (Wrapf ''error getting devmod'' err)))
                 (\<lambda>(dm, modules, complete). advance env token states
                    \<lparr>Name = [], Impl = None, Next = ownerModules config modules, Next_ctx = c\<rparr>)))"

definition CleanupModules :: "ctx \<Rightarrow> machines \<Rightarrow> machines" where
  "CleanupModules c states = (case State_TokenFromContext c of None \<Rightarrow> states | Some token \<Rightarrow> states(token := None))"

end
