(* ===== verification/OwnerModules.thy ===== *)
theory OwnerModules
  imports ServiceInfo Smooth
begin

text \<open>
  What the owner's service-info modules are, given a configuration that was validated: complete,
  in the configured order, and for uploads in the directory of the device.
\<close>

section \<open>Validated configurations\<close>

text \<open>An iteration of \<^verbatim>\<open>ownerModules\<close> whose parameters satisfy what the validation demands.\<close>

fun item_ok :: "os_env \<Rightarrow> item \<Rightarrow> bool" where
  "item_ok env (IDownload dir f) \<longleftrightarrow> Src f \<noteq> [] \<and> Dst f \<noteq> [] \<and> \<not> isl (os_Stat env (src_path dir (Src f)))"
| "item_ok env (IUpload dir f) \<longleftrightarrow> Src f \<noteq> [] \<and> \<not> IsAbs (Dst f)"
| "item_ok env (IWget dir f) \<longleftrightarrow> (case url_Parse env (URL f) of Inl _ \<Rightarrow> False | Inr u \<Rightarrow>
     Scheme u \<in> {''http'', ''https''} \<and> Host u \<noteq> []) \<and>
     (Checksum f = [] \<or> map_option length (hexDecode (Checksum f)) = Some 48)"
| "item_ok env (ICommand p) \<longleftrightarrow> Command p \<noteq> []"
| "item_ok env INil \<longleftrightarrow> False"

lemma rmapM_unit: "rmapM check xs = Inr ys \<Longrightarrow> x \<in> set xs \<Longrightarrow> \<exists>y. check x = Inr y"
  by (induction xs arbitrary: ys) auto

lemma validate_files_ok:
  "validate_files what check ps = Inr () \<Longrightarrow> \<exists>p. ps = Some p \<and> (\<forall>x\<in>set (Files p). check x = Inr ())"
  using rmapM_unit[of check] by (fastforce simp: validate_files_def split: option.splits if_splits)

lemma validate_file_items:
  assumes "validate_files what check ps = Inr ()" "it \<in> set (file_items mk ps)"
  shows "\<exists>p x. ps = Some p \<and> it = mk (files_Dir p) x \<and> check x = Inr ()"
  using validate_files_ok[OF assms(1)] assms(2) unfolding file_items_def by fastforce

lemma wget_file_ok: "validate_wget_file env x = Inr () \<Longrightarrow> item_ok env (IWget dir x)"
  by (auto simp: validate_wget_file_def expectedChecksumLength_def split: if_splits sum.splits option.splits)

lemma validate_op_items:
  assumes "validate_op env op = Inr ()" "it \<in> set (op_items op)"
  shows "item_ok env it"
proof -
  consider (command) "FSIM op = ''fdo.command''" | (upload) "FSIM op = ''fdo.upload''"
    | (download) "FSIM op = ''fdo.download''" | (wget) "FSIM op = ''fdo.wget''"
    using assms(1) by (auto simp: validate_op_def split: if_splits)
  then show ?thesis
  proof cases
    case command
    with assms show ?thesis by (auto simp: validate_op_def op_items_def split: option.splits if_splits)
  next
    case upload
    with assms validate_file_items[of "''upload''" validate_upload_file "UploadParams op" it IUpload]
    show ?thesis by (auto simp: validate_op_def op_items_def validate_upload_file_def split: if_splits)
  next
    case download
    with assms validate_file_items[of "''download''" _ "DownloadParams op" it IDownload]
    obtain p x where "DownloadParams op = Some p" "it = IDownload (files_Dir p) x"
      "validate_download_file env (files_Dir p) x = Inr ()"
      by (fastforce simp: validate_op_def op_items_def)
    then show ?thesis by (auto simp: validate_download_file_def split: if_splits)
  next
    case wget
    with assms validate_file_items[of "''wget''" "validate_wget_file env" "WgetParams op" it IWget] wget_file_ok
    show ?thesis by (auto simp: validate_op_def op_items_def)
  qed
qed

lemma validate_ops_ok: "validate_ops env M ds ss = (ops, Inr ()) \<Longrightarrow> op \<in> set ops \<Longrightarrow> validate_op env op = Inr ()"
  by (induction ss arbitrary: ops) (auto simp: Let_def split: prod.splits sum.splits if_splits)

lemma validated_items:
  assumes "ServiceInfoConfig_validate env M c = (c', Inr ())" "it \<in> set (ownerModules c' modules)"
  shows "item_ok env it"
  using assms validate_op_items validate_ops_ok
  by (fastforce simp: ServiceInfoConfig_validate_def ownerModules_def split: option.splits sum.splits prod.splits)


section \<open>The sequence of modules\<close>

text \<open>The module of one iteration, if it has one: the specification of \<^verbatim>\<open>ownerModules\<close>.\<close>

fun module_of :: "os_env \<Rightarrow> guid \<Rightarrow> item \<Rightarrow> (string \<times> owner_module) option" where
  "module_of env g (IDownload dir f) = (if os_Open env (src_path dir (Src f))
     then Some (''fdo.download'', DownloadContents (Dst f) (src_path dir (Src f)) (\<not> file_MayFail f)) else None)"
| "module_of env g (IUpload dir f) = (if os_MkdirAll env (upload_dir dir g (Dst f))
     then Some (''fdo.upload'', UploadRequest (upload_dir dir g (Dst f)) (Src f) (upload_rename (Dst f))) else None)"
| "module_of env g (IWget dir f) = map_option (Pair ''fdo.wget'') (wget_module env dir f)"
| "module_of env g (ICommand p) =
     Some (''fdo.command'', RunCommand (Command p) (Args p) (MayFail p) (RetStdout p) (RetStderr p))"
| "module_of env g INil = None"

definition modules_of :: "os_env \<Rightarrow> guid \<Rightarrow> item list \<Rightarrow> (string \<times> owner_module) list" where
  "modules_of env g items = List.map_filter (module_of env g) items"

lemma modules_of_simps [simp]:
  "modules_of env g [] = []"
  "modules_of env g (it # items) = (case module_of env g it of None \<Rightarrow> [] | Some m \<Rightarrow> [m]) @ modules_of env g items"
  by (simp_all add: modules_of_def split: option.splits)

lemma modules_of_append: "modules_of env g (a @ b) = modules_of env g a @ modules_of env g b"
  by (induction a) auto

fun is_upload :: "item \<Rightarrow> bool" where
  "is_upload (IUpload dir f) = True"
| "is_upload _ = False"

text \<open>The modules \<open>ms\<close> are those before some upload of the configuration.\<close>

definition before_upload :: "os_env \<Rightarrow> guid \<Rightarrow> item list \<Rightarrow> (string \<times> owner_module) list \<Rightarrow> bool" where
  "before_upload env g items ms \<longleftrightarrow>
     (\<exists>pre it post. items = pre @ it # post \<and> is_upload it \<and> modules_of env g pre = ms)"

lemma before_upload_append:
  "before_upload env g items ms \<Longrightarrow> before_upload env g (pre @ items) (modules_of env g pre @ ms)"
  unfolding before_upload_def by (metis append.assoc modules_of_append)

text \<open>The replacement GUID of the session's device.\<close>

definition session_guid :: "ctx \<Rightarrow> sqldb \<Rightarrow> guid option" where
  "session_guid c d = Option.bind (State_sid c) (\<lambda>sid. if live sid d then
     Option.bind (lookup T_replacement_vouchers (VBytes sid) d) (\<lambda>r.
       let g = orNil (rep_GUID (replacement_voucher_fromRow r)) in if length g < 16 then None else Some (take 16 g))
     else None)"

lemma wpb_first_session:
  assumes "wf d" "pkcols t = [''session'']"
  shows "wpb f (first_session t sid) Q d \<longleftrightarrow> (f \<longrightarrow> (\<forall>m. Q (Inl (ErrDriver m)) d)) \<and>
     (case lookup t (VBytes sid) d of None \<Rightarrow> Q (Inl ErrNotFound) d | Some r \<Rightarrow> Q (Inr r) d)"
  using assms by (auto simp: first_session_def wpb_simps rows_key split: option.splits)

lemma wpb_GetReplacementGUID:
  assumes "wf d" "session_guid c d = Some g"
  shows "wpb f (GetReplacementGUID c) (\<lambda>r d'. d' = d \<and> (f \<and> isl r \<or> r = Inr (Some g))) d"
  using assms
  by (auto simp: GetReplacementGUID_def wpb_simps wpb_getSessionID wpb_first_session
      session_guid_def Let_def bind_eq_Some_conv split: option.splits if_splits)

text \<open>
  What one call of the iterator does to the sequence that is left. It ends early only where an
  upload could not be given its directory because the database failed (\<open>f\<close>).
\<close>

definition pulled :: "bool \<Rightarrow> os_env \<Rightarrow> guid \<Rightarrow> item list \<Rightarrow> pull \<Rightarrow> item list \<Rightarrow> bool" where
  "pulled f env g items p rest \<longleftrightarrow>
     (case p of Yield n m \<Rightarrow> \<exists>pre. items = pre @ rest \<and> modules_of env g pre = [(n, m)]
      | End \<Rightarrow> rest = [] \<and> (modules_of env g items = [] \<or> f \<and> before_upload env g items [])
      | Panic \<Rightarrow> False)"

lemma pulled_skip: "module_of env g it = None \<Longrightarrow> pulled f env g items p rest \<Longrightarrow> pulled f env g (it # items) p rest"
  using before_upload_append[of env g items "[]" "[it]"]
  by (force simp: pulled_def split: pull.splits dest: arg_cong[of _ _ "Cons it"])

lemma pulled_yield: "module_of env g it = Some (n, m) \<Longrightarrow> pulled f env g (it # items) (Yield n m) items"
  by (auto simp: pulled_def intro!: exI[of _ "[it]"])

lemma wpb_pull_next:
  assumes "wf d" "session_guid c d = Some g" "INil \<notin> set items"
  shows "wpb f (pull_next env c items) (\<lambda>(p, rest) d'. d' = d \<and> pulled f env g items p rest) d"
  using assms(3)
proof (induction items)
  case Nil
  then show ?case by (simp add: pulled_def)
next
  case (Cons it items)
  have skip: "wpb f (pull_next env c items) (\<lambda>(p, rest) d'. d' = d \<and> pulled f env g (it # items) p rest) d"
    if "module_of env g it = None"
    by (rule wpb_mono[OF Cons.IH]) (use Cons.prems pulled_skip[OF that] in auto)
  show ?case
  proof (cases it)
    case (IDownload dir fs)
    with skip show ?thesis by (auto simp: Let_def intro: pulled_yield)
  next
    case (IWget dir fs)
    with skip show ?thesis by (auto split: option.splits intro: pulled_yield)
  next
    case (ICommand p)
    then show ?thesis by (auto intro: pulled_yield)
  next
    case INil
    with Cons.prems show ?thesis by simp
  next
    case (IUpload dir fs)
    have step: "wpb f (case r of Inl e \<Rightarrow> Ret (End, []) | Inr x \<Rightarrow> (case x of None \<Rightarrow> Ret (Panic, []) | Some g' \<Rightarrow>
        let uploadDir = upload_dir dir g' (Dst fs) in
         if os_MkdirAll env uploadDir
         then Ret (Yield ''fdo.upload'' (UploadRequest uploadDir (Src fs) (upload_rename (Dst fs))), items)
         else pull_next env c items)) (\<lambda>(p, rest) d'. d' = d \<and> pulled f env g (it # items) p rest) d"
      if "f \<and> isl r \<or> r = Inr (Some g)" for r
    proof (cases r)
      case (Inl e)
      with IUpload that show ?thesis by (auto simp: pulled_def before_upload_def intro!: exI[of _ "[]"])
    next
      case (Inr x)
      with that have "x = Some g" by simp
      with Inr IUpload skip show ?thesis by (auto simp: Let_def intro: pulled_yield)
    qed
    have "wpb f (GetReplacementGUID c) (\<lambda>r d1. wpb f (case r of Inl e \<Rightarrow> Ret (End, []) | Inr x \<Rightarrow> (case x of None \<Rightarrow> Ret (Panic, []) | Some g' \<Rightarrow>
        let uploadDir = upload_dir dir g' (Dst fs) in
         if os_MkdirAll env uploadDir
         then Ret (Yield ''fdo.upload'' (UploadRequest uploadDir (Src fs) (upload_rename (Dst fs))), items)
         else pull_next env c items)) (\<lambda>(p, rest) d'. d' = d \<and> pulled f env g (it # items) p rest) d1) d"
      by (rule wpb_mono[OF wpb_GetReplacementGUID[OF assms(1,2)]]) (use step in blast)
    with IUpload show ?thesis by (simp add: tryE_def wpb_bindP)
  qed
qed

text \<open>
  The protocol library's use of the state machine: up to \<open>n\<close> times \<^verbatim>\<open>NextModule\<close>, and after each
  success \<^verbatim>\<open>Module\<close>. The last outcome is returned when it ended the loop.
\<close>

fun run_modules ::
  "os_env \<Rightarrow> cbor_lib \<Rightarrow> bytes \<Rightarrow> 'raw ServiceInfoConfig option \<Rightarrow> ctx \<Rightarrow> machines \<Rightarrow> nat \<Rightarrow>
   (machines \<times> (string \<times> owner_module) list \<times> next_outcome option) prog" where
  "run_modules env C zero config c states 0 = Ret (states, [], None)"
| "run_modules env C zero config c states (Suc n) =
     bindP (NextModule env C zero config c states) (\<lambda>(states', outcome).
       case (outcome, Module c states') of
         (NextOk True, Inr (name, Some m)) \<Rightarrow>
           bindP (run_modules env C zero config c states' n) (\<lambda>(states'', ms, out). Ret (states'', (name, m) # ms, out))
       | _ \<Rightarrow> Ret (states', [], Some outcome))"

text \<open>
  What a session sees: after \<open>n\<close> calls a prefix \<open>ms\<close> of the expected modules. If the database fails
  in between (\<open>f\<close>), the first call may report an error, and the sequence may end before an upload.
\<close>

definition in_order :: "bool \<Rightarrow> os_env \<Rightarrow> guid \<Rightarrow> item list \<Rightarrow> nat \<Rightarrow> (string \<times> owner_module) list \<Rightarrow> next_outcome option \<Rightarrow> bool" where
  "in_order f env g items n ms out \<longleftrightarrow> (\<exists>rest. modules_of env g items = ms @ rest \<and>
     (case out of
        None \<Rightarrow> length ms = n
      | Some (NextOk b) \<Rightarrow> \<not> b \<and> (rest = [] \<or> f \<and> before_upload env g items ms)
      | Some (NextErr e) \<Rightarrow> f \<and> ms = []
      | Some NextPanic \<Rightarrow> False))"

lemma in_order_Cons:
  assumes "in_order f env g items n ms out" "\<forall>e. out \<noteq> Some (NextErr e)" "modules_of env g pre = [x]"
  shows "in_order f env g (pre @ items) (Suc n) (x # ms) out"
proof (cases out)
  case None
  with assms show ?thesis by (auto simp: in_order_def modules_of_append)
next
  case (Some r)
  with assms before_upload_append[of env g items ms pre] show ?thesis
    by (cases r) (auto simp: in_order_def modules_of_append)
qed

lemma wpb_advance:
  assumes "wf d" "session_guid (Next_ctx m) d = Some g" "INil \<notin> set (Next m)"
  shows "wpb f (advance env token states m) (\<lambda>x d'. d' = d \<and>
     (\<exists>p rest. pulled f env g (Next m) p rest \<and> x = moved token states m p rest)) d"
  unfolding advance_def by (rule wpb_bindP_rule[OF wpb_pull_next[OF assms]]) (simp add: case_prod_beta, blast)

text \<open>One module, then the rest of the sequence.\<close>

definition run_ok :: "bool \<Rightarrow> sqldb \<Rightarrow> os_env \<Rightarrow> guid \<Rightarrow> item list \<Rightarrow> nat \<Rightarrow>
    machines \<times> (string \<times> owner_module) list \<times> next_outcome option \<Rightarrow> sqldb \<Rightarrow> bool" where
  "run_ok f d env g items n x d' \<longleftrightarrow> d' = d \<and> in_order f env g items n (fst (snd x)) (snd (snd x)) \<and>
     (\<forall>e. snd (snd x) \<noteq> Some (NextErr e))"

fun then_run ::
  "os_env \<Rightarrow> cbor_lib \<Rightarrow> bytes \<Rightarrow> 'raw ServiceInfoConfig option \<Rightarrow> ctx \<Rightarrow> nat \<Rightarrow> machines \<times> next_outcome \<Rightarrow>
   (machines \<times> (string \<times> owner_module) list \<times> next_outcome option) prog" where
  "then_run env C zero config c n (states', outcome) = (case (outcome, Module c states') of
     (NextOk True, Inr (name, Some m)) \<Rightarrow>
       bindP (run_modules env C zero config c states' n) (\<lambda>(states'', ms, out). Ret (states'', (name, m) # ms, out))
   | _ \<Rightarrow> Ret (states', [], Some outcome))"

lemma run_modules_Suc:
  "run_modules env C zero config c states (Suc n) =
     bindP (NextModule env C zero config c states) (then_run env C zero config c n)"
proof -
  have "(\<lambda>(states', outcome). then_run env C zero config c n (states', outcome)) = then_run env C zero config c n"
    by (simp add: fun_eq_iff)
  then show ?thesis by simp
qed

lemma wpb_then_run:
  assumes "State_TokenFromContext c = Some token" "pulled f env g (Next m) p rest"
    and tail: "\<And>states' m'. states' token = Some m' \<Longrightarrow> Next m' = rest \<Longrightarrow> Next_ctx m' = Next_ctx m \<Longrightarrow>
       wpb f (run_modules env C zero config c states' n) (run_ok f d env g rest n) d"
  shows "wpb f (then_run env C zero config c n (moved token states m p rest)) (run_ok f d env g (Next m) (Suc n)) d"
proof (cases p)
  case (Yield nm i)
  let ?m = "\<lparr>Name = nm, Impl = Some i, Next = rest, Next_ctx = Next_ctx m\<rparr>"
  from assms(2) Yield obtain pre where pre: "Next m = pre @ rest" "modules_of env g pre = [(nm, i)]"
    by (auto simp: pulled_def)
  have "wpb f (run_modules env C zero config c (states(token \<mapsto> ?m)) n)
      (\<lambda>x. run_ok f d env g (Next m) (Suc n) (fst x, (nm, i) # fst (snd x), snd (snd x))) d"
    by (rule wpb_mono[OF tail[of "states(token \<mapsto> ?m)" ?m]])
       (use pre in \<open>auto simp: run_ok_def intro: in_order_Cons\<close>)
  with Yield show ?thesis
    by (simp add: moved_def Module_def assms(1) wpb_bindP case_prod_beta)
next
  case End
  with assms show ?thesis by (simp add: moved_def pulled_def run_ok_def in_order_def)
next
  case Panic
  with assms(2) show ?thesis by (simp add: pulled_def)
qed

lemma wpb_advance_run:
  assumes "wf d" "session_guid (Next_ctx m) d = Some g" "State_TokenFromContext c = Some token" "INil \<notin> set (Next m)"
    and "\<And>states' m'. states' token = Some m' \<Longrightarrow> INil \<notin> set (Next m') \<Longrightarrow> Next_ctx m' = Next_ctx m \<Longrightarrow>
       wpb f (run_modules env C zero config c states' n) (run_ok f d env g (Next m') n) d"
  shows "wpb f (bindP (advance env token states m) (then_run env C zero config c n)) (run_ok f d env g (Next m) (Suc n)) d"
proof (rule wpb_bindP_rule[OF wpb_advance[OF assms(1,2,4)]], elim conjE exE)
  fix x d1 p rest assume x: "d1 = d" "pulled f env g (Next m) p rest" "x = moved token states m p rest"
  then have "INil \<notin> set rest" using assms(4) by (auto simp: pulled_def split: pull.splits)
  then have "wpb f (run_modules env C zero config c states' n) (run_ok f d env g rest n) d"
    if "states' token = Some m'" "Next m' = rest" "Next_ctx m' = Next_ctx m" for states' m'
    using assms(5)[of states' m'] that by simp
  from wpb_then_run[OF assms(3) x(2) this] x(1,3)
  show "wpb f (then_run env C zero config c n x) (run_ok f d env g (Next m) (Suc n)) d1" by simp
qed

lemma wpb_run_modules:
  assumes "wf d" "State_TokenFromContext c = Some token"
  shows "states token = Some m \<Longrightarrow> INil \<notin> set (Next m) \<Longrightarrow> session_guid (Next_ctx m) d = Some g \<Longrightarrow>
     wpb f (run_modules env C zero config c states n) (run_ok f d env g (Next m) n) d"
proof (induction n arbitrary: states m)
  case 0
  then show ?case by (simp add: run_ok_def in_order_def)
next
  case (Suc n)
  from wpb_advance_run[where states = states, OF assms(1) Suc.prems(3) assms(2) Suc.prems(2) Suc.IH] Suc.prems(1,3) show ?case
    by (simp add: run_modules_Suc NextModule_def assms(2) del: run_modules.simps)
qed

lemma wpb_Devmod:
  assumes "wf d"
  shows "wpb f (Devmod C zero c) (\<lambda>r d'. d' = d \<and> (f \<and> isl r \<or> r = to2_read (State_sid c) (devmod_value C zero) d)) d"
  using assms
  by (auto simp: Devmod_def devmod_value_def to2_read_def to2_row_def Let_def wpb_simps wpb_getSessionID wpb_first_session case_of_opt
      split: option.splits)

text \<open>The first call of a session builds the sequence from the modules the device reported.\<close>

lemma wpb_run_session:
  assumes "wf d" "session_guid c d = Some g" "State_TokenFromContext c = Some token" "states token = None"
    and "to2_read (State_sid c) (devmod_value C zero) d = Inr (dm, modules, fin)"
    and "INil \<notin> set (ownerModules config modules)"
  shows "wpb f (run_modules env C zero config c states (Suc n)) (\<lambda>x d'. d' = d \<and>
     in_order f env g (ownerModules config modules) (Suc n)
       (fst (snd x)) (snd (snd x))) d"
proof -
  let ?m = "\<lparr>Name = [], Impl = None, Next = ownerModules config modules, Next_ctx = c\<rparr>"
  let ?Q = "\<lambda>x d'. d' = d \<and> in_order f env g (ownerModules config modules) (Suc n)
       (fst (snd x)) (snd (snd x))"
  have run: "wpb f (bindP (advance env token states ?m) (then_run env C zero config c n)) ?Q d"
    by (rule wpb_mono[OF wpb_advance_run[OF assms(1) _ assms(3) _ wpb_run_modules[OF assms(1,3)]]])
       (auto simp: assms(2,6) run_ok_def)
  have "wpb f (Devmod C zero c) (\<lambda>r. wpb f (case r of
       Inl err \<Rightarrow> Ret (states, NextErr (Wrapf ''error getting devmod'' err))
     | Inr (dm, modules, fin) \<Rightarrow> advance env token states \<lparr>Name = [], Impl = None, Next = ownerModules config modules, Next_ctx = c\<rparr>)
       (\<lambda>x. wpb f (then_run env C zero config c n x) ?Q)) d"
  proof (rule wpb_mono[OF wpb_Devmod[OF assms(1)]], elim conjE disjE)
    fix r :: "(bytes \<times> string list \<times> bool) result" and d1 assume "d1 = d" "f" "isl r"
    then obtain e where "r = Inl e" by (cases r) auto
    with \<open>d1 = d\<close> \<open>f\<close> show "wpb f (case r of
       Inl err \<Rightarrow> Ret (states, NextErr (Wrapf ''error getting devmod'' err))
     | Inr (dm, modules, fin) \<Rightarrow> advance env token states \<lparr>Name = [], Impl = None, Next = ownerModules config modules, Next_ctx = c\<rparr>)
       (\<lambda>x. wpb f (then_run env C zero config c n x) ?Q) d1"
      by (simp add: in_order_def Module_def assms(3,4))
  next
    fix r :: "(bytes \<times> string list \<times> bool) result" and d1 assume "d1 = d" "r = to2_read (State_sid c) (devmod_value C zero) d"
    with assms(5) run show "wpb f (case r of
       Inl err \<Rightarrow> Ret (states, NextErr (Wrapf ''error getting devmod'' err))
     | Inr (dm, modules, fin) \<Rightarrow> advance env token states \<lparr>Name = [], Impl = None, Next = ownerModules config modules, Next_ctx = c\<rparr>)
       (\<lambda>x. wpb f (then_run env C zero config c n x) ?Q) d1"
      by (simp add: wpb_bindP)
  qed
  then show ?thesis
    by (simp add: run_modules_Suc NextModule_def assms(3,4) tryE_def wpb_bindP del: run_modules.simps)
qed

section \<open>Upload directories\<close>

definition contained :: "string \<Rightarrow> string \<Rightarrow> bool" where
  "contained a b \<longleftrightarrow> IsAbs a = IsAbs b \<and> (\<exists>rest. elems b = elems a @ rest \<and> ''..'' \<notin> set rest)"

lemma device_dir_nonempty [simp]: "device_dir dir g \<noteq> []"
  by (simp add: device_dir_def)

lemma upload_dir_contained:
  assumes "''..'' \<notin> set (split_on slash dst)"
  shows "contained (device_dir dir g) (upload_dir dir g dst)"
  using Dir_inside[OF assms]
  by (auto simp: contained_def upload_dir_def elems_Join_inside IsAbs_Join)

lemma hex_component:
  assumes "length g = 16"
  shows "split_on slash (hexEncode g) = [hexEncode g]" "hexEncode g \<noteq> []" "hexEncode g \<noteq> ''.''" "hexEncode g \<noteq> ''..''"
proof -
  have "fromHexChar slash = None" by code_simp
  then have "slash \<notin> set (hexEncode g)" using hexEncode_hexchars[of g] by (auto simp: list_all_iff)
  then show "split_on slash (hexEncode g) = [hexEncode g]" by (rule split_on_single)
  have n: "hexEncode g \<noteq> s" if "length s \<noteq> 32" for s
    using that assms length_hexEncode[of g] by (metis mult_2 numeral_Bit0)
  show "hexEncode g \<noteq> []" "hexEncode g \<noteq> ''.''" "hexEncode g \<noteq> ''..''"
    using n[of "[]"] n[of "''.''"] n[of "''..''"] by simp_all
qed

lemma elems_device_dir:
  assumes "length g = 16"
  shows "elems (device_dir dir g) = elems (if dir = [] then ''.'' else dir) @ [hexEncode g]"
  using hex_component[OF assms] by (simp add: device_dir_def elems_Join_inside split: if_splits)

section \<open>A concrete instance\<close>

definition ex_env :: os_env where
  "ex_env = \<lparr>os_Stat = (\<lambda>p. if p = ''/srv'' then Inr True else if p = ''/srv/a'' then Inr False else Inl (ErrExt ''stat'')),
     os_Open = (\<lambda>p. p = ''/srv/a''), os_MkdirAll = (\<lambda>_. True), url_Parse = (\<lambda>_. Inl (ErrExt ''url''))\<rparr>"

text \<open>A command, a download with the default directory, and an upload; the parameters decode to themselves.\<close>

datatype ex_raw = ExCommand FSIMCommandParams | ExDownload FSIMDownloadParams | ExUpload FSIMUploadParams

definition ex_mapstructure :: "ex_raw mapstructure" where
  "ex_mapstructure = \<lparr>
     decode_command = (\<lambda>r. case r of ExCommand p \<Rightarrow> Inr p | _ \<Rightarrow> Inl (ErrExt ''decode'')),
     decode_upload = (\<lambda>r. case r of ExUpload p \<Rightarrow> Inr p | _ \<Rightarrow> Inl (ErrExt ''decode'')),
     decode_download = (\<lambda>r. case r of ExDownload p \<Rightarrow> Inr p | _ \<Rightarrow> Inl (ErrExt ''decode'')),
     decode_wget = (\<lambda>_. Inl (ErrExt ''decode''))\<rparr>"

definition ex_op :: "string \<Rightarrow> ex_raw \<Rightarrow> ex_raw ServiceInfoOperation" where
  "ex_op s r = \<lparr>FSIM = s, RawParams = Some r, CommandParams = None, UploadParams = None, DownloadParams = None, WgetParams = None\<rparr>"

definition ex_config :: "ex_raw ServiceInfoConfig" where
  "ex_config = \<lparr>Defaults = [\<lparr>def_FSIM = ''fdo.download'', def_Dir = ''/srv''\<rparr>],
     Fsims = [ex_op ''fdo.command'' (ExCommand \<lparr>Command = ''id'', Args = [], MayFail = False, RetStdout = True, RetStderr = False\<rparr>),
       ex_op ''fdo.download'' (ExDownload \<lparr>files_Dir = [], Files = [\<lparr>Src = ''a'', Dst = ''/etc/a'', file_MayFail = False\<rparr>]\<rparr>),
       ex_op ''fdo.upload'' (ExUpload \<lparr>files_Dir = ''/srv'', Files = [\<lparr>Src = ''/log'', Dst = ''../x/log''\<rparr>]\<rparr>)]\<rparr>"

definition ex_validated :: "ex_raw ServiceInfoConfig option" where
  "ex_validated = fst (ServiceInfoConfig_validate ex_env ex_mapstructure (Some ex_config))"

lemma ex_validates: "ServiceInfoConfig_validate ex_env ex_mapstructure (Some ex_config) = (ex_validated, Inr ())"
proof -
  have "snd (ServiceInfoConfig_validate ex_env ex_mapstructure (Some ex_config)) = Inr ()" by code_simp
  then show ?thesis by (simp add: ex_validated_def prod_eq_iff)
qed

lemma ex_items: "ownerModules ex_validated [''fdo.command'', ''fdo.download'', ''fdo.upload''] =
   [ICommand \<lparr>Command = ''id'', Args = [], MayFail = False, RetStdout = True, RetStderr = False\<rparr>,
    IDownload ''/srv'' \<lparr>Src = ''a'', Dst = ''/etc/a'', file_MayFail = False\<rparr>,
    IUpload ''/srv'' \<lparr>Src = ''/log'', Dst = ''../x/log''\<rparr>]"
  by code_simp

definition ex_mod_codec :: cbor_lib where
  "ex_mod_codec = table_codec [(GExt ''Devmod'' ''d'', ''D''), (GStrs [''fdo.command'', ''fdo.download'', ''fdo.upload''], ''M'')]"

text \<open>A session in TO2 whose device has reported its modules and has its replacement GUID.\<close>

definition ex_mod_db :: sqldb where
  "ex_mod_db = after sql_exec (SetReplacementGUID ex_to2_ctx (replicate 16 CHR ''r''))
     (after sql_exec (SetDevmod ex_mod_codec ex_to2_ctx ''d'' [''fdo.command'', ''fdo.download'', ''fdo.upload''] True)
       (after sql_exec (SetGUID ex_to2_ctx (replicate 16 CHR ''g'')) ex_to2_db))"

lemma ex_mod_ok: "wf ex_mod_db" "session_guid ex_to2_ctx ex_mod_db = Some (replicate 16 CHR ''r'')"
  "to2_read (State_sid ex_to2_ctx) (devmod_value ex_mod_codec []) ex_mod_db =
     Inr (''d'', [''fdo.command'', ''fdo.download'', ''fdo.upload''], True)"
  "State_TokenFromContext ex_to2_ctx = Some (b64Encode ''s'')"
proof -
  have w: "wf (after sql_exec p db)" if "wf db" for p :: "'x prog" and db
    using sql.wp_result[OF wf_wp[OF that], of p] by simp
  show "wf ex_mod_db" unfolding ex_mod_db_def by (intro w ex_to2_ok(1))
  show "State_TokenFromContext ex_to2_ctx = Some (b64Encode ''s'')"
    by (simp add: State_TokenFromContext_def ex_to2_ctx_def State_TokenContext_def)
  show "session_guid ex_to2_ctx ex_mod_db = Some (replicate 16 CHR ''r'')"
    unfolding session_guid_def ex_to2_ok(2) by code_simp
  show "to2_read (State_sid ex_to2_ctx) (devmod_value ex_mod_codec []) ex_mod_db =
     Inr (''d'', [''fdo.command'', ''fdo.download'', ''fdo.upload''], True)"
    unfolding ex_to2_ok(2) by code_simp
qed

section \<open>Properties\<close>

text \<open>
  C24. Once the configuration was validated, the owner's modules are complete: no iteration reads
  parameters that are not there, a command has its text, a file to download its source
  and destination, and it was there; an upload has a relative destination, a URL has a host and
  is fetched over HTTP, and a checksum decodes to the 48 octets of SHA-384.
\<close>

theorem validated_modules_complete:
  assumes "ServiceInfoConfig_validate env M c = (c', Inr ())"
  shows "\<forall>it\<in>set (ownerModules c' modules). item_ok env it"
  using validated_items[OF assms] by blast

lemma validated_modules_complete_witness:
  "item_ok ex_env (IDownload ''/srv'' \<lparr>Src = ''a'', Dst = ''/etc/a'', file_MayFail = False\<rparr>)"
  using validated_modules_complete[OF ex_validates, of "[''fdo.command'', ''fdo.download'', ''fdo.upload'']"]
  unfolding ex_items by simp



text \<open>
  C35. The files a device uploads stay with the device: if the configured destination has no
  component \<^verbatim>\<open>..\<close>, the upload directory is the device's own directory or lies below it, and the
  new name is a single component; so the directories of two devices never contain one another.
\<close>

theorem uploads_confined:
  assumes "''..'' \<notin> set (split_on slash dst)" "''..'' \<notin> set (split_on slash dst')"
    and "length g = 16" "length g' = 16" "g \<noteq> g'"
  shows "contained (device_dir dir g) (upload_dir dir g dst) \<and>
     (upload_rename dst = [slash] \<or> slash \<notin> set (upload_rename dst)) \<and>
     \<not> contained (upload_dir dir g dst) (upload_dir dir g' dst')"
proof -
  note inside = upload_dir_contained[OF assms(1), of dir g] upload_dir_contained[OF assms(2), of dir g']
  have "hexEncode g \<noteq> hexEncode g'" using assms(5) by (metis hexDecode_hexEncode option.inject)
  then have "elems (upload_dir dir g' dst') \<noteq> elems (upload_dir dir g dst) @ rest" for rest
    using inside elems_device_dir[OF assms(3), of dir] elems_device_dir[OF assms(4), of dir] by (auto simp: contained_def)
  then have "\<not> contained (upload_dir dir g dst) (upload_dir dir g' dst')" by (auto simp: contained_def)
  with inside(1) show ?thesis using Base_no_slash[of dst] by (auto simp: upload_rename_def)
qed

lemma uploads_confined_witness:
  "\<not> contained (upload_dir ''/srv'' (replicate 16 CHR ''a'') ''log/x'') (upload_dir ''/srv'' (replicate 16 CHR ''b'') ''log/x'')"
proof -
  have "''..'' \<notin> set (split_on slash ''log/x'')" by code_simp
  from uploads_confined[OF this this, of "replicate 16 CHR ''a''" "replicate 16 CHR ''b''" "''/srv''"] show ?thesis
    by simp
qed

text \<open>
  Without that condition they do not: a destination the validation accepts can lead out of the
  device's directory, here into that of another device.
\<close>

lemma upload_escapes:
  "validate_upload_file \<lparr>Src = ''log'', Dst = ''../'' @ hexEncode (replicate 16 CHR ''b'') @ ''/log''\<rparr> = Inr () \<and>
   upload_dir ''/srv'' (replicate 16 CHR ''a'') (''../'' @ hexEncode (replicate 16 CHR ''b'') @ ''/log'') =
     device_dir ''/srv'' (replicate 16 CHR ''b'')"
  by code_simp

end
