(* ===== verification/Config.thy ===== *)
theory Config
  imports RvServer OwnerModules
begin

text \<open>
  The configuration of the three servers and its validation, the listen address, the choice of the
  database, and the private keys (\<^verbatim>\<open>cmd/config.go\<close>, \<^verbatim>\<open>cmd/owner.go\<close>, \<^verbatim>\<open>cmd/manufacturing.go\<close>,
  \<^verbatim>\<open>cmd/rendezvous.go\<close>, \<^verbatim>\<open>cmd/root.go\<close>).
\<close>

section \<open>Addresses\<close>

record HTTPConfig =
  http_CertPath :: string
  http_KeyPath :: string
  IP :: string
  Port :: string

abbreviation colon :: char where
  "colon \<equiv> CHR '':''"

definition ListenAddress :: "HTTPConfig \<Rightarrow> string" where
  "ListenAddress h = IP h @ colon # Port h"

definition UseTLS :: "HTTPConfig \<Rightarrow> bool" where
  "UseTLS h \<longleftrightarrow> http_CertPath h \<noteq> [] \<and> http_KeyPath h \<noteq> []"

definition HTTPConfig_validate :: "HTTPConfig \<Rightarrow> unit result" where
  "HTTPConfig_validate h =
     (if IP h = [] then Inl (Errorf ''the server's HTTP IP address is required'')
      else if Port h = [] then Inl (Errorf ''the server's HTTP port is required'')
      else if (http_CertPath h = [] \<and> http_KeyPath h \<noteq> []) \<or> (http_CertPath h \<noteq> [] \<and> http_KeyPath h = [])
      then Inl (Errorf ''both certificate and key must be provided together, or neither'')
      else Inr ())"

text \<open>Go's \<^verbatim>\<open>strings.IndexByte\<close> and \<^verbatim>\<open>strings.LastIndexByte\<close>, and \<^verbatim>\<open>net.SplitHostPort\<close>.\<close>

fun IndexByte :: "string \<Rightarrow> char \<Rightarrow> nat option" where
  "IndexByte [] c = None"
| "IndexByte (x # xs) c = (if x = c then Some 0 else map_option Suc (IndexByte xs c))"

fun LastIndexByte :: "string \<Rightarrow> char \<Rightarrow> nat option" where
  "LastIndexByte [] c = None"
| "LastIndexByte (x # xs) c = (case LastIndexByte xs c of
     Some i \<Rightarrow> Some (Suc i) | None \<Rightarrow> if x = c then Some 0 else None)"

definition split_rest :: "string \<Rightarrow> nat \<Rightarrow> nat \<Rightarrow> nat \<Rightarrow> string \<Rightarrow> (string \<times> string) result" where
  "split_rest hostport i j k host =
     (if CHR ''['' \<in> set (drop j hostport) then Inl (Errorf ''unexpected '[' in address'')
      else if CHR '']'' \<in> set (drop k hostport) then Inl (Errorf ''unexpected ']' in address'')
      else Inr (host, drop (i + 1) hostport))"

definition SplitHostPort :: "string \<Rightarrow> (string \<times> string) result" where
  "SplitHostPort hostport =
     (case LastIndexByte hostport colon of
        None \<Rightarrow> Inl (Errorf ''missing port in address'')
      | Some i \<Rightarrow>
          if hd hostport = CHR ''['' then
            (case IndexByte hostport (CHR '']'') of
               None \<Rightarrow> Inl (Errorf ''missing ']' in address'')
             | Some e \<Rightarrow>
                 if e + 1 = length hostport then Inl (Errorf ''missing port in address'')
                 else if e + 1 = i then split_rest hostport i 1 (e + 1) (drop 1 (take e hostport))
                 else if hostport ! (e + 1) = colon then Inl (Errorf ''too many colons in address'')
                 else Inl (Errorf ''missing port in address''))
          else if colon \<in> set (take i hostport) then Inl (Errorf ''too many colons in address'')
          else split_rest hostport i 0 0 (take i hostport))"

definition parseHTTPAddress :: "string \<Rightarrow> (string \<times> string) result" where
  "parseHTTPAddress addr =
     rbind (rmap_err (Wrapf ''invalid address format'') (SplitHostPort addr)) (\<lambda>(host, portStr).
       if host = [] then Inl (Errorf ''invalid address format: host cannot be empty'')
       else if portStr = [] then Inl (Errorf ''invalid address format: port cannot be empty'')
       else Inr (host, portStr))"

section \<open>The servers' configurations\<close>

record DeviceCAConfig =
  ca_CertPath :: string
  ca_KeyPath :: string

record DatabaseConfig =
  db_Type :: string
  DSN :: string

record FDOServerConfig =
  LogLevel :: string
  DB_config :: DatabaseConfig
  HTTP :: HTTPConfig

record 'raw OwnerConfig =
  OwnerCertificate :: string
  OwnerPrivateKey :: string
  ReuseCred :: bool
  TO0InsecureTLS :: bool
  SI :: "'raw ServiceInfoConfig"

record 'raw OwnerServerConfig = FDOServerConfig +
  o_DeviceCA :: DeviceCAConfig
  o_Owner :: "'raw OwnerConfig"

record 'raw ManufacturingServerConfig = FDOServerConfig +
  m_DeviceCA :: DeviceCAConfig
  ManufacturerKeyPath :: string
  m_Owner :: "'raw OwnerConfig"

record RendezvousServerConfig = FDOServerConfig +
  r_Rendezvous :: rendezvous_config

definition validateCertFile :: "os_env \<Rightarrow> string \<Rightarrow> string \<Rightarrow> unit result" where
  "validateCertFile env path name =
     (if path = [] \<or> isl (os_Stat env path) then Inl (Errorf (name @ '' is required'')) else Inr ())"

text \<open>The owner's validation also completes the service-info operations in place.\<close>

definition OwnerServerConfig_validate ::
  "os_env \<Rightarrow> 'raw mapstructure \<Rightarrow> 'raw OwnerServerConfig \<Rightarrow> 'raw OwnerServerConfig \<times> unit result" where
  "OwnerServerConfig_validate env M cfg =
     (case rbind (HTTPConfig_validate (HTTP cfg)) (\<lambda>_.
           rbind (validateCertFile env (OwnerPrivateKey (o_Owner cfg)) ''owner private key'') (\<lambda>_.
             validateCertFile env (ca_CertPath (o_DeviceCA cfg)) ''device CA certificate'')) of
        Inl e \<Rightarrow> (cfg, Inl e)
      | Inr _ \<Rightarrow>
          (case ServiceInfoConfig_validate env M (Some (SI (o_Owner cfg))) of
             (si, r) \<Rightarrow> (cfg\<lparr>o_Owner := (o_Owner cfg)\<lparr>SI := the si\<rparr>\<rparr>, r)))"

definition ManufacturingServerConfig_validate :: "os_env \<Rightarrow> 'raw ManufacturingServerConfig \<Rightarrow> unit result" where
  "ManufacturingServerConfig_validate env cfg =
     rbind (HTTPConfig_validate (HTTP cfg)) (\<lambda>_.
     rbind (validateCertFile env (ManufacturerKeyPath cfg) ''manufacturing key'') (\<lambda>_.
     rbind (validateCertFile env (ca_KeyPath (m_DeviceCA cfg)) ''device CA key'') (\<lambda>_.
     rbind (validateCertFile env (ca_CertPath (m_DeviceCA cfg)) ''device CA certificate'') (\<lambda>_.
       validateCertFile env (OwnerCertificate (m_Owner cfg)) ''owner certificate''))))"

definition RendezvousServerConfig_validate :: "RendezvousServerConfig \<Rightarrow> unit result" where
  "RendezvousServerConfig_validate cfg =
     rbind (HTTPConfig_validate (HTTP cfg)) (\<lambda>_. RendezvousConfig_validate (r_Rendezvous cfg))"

section \<open>Database\<close>

text \<open>
  \<^verbatim>\<open>strings.ToLower\<close> on ASCII: no other character becomes a letter of the two names.
  A connection is opened by the driver, a parameter; \<open>db_Pragma\<close> switches foreign keys on.
\<close>

definition ToLower :: "string \<Rightarrow> string" where
  "ToLower = map (\<lambda>c. if c \<in> {CHR ''A'', CHR ''B'', CHR ''C'', CHR ''D'', CHR ''E'', CHR ''F'', CHR ''G'', CHR ''H'',
     CHR ''I'', CHR ''J'', CHR ''K'', CHR ''L'', CHR ''M'', CHR ''N'', CHR ''O'', CHR ''P'', CHR ''Q'', CHR ''R'',
     CHR ''S'', CHR ''T'', CHR ''U'', CHR ''V'', CHR ''W'', CHR ''X'', CHR ''Y'', CHR ''Z''}
     then char_of (of_char c + 32 :: nat) else c)"

record 'db driver =
  gorm_Open :: "string \<Rightarrow> string \<Rightarrow> 'db result"
  db_Handle :: "'db \<Rightarrow> unit result"
  db_Pragma :: "'db \<Rightarrow> 'db"

definition getDB :: "'db driver \<Rightarrow> DatabaseConfig \<Rightarrow> 'db result" where
  "getDB D dc =
     (let dialect = ToLower (db_Type dc) in
      if DSN dc = [] then Inl (Errorf ''database configuration error: dsn is required'')
      else if dialect \<noteq> ''sqlite'' \<and> dialect \<noteq> ''postgres'' then Inl (Errorf ''unsupported database type'')
      else rbind (gorm_Open D dialect (DSN dc)) (\<lambda>db.
        if dialect = ''sqlite'' then rbind (db_Handle D db) (\<lambda>_. Inr (db_Pragma D db)) else Inr db))"

text \<open>\<open>initDb\<close> is \<^verbatim>\<open>db.InitDb\<close>; the configuration keeps the lower-case type.\<close>

definition getState :: "(string \<Rightarrow> string \<Rightarrow> 'db result) \<Rightarrow> DatabaseConfig \<Rightarrow> DatabaseConfig \<times> 'db result" where
  "getState initDb dc =
     (if DSN dc = [] then (dc, Inl (Errorf ''database configuration error: dsn is required''))
      else let dc' = dc\<lparr>db_Type := ToLower (db_Type dc)\<rparr> in
        if db_Type dc' \<noteq> ''sqlite'' \<and> db_Type dc' \<noteq> ''postgres''
        then (dc', Inl (Errorf ''unsupported database type''))
        else (dc', initDb (db_Type dc') (DSN dc')))"

section \<open>Keys\<close>

text \<open>Private keys by what the code looks at: the bits of the modulus or of the curve.\<close>

datatype private_key = RSAPrivate nat | ECDSAPrivate nat | OtherSigner | NoSigner

datatype key_type = Rsa2048RestrKeyType | RsaPkcsKeyType | RsaPssKeyType | Secp256r1KeyType | Secp384r1KeyType | OtherKeyType

definition getPrivateKeyType :: "private_key \<Rightarrow> key_type result" where
  "getPrivateKeyType key = (case key of
     RSAPrivate n \<Rightarrow> if n = 2048 then Inr Rsa2048RestrKeyType else Inl (Errorf ''unsupported key provided'')
   | ECDSAPrivate n \<Rightarrow> if n = 256 then Inr Secp256r1KeyType else if n = 384 then Inr Secp384r1KeyType
                      else Inl (Errorf ''unsupported key provided'')
   | _ \<Rightarrow> Inl (Errorf ''unsupported key provided''))"

text \<open>The parsers fail with a text; \<open>None\<close> is the panic of \<^verbatim>\<open>key.(crypto.Signer)\<close>.\<close>

record key_parsers =
  ReadFile :: "string \<Rightarrow> bytes result"
  ParsePKCS8 :: "bytes \<Rightarrow> string + private_key"
  ParseEC :: "bytes \<Rightarrow> private_key result"
  ParsePKCS1 :: "bytes \<Rightarrow> private_key result"

definition as_signer :: "private_key \<Rightarrow> private_key result option" where
  "as_signer key = (if key = NoSigner then None else Some (Inr key))"

definition contains :: "string \<Rightarrow> string \<Rightarrow> bool" where
  "contains s t \<longleftrightarrow> sublist t s"

definition parsePrivateKey :: "key_parsers \<Rightarrow> string \<Rightarrow> private_key result option" where
  "parsePrivateKey P keyPath = (case ReadFile P keyPath of
     Inl e \<Rightarrow> Some (Inl e)
   | Inr b \<Rightarrow> (case ParsePKCS8 P b of
       Inr key \<Rightarrow> as_signer key
     | Inl err \<Rightarrow>
         if contains err ''ParseECPrivateKey'' then
           (case ParseEC P b of Inl e \<Rightarrow> Some (Inl e) | Inr key \<Rightarrow> as_signer key)
         else if contains err ''ParsePKCS1PrivateKey'' then
           (case ParsePKCS1 P b of Inl e \<Rightarrow> Some (Inl e) | Inr key \<Rightarrow> as_signer key)
         else Some (Inl (Errorf ''unable to parse private key''))))"

datatype public_key = RSAPublic nat | ECDSAPublic nat | OtherPublic

datatype key_encoding = X509KeyEnc | CoseKeyEnc | X5ChainKeyEnc | OtherKeyEnc

text \<open>
  \<open>new_key\<close> and \<open>new_chain\<close> are \<^verbatim>\<open>protocol.NewPublicKey\<close> on a key and on a chain; a chain is given by the
  public keys of its certificates. \<open>None\<close> is the panic the code intends for a key of the wrong type.
\<close>

record 'p key_encoder =
  new_key :: "key_type \<Rightarrow> public_key \<Rightarrow> bool \<Rightarrow> 'p result"
  new_chain :: "key_type \<Rightarrow> public_key list \<Rightarrow> 'p result"

definition encodePublicKey ::
  "'p key_encoder \<Rightarrow> key_type \<Rightarrow> key_encoding \<Rightarrow> public_key option \<Rightarrow> public_key list \<Rightarrow> 'p result option" where
  "encodePublicKey N keyType keyEncoding pub0 chain =
     (case (if pub0 = None \<and> chain \<noteq> [] then Some (hd chain) else pub0) of
        None \<Rightarrow> Some (Inl (Errorf ''no key to encode''))
      | Some pub \<Rightarrow>
          if keyEncoding = X509KeyEnc \<or> keyEncoding = CoseKeyEnc then
            if keyType \<in> {Secp256r1KeyType, Secp384r1KeyType} then
              (case pub of ECDSAPublic n \<Rightarrow> Some (new_key N keyType pub (keyEncoding = CoseKeyEnc)) | _ \<Rightarrow> None)
            else if keyType \<in> {Rsa2048RestrKeyType, RsaPkcsKeyType, RsaPssKeyType} then
              (case pub of RSAPublic n \<Rightarrow> Some (new_key N keyType pub (keyEncoding = CoseKeyEnc)) | _ \<Rightarrow> None)
            else Some (Inl (Errorf ''unsupported key type''))
          else if keyEncoding = X5ChainKeyEnc then Some (new_chain N keyType chain)
          else Some (Inl (Errorf ''unsupported key encoding'')))"

section \<open>The listen address\<close>

lemma LastIndexByte_None: "LastIndexByte s c = None \<longleftrightarrow> c \<notin> set s"
  by (induction s) (auto split: option.splits)

lemma LastIndexByte_append: "c \<notin> set b \<Longrightarrow> LastIndexByte (a @ c # b) c = Some (length a)"
  by (induction a) (auto simp: LastIndexByte_None[THEN iffD2])

lemma LastIndexByte_Some: "LastIndexByte s c = Some i \<Longrightarrow> i < length s \<and> s ! i = c \<and> c \<notin> set (drop (i + 1) s)"
  by (induction s arbitrary: i) (auto simp: LastIndexByte_None split: option.splits if_splits)

lemma IndexByte_Some: "IndexByte s c = Some i \<Longrightarrow> i < length s \<and> s ! i = c \<and> c \<notin> set (take i s)"
  by (induction s arbitrary: i) (auto split: if_splits)

text \<open>The parts of an address that splits: the port has no colon and neither part a bracket.\<close>

lemma SplitHostPort_parts:
  assumes "SplitHostPort s = Inr (h, p)"
  shows "colon \<notin> set p \<and> set h \<inter> {CHR ''['', CHR '']''} = {} \<and> set p \<inter> {CHR ''['', CHR '']''} = {}"
proof -
  from assms obtain i where i: "LastIndexByte s colon = Some i" by (auto simp: SplitHostPort_def split: option.splits)
  note colons = LastIndexByte_Some[OF i]
  show ?thesis
  proof (cases "hd s = CHR ''[''")
    case False
    with assms i show ?thesis
      using colons by (auto simp: SplitHostPort_def split_rest_def dest: in_set_takeD in_set_dropD split: if_splits)
  next
    case True
    with assms i obtain e where e: "IndexByte s (CHR '']'') = Some e" "e + 1 = i"
      and s: "split_rest s i 1 (e + 1) (drop 1 (take e s)) = Inr (h, p)"
      by (auto simp: SplitHostPort_def split: option.splits if_splits)
    then have hp: "h = take (e - 1) (drop 1 s)" "p = drop (i + 1) s"
      and no: "CHR ''['' \<notin> set (drop 1 s)" "CHR '']'' \<notin> set (drop i s)"
      by (auto simp: split_rest_def drop_take split: if_splits)
    have "set p \<subseteq> set (drop 1 s)" "set p \<subseteq> set (drop i s)" "set h \<subseteq> set (drop 1 s)"
      unfolding hp by (auto intro: set_drop_subset_set_drop[THEN subsetD, rotated] dest: in_set_takeD)
    moreover have "set h \<subseteq> set (take e s)"
      unfolding hp by (metis drop_take set_drop_subset)
    ultimately show ?thesis using no colons IndexByte_Some[OF e(1)] hp(2) by blast
  qed
qed

lemma SplitHostPort_join:
  assumes "colon \<notin> set p" "set h \<inter> {CHR ''['', CHR '']''} = {}" "set p \<inter> {CHR ''['', CHR '']''} = {}"
  shows "SplitHostPort (h @ colon # p) =
     (if colon \<in> set h then Inl (Errorf ''too many colons in address'') else Inr (h, p))"
proof -
  have "hd (h @ colon # p) \<noteq> CHR ''[''" using assms(2) by (cases h) auto
  with assms show ?thesis by (auto simp: SplitHostPort_def LastIndexByte_append split_rest_def)
qed

section \<open>Properties\<close>

text \<open>
  C40. The address of the command line is the one the server listens on, unless its host has a
  colon: an IPv6 address is taken apart correctly, but the address \<^verbatim>\<open>ListenAddress\<close> puts
  together from it does not split again, so that the server cannot listen on it.
\<close>

theorem listen_address_splits:
  assumes "parseHTTPAddress addr = Inr (ip, port)" "IP h = ip" "Port h = port"
  shows "SplitHostPort (ListenAddress h) =
     (if colon \<in> set ip then Inl (Errorf ''too many colons in address'') else Inr (ip, port))"
proof -
  from assms(1) have "SplitHostPort addr = Inr (ip, port)"
    by (auto simp: parseHTTPAddress_def split: if_splits prod.splits)
  from SplitHostPort_join[of port ip] SplitHostPort_parts[OF this] show ?thesis
    by (simp add: ListenAddress_def assms(2,3))
qed

lemma listen_address_splits_witness:
  "SplitHostPort (ListenAddress \<lparr>http_CertPath = [], http_KeyPath = [], IP = ''::1'', Port = ''8080''\<rparr>) =
     Inl (Errorf ''too many colons in address'')"
proof -
  have "parseHTTPAddress ''[::1]:8080'' = Inr (''::1'', ''8080'')" by code_simp
  from listen_address_splits[OF this, of "\<lparr>http_CertPath = [], http_KeyPath = [], IP = ''::1'', Port = ''8080''\<rparr>"]
  show ?thesis by simp
qed

end
