(* ===== verification/Startup.thy ===== *)
theory Startup
  imports Config RvInfoStore DeviceCA
begin

text \<open>
  How the servers come up: the database of the manufacturing and owner servers
  (\<^verbatim>\<open>InitDb\<close> in \<^verbatim>\<open>internal/db/state.go\<close>), the state of the manufacturing server
  (\<^verbatim>\<open>internal/handlers/manufacturing\<close>), and the keys and certificates both load
  (\<^verbatim>\<open>serveManufacturing\<close>, \<^verbatim>\<open>getOwnerServerState\<close>).
\<close>

section \<open>Database\<close>

text \<open>
  The program runs on the connection that was opened. The models of \<^verbatim>\<open>internal/db\<close> declare no
  association, so the migration creates no foreign key. A failing conversion of the rendezvous
  information is only logged; the pragma for SQLite is part of the engine's contract.
\<close>

definition InitDb :: "oob \<Rightarrow> rv_consts \<Rightarrow> cbor_lib \<Rightarrow> json_lib \<Rightarrow> string \<Rightarrow> unit act" where
  "InitDb oob K C J dbType =
     (if dbType \<noteq> ''sqlite'' \<and> dbType \<noteq> ''postgres'' then failE (Errorf ''unsupported database type'')
      else
        bindE (dbAutoMigrate [T_secrets, T_mfg_keys, T_owner_keys, T_rv_blobs, T_sessions, T_device_info,
            T_incomplete_vouchers, T_to0_sessions, T_to1_sessions, T_to2_sessions, T_vouchers,
            T_replacement_vouchers, T_key_exchanges, T_owner_info, T_rvinfo, T_device_onboarding] []) (\<lambda>_.
        bindP (migrateRvInfoToCBOR oob K C J) (\<lambda>r. retE ())))"

definition State_Ping :: "unit act" where
  "State_Ping = dbPing"

definition InitRvInfoDB :: "unit act" where
  "InitRvInfoDB = dbAutoMigrate [T_rvinfo] []"

definition Manufacturing_InitDB :: "unit act" where
  "Manufacturing_InitDB = bindE InitRvInfoDB (\<lambda>_. InitHealthDB)"

section \<open>Keys and certificates\<close>

record 'db owner_server_state =
  os_DB :: 'db
  ownerKey :: private_key
  ownerKeyType :: key_type
  cert_chain :: "x509_cert list"

record 'db manufacturing =
  DBState :: 'db
  DeviceKey :: private_key
  DeviceCAChain :: "x509_cert list"
  MfgKey :: private_key
  OwnerCert :: x509_cert

text \<open>Sequencing with early return on an error, \<open>None\<close> being a panic.\<close>

definition pbind :: "'a result option \<Rightarrow> ('a \<Rightarrow> 'b result option) \<Rightarrow> 'b result option" where
  "pbind m k = (case m of None \<Rightarrow> None | Some (Inl e) \<Rightarrow> Some (Inl e) | Some (Inr x) \<Rightarrow> k x)"

definition parse_cert :: "pki \<Rightarrow> bytes \<Rightarrow> x509_cert result option" where
  "parse_cert L b = Some (of_opt (ErrExt ''x509'') (x509_ParseCertificate L b))"

definition getOwnerServerState ::
  "(string \<Rightarrow> string \<Rightarrow> 'db result) \<Rightarrow> key_parsers \<Rightarrow> pki \<Rightarrow> 'raw OwnerServerConfig \<Rightarrow> 'db owner_server_state result option" where
  "getOwnerServerState initDb P L cfg =
     pbind (Some (snd (getState initDb (DB_config cfg)))) (\<lambda>dbState.
     pbind (parsePrivateKey P (OwnerPrivateKey (o_Owner cfg))) (\<lambda>key.
     pbind (Some (getPrivateKeyType key)) (\<lambda>keyType.
     pbind (Some (ReadFile P (ca_CertPath (o_DeviceCA cfg)))) (\<lambda>deviceCA.
       case pem_Decode L deviceCA of
         None \<Rightarrow> Some (Inl (Errorf ''unable to decode device CA''))
       | Some (ty, content, rest) \<Rightarrow>
           pbind (parse_cert L content) (\<lambda>cert.
             Some (Inr \<lparr>os_DB = dbState, ownerKey = key, ownerKeyType = keyType, cert_chain = [cert]\<rparr>))))))"

text \<open>The first part of \<^verbatim>\<open>serveManufacturing\<close>, up to \<^verbatim>\<open>NewManufacturing\<close>.\<close>

definition load_manufacturing ::
  "(string \<Rightarrow> string \<Rightarrow> 'db result) \<Rightarrow> key_parsers \<Rightarrow> pki \<Rightarrow> 'raw ManufacturingServerConfig \<Rightarrow> 'db manufacturing result option" where
  "load_manufacturing initDb P L cfg =
     pbind (Some (snd (getState initDb (DB_config cfg)))) (\<lambda>dbState.
     pbind (parsePrivateKey P (ManufacturerKeyPath cfg)) (\<lambda>mfgKey.
     pbind (parsePrivateKey P (ca_KeyPath (m_DeviceCA cfg))) (\<lambda>deviceKey.
     pbind (Some (ReadFile P (ca_CertPath (m_DeviceCA cfg)))) (\<lambda>deviceCA.
       case pem_Decode L deviceCA of
         None \<Rightarrow> None
       | Some (ty, content, rest) \<Rightarrow>
           pbind (parse_cert L content) (\<lambda>caCert.
           pbind (Some (ReadFile P (OwnerCertificate (m_Owner cfg)))) (\<lambda>ownerPublicKey.
             case pem_Decode L ownerPublicKey of
               None \<Rightarrow> Some (Inl (Errorf ''unable to decode owner public key''))
             | Some (ty', content', rest') \<Rightarrow>
                 pbind (parse_cert L content') (\<lambda>cert.
                   Some (Inr \<lparr>DBState = dbState, DeviceKey = deviceKey, DeviceCAChain = [caCert],
                     MfgKey = mfgKey, OwnerCert = cert\<rparr>))))))))"

section \<open>Device initialisation\<close>

text \<open>
  What the manufacturing server adds to the protocol: the public key of the voucher's header, in the
  type and encoding the device asks for, and the extension of a new voucher to the owner
  (\<open>ExtendVoucher\<close> is the library's). Asking a missing signer for its key is a panic.
\<close>

record mfg_info =
  info_KeyType :: key_type
  info_KeyEncoding :: key_encoding
  info_DeviceInfo :: string

fun signer_Public :: "private_key \<Rightarrow> public_key option" where
  "signer_Public (RSAPrivate n) = Some (RSAPublic n)"
| "signer_Public (ECDSAPrivate n) = Some (ECDSAPublic n)"
| "signer_Public OtherSigner = Some OtherPublic"
| "signer_Public NoSigner = None"

definition DI_DeviceInfo :: "'p key_encoder \<Rightarrow> 'db manufacturing \<Rightarrow> mfg_info \<Rightarrow> (string \<times> 'p) result option" where
  "DI_DeviceInfo N m info =
     (case signer_Public (MfgKey m) of
        None \<Rightarrow> None
      | Some pub \<Rightarrow>
          pbind (encodePublicKey N (info_KeyType info) (info_KeyEncoding info) (Some pub) []) (\<lambda>mfgPubKey.
            Some (Inr (info_DeviceInfo info, mfgPubKey))))"

definition DI_BeforeVoucherPersist ::
  "('v \<Rightarrow> private_key \<Rightarrow> x509_cert list \<Rightarrow> 'v result) \<Rightarrow> 'db manufacturing \<Rightarrow> 'v \<Rightarrow> 'v result" where
  "DI_BeforeVoucherPersist ExtendVoucher m ov = rbind (ExtendVoucher ov (MfgKey m) [OwnerCert m]) (\<lambda>extended. Inr extended)"

section \<open>Properties\<close>

text \<open>
  The device chooses the type of the key: in the encodings of a single key a type of the other
  family than the manufacturer's key is a panic of the request, and nothing else is.
\<close>

lemma device_key_type_panics:
  assumes "MfgKey m \<noteq> NoSigner"
  shows "DI_DeviceInfo N m info = None \<longleftrightarrow> info_KeyEncoding info \<in> {X509KeyEnc, CoseKeyEnc} \<and>
     (info_KeyType info \<in> {Secp256r1KeyType, Secp384r1KeyType} \<and> (\<nexists>n. MfgKey m = ECDSAPrivate n) \<or>
      info_KeyType info \<in> {Rsa2048RestrKeyType, RsaPkcsKeyType, RsaPssKeyType} \<and> (\<nexists>n. MfgKey m = RSAPrivate n))"
  using assms
  by (cases "MfgKey m"; cases "info_KeyType info"; cases "info_KeyEncoding info")
     (auto simp: DI_DeviceInfo_def encodePublicKey_def pbind_def split: sum.splits option.splits)

lemma add_no_fks [simp]: "add_fks [] d = d"
  by (simp add: add_fks_def)

lemma migrate_touches: "touches (migrateRvInfoToCBOR oob K C J) {T_rvinfo}"
  by (auto simp: migrateRvInfoToCBOR_def marshalRvInfo_def db_calls split: option.splits sum.splits
      intro!: all_stmts_intros)

lemma wp_InitDb:
  assumes "wf d" "schema_ok d" "cbor_ok C"
  shows "wp (InitDb oob K C J dbType) (\<lambda>r d1. same_outside {T_rvinfo} d d1 \<and>
     (d1 = d \<or> rvinfo_doc C d1 = stored_rvinfo oob K C J d) \<and>
     (r = Inr () \<longrightarrow> (\<exists>rv. rvinfo_doc C d = Inr rv) \<or> rvinfo_doc C d = Inl ErrRecordNotFound \<longrightarrow> d1 = d)) d"
proof -
  let ?post = "\<lambda>d1. same_outside {T_rvinfo} d d1 \<and> (d1 = d \<or> rvinfo_doc C d1 = stored_rvinfo oob K C J d) \<and>
     ((\<exists>rv. rvinfo_doc C d = Inr rv) \<or> rvinfo_doc C d = Inl ErrRecordNotFound \<longrightarrow> d1 = d)"
  have frame: "wp (migrateRvInfoToCBOR oob K C J) (\<lambda>_ d1. same_outside {T_rvinfo} d d1) d"
    by (rule wp_frame[OF migrate_touches _ assms(2)]) (auto intro: exI[of _ T_vouchers])
  have now: "wp (migrateRvInfoToCBOR oob K C J)
     (\<lambda>_ d1. (\<exists>rv. rvinfo_doc C d = Inr rv) \<or> rvinfo_doc C d = Inl ErrRecordNotFound \<longrightarrow> d1 = d) d"
  proof (cases "(\<exists>rv. rvinfo_doc C d = Inr rv) \<or> rvinfo_doc C d = Inl ErrRecordNotFound")
    case True
    then show ?thesis by (elim disjE exE) (rule wp_mono[OF wp_migrate_done[OF assms(1)]]; simp)+
  qed (simp add: wp_True)
  have "wp (migrateRvInfoToCBOR oob K C J) (\<lambda>_ d1. ?post d1) d"
    by (rule wp_mono[OF iffD2[OF wp_conj conjI[OF wp_migrate[OF assms(1,3)] iffD2[OF wp_conj conjI[OF frame now]]]]])
       (auto split: if_splits)
  then show ?thesis by (auto simp: InitDb_def wp_bindE wp_bindP wp_dbAutoMigrate wp_ret elim!: wp_mono)
qed

text \<open>
  C30. A restart keeps the data: \<^verbatim>\<open>InitDb\<close> changes no table but the one of the rendezvous information,
  whose document means what it meant before; and when it is in CBOR already, or there is none,
  nothing changes at all.
\<close>

theorem startup_keeps_data:
  assumes "gorm_engine E view" "wf (view db)" "schema_ok (view db)" "cbor_ok C"
    and "result E (InitDb oob K C J dbType) db = Inr ()"
  shows "let d = view db; d1 = view (after E (InitDb oob K C J dbType) db) in
     (\<forall>t. t \<noteq> T_rvinfo \<longrightarrow> tabs d1 t = tabs d t) \<and>
     (d1 = d \<or> rvinfo_doc C d1 = stored_rvinfo oob K C J d) \<and>
     ((\<exists>rv. rvinfo_doc C d = Inr rv) \<or> rvinfo_doc C d = Inl ErrRecordNotFound \<longrightarrow> d1 = d)"
  using gorm_engine.wp_result[OF assms(1) wp_InitDb[OF assms(2-4), of oob K J dbType]] assms(5)
  by (simp add: Let_def same_outside_def)

lemma startup_keeps_data_witness:
  "tabs (after sql_exec (InitDb (\<lambda>_ _. 0) ex_consts ex_codec ex_json ''sqlite'') ex_old_db) T_vouchers = tabs ex_old_db T_vouchers"
proof -
  have "result sql_exec (InitDb (\<lambda>_ _. 0) ex_consts ex_codec ex_json ''sqlite'') ex_old_db = Inr ()" by code_simp
  moreover have "wf ex_old_db" by (simp add: ex_old_db_def wf_put wf_empty_db)
  moreover have "schema_ok ex_old_db" by (simp add: ex_old_db_def ex_ok(4))
  ultimately show ?thesis using startup_keeps_data[OF ex_ok(5) _ _ ex_ok(1)] by (simp add: Let_def)
qed

text \<open>
  A device CA file without a PEM block is an error message of the owner server and a crash of
  the manufacturing server.
\<close>

lemma device_ca_without_pem:
  assumes "getState initDb (DB_config o_cfg) = (dc, Inr db)" "getState initDb (DB_config m_cfg) = (dc', Inr db')"
    and "parsePrivateKey P (OwnerPrivateKey (o_Owner o_cfg)) = Some (Inr k)" "getPrivateKeyType k = Inr kt"
    and "parsePrivateKey P (ManufacturerKeyPath m_cfg) = Some (Inr k1)"
    and "parsePrivateKey P (ca_KeyPath (m_DeviceCA m_cfg)) = Some (Inr k2)"
    and "ReadFile P (ca_CertPath (o_DeviceCA o_cfg)) = Inr b" "ReadFile P (ca_CertPath (m_DeviceCA m_cfg)) = Inr b"
    and "pem_Decode L b = None"
  shows "getOwnerServerState initDb P L o_cfg = Some (Inl (Errorf ''unable to decode device CA'')) \<and>
     load_manufacturing initDb P L m_cfg = None"
  using assms by (simp add: getOwnerServerState_def load_manufacturing_def pbind_def)

end
