(* ===== verification/OpenApiServers.thy ===== *)
theory OpenApiServers
  imports DeviceCA
begin

text \<open>
  The servers of the generated packages: the strict handlers and wrappers of the operations on device
  CA certificates, of the V2 rendezvous information and of the health check, from the request to the
  handler and back, and the routes they register.
\<close>

section \<open>Trusted device CA certificates\<close>

text \<open>The request objects. An operation asserts the type of its own; another one panics.\<close>

datatype device_ca_request =
    ListRequest list_params
  | ImportRequest "bytes option"
  | DeleteRequest string
  | GetRequest string

type_synonym ca_pool = "x509_cert list"
type_synonym device_ca_middleware = "(device_ca_request, ca_pool) strict_middleware"

record device_ca_server =
  si_List :: "list_params \<Rightarrow> ca_pool http_handler"
  si_Import :: "ca_pool http_handler"
  si_Delete :: "string \<Rightarrow> ca_pool http_handler"
  si_Get :: "string \<Rightarrow> ca_pool http_handler"

definition strict_ListTrustedDeviceCACerts ::
  "int \<Rightarrow> (int \<Rightarrow> string) \<Rightarrow> device_ca_middleware list \<Rightarrow> list_params \<Rightarrow> ca_pool http_handler" where
  "strict_ListTrustedDeviceCACerts now tm mws params =
     strict_serve mws ''ListTrustedDeviceCACerts''
       (\<lambda>c r request s. case request of
          ListRequest p \<Rightarrow> bindP (ListTrustedDeviceCACerts now tm c p) (\<lambda>x. Ret (Some (x, s)))
        | _ \<Rightarrow> Ret None)
       (ListRequest params)"

definition strict_ImportTrustedDeviceCACerts ::
  "pki \<Rightarrow> int \<Rightarrow> (int \<Rightarrow> string) \<Rightarrow> device_ca_middleware list \<Rightarrow> ca_pool http_handler" where
  "strict_ImportTrustedDeviceCACerts L now tm mws r s =
     strict_serve mws ''ImportTrustedDeviceCACerts''
       (\<lambda>c r request s. case request of
          ImportRequest body \<Rightarrow> ImportTrustedDeviceCACerts L now tm s body
        | _ \<Rightarrow> Ret None)
       (ImportRequest (req_body r)) r s"

definition strict_DeleteTrustedDeviceCACert ::
  "pki \<Rightarrow> device_ca_middleware list \<Rightarrow> string \<Rightarrow> ca_pool http_handler" where
  "strict_DeleteTrustedDeviceCACert L mws f =
     strict_serve mws ''DeleteTrustedDeviceCACert''
       (\<lambda>c r request s. case request of
          DeleteRequest f \<Rightarrow> bindP (DeleteTrustedDeviceCACert L s f) (\<lambda>x. Ret (Some x))
        | _ \<Rightarrow> Ret None)
       (DeleteRequest f)"

definition strict_GetTrustedDeviceCACertByFingerprint ::
  "(int \<Rightarrow> string) \<Rightarrow> device_ca_middleware list \<Rightarrow> string \<Rightarrow> ca_pool http_handler" where
  "strict_GetTrustedDeviceCACertByFingerprint tm mws f =
     strict_serve mws ''GetTrustedDeviceCACertByFingerprint''
       (\<lambda>c r request s. case request of
          GetRequest f \<Rightarrow> bindP (GetTrustedDeviceCACertByFingerprint tm c f) (\<lambda>x. Ret (Some (x, s)))
        | _ \<Rightarrow> Ret None)
       (GetRequest f)"

definition NewStrictHandler ::
  "pki \<Rightarrow> int \<Rightarrow> (int \<Rightarrow> string) \<Rightarrow> device_ca_middleware list \<Rightarrow> device_ca_server" where
  "NewStrictHandler L now tm mws =
     \<lparr>si_List = strict_ListTrustedDeviceCACerts now tm mws, si_Import = strict_ImportTrustedDeviceCACerts L now tm mws,
      si_Delete = strict_DeleteTrustedDeviceCACert L mws, si_Get = strict_GetTrustedDeviceCACertByFingerprint tm mws\<rparr>"

text \<open>The wrappers, \<open>mws\<close> the middlewares of the options.\<close>

definition siw_ListTrustedDeviceCACerts ::
  "bind_lib \<Rightarrow> ca_pool http_middleware list \<Rightarrow> device_ca_server \<Rightarrow> ca_pool http_handler" where
  "siw_ListTrustedDeviceCACerts B mws si r s =
     (let r' = with_scopes r in
      case bind_list_params B (url_Query r') of
        Inl err \<Rightarrow> ErrorHandlerFunc err r' s
      | Inr params \<Rightarrow> apply_middlewares mws (si_List si params) r' s)"

definition siw_ImportTrustedDeviceCACerts ::
  "ca_pool http_middleware list \<Rightarrow> device_ca_server \<Rightarrow> ca_pool http_handler" where
  "siw_ImportTrustedDeviceCACerts mws si r s = apply_middlewares mws (si_Import si) (with_scopes r) s"

definition bind_fingerprint :: "bind_lib \<Rightarrow> http_request \<Rightarrow> param_error + string" where
  "bind_fingerprint B r = bound ''fingerprint'' (BindStyledString B ''fingerprint'' (req_path r ''fingerprint'')) Inr"

definition siw_DeleteTrustedDeviceCACert ::
  "bind_lib \<Rightarrow> ca_pool http_middleware list \<Rightarrow> device_ca_server \<Rightarrow> ca_pool http_handler" where
  "siw_DeleteTrustedDeviceCACert B mws si r s =
     (case bind_fingerprint B r of
        Inl err \<Rightarrow> ErrorHandlerFunc err r s
      | Inr f \<Rightarrow> apply_middlewares mws (si_Delete si f) (with_scopes r) s)"

definition siw_GetTrustedDeviceCACertByFingerprint ::
  "bind_lib \<Rightarrow> ca_pool http_middleware list \<Rightarrow> device_ca_server \<Rightarrow> ca_pool http_handler" where
  "siw_GetTrustedDeviceCACertByFingerprint B mws si r s =
     (case bind_fingerprint B r of
        Inl err \<Rightarrow> ErrorHandlerFunc err r s
      | Inr f \<Rightarrow> apply_middlewares mws (si_Get si f) (with_scopes r) s)"

section \<open>Rendezvous information, V2\<close>

datatype rvinfo_request = DeleteRvRequest | GetRvRequest | UpdateRvRequest "json option"

type_synonym 's rvinfo_middleware = "(rvinfo_request, 's) strict_middleware"

record 's rvinfo_server =
  si_DeleteRv :: "'s http_handler"
  si_GetRv :: "'s http_handler"
  si_UpdateRv :: "'s http_handler"

definition strict_DeleteRendezvousInfo ::
  "rv_consts \<Rightarrow> cbor_lib \<Rightarrow> json_lib \<Rightarrow> 's rvinfo_middleware list \<Rightarrow> 's http_handler" where
  "strict_DeleteRendezvousInfo K C J mws =
     strict_serve mws ''DeleteRendezvousInfo''
       (\<lambda>c r request s. case request of
          DeleteRvRequest \<Rightarrow> bindP (DeleteRendezvousInfo K C J) (\<lambda>x. Ret (Some (x, s)))
        | _ \<Rightarrow> Ret None)
       DeleteRvRequest"

definition strict_GetRendezvousInfo ::
  "rv_consts \<Rightarrow> cbor_lib \<Rightarrow> json_lib \<Rightarrow> 's rvinfo_middleware list \<Rightarrow> 's http_handler" where
  "strict_GetRendezvousInfo K C J mws =
     strict_serve mws ''GetRendezvousInfo''
       (\<lambda>c r request s. case request of
          GetRvRequest \<Rightarrow> bindP (GetRendezvousInfo K C J) (\<lambda>x. Ret (Some (x, s)))
        | _ \<Rightarrow> Ret None)
       GetRvRequest"

text \<open>The body is decoded before the middlewares and the handler run.\<close>

definition strict_UpdateRendezvousInfo ::
  "oob \<Rightarrow> rv_consts \<Rightarrow> cbor_lib \<Rightarrow> json_lib \<Rightarrow> 's rvinfo_middleware list \<Rightarrow> 's http_handler" where
  "strict_UpdateRendezvousInfo oob K C J mws r s =
     (case Option.bind (Option.bind (req_body r) (jdecode J)) RVInfo_decode of
        None \<Rightarrow> answer 400 ''can't decode JSON body'' s
      | Some body \<Rightarrow>
          strict_serve mws ''UpdateRendezvousInfo''
            (\<lambda>c r request s. case request of
               UpdateRvRequest b \<Rightarrow> bindP (UpdateRendezvousInfo oob K C J b) (\<lambda>x. Ret (Some (x, s)))
             | _ \<Rightarrow> Ret None)
            (UpdateRvRequest (Some body)) r s)"

definition NewStrictRvHandler ::
  "oob \<Rightarrow> rv_consts \<Rightarrow> cbor_lib \<Rightarrow> json_lib \<Rightarrow> 's rvinfo_middleware list \<Rightarrow> 's rvinfo_server" where
  "NewStrictRvHandler oob K C J mws =
     \<lparr>si_DeleteRv = strict_DeleteRendezvousInfo K C J mws, si_GetRv = strict_GetRendezvousInfo K C J mws,
      si_UpdateRv = strict_UpdateRendezvousInfo oob K C J mws\<rparr>"

definition siw_DeleteRendezvousInfo :: "'s http_middleware list \<Rightarrow> 's rvinfo_server \<Rightarrow> 's http_handler" where
  "siw_DeleteRendezvousInfo mws si r s = apply_middlewares mws (si_DeleteRv si) (with_scopes r) s"

definition siw_GetRendezvousInfo :: "'s http_middleware list \<Rightarrow> 's rvinfo_server \<Rightarrow> 's http_handler" where
  "siw_GetRendezvousInfo mws si r s = apply_middlewares mws (si_GetRv si) (with_scopes r) s"

definition siw_UpdateRendezvousInfo :: "'s http_middleware list \<Rightarrow> 's rvinfo_server \<Rightarrow> 's http_handler" where
  "siw_UpdateRendezvousInfo mws si r s = apply_middlewares mws (si_UpdateRv si) (with_scopes r) s"

section \<open>Health\<close>

definition strict_GetHealth :: "string \<Rightarrow> (unit, 's) strict_middleware list \<Rightarrow> 's http_handler" where
  "strict_GetHealth version mws =
     strict_serve mws ''GetHealth'' (\<lambda>c r request s. bindP (GetHealth version) (\<lambda>x. Ret (Some (x, s)))) ()"

definition siw_GetHealth :: "'s http_middleware list \<Rightarrow> 's http_handler \<Rightarrow> 's http_handler" where
  "siw_GetHealth mws handler r s = apply_middlewares mws handler r s"

section \<open>Routes\<close>

text \<open>
  What \<^verbatim>\<open>HandlerFromMux\<close> adds to a multiplexer: the patterns and the wrappers behind them, without
  middlewares of the options. The strict handlers of health and of the rendezvous information have no
  middlewares, that of the device CA certificates has the content negotiation.
\<close>

definition device_ca_handlers ::
  "bind_lib \<Rightarrow> ca_pool http_middleware list \<Rightarrow> device_ca_server \<Rightarrow> (string \<times> ca_pool http_handler) list" where
  "device_ca_handlers B mws si =
    [(''GET /v1/device-ca'', siw_ListTrustedDeviceCACerts B mws si),
     (''POST /v1/device-ca'', siw_ImportTrustedDeviceCACerts mws si),
     (''DELETE /v1/device-ca/{fingerprint}'', siw_DeleteTrustedDeviceCACert B mws si),
     (''GET /v1/device-ca/{fingerprint}'', siw_GetTrustedDeviceCACertByFingerprint B mws si)]"

definition rvinfo_handlers ::
  "'s http_middleware list \<Rightarrow> 's rvinfo_server \<Rightarrow> (string \<times> 's http_handler) list" where
  "rvinfo_handlers mws si =
    [(''DELETE /rvinfo'', siw_DeleteRendezvousInfo mws si),
     (''GET /rvinfo'', siw_GetRendezvousInfo mws si),
     (''PUT /rvinfo'', siw_UpdateRendezvousInfo mws si)]"

definition health_handlers ::
  "'s http_middleware list \<Rightarrow> 's http_handler \<Rightarrow> (string \<times> 's http_handler) list" where
  "health_handlers mws handler = [(''GET /health'', siw_GetHealth mws handler)]"

section \<open>What the layers do to a request\<close>

lemma with_scopes_simps [simp]:
  "req_body (with_scopes r) = req_body r" "req_path (with_scopes r) = req_path r" "req_query (with_scopes r) = req_query r"
  "hdr_Accept (with_scopes r) = hdr_Accept r" "url_Query (with_scopes r) = url_Query r"
  "request.truncate (with_scopes r) = request.truncate r"
  by (simp_all add: with_scopes_def request.truncate_def)

lemma preferred_simps [simp]:
  "preferred (c(''preferred-content-type'' \<mapsto> ContentType s)) = s"
  by (simp add: preferred_def)

end
