(* ===== verification/Routes.thy ===== *)
theory Routes
  imports VoucherApi OwnerInfo Rendezvous Filepath OpenApiServers
begin

text \<open>
  The HTTP side of the three servers: what they use of Go's \<^verbatim>\<open>http.ServeMux\<close> and
  \<^verbatim>\<open>http.StripPrefix\<close>, and the routing tables of \<^verbatim>\<open>api/routes.go\<close> and \<^verbatim>\<open>cmd/owner.go\<close>, of
  \<^verbatim>\<open>internal/handlers/manufacturing\<close> and of \<^verbatim>\<open>internal/handlers/rendezvous\<close> with the generated
  routes they register. Paths are taken to hold no percent-encoded octet. The protocol handler, the
  decoding of a query parameter by the OpenAPI runtime and the negotiation of a media type are
  parameters.
\<close>

section \<open>ServeMux\<close>

type_synonym 's mux = "(string \<times> 's http_handler) list"

datatype seg = Lit string | Wild string

definition parseSeg :: "string \<Rightarrow> seg" where
  "parseSeg s = (if s \<noteq> [] \<and> hd s = CHR ''{'' \<and> last s = CHR ''}'' then Wild (butlast (tl s)) else Lit s)"

text \<open>The segments behind the slashes of a path; the last one is empty behind a slash at the end.\<close>

definition path_segs :: "string \<Rightarrow> string list" where
  "path_segs p = tl (split_on slash p)"

text \<open>A pattern: its method, its segments, and whether it ends in a slash and matches the whole subtree.\<close>

definition parsePattern :: "string \<Rightarrow> string option \<times> seg list \<times> bool" where
  "parsePattern s =
     (let (meth, path) = (case split_on (CHR '' '') s of m # p # _ \<Rightarrow> (Some m, p) | ps \<Rightarrow> (None, hd ps));
          segs = path_segs path in
      if segs \<noteq> [] \<and> last segs = [] then (meth, map parseSeg (butlast segs), True)
      else (meth, map parseSeg segs, False))"

fun seg_match :: "seg list \<Rightarrow> bool \<Rightarrow> string list \<Rightarrow> (string \<times> string) list option" where
  "seg_match [] multi xs = (if multi = (xs \<noteq> []) then Some [] else None)"
| "seg_match (Lit s # ps) multi (x # xs) = (if x = s then seg_match ps multi xs else None)"
| "seg_match (Wild n # ps) multi (x # xs) =
     (if x \<noteq> [] then map_option ((#) (n, x)) (seg_match ps multi xs) else None)"
| "seg_match (p # ps) multi [] = None"

definition method_ok :: "string option \<Rightarrow> string \<Rightarrow> bool" where
  "method_ok m meth \<longleftrightarrow> (case m of None \<Rightarrow> True | Some s \<Rightarrow> meth = s \<or> s = ''GET'' \<and> meth = ''HEAD'')"

definition pattern_match :: "string \<Rightarrow> string \<Rightarrow> string \<Rightarrow> (string \<times> string) list option" where
  "pattern_match pat meth path =
     (let (m, segs, multi) = parsePattern pat in
      if method_ok m meth then seg_match segs multi (path_segs path) else None)"

text \<open>
  The match for a request. No path matches two patterns of a table below with the same method
  (\<open>unambiguous\<close>), so the first match is the most specific one.
\<close>

fun mux_match :: "(string \<times> 'h) list \<Rightarrow> string \<Rightarrow> string \<Rightarrow> (string \<times> 'h \<times> (string \<times> string) list) option" where
  "mux_match [] meth path = None"
| "mux_match ((pat, h) # mux) meth path =
     (case pattern_match pat meth path of
        Some vals \<Rightarrow> Some (pat, h, vals)
      | None \<Rightarrow> mux_match mux meth path)"

definition exactMatch :: "(string \<times> 'h \<times> (string \<times> string) list) option \<Rightarrow> string \<Rightarrow> bool" where
  "exactMatch m path =
     (case m of None \<Rightarrow> False
      | Some (pat, h, vals) \<Rightarrow>
          (case parsePattern pat of (_, segs, multi) \<Rightarrow> multi \<longrightarrow> length (path_segs path) = Suc (length segs)))"

definition ends_slash :: "string \<Rightarrow> bool" where
  "ends_slash p \<longleftrightarrow> p \<noteq> [] \<and> last p = slash"

definition cleanPath :: "string \<Rightarrow> string" where
  "cleanPath p =
     (if p = [] then [slash]
      else let q = (if hd p = slash then p else slash # p); np = Clean q in
        if ends_slash q \<and> np \<noteq> [slash] then np @ [slash] else np)"

definition path_known :: "(string \<times> 'h) list \<Rightarrow> string \<Rightarrow> bool" where
  "path_known mux path \<longleftrightarrow>
     list_ex (\<lambda>(pat, h). case parsePattern pat of
        (Some m, segs, multi) \<Rightarrow> seg_match segs multi (path_segs path) \<noteq> None | _ \<Rightarrow> False) mux"

datatype 'h outcome = Redirect string | MethodNotAllowed | NotFound | Handle 'h "(string \<times> string) list"

definition findHandler :: "(string \<times> 'h) list \<Rightarrow> string \<Rightarrow> string \<Rightarrow> 'h outcome" where
  "findHandler mux meth escapedPath =
     (let path = (if meth = ''CONNECT'' then escapedPath else cleanPath escapedPath);
          m = mux_match mux meth path in
      if \<not> exactMatch m path \<and> \<not> ends_slash path \<and> exactMatch (mux_match mux meth (path @ [slash])) (path @ [slash])
      then Redirect (cleanPath escapedPath @ [slash])
      else if path \<noteq> escapedPath then Redirect path
      else case m of
        Some (pat, h, vals) \<Rightarrow> Handle h vals
      | None \<Rightarrow> if path_known mux path \<or> \<not> ends_slash path \<and> path_known mux (path @ [slash])
                then MethodNotAllowed else NotFound)"

definition path_values :: "(string \<times> string) list \<Rightarrow> 'r request_scheme \<Rightarrow> 'r request_scheme" where
  "path_values vals r = r\<lparr>req_path := (\<lambda>n. case map_of vals n of Some v \<Rightarrow> v | None \<Rightarrow> [])\<rparr>"

definition ServeHTTP :: "'s mux \<Rightarrow> 's http_handler" where
  "ServeHTTP mux r s =
     (case findHandler mux (req_method r) (url_Path r) of
        Redirect u \<Rightarrow> answer 301 u s
      | MethodNotAllowed \<Rightarrow> answer 405 ''Method Not Allowed'' s
      | NotFound \<Rightarrow> answer 404 ''404 page not found'' s
      | Handle h vals \<Rightarrow> h (path_values vals r) s)"

definition StripPrefix :: "string \<Rightarrow> 's http_handler \<Rightarrow> 's http_handler" where
  "StripPrefix pre h r s =
     (if pre = [] then h r s
      else if take (length pre) (url_Path r) = pre then h (r\<lparr>url_Path := drop (length pre) (url_Path r)\<rparr>) s
      else answer 404 ''404 page not found'' s)"

abbreviation to_request :: "http_request \<Rightarrow> request" where
  "to_request \<equiv> request.truncate"

section \<open>The owner server\<close>

definition health_routes :: "string \<Rightarrow> 's mux" where
  "health_routes version = health_handlers [] (strict_GetHealth version [])"

definition owner_mux :: "'s http_handler \<Rightarrow> string \<Rightarrow> bool \<Rightarrow> 's mux option \<Rightarrow> 's mux" where
  "owner_mux fdo version allow apiRouter =
     [(''POST /fdo/101/msg/{msg}'', fdo)] @
     (case apiRouter of None \<Rightarrow> []
      | Some api \<Rightarrow> [(''/api/v1/'',
          StripPrefix ''/api/v1'' (rateLimitMiddleware allow (bodySizeMiddleware (2 ^ 20) (ServeHTTP api))))]) @
     health_routes version"

definition RegisterRoutes :: "'s http_handler \<Rightarrow> string \<Rightarrow> bool \<Rightarrow> 's mux option \<Rightarrow> 's mux act" where
  "RegisterRoutes fdo version allow apiRouter = bindE InitHealthDB (\<lambda>_. retE (owner_mux fdo version allow apiRouter))"

text \<open>The table of \<^verbatim>\<open>serveOwner\<close>. An upload that ran out of fuel has no answer.\<close>

definition owner_routes ::
  "'k voucher_lib \<Rightarrow> cbor_lib \<Rightarrow> pki \<Rightarrow> json_lib \<Rightarrow> (int \<Rightarrow> string) \<Rightarrow> (bytes \<Rightarrow> 'k option) \<Rightarrow>
   (guid \<Rightarrow> 'k \<Rightarrow> voucher act) \<Rightarrow> 'k \<Rightarrow> int \<Rightarrow> unit mux" where
  "owner_routes V C L J tm parse resell ownerKey now =
    [(''POST /owner/vouchers'', \<lambda>r s. bindP (InsertVoucherHandler V C L [ownerKey] now (to_request r))
         (\<lambda>x. Ret (map_option (\<lambda>y. (y, s)) x))),
     (''/owner/redirect'', HandlerFunc (\<lambda>r. OwnerInfoHandler J (to_request r))),
     (''POST /owner/resell/{guid}'', HandlerFunc (\<lambda>r. ResellHandler C L parse resell (to_request r))),
     (''GET /owner/devices'', HandlerFunc (\<lambda>r. OwnerDevicesHandler tm (to_request r)))]"

section \<open>The manufacturing server\<close>

definition mfg_routes_v1 ::
  "oob \<Rightarrow> rv_consts \<Rightarrow> cbor_lib \<Rightarrow> pki \<Rightarrow> json_lib \<Rightarrow> (int \<Rightarrow> string) \<Rightarrow> unit mux" where
  "mfg_routes_v1 oob K C L J tm =
    [(''GET /vouchers'', HandlerFunc (\<lambda>r. GetVoucherHandler tm (to_request r))),
     (''GET /vouchers/{guid}'', HandlerFunc (\<lambda>r. GetVoucherByGUIDHandler L (to_request r))),
     (''/rvinfo'', HandlerFunc (\<lambda>r. RvInfoHandler oob K C J (to_request r)))]"

definition mfg_routes_v2 :: "oob \<Rightarrow> rv_consts \<Rightarrow> cbor_lib \<Rightarrow> json_lib \<Rightarrow> unit mux" where
  "mfg_routes_v2 oob K C J =
    rvinfo_handlers [] (NewStrictRvHandler oob K C J [])"

definition Manufacturing_Handler ::
  "unit http_handler \<Rightarrow> string \<Rightarrow> bool \<Rightarrow> bool \<Rightarrow> oob \<Rightarrow> rv_consts \<Rightarrow> cbor_lib \<Rightarrow> pki \<Rightarrow> json_lib \<Rightarrow> (int \<Rightarrow> string) \<Rightarrow> unit mux" where
  "Manufacturing_Handler fdo version allow1 allow2 oob K C L J tm =
    [(''POST /fdo/101/msg/{msg}'', fdo)] @ health_routes version @
    [(''/api/v1/'', StripPrefix ''/api/v1'' (rateLimitMiddleware allow1
        (bodySizeMiddleware (2 ^ 20) (ServeHTTP (mfg_routes_v1 oob K C L J tm))))),
     (''/api/v2/'', StripPrefix ''/api/v2'' (rateLimitMiddleware allow2
        (bodySizeMiddleware (2 ^ 20) (ServeHTTP (mfg_routes_v2 oob K C J)))))]"

section \<open>The rendezvous server\<close>

text \<open>
  The generated routes of the device CA interface, with the content negotiation as the middleware of
  the strict handler.
\<close>

definition device_ca_routes ::
  "pki \<Rightarrow> int \<Rightarrow> (int \<Rightarrow> string) \<Rightarrow> (string \<Rightarrow> string option) \<Rightarrow> bind_lib \<Rightarrow> x509_cert list mux" where
  "device_ca_routes L now tm negotiate B =
    device_ca_handlers B [] (NewStrictHandler L now tm [ContentNegotiationMiddleware negotiate])"

definition Rendezvous_Handler ::
  "x509_cert list http_handler \<Rightarrow> string \<Rightarrow> bool \<Rightarrow> x509_cert list mux \<Rightarrow> x509_cert list mux" where
  "Rendezvous_Handler fdo version allow mgmt =
    [(''POST /fdo/101/msg/{msg}'', fdo)] @ health_routes version @
    [(''/api/v1/'', StripPrefix ''/api'' (rateLimitMiddleware allow (bodySizeMiddleware (2 ^ 20) (ServeHTTP mgmt))))]"

end
