(* ===== verification/Server.thy ===== *)
theory Server
  imports Startup Routes TO0
begin

text \<open>
  From a configuration to a server that listens: the \<open>Start\<close> method of the three servers, with the
  network and \<^verbatim>\<open>net/http\<close> as parameters, what \<^verbatim>\<open>serveManufacturing\<close>, \<^verbatim>\<open>serveRendezvous\<close> and
  \<^verbatim>\<open>serveOwner\<close> do before they call it, and the transport of the TO0 client (\<^verbatim>\<open>internal/tls\<close>).
  Signals are outside the model: a shutdown is the server returning \<open>ErrServerClosed\<close>.
\<close>

section \<open>TLS settings\<close>

datatype cipher_suite =
    TLS_AES_256_GCM_SHA384
  | TLS_ECDHE_RSA_WITH_AES_256_GCM_SHA384
  | TLS_ECDHE_ECDSA_WITH_AES_256_GCM_SHA384
  | TLS_ECDHE_ECDSA_WITH_AES_128_GCM_SHA256

text \<open>The fields of \<^verbatim>\<open>tls.Config\<close> the code sets; a version of 0 is the library's default.\<close>

record tls_config =
  tls_MinVersion :: nat
  tls_CipherSuites :: "cipher_suite list"
  tls_InsecureSkipVerify :: bool

definition VersionTLS12 :: nat where
  "VersionTLS12 = 0x0303"

definition preferredCipherSuites :: "cipher_suite list" where
  "preferredCipherSuites = [TLS_AES_256_GCM_SHA384, TLS_ECDHE_RSA_WITH_AES_256_GCM_SHA384,
     TLS_ECDHE_ECDSA_WITH_AES_256_GCM_SHA384, TLS_ECDHE_ECDSA_WITH_AES_128_GCM_SHA256]"

text \<open>
  The client of TO0: a configuration of its own only when the caller gives none. The timeouts and
  limits of the connections are those of the source, in seconds.
\<close>

record tls_transport =
  tr_BaseURL :: string
  tr_TLSClientConfig :: tls_config
  tr_DialTimeout :: nat
  tr_KeepAlive :: nat
  tr_ForceAttemptHTTP2 :: bool
  tr_MaxIdleConns :: nat
  tr_IdleConnTimeout :: nat
  tr_TLSHandshakeTimeout :: nat
  tr_ExpectContinueTimeout :: nat
  tr_userAgent :: string

definition TlsTransport :: "string \<Rightarrow> string \<Rightarrow> tls_config option \<Rightarrow> bool \<Rightarrow> tls_transport" where
  "TlsTransport VERSION baseURL conf insecureTLS =
     \<lparr>tr_BaseURL = baseURL,
      tr_TLSClientConfig = (case conf of
          None \<Rightarrow> \<lparr>tls_MinVersion = 0, tls_CipherSuites = preferredCipherSuites, tls_InsecureSkipVerify = insecureTLS\<rparr>
        | Some c \<Rightarrow> c),
      tr_DialTimeout = 30, tr_KeepAlive = 30, tr_ForceAttemptHTTP2 = True, tr_MaxIdleConns = 100,
      tr_IdleConnTimeout = 90, tr_TLSHandshakeTimeout = 10, tr_ExpectContinueTimeout = 1,
      tr_userAgent = ''go-fdo-server/'' @ VERSION\<rparr>"

text \<open>The round tripper works on a clone of the request; a header is a map from names to values.\<close>

definition RoundTrip :: "((string \<Rightarrow> string list) \<Rightarrow> 'a) \<Rightarrow> string \<Rightarrow> (string \<Rightarrow> string list) \<Rightarrow> 'a" where
  "RoundTrip nxt userAgent header = nxt (header(''User-Agent'' := [userAgent]))"

section \<open>Start\<close>

text \<open>
  The network: \<open>net_Listen\<close> opens a listener on an address, \<open>net_Serve\<close> and \<open>net_ServeTLS\<close> serve a
  handler on it and return with an error or, after \<open>None\<close>, without one.
\<close>

abbreviation ErrServerClosed :: go_error where
  "ErrServerClosed \<equiv> ErrExt ''http: Server closed''"

record 'h net_env =
  net_Listen :: "string \<Rightarrow> unit result"
  net_Serve :: "string \<Rightarrow> 'h \<Rightarrow> go_error option"
  net_ServeTLS :: "string \<Rightarrow> 'h \<Rightarrow> tls_config \<Rightarrow> string \<Rightarrow> string \<Rightarrow> go_error option"

text \<open>What was served, and where: \<open>NotListening\<close> before a listener was opened.\<close>

datatype 'h serving = NotListening | Plain string 'h | Tls string 'h tls_config string string

definition serve_result :: "go_error option \<Rightarrow> unit result" where
  "serve_result err = (case err of
     None \<Rightarrow> Inr ()
   | Some e \<Rightarrow> if e \<noteq> ErrServerClosed then Inl e else Inr ())"

definition RendezvousServer_Start :: "'h net_env \<Rightarrow> HTTPConfig \<Rightarrow> 'h \<Rightarrow> 'h serving \<times> unit result" where
  "RendezvousServer_Start N config handler =
     (let addr = ListenAddress config in
      case net_Listen N addr of
        Inl err \<Rightarrow> (NotListening, Inl err)
      | Inr _ \<Rightarrow>
          if UseTLS config then
            let conf = \<lparr>tls_MinVersion = VersionTLS12, tls_CipherSuites = preferredCipherSuites, tls_InsecureSkipVerify = False\<rparr> in
            (Tls addr handler conf (http_CertPath config) (http_KeyPath config),
             serve_result (net_ServeTLS N addr handler conf (http_CertPath config) (http_KeyPath config)))
          else (Plain addr handler, serve_result (net_Serve N addr handler)))"

text \<open>The other two servers have a copy of the method.\<close>

definition ManufacturingServer_Start :: "'h net_env \<Rightarrow> HTTPConfig \<Rightarrow> 'h \<Rightarrow> 'h serving \<times> unit result" where
  "ManufacturingServer_Start N config handler = RendezvousServer_Start N config handler"

definition OwnerServer_Start :: "'h net_env \<Rightarrow> HTTPConfig \<Rightarrow> 'h \<Rightarrow> 'h serving \<times> unit result" where
  "OwnerServer_Start N config handler = RendezvousServer_Start N config handler"

lemmas Start_defs = ManufacturingServer_Start_def OwnerServer_Start_def

section \<open>The rendezvous server\<close>

text \<open>
  The handler answers a request with the limiter's permission at a time. \<open>fdo\<close> is the handler of the
  protocol library, which gets the state of the server for its callbacks.
\<close>

record rv_handler =
  h_State :: rendezvous
  h_Mux :: "bool \<Rightarrow> int \<Rightarrow> ca_pool mux"

text \<open>
  A run of the server: what it served, the clean-up in the background for what its \<^verbatim>\<open>select\<close> receives,
  and the result; the clean-up is told to stop when \<open>Start\<close> has returned.
\<close>

record 'h rv_server_run =
  run_serving :: "'h serving"
  run_cleanup :: "selected list \<Rightarrow> (cleanup_report list \<times> bool) prog"
  run_result :: "unit result"

definition rv_failed :: "go_error \<Rightarrow> rv_handler rv_server_run prog" where
  "rv_failed err = Ret \<lparr>run_serving = NotListening, run_cleanup = (\<lambda>_. Ret ([], True)), run_result = Inl err\<rparr>"

definition serveRendezvous ::
  "'db driver \<Rightarrow> rv_handler net_env \<Rightarrow> pki \<Rightarrow> (rendezvous \<Rightarrow> ca_pool http_handler) \<Rightarrow> string \<Rightarrow> (int \<Rightarrow> string) \<Rightarrow>
   (string \<Rightarrow> string option) \<Rightarrow> bind_lib \<Rightarrow> RendezvousServerConfig \<Rightarrow> rv_handler rv_server_run prog" where
  "serveRendezvous D N L fdo version tm negotiate B config =
     (case getDB D (DB_config config) of
        Inl err \<Rightarrow> rv_failed (Wrapf ''failed to get a database connection'' err)
      | Inr db \<Rightarrow>
          tryE (InitDB L (NewRendezvous (cfg_MinWaitSecs (r_Rendezvous config)) (cfg_MaxWaitSecs (r_Rendezvous config))))
            (\<lambda>err. rv_failed (Wrapf ''failed to initialize rendezvous database'' err))
            (\<lambda>rv. let handler = \<lparr>h_State = rv, h_Mux = (\<lambda>allow now.
                          Rendezvous_Handler (fdo rv) version allow (device_ca_routes L now tm negotiate B))\<rparr>;
                      started = RendezvousServer_Start N (HTTP config) handler in
               Ret \<lparr>run_serving = fst started,
                    run_cleanup = StartPeriodicCleanup (uint (cfg_CleanupIntervalSecs (r_Rendezvous config)))
                                    (uint (cfg_SessionMaxAgeSecs (r_Rendezvous config))),
                    run_result = snd started\<rparr>))"

section \<open>The manufacturing and the owner server\<close>

text \<open>\<open>None\<close> is a panic.\<close>

definition serveManufacturing ::
  "(string \<Rightarrow> string \<Rightarrow> 'db result) \<Rightarrow> key_parsers \<Rightarrow> pki \<Rightarrow> ('db manufacturing \<times> (bool \<Rightarrow> bool \<Rightarrow> unit mux)) net_env \<Rightarrow>
   ('db manufacturing \<Rightarrow> unit http_handler) \<Rightarrow> string \<Rightarrow> oob \<Rightarrow> rv_consts \<Rightarrow> cbor_lib \<Rightarrow> json_lib \<Rightarrow> (int \<Rightarrow> string) \<Rightarrow>
   'raw ManufacturingServerConfig \<Rightarrow> (('db manufacturing \<times> (bool \<Rightarrow> bool \<Rightarrow> unit mux)) serving \<times> unit result) option prog" where
  "serveManufacturing initDb P L N fdo version oob K C J tm config =
     (case load_manufacturing initDb P L config of
        None \<Rightarrow> Ret None
      | Some (Inl err) \<Rightarrow> Ret (Some (NotListening, Inl err))
      | Some (Inr m) \<Rightarrow>
          tryE Manufacturing_InitDB
            (\<lambda>err. Ret (Some (NotListening, Inl (Wrapf ''failed to initialize manufacturing database'' err))))
            (\<lambda>_. Ret (Some (ManufacturingServer_Start N (HTTP config)
               (m, \<lambda>allow1 allow2. Manufacturing_Handler (fdo m) version allow1 allow2 oob K C L J tm)))))"

text \<open>
  The callbacks the owner server gives to the TO2 server of the protocol library, and the key it
  hands out for every type and size.
\<close>

definition OwnerServerState_OwnerKey ::
  "'db owner_server_state \<Rightarrow> key_type \<Rightarrow> nat \<Rightarrow> (private_key \<times> x509_cert list) result" where
  "OwnerServerState_OwnerKey st keyType rsaBits = Inr (ownerKey st, cert_chain st)"

record to2_server =
  to2_RvInfo :: "voucher \<Rightarrow> rv_info result"
  to2_NextModule :: "os_env \<Rightarrow> cbor_lib \<Rightarrow> bytes \<Rightarrow> ctx \<Rightarrow> machines \<Rightarrow> (machines \<times> next_outcome) prog"
  to2_ReuseCredential :: "voucher \<Rightarrow> bool result"
  to2_VerifyVoucher :: "voucher \<Rightarrow> unit result"

definition to2Server :: "public_key voucher_lib \<Rightarrow> public_key \<Rightarrow> 'raw OwnerServerConfig \<Rightarrow> to2_server" where
  "to2Server V pub config =
     \<lparr>to2_RvInfo = (\<lambda>ov. Inr (vh_RvInfo (ov_Header ov))),
      to2_NextModule = (\<lambda>env C zero. NextModule env C zero (Some (SI (o_Owner config)))),
      to2_ReuseCredential = (\<lambda>ov. Inr (ReuseCred (o_Owner config))),
      to2_VerifyVoucher = (\<lambda>ov. VerifyVoucher V ov [pub])\<rparr>"

text \<open>Beside the handler the server runs the TO0 scheduler, a round at each of the given times.\<close>

record 'db owner_handler =
  oh_State :: "'db owner_server_state"
  oh_TO2 :: to2_server
  oh_Scheduler :: "int list \<Rightarrow> (next_try \<times> nat \<times> to0_event list) prog"
  oh_Mux :: "bool \<Rightarrow> int \<Rightarrow> unit mux"

definition serveOwner ::
  "(string \<Rightarrow> string \<Rightarrow> 'db result) \<Rightarrow> key_parsers \<Rightarrow> pki \<Rightarrow> to0_lib \<Rightarrow> 'db owner_handler net_env \<Rightarrow> (to2_server \<Rightarrow> unit http_handler) \<Rightarrow>
   string \<Rightarrow> public_key voucher_lib \<Rightarrow> cbor_lib \<Rightarrow> json_lib \<Rightarrow> (int \<Rightarrow> string) \<Rightarrow> (bytes \<Rightarrow> public_key option) \<Rightarrow>
   (guid \<Rightarrow> public_key \<Rightarrow> voucher act) \<Rightarrow> 'raw OwnerServerConfig \<Rightarrow> ('db owner_handler serving \<times> unit result) option prog" where
  "serveOwner initDb P L TL N fdo version V C J tm parse resell config =
     (case getOwnerServerState initDb P L config of
        None \<Rightarrow> Ret None
      | Some (Inl err) \<Rightarrow> Ret (Some (NotListening, Inl err))
      | Some (Inr st) \<Rightarrow>
          (case signer_Public (ownerKey st) of
             None \<Rightarrow> Ret None
           | Some pub \<Rightarrow>
               let to2 = to2Server V pub config;
                   apiRouter = (\<lambda>now. owner_routes V C L J tm parse resell pub now) in
               tryE (RegisterRoutes (fdo to2) version True (Some (apiRouter 0)))
                 (\<lambda>err. Ret (Some (NotListening, Inl err)))
                 (\<lambda>_. Ret (Some (OwnerServer_Start N (HTTP config)
                    \<lparr>oh_State = st, oh_TO2 = to2,
                     oh_Scheduler = (\<lambda>ticks. to0_rounds TL C J (TO0InsecureTLS (o_Owner config)) ticks Map.empty 0),
                     oh_Mux = (\<lambda>allow now. owner_mux (fdo to2) version allow (Some (apiRouter now)))\<rparr>)))))"

text \<open>The routes are registered once; which requests the limiter lets pass, and the time, are those of a request.\<close>

section \<open>What a server serves\<close>

fun served_on :: "'h serving \<Rightarrow> string option" where
  "served_on NotListening = None"
| "served_on (Plain addr h) = Some addr"
| "served_on (Tls addr h conf c k) = Some addr"

fun served_handler :: "'h serving \<Rightarrow> 'h option" where
  "served_handler NotListening = None"
| "served_handler (Plain addr h) = Some h"
| "served_handler (Tls addr h conf c k) = Some h"

text \<open>Served as the configuration asks: with TLS, and then from version 1.2 on, exactly when it has a certificate and a key.\<close>

fun served_as :: "HTTPConfig \<Rightarrow> 'h serving \<Rightarrow> bool" where
  "served_as cfg NotListening = True"
| "served_as cfg (Plain addr h) \<longleftrightarrow> addr = ListenAddress cfg \<and> \<not> UseTLS cfg"
| "served_as cfg (Tls addr h conf c k) \<longleftrightarrow> addr = ListenAddress cfg \<and> UseTLS cfg \<and> c = http_CertPath cfg \<and>
     k = http_KeyPath cfg \<and> tls_MinVersion conf \<ge> VersionTLS12 \<and> \<not> tls_InsecureSkipVerify conf"

lemma Start_served:
  "served_as cfg (fst (RendezvousServer_Start N cfg h))"
  "case served_handler (fst (RendezvousServer_Start N cfg h)) of
     None \<Rightarrow> isl (snd (RendezvousServer_Start N cfg h)) | Some h' \<Rightarrow> h' = h"
  by (cases "net_Listen N (ListenAddress cfg)"; simp add: RendezvousServer_Start_def Let_def)+

end
