(* ===== verification/Command.thy ===== *)
theory Command
  imports Server RvProperties
begin

text \<open>
  The command line (\<^verbatim>\<open>cmd/root.go\<close> and the commands of \<^verbatim>\<open>cmd/manufacturing.go\<close>, \<^verbatim>\<open>cmd/rendezvous.go\<close> and
  \<^verbatim>\<open>cmd/owner.go\<close>): the flags and defaults that are registered, the hooks cobra runs before a command,
  and the commands themselves, from the settings to the server. Viper and the decoding of its settings
  are parameters; their contract is in \<open>CommandProperties\<close>.
\<close>

section \<open>Flags and settings\<close>

datatype setting = SText string | SUint "32 word" | SBool bool

text \<open>
  A flag after cobra parsed the arguments. Viper keeps the pointer to a flag, so what is bound when
  the program starts is the flag as the parsing left it.
\<close>

record pflag =
  flag_Changed :: bool
  flag_Value :: setting

type_synonym flag_set = "string \<Rightarrow> pflag option"

record 'v viper =
  v_Set :: "string \<Rightarrow> setting \<Rightarrow> 'v \<Rightarrow> 'v"
  v_SetDefault :: "string \<Rightarrow> setting \<Rightarrow> 'v \<Rightarrow> 'v"
  v_BindPFlag :: "string \<Rightarrow> pflag option \<Rightarrow> 'v \<Rightarrow> 'v result"
  v_SetConfigFile :: "string \<Rightarrow> 'v \<Rightarrow> 'v"
  v_SetConfigName :: "string \<Rightarrow> 'v \<Rightarrow> 'v"
  v_AddConfigPath :: "string \<Rightarrow> 'v \<Rightarrow> 'v"
  v_ReadInConfig :: "'v \<Rightarrow> 'v result"
  v_GetString :: "'v \<Rightarrow> string \<Rightarrow> string"
  v_Get :: "'v \<Rightarrow> string \<Rightarrow> setting option"

abbreviation ErrConfigFileNotFound :: go_error where
  "ErrConfigFileNotFound \<equiv> ErrExt ''viper.ConfigFileNotFoundError''"

text \<open>\<^verbatim>\<open>cmd.Flags().GetString\<close>.\<close>

definition flag_GetString :: "flag_set \<Rightarrow> string \<Rightarrow> string result" where
  "flag_GetString flags name =
     (case flags name of Some f \<Rightarrow> (case flag_Value f of SText s \<Rightarrow> Inr s | _ \<Rightarrow> Inl (ErrExt ''pflag: type'')) | None \<Rightarrow> Inl (ErrExt ''pflag: not defined''))"

text \<open>Bind flags to keys, one after the other, up to the first error.\<close>

fun bind_flags :: "'v viper \<Rightarrow> flag_set \<Rightarrow> (string \<times> string) list \<Rightarrow> 'v \<Rightarrow> 'v result" where
  "bind_flags V flags [] s = Inr s"
| "bind_flags V flags ((key, name) # bs) s = rbind (v_BindPFlag V key (flags name) s) (bind_flags V flags bs)"

section \<open>The root command\<close>

datatype log_level = LevelDebug | LevelInfo | LevelWarn | LevelError

definition configSearchPaths :: "string list" where
  "configSearchPaths = [''$HOME/.config/go-fdo-server/'', ''/etc/go-fdo-server/'', ''/usr/share/go-fdo-server/'']"

definition root_flags :: "(string \<times> setting) list" where
  "root_flags = [(''config'', SText []), (''log-level'', SText ''info''), (''db-type'', SText ''sqlite''),
     (''db-dsn'', SText []), (''http-cert'', SText []), (''http-key'', SText [])]"

text \<open>What \<^verbatim>\<open>rootCmdInit\<close> binds, key and flag; an error there is a panic.\<close>

definition root_bindings :: "(string \<times> string) list" where
  "root_bindings = [(''log.level'', ''log-level''), (''db.type'', ''db-type''), (''db.dsn'', ''db-dsn''),
     (''http.cert'', ''http-cert''), (''http.key'', ''http-key'')]"

definition rootCmdInit :: "'v viper \<Rightarrow> flag_set \<Rightarrow> 'v \<Rightarrow> 'v option" where
  "rootCmdInit V flags s =
     (case bind_flags V flags root_bindings s of Inl _ \<Rightarrow> None | Inr s' \<Rightarrow> Some s')"

definition level_of :: "string \<Rightarrow> log_level \<Rightarrow> log_level" where
  "level_of s lv =
     (let l = ToLower s in
      if l = ''debug'' then LevelDebug else if l = ''info'' then LevelInfo
      else if l = ''warn'' then LevelWarn else if l = ''error'' then LevelError else lv)"

definition load_config :: "'v viper \<Rightarrow> string \<Rightarrow> string \<Rightarrow> 'v \<Rightarrow> 'v result" where
  "load_config V cmdName configFilePath s =
     (if configFilePath \<noteq> [] then
        rmap_err (Wrapf ''configuration file read failed'') (v_ReadInConfig V (v_SetConfigFile V configFilePath s))
      else
        let s' = fold (v_AddConfigPath V) configSearchPaths (v_SetConfigName V cmdName s) in
        case v_ReadInConfig V s' of
          Inl err \<Rightarrow> if errors_is err ErrConfigFileNotFound then Inr s' else Inl (Wrapf ''configuration file read failed'' err)
        | Inr s'' \<Rightarrow> Inr s'')"

definition PersistentPreRunE ::
  "'v viper \<Rightarrow> string \<Rightarrow> flag_set \<Rightarrow> string list \<Rightarrow> log_level \<Rightarrow> 'v \<Rightarrow> log_level \<times> 'v result" where
  "PersistentPreRunE V cmdName flags args lv s =
     (let level = (case flag_GetString flags ''log-level'' of Inr l \<Rightarrow> l | Inl _ \<Rightarrow> []);
          lv1 = (if ToLower level = ''debug'' then LevelDebug else lv) in
      case rmap_err (Wrapf ''failed to get config flag'') (flag_GetString flags ''config'') of
        Inl err \<Rightarrow> (lv1, Inl err)
      | Inr configFilePath \<Rightarrow>
          (case load_config V cmdName configFilePath s of
             Inl err \<Rightarrow> (lv1, Inl err)
           | Inr s1 \<Rightarrow>
               (level_of (v_GetString V s1 ''log.level'') lv1,
                case args of
                  [] \<Rightarrow> Inr s1
                | arg # _ \<Rightarrow>
                    rbind (rmap_err (Wrapf ''invalid http_address'') (parseHTTPAddress arg)) (\<lambda>(ip, port).
                      Inr (v_Set V ''http.port'' (SText port) (v_Set V ''http.ip'' (SText ip) s1))))))"

section \<open>The commands\<close>

text \<open>Name, key and default of the flags of the rendezvous command; the help texts are left out.\<close>

definition rendezvousFlags :: "(string \<times> string \<times> 32 word) list" where
  "rendezvousFlags =
    [(''to0-min-wait'', ''rendezvous.to0_min_wait'', cfg_MinWaitSecs default_rendezvous_config),
     (''to0-max-wait'', ''rendezvous.to0_max_wait'', cfg_MaxWaitSecs default_rendezvous_config),
     (''cleanup-interval'', ''rendezvous.cleanup_interval'', cfg_CleanupIntervalSecs default_rendezvous_config),
     (''session-timeout'', ''rendezvous.session_timeout'', cfg_SessionMaxAgeSecs default_rendezvous_config),
     (''initial-cleanup-delay'', ''rendezvous.initial_cleanup_delay'', cfg_InitialCleanupDelaySecs default_rendezvous_config)]"

text \<open>Registering: the flags with their defaults, and the defaults of the settings.\<close>

definition rendezvousCmdInit :: "'v viper \<Rightarrow> 'v \<Rightarrow> (string \<times> setting) list \<times> 'v" where
  "rendezvousCmdInit V s =
     (map (\<lambda>(name, key, d). (name, SUint d)) rendezvousFlags,
      fold (\<lambda>(name, key, d). v_SetDefault V key (SUint d)) rendezvousFlags s)"

fun rendezvous_bind :: "'v viper \<Rightarrow> flag_set \<Rightarrow> (string \<times> string \<times> 32 word) list \<Rightarrow> 'v \<Rightarrow> 'v result" where
  "rendezvous_bind V flags [] s = Inr s"
| "rendezvous_bind V flags ((name, key, d) # fs) s =
     rbind (rmap_err (Wrapf (''failed to bind '' @ name @ '' flag'')) (v_BindPFlag V key (flags name) s))
       (rendezvous_bind V flags fs)"

definition rendezvous_PreRunE :: "'v viper \<Rightarrow> flag_set \<Rightarrow> 'v \<Rightarrow> 'v result" where
  "rendezvous_PreRunE V flags = rendezvous_bind V flags rendezvousFlags"

text \<open>\<open>Inl\<close> is an error before the server was called.\<close>

definition rendezvous_RunE ::
  "('v \<Rightarrow> RendezvousServerConfig result) \<Rightarrow> (RendezvousServerConfig \<Rightarrow> 'r prog) \<Rightarrow> 'v \<Rightarrow>
   (go_error + RendezvousServerConfig \<times> 'r) prog" where
  "rendezvous_RunE decode serve s =
     (case rmap_err (Wrapf ''failed to unmarshal rendezvous config'') (decode s) of
        Inl err \<Rightarrow> Ret (Inl err)
      | Inr rvConfig \<Rightarrow>
          (case RendezvousServerConfig_validate rvConfig of
             Inl err \<Rightarrow> Ret (Inl err)
           | Inr _ \<Rightarrow> bindP (serve rvConfig) (\<lambda>r. Ret (Inr (rvConfig, r)))))"

definition manufacturingCmdInit :: "(string \<times> setting) list" where
  "manufacturingCmdInit = [(''manufacturing-key'', SText []), (''owner-cert'', SText []), (''device-ca-cert'', SText []),
     (''device-ca-key'', SText [])]"

definition manufacturing_PreRunE :: "'v viper \<Rightarrow> flag_set \<Rightarrow> 'v \<Rightarrow> 'v result" where
  "manufacturing_PreRunE V flags = bind_flags V flags [(''manufacturing.key'', ''manufacturing-key''),
     (''owner.cert'', ''owner-cert''), (''device_ca.cert'', ''device-ca-cert''), (''device_ca.key'', ''device-ca-key'')]"

definition manufacturing_RunE ::
  "os_env \<Rightarrow> ('v \<Rightarrow> 'raw ManufacturingServerConfig result) \<Rightarrow> ('raw ManufacturingServerConfig \<Rightarrow> 'r prog) \<Rightarrow> 'v \<Rightarrow>
   (go_error + 'raw ManufacturingServerConfig \<times> 'r) prog" where
  "manufacturing_RunE env decode serve s =
     (case rmap_err (Wrapf ''failed to unmarshal manufacturing config'') (decode s) of
        Inl err \<Rightarrow> Ret (Inl err)
      | Inr mfgConfig \<Rightarrow>
          (case ManufacturingServerConfig_validate env mfgConfig of
             Inl err \<Rightarrow> Ret (Inl err)
           | Inr _ \<Rightarrow> bindP (serve mfgConfig) (\<lambda>r. Ret (Inr (mfgConfig, r)))))"

definition ownerCmdInit :: "(string \<times> setting) list" where
  "ownerCmdInit = [(''reuse-credentials'', SBool False), (''device-ca-cert'', SText []), (''owner-key'', SText []),
     (''to0-insecure-tls'', SBool False)]"

definition owner_PreRunE :: "'v viper \<Rightarrow> flag_set \<Rightarrow> 'v \<Rightarrow> 'v result" where
  "owner_PreRunE V flags = bind_flags V flags [(''owner.reuse_credentials'', ''reuse-credentials''),
     (''device_ca.cert'', ''device-ca-cert''), (''owner.key'', ''owner-key''), (''owner.to0_insecure_tls'', ''to0-insecure-tls'')]"

text \<open>The validation completes the configuration in place before it is served.\<close>

definition owner_RunE ::
  "os_env \<Rightarrow> 'raw mapstructure \<Rightarrow> ('v \<Rightarrow> 'raw OwnerServerConfig result) \<Rightarrow> ('raw OwnerServerConfig \<Rightarrow> 'r prog) \<Rightarrow> 'v \<Rightarrow>
   (go_error + 'raw OwnerServerConfig \<times> 'r) prog" where
  "owner_RunE env M decode serve s =
     (case rmap_err (Wrapf ''failed to unmarshal owner config'') (decode s) of
        Inl err \<Rightarrow> Ret (Inl err)
      | Inr ownerConfig \<Rightarrow>
          (case OwnerServerConfig_validate env M ownerConfig of
             (_, Inl err) \<Rightarrow> Ret (Inl err)
           | (cfg, Inr _) \<Rightarrow> bindP (serve cfg) (\<lambda>r. Ret (Inr (cfg, r)))))"

text \<open>What cobra runs for a command, up to the first error: \<open>preRun\<close> and \<open>runE\<close> are the hooks of the command.\<close>

definition run_command ::
  "'v viper \<Rightarrow> string \<Rightarrow> ('v \<Rightarrow> 'v result) \<Rightarrow> ('v \<Rightarrow> (go_error + 'r) prog) \<Rightarrow> flag_set \<Rightarrow> string list \<Rightarrow> log_level \<Rightarrow> 'v \<Rightarrow>
   (go_error + 'r) prog" where
  "run_command V cmdName preRun runE flags args lv s =
     (case rbind (snd (PersistentPreRunE V cmdName flags args lv s)) preRun of
        Inl err \<Rightarrow> Ret (Inl err)
      | Inr s' \<Rightarrow> runE s')"

text \<open>\<^verbatim>\<open>Execute\<close>: the exit code, given the error the command ended with.\<close>

definition Execute :: "go_error option \<Rightarrow> nat" where
  "Execute err = (if err \<noteq> None then 1 else 0)"

end
