(* ===== verification/RouteProperties.thy ===== *)
theory RouteProperties
  imports Routes Frame OwnerServer
begin

text \<open>
  What the routing tables guarantee: no request matches two entries, the management interfaces
  write their own tables only, nothing gets past a refusing rate limiter, and which requests of the
  owner's interface reach which handler.
\<close>

section \<open>Patterns\<close>

lemma seg_match_Cons:
  "seg_match (Lit s # ps) multi xs = (case xs of x # ys \<Rightarrow> if x = s then seg_match ps multi ys else None | [] \<Rightarrow> None)"
  "seg_match (Wild n # ps) multi xs = (case xs of
     x # ys \<Rightarrow> if x \<noteq> [] then map_option ((#) (n, x)) (seg_match ps multi ys) else None | [] \<Rightarrow> None)"
  by (cases xs; simp)+

lemma patterns:
  "parsePattern ''POST /fdo/101/msg/{msg}'' = (Some ''POST'', [Lit ''fdo'', Lit ''101'', Lit ''msg'', Wild ''msg''], False)"
  "parsePattern ''/api/v1/'' = (None, [Lit ''api'', Lit ''v1''], True)"
  "parsePattern ''/api/v2/'' = (None, [Lit ''api'', Lit ''v2''], True)"
  "parsePattern ''GET /health'' = (Some ''GET'', [Lit ''health''], False)"
  "parsePattern ''POST /owner/vouchers'' = (Some ''POST'', [Lit ''owner'', Lit ''vouchers''], False)"
  "parsePattern ''/owner/redirect'' = (None, [Lit ''owner'', Lit ''redirect''], False)"
  "parsePattern ''POST /owner/resell/{guid}'' = (Some ''POST'', [Lit ''owner'', Lit ''resell'', Wild ''guid''], False)"
  "parsePattern ''GET /owner/devices'' = (Some ''GET'', [Lit ''owner'', Lit ''devices''], False)"
  "parsePattern ''GET /vouchers'' = (Some ''GET'', [Lit ''vouchers''], False)"
  "parsePattern ''GET /vouchers/{guid}'' = (Some ''GET'', [Lit ''vouchers'', Wild ''guid''], False)"
  "parsePattern ''/rvinfo'' = (None, [Lit ''rvinfo''], False)"
  "parsePattern ''DELETE /rvinfo'' = (Some ''DELETE'', [Lit ''rvinfo''], False)"
  "parsePattern ''GET /rvinfo'' = (Some ''GET'', [Lit ''rvinfo''], False)"
  "parsePattern ''PUT /rvinfo'' = (Some ''PUT'', [Lit ''rvinfo''], False)"
  "parsePattern ''GET /v1/device-ca'' = (Some ''GET'', [Lit ''v1'', Lit ''device-ca''], False)"
  "parsePattern ''POST /v1/device-ca'' = (Some ''POST'', [Lit ''v1'', Lit ''device-ca''], False)"
  "parsePattern ''DELETE /v1/device-ca/{fingerprint}'' = (Some ''DELETE'', [Lit ''v1'', Lit ''device-ca'', Wild ''fingerprint''], False)"
  "parsePattern ''GET /v1/device-ca/{fingerprint}'' = (Some ''GET'', [Lit ''v1'', Lit ''device-ca'', Wild ''fingerprint''], False)"
  by code_simp+

definition unambiguous :: "(string \<times> 'h) list \<Rightarrow> bool" where
  "unambiguous mux \<longleftrightarrow> (\<forall>meth path. length (filter (\<lambda>(pat, h). pattern_match pat meth path \<noteq> None) mux) \<le> 1)"

lemmas routing = pattern_match_def patterns seg_match_Cons method_ok_def

lemma tables_unambiguous:
  "unambiguous (owner_routes V C L J tm parse resell ownerKey now)"
  "unambiguous (mfg_routes_v1 oob K C L J tm)"
  "unambiguous (mfg_routes_v2 oob K C J)"
  "unambiguous (device_ca_routes L now tm negotiate B)"
  "unambiguous (Manufacturing_Handler fdo1 version allow1 allow2 oob K C L J tm)"
  "unambiguous (Rendezvous_Handler fdo2 version allow mgmt)"
  by (auto simp: unambiguous_def owner_routes_def mfg_routes_v1_def mfg_routes_v2_def rvinfo_handlers_def device_ca_routes_def device_ca_handlers_def
      Manufacturing_Handler_def Rendezvous_Handler_def health_routes_def health_handlers_def Let_def routing split: list.splits)

lemma owner_mux_unambiguous: "unambiguous (owner_mux fdo version allow (Some api))"
  by (auto simp: unambiguous_def owner_mux_def health_routes_def health_handlers_def routing split: list.splits)

section \<open>Footprints\<close>

lemma mux_match_Some:
  "mux_match mux meth path = Some (pat, h, vals) \<Longrightarrow> (pat, h) \<in> set mux \<and> pattern_match pat meth path = Some vals"
  by (induction mux) (auto split: option.splits)

lemma all_stmts_answer [simp]: "all_stmts P (answer c m s)"
  by (simp add: answer_def)

lemma all_stmts_HandlerFunc: "all_stmts P (f r) \<Longrightarrow> all_stmts P (HandlerFunc f r s)"
  unfolding HandlerFunc_def by (rule all_stmts_bindP) auto

text \<open>A multiplexer executes what the handlers execute that it can reach for the request.\<close>

lemma all_stmts_ServeHTTP:
  assumes "\<And>pat h vals. (pat, h) \<in> set mux \<Longrightarrow> pattern_match pat (req_method r) (url_Path r) = Some vals \<Longrightarrow>
      all_stmts P (h (path_values vals r) s)"
  shows "all_stmts P (ServeHTTP mux r s)"
proof (cases "findHandler mux (req_method r) (url_Path r)")
  case (Handle h vals)
  then have "\<exists>pat. mux_match mux (req_method r) (url_Path r) = Some (pat, h, vals)"
    by (auto simp: findHandler_def Let_def split: if_splits option.splits prod.splits)
  then show ?thesis using Handle mux_match_Some assms by (fastforce simp: ServeHTTP_def)
qed (simp_all add: ServeHTTP_def)

lemma all_stmts_layers:
  "(\<And>r'. all_stmts P (h r' s)) \<Longrightarrow> all_stmts P (StripPrefix pre h r s)"
  "(allow \<Longrightarrow> all_stmts P (h r s)) \<Longrightarrow> all_stmts P (rateLimitMiddleware allow h r s)"
  "(\<And>r'. all_stmts P (h r' s)) \<Longrightarrow> all_stmts P (bodySizeMiddleware n h r s)"
  by (simp_all add: StripPrefix_def rateLimitMiddleware_def bodySizeMiddleware_def)

lemma with_guid_stmts: "(\<And>g. all_stmts P (k g)) \<Longrightarrow> all_stmts P (with_guid m s k)"
  by (auto simp: with_guid_def split: option.splits)

lemma query_reads: "touches (QueryVouchers fs b) T"
  unfolding QueryVouchers_def db_calls by (auto split: option.splits filter_val.splits intro!: all_stmts_intros)

lemma health_reads: "touches (siw_GetHealth [] (strict_GetHealth version []) r s) T"
  by (auto simp: siw_GetHealth_def strict_GetHealth_def GetHealth_def HealthState_Ping_def db_calls intro!: all_stmts_intros)

lemma vouchers_read:
  "touches (GetVoucherHandler tm r) T" "touches (GetVoucherByGUIDHandler L r) T"
  by (auto simp: GetVoucherHandler_def GetVoucherByGUIDHandler_def FetchVoucher_def query_reads Let_def
      split: list.splits intro!: with_guid_stmts all_stmts_intros)

lemma rvinfo_v1_touches: "T_rvinfo \<in> T \<Longrightarrow> touches (RvInfoHandler oob K C J r) T"
  by (auto simp: RvInfoHandler_def getRvInfo_def createRvInfo_def updateRvInfo_def FetchRvInfo_def InsertRvInfo_def
      UpdateRvInfo_def InsertRvInfoCBOR_def UpdateRvInfoCBOR_def marshalRvInfo_def db_calls Let_def
      split: option.splits sum.splits intro!: all_stmts_intros)

lemma rvinfo_v2_touches:
  "T_rvinfo \<in> T \<Longrightarrow> touches (GetRendezvousInfo K C J) T"
  "T_rvinfo \<in> T \<Longrightarrow> touches (DeleteRendezvousInfo K C J) T"
  "T_rvinfo \<in> T \<Longrightarrow> touches (UpdateRendezvousInfo oob K C J b) T"
  apply (auto simp: GetRendezvousInfo_def DeleteRendezvousInfo_def UpdateRendezvousInfo_def
      RvInfoState_FetchRvInfo_def RvInfoState_UpsertRvInfo_def RvInfoState_DeleteRvInfo_def FetchRvInfo_def UpsertRvInfoCBOR_def
      showRvInfo_def marshalRvInfo_def db_calls Let_def
      split: option.splits sum.splits intro!: all_stmts_intros)
  done

text \<open>Behind the wrappers and strict handlers.\<close>

lemma rvinfo_http_touches:
  fixes oob K C J
  assumes "T_rvinfo \<in> T"
  defines "si \<equiv> NewStrictRvHandler oob K C J []"
  shows "touches (siw_DeleteRendezvousInfo [] si r s) T" "touches (siw_GetRendezvousInfo [] si r s) T"
    "touches (siw_UpdateRendezvousInfo [] si r s) T"
  by (auto simp: si_def NewStrictRvHandler_def siw_DeleteRendezvousInfo_def siw_GetRendezvousInfo_def siw_UpdateRendezvousInfo_def
      strict_DeleteRendezvousInfo_def strict_GetRendezvousInfo_def strict_UpdateRendezvousInfo_def rvinfo_v2_touches[OF assms(1)]
      split: option.splits intro!: all_stmts_bindP)

lemma import_loop_touches: "T_device_ca_certificates \<in> T \<Longrightarrow> touches (import_loop L now n b p st) T"
proof (induction n arbitrary: b p st)
  case (Suc n)
  then show ?case
    by (auto simp: import_cert_def Let_def db_calls split: option.splits sum.splits intro!: all_stmts_intros)
qed simp

lemma device_ca_touches:
  assumes "T_device_ca_certificates \<in> T"
  shows "touches (ListTrustedDeviceCACerts now tm c params) T"
    "touches (GetTrustedDeviceCACertByFingerprint tm c f) T"
    "touches (ImportTrustedDeviceCACerts L now tm pool body) T"
    "touches (DeleteTrustedDeviceCACert L pool f) T"
proof -
  have load: "touches (LoadTrustedDeviceCAs L) T"
    by (auto simp: LoadTrustedDeviceCAs_def db_calls intro!: all_stmts_intros)
  show "touches (ListTrustedDeviceCACerts now tm c params) T"
    by (auto simp: ListTrustedDeviceCACerts_def ListDeviceCACertificates_def db_calls Let_def split: prod.splits intro!: all_stmts_intros)
  show "touches (GetTrustedDeviceCACertByFingerprint tm c f) T"
    by (auto simp: GetTrustedDeviceCACertByFingerprint_def GetDeviceCACertificate_def db_calls intro!: all_stmts_intros)
  show "touches (ImportTrustedDeviceCACerts L now tm pool body) T"
    by (auto simp: ImportTrustedDeviceCACerts_def ImportDeviceCACertificates_def Let_def load simp del: import_loop.simps
        split: option.splits intro!: all_stmts_intros import_loop_touches[OF assms])
  show "touches (DeleteTrustedDeviceCACert L pool f) T"
    using assms by (auto simp: DeleteTrustedDeviceCACert_def DeleteDeviceCACertificate_def db_calls Let_def load intro!: all_stmts_intros)
qed


section \<open>Properties\<close>

text \<open>The first segment of the path, by which the protocol is told from the management.\<close>

definition protocol_path :: "http_request \<Rightarrow> bool" where
  "protocol_path r \<longleftrightarrow> (case path_segs (url_Path r) of s # ss \<Rightarrow> s = ''fdo'' | [] \<Rightarrow> False)"

lemma fdo_pattern:
  "pattern_match ''POST /fdo/101/msg/{msg}'' (req_method r) (url_Path r) = Some vals \<Longrightarrow> protocol_path r"
  by (auto simp: protocol_path_def routing split: list.splits if_splits)

lemma mfg_touches:
  assumes "\<not> protocol_path r" "allow1 \<or> allow2 \<Longrightarrow> T_rvinfo \<in> T"
  shows "touches (ServeHTTP (Manufacturing_Handler fdo version allow1 allow2 oob K C L J tm) r s) T"
  using assms
  by (intro all_stmts_ServeHTTP)
     (auto simp: Manufacturing_Handler_def health_routes_def health_handlers_def mfg_routes_v1_def mfg_routes_v2_def
         rvinfo_handlers_def
       dest!: fdo_pattern intro!: all_stmts_layers all_stmts_ServeHTTP health_reads all_stmts_HandlerFunc vouchers_read
         rvinfo_v1_touches rvinfo_http_touches)

lemma device_ca_routes_touch:
  "T_device_ca_certificates \<in> T \<Longrightarrow> touches (ServeHTTP (device_ca_routes L now tm negotiate B) r s) T"
  by (intro all_stmts_ServeHTTP)
     (auto simp: device_ca_routes_def device_ca_handlers_def NewStrictHandler_def siw_ListTrustedDeviceCACerts_def
       siw_ImportTrustedDeviceCACerts_def siw_DeleteTrustedDeviceCACert_def siw_GetTrustedDeviceCACertByFingerprint_def
       strict_ListTrustedDeviceCACerts_def strict_ImportTrustedDeviceCACerts_def strict_DeleteTrustedDeviceCACert_def
       strict_GetTrustedDeviceCACertByFingerprint_def ContentNegotiationMiddleware_def ErrorHandlerFunc_def Let_def
       split: sum.splits intro!: device_ca_touches all_stmts_bindP)

lemma rv_touches:
  assumes "\<not> protocol_path r" "allow \<Longrightarrow> \<forall>r s. touches (ServeHTTP mgmt r s) T"
  shows "touches (ServeHTTP (Rendezvous_Handler fdo version allow mgmt) r s) T"
  using assms
  by (intro all_stmts_ServeHTTP)
     (auto simp: Rendezvous_Handler_def health_routes_def health_handlers_def bodySizeMiddleware_def dest!: fdo_pattern intro!: all_stmts_layers health_reads)

lemma owner_touches:
  assumes "\<not> protocol_path r" "allow \<Longrightarrow> \<forall>r. touches (ServeHTTP api r s) T"
  shows "touches (ServeHTTP (owner_mux fdo version allow (Some api)) r s) T"
  using assms
  by (intro all_stmts_ServeHTTP)
     (auto simp: owner_mux_def health_routes_def health_handlers_def bodySizeMiddleware_def dest!: fdo_pattern intro!: all_stmts_layers health_reads)

lemma after_touches:
  assumes "gorm_engine E view" "schema_ok (view db)" "touches p T" "T \<noteq> UNIV"
  shows "\<forall>t. t \<notin> T \<longrightarrow> tabs (view (after E p db)) t = tabs (view db) t"
  using gorm_engine.wp_result[OF assms(1) wp_frame[OF assms(3,4,2)]] by (simp add: same_outside_def)

text \<open>The request a handler sees behind the middlewares: the path values, and at most 1 MiB of the body.\<close>

definition seen :: "http_request \<Rightarrow> (string \<Rightarrow> string) \<Rightarrow> request" where
  "seen r vals = \<lparr>req_method = req_method r, req_path = vals, req_query = req_query r, req_content_type = req_content_type r,
     req_body = map_option (take (2 ^ 20)) (req_body r)\<rparr>"

lemma clean_join_end:
  "es \<noteq> [] \<Longrightarrow> \<forall>e\<in>set es. proper e \<Longrightarrow> join_slash es \<noteq> [] \<and> last (join_slash es) \<noteq> slash"
proof (induction es rule: join_slash.induct)
  case (2 e)
  then show ?case by (auto simp: proper_def) (metis last_in_set)
qed auto

lemma clean_path_id:
  assumes "es \<noteq> []" "\<forall>e\<in>set es. proper e"
  shows "cleanPath (slash # join_slash es) = slash # join_slash es"
proof -
  have s: "split_on slash (join_slash es) = es" using assms by (intro split_on_join) (auto simp: proper_def)
  have "elems (slash # join_slash es) = es"
    using assms(2) by (subst elems_inside) (auto simp: s proper_def filter_id_conv)
  with clean_join_end[OF assms] show ?thesis by (simp add: cleanPath_def Clean_def Let_def ends_slash_def)
qed

lemma path_segs_join:
  "es \<noteq> [] \<Longrightarrow> \<forall>e\<in>set es. proper e \<Longrightarrow> path_segs (slash # join_slash es) = es"
  by (simp add: path_segs_def split_on_join proper_def)

lemma path_segs_slash: "p \<noteq> [] \<Longrightarrow> hd p = slash \<Longrightarrow> path_segs (p @ [slash]) = path_segs p @ [[]]"
  by (cases p) (simp_all add: path_segs_def split_on_append)

definition clean_at :: "string \<Rightarrow> string list \<Rightarrow> bool" where
  "clean_at p es \<longleftrightarrow> cleanPath p = p \<and> path_segs p = es \<and> path_segs (p @ [slash]) = es @ [[]] \<and> \<not> ends_slash p"

lemma clean_atI:
  assumes "es \<noteq> []" "\<forall>e\<in>set es. proper e"
  shows "clean_at (slash # join_slash es) es"
proof -
  have "\<not> ends_slash (slash # join_slash es)"
    using clean_join_end[OF assms] by (simp add: ends_slash_def)
  then show ?thesis
    using clean_path_id[OF assms] path_segs_join[OF assms] path_segs_slash[of "slash # join_slash es"]
    by (simp add: clean_at_def)
qed

text \<open>A request for a path of at least three segments goes through to the management table.\<close>

lemma owner_mux_find:
  assumes "clean_at p (''api'' # ''v1'' # e # es)"
  shows "findHandler (owner_mux fdo version True (Some api)) m p = Handle (StripPrefix ''/api/v1''
     (rateLimitMiddleware True (bodySizeMiddleware (2 ^ 20) (ServeHTTP api)))) []"
  using assms by (simp add: clean_at_def findHandler_def Let_def owner_mux_def health_routes_def health_handlers_def routing exactMatch_def)

lemma path_values_nil: "path_values [] r = r\<lparr>req_path := (\<lambda>_. [])\<rparr>"
  by (simp add: path_values_def)

lemma owner_mux_api:
  assumes "es \<noteq> []" "\<forall>e\<in>set es. proper e" "url_Path r = slash # join_slash (''api'' # ''v1'' # es)"
  shows "ServeHTTP (owner_mux fdo version True (Some api)) r s =
     ServeHTTP api (r\<lparr>req_path := (\<lambda>_. []), url_Path := slash # join_slash es, req_body := map_option (take (2 ^ 20)) (req_body r)\<rparr>) s"
proof -
  have "clean_at (url_Path r) (''api'' # ''v1'' # es)"
    unfolding assms(3) by (rule clean_atI) (use assms(2) in \<open>simp_all add: proper_def\<close>)
  then have "findHandler (owner_mux fdo version True (Some api)) (req_method r) (url_Path r) = Handle (StripPrefix ''/api/v1''
     (rateLimitMiddleware True (bodySizeMiddleware (2 ^ 20) (ServeHTTP api)))) []"
    using assms(1) owner_mux_find by (cases es) simp_all
  moreover have "take (length ''/api/v1'') (url_Path r) = ''/api/v1'' \<and> drop (length ''/api/v1'') (url_Path r) = slash # join_slash es"
    unfolding assms(3) using assms(1) by (cases es) simp_all
  ultimately show ?thesis
    by (simp add: ServeHTTP_def StripPrefix_def rateLimitMiddleware_def bodySizeMiddleware_def path_values_nil)
qed

lemma owner_api_find:
  fixes V C L J tm parse resell ownerKey now
  defines "api \<equiv> owner_routes V C L J tm parse resell ownerKey now"
  shows "clean_at p [''owner'', ''vouchers''] \<Longrightarrow> findHandler api m p = (if m = ''POST''
       then Handle (\<lambda>r s. bindP (InsertVoucherHandler V C L [ownerKey] now (to_request r)) (\<lambda>x. Ret (map_option (\<lambda>y. (y, s)) x))) []
       else MethodNotAllowed)"
    "clean_at p [''owner'', ''redirect''] \<Longrightarrow> findHandler api m p = Handle (HandlerFunc (\<lambda>r. OwnerInfoHandler J (to_request r))) []"
    "clean_at p [''owner'', ''resell'', g] \<Longrightarrow> g \<noteq> [] \<Longrightarrow> findHandler api m p = (if m = ''POST''
       then Handle (HandlerFunc (\<lambda>r. ResellHandler C L parse resell (to_request r))) [(''guid'', g)] else MethodNotAllowed)"
    "clean_at p [''owner'', ''devices''] \<Longrightarrow> findHandler api m p = (if m = ''GET'' \<or> m = ''HEAD''
       then Handle (HandlerFunc (\<lambda>r. OwnerDevicesHandler tm (to_request r))) [] else MethodNotAllowed)"
  by (simp_all add: clean_at_def api_def owner_routes_def findHandler_def Let_def routing exactMatch_def path_known_def)

lemma HandlerFunc_request: "HandlerFunc (\<lambda>r. f (to_request r)) r s = HandlerFunc f (to_request r) s"
  by (simp add: HandlerFunc_def)

text \<open>A request to the owner's management interface, by its segments.\<close>

lemma owner_serve:
  assumes "es \<noteq> []" "\<forall>e\<in>set es. proper e"
  shows "ServeHTTP (owner_mux fdo version True (Some api)) (r\<lparr>url_Path := slash # join_slash (''api'' # ''v1'' # es)\<rparr>) s =
     (case findHandler api (req_method r) (slash # join_slash es) of
        Redirect u \<Rightarrow> answer 301 u s
      | MethodNotAllowed \<Rightarrow> answer 405 ''Method Not Allowed'' s
      | NotFound \<Rightarrow> answer 404 ''404 page not found'' s
      | Handle h vals \<Rightarrow>
          h (path_values vals (r\<lparr>url_Path := slash # join_slash es, req_body := map_option (take (2 ^ 20)) (req_body r)\<rparr>)) s)"
  by (subst owner_mux_api[OF assms]) (simp_all add: ServeHTTP_def path_values_def del: join_slash.simps split: outcome.split)

lemma seen_request:
  "to_request (path_values vals (r\<lparr>url_Path := p, req_body := map_option (take 1048576) (req_body r)\<rparr>)) =
     seen r (\<lambda>n. case map_of vals n of Some v \<Rightarrow> v | None \<Rightarrow> [])"
  by (simp add: seen_def path_values_def request.truncate_def)

text \<open>
  C33. Which requests of the owner's management interface reach which handler, and what the handler
  sees: the upload of vouchers by POST, the owner information by every method, the resale by POST
  with the GUID of the path, the device list by GET and HEAD, each with at most 1 MiB of the body;
  another method is refused with 405.
\<close>

theorem owner_endpoints:
  fixes V C L J tm parse resell ownerKey now r fdo version
  assumes "proper g"
  defines "serve \<equiv> \<lambda>path. ServeHTTP (owner_mux fdo version True
      (Some (owner_routes V C L J tm parse resell ownerKey now))) (r\<lparr>url_Path := path\<rparr>) ()"
  defines "refused \<equiv> answer 405 ''Method Not Allowed'' ()"
  shows "serve ''/api/v1/owner/vouchers'' =
       (if req_method r = ''POST'' then bindP (InsertVoucherHandler V C L [ownerKey] now (seen r (\<lambda>_. [])))
          (\<lambda>x. Ret (map_option (\<lambda>y. (y, ())) x)) else refused) \<and>
     serve ''/api/v1/owner/redirect'' = HandlerFunc (OwnerInfoHandler J) (seen r (\<lambda>_. [])) () \<and>
     serve (''/api/v1/owner/resell/'' @ g) =
       (if req_method r = ''POST'' then HandlerFunc (ResellHandler C L parse resell)
          (seen r (\<lambda>n. if n = ''guid'' then g else [])) () else refused) \<and>
     serve ''/api/v1/owner/devices'' =
       (if req_method r \<in> {''GET'', ''HEAD''} then HandlerFunc (OwnerDevicesHandler tm) (seen r (\<lambda>_. [])) () else refused)"
proof -
  have g: "g \<noteq> []" using assms(1) by (simp add: proper_def)
  have names: "proper ''owner''" "proper ''vouchers''" "proper ''redirect''" "proper ''resell''" "proper ''devices''"
    by (simp_all add: proper_def)
  have paths: "''/api/v1/owner/vouchers'' = slash # join_slash (''api'' # ''v1'' # [''owner'', ''vouchers''])"
    "''/api/v1/owner/redirect'' = slash # join_slash (''api'' # ''v1'' # [''owner'', ''redirect''])"
    "''/api/v1/owner/resell/'' @ g = slash # join_slash (''api'' # ''v1'' # [''owner'', ''resell'', g])"
    "''/api/v1/owner/devices'' = slash # join_slash (''api'' # ''v1'' # [''owner'', ''devices''])"
    by simp_all
  have vals: "(\<lambda>n. case map_of [(''guid'', g)] n of Some v \<Rightarrow> v | None \<Rightarrow> []) = (\<lambda>n. if n = ''guid'' then g else [])"
    "(\<lambda>n. case if n = ''guid'' then Some g else None of Some v \<Rightarrow> v | None \<Rightarrow> []) = (\<lambda>n. if n = ''guid'' then g else [])"
    by auto
  note go = owner_serve names assms(1) HandlerFunc_request seen_request vals
  show ?thesis
    unfolding serve_def refused_def paths
  proof (intro conjI)
    show "ServeHTTP (owner_mux fdo version True (Some (owner_routes V C L J tm parse resell ownerKey now)))
       (r\<lparr>url_Path := slash # join_slash (''api'' # ''v1'' # [''owner'', ''vouchers''])\<rparr>) () =
       (if req_method r = ''POST'' then bindP (InsertVoucherHandler V C L [ownerKey] now (seen r (\<lambda>_. [])))
          (\<lambda>x. Ret (map_option (\<lambda>y. (y, ())) x)) else answer 405 ''Method Not Allowed'' ())"
      by (simp add: go owner_api_find(1)[OF clean_atI] del: join_slash.simps)
  qed (simp_all add: go owner_api_find[OF clean_atI] g del: join_slash.simps)
qed

definition ex_http :: http_request where
  "ex_http = \<lparr>req_method = ''GET'', req_path = (\<lambda>_. []), req_query = (\<lambda>_. []), req_content_type = [], req_body = None,
     url_Path = ''/api/v1/vouchers'', url_Query = (\<lambda>_. []), hdr_Accept = [], req_Context = (\<lambda>_. None)\<rparr>"

abbreviation ex_fdo :: "'s http_handler" where
  "ex_fdo \<equiv> \<lambda>r s. answer 200 [] s"

lemma owner_endpoints_witness:
  "ServeHTTP (owner_mux ex_fdo ''1'' True (Some (owner_routes ex_vlib ex_up_codec ex_pki ex_json (\<lambda>_. []) (\<lambda>_. None) ex_resell 7 5)))
     (ex_http\<lparr>url_Path := ''/api/v1/owner/vouchers''\<rparr>) () = answer 405 ''Method Not Allowed'' ()"
proof -
  have "proper ''00''" by (simp add: proper_def)
  from owner_endpoints[OF this, of ex_fdo "''1''" ex_vlib ex_up_codec ex_pki ex_json "\<lambda>_. []" "\<lambda>_. None" ex_resell 7 5 ex_http]
  show ?thesis by (simp add: ex_http_def)
qed

text \<open>
  No request matches two entries of a routing table, so the order in which the routes are
  registered does not matter.
\<close>

theorem routes_unambiguous:
  "unambiguous (owner_mux fdo1 version allow (Some (owner_routes V C L J tm parse resell ownerKey now))) \<and>
   unambiguous (owner_routes V C L J tm parse resell ownerKey now) \<and>
   unambiguous (Manufacturing_Handler fdo1 version allow allow2 oob K C L J tm) \<and>
   unambiguous (mfg_routes_v1 oob K C L J tm) \<and> unambiguous (mfg_routes_v2 oob K C J) \<and>
   unambiguous (Rendezvous_Handler fdo2 version allow (device_ca_routes L now tm negotiate B)) \<and>
   unambiguous (device_ca_routes L now tm negotiate B)"
  by (simp only: tables_unambiguous owner_mux_unambiguous simp_thms)

text \<open>
  C12. The management interface of the manufacturing server writes the rendezvous information only,
  vouchers can be read there and not changed; that of the rendezvous server writes the trusted
  device CA certificates only.
\<close>

theorem management_footprint:
  fixes fdo1 :: "unit http_handler" and fdo2 :: "x509_cert list http_handler" and r :: http_request
    and version allow allow1 allow2 oob K C L J tm now negotiate B pool
  assumes "gorm_engine E view" "schema_ok (view db)" "\<not> protocol_path r"
  defines "mfg \<equiv> ServeHTTP (Manufacturing_Handler fdo1 version allow1 allow2 oob K C L J tm) r ()"
    and "rv \<equiv> ServeHTTP (Rendezvous_Handler fdo2 version allow (device_ca_routes L now tm negotiate B)) r pool"
  shows "\<forall>t. (t \<noteq> T_rvinfo \<longrightarrow> tabs (view (after E mfg db)) t = tabs (view db) t) \<and>
     (t \<noteq> T_device_ca_certificates \<longrightarrow> tabs (view (after E rv db)) t = tabs (view db) t)"
proof -
  have some: "{T_rvinfo} \<noteq> UNIV" "{T_device_ca_certificates} \<noteq> UNIV" by (auto intro: exI[of _ T_vouchers])
  have "touches mfg {T_rvinfo}" "touches rv {T_device_ca_certificates}"
    unfolding mfg_def rv_def using assms(3) by (simp_all add: mfg_touches rv_touches device_ca_routes_touch)
  then show ?thesis
    using after_touches[OF assms(1,2) _ some(1)] after_touches[OF assms(1,2) _ some(2)] by blast
qed

lemma management_footprint_witness:
  "tabs (after sql_exec (ServeHTTP (Manufacturing_Handler ex_fdo ''1'' True True (\<lambda>_ _. 0) ex_consts ex_codec ex_pki ex_json (\<lambda>_. []))
     ex_http ()) ex_vdb) T_vouchers = tabs ex_vdb T_vouchers"
proof -
  have "\<not> protocol_path ex_http" by code_simp
  moreover have "schema_ok ex_vdb" using ex_v_ok(2) goodD(2) by blast
  ultimately show ?thesis
    using management_footprint[OF ex_ok(5), where db = ex_vdb and r = ex_http and ?fdo1.0 = ex_fdo and version = "''1''" and ?allow1.0 = True
        and ?allow2.0 = True and oob = "\<lambda>_ _. 0" and K = ex_consts and C = ex_codec and L = ex_pki and J = ex_json and tm = "\<lambda>_. []"] by auto
qed

text \<open>
  C32. Nothing gets past a rate limiter that refuses: whatever the table behind it holds, a request
  that is not one of the protocol changes nothing in the database of any of the three servers.
\<close>

theorem rate_limit_shields:
  fixes fdo1 :: "unit http_handler" and fdo2 :: "x509_cert list http_handler"
  assumes "gorm_engine E view" "schema_ok (view db)" "\<not> protocol_path r"
    and "p \<in> {ignore (ServeHTTP (owner_mux fdo1 version False (Some api)) r ()),
         ignore (ServeHTTP (Manufacturing_Handler fdo1 version False False oob K C L J tm) r ()),
         ignore (ServeHTTP (Rendezvous_Handler fdo2 version False mgmt) r pool)}"
  shows "\<forall>t. tabs (view (after E p db)) t = tabs (view db) t"
proof -
  have "touches (ServeHTTP (owner_mux fdo1 version False (Some api)) r ()) {}"
    "touches (ServeHTTP (Manufacturing_Handler fdo1 version False False oob K C L J tm) r ()) {}"
    "touches (ServeHTTP (Rendezvous_Handler fdo2 version False mgmt) r pool) {}"
    by ((rule owner_touches mfg_touches rv_touches; simp add: assms(3))+)
  with assms(4) have "touches p {}" by (auto simp only: insert_iff empty_iff intro: ignore_safe)
  from after_touches[OF assms(1,2) this] show ?thesis by simp
qed

lemma rate_limit_shields_witness:
  "tabs (after sql_exec (ignore (ServeHTTP (owner_mux ex_fdo ''1'' False (Some [])) ex_http ())) ex_vdb) T_vouchers = tabs ex_vdb T_vouchers"
proof -
  have "\<not> protocol_path ex_http" by code_simp
  moreover have "schema_ok ex_vdb" using ex_v_ok(2) goodD(2) by blast
  ultimately show ?thesis
    using rate_limit_shields[OF ex_ok(5), where db = ex_vdb and r = ex_http and ?fdo1.0 = ex_fdo and version = "''1''" and api = "[]"] by auto
qed

end
