(* ===== verification/DeviceCAProperties.thy ===== *)
theory DeviceCAProperties
  imports RouteProperties
begin

text \<open>
  The device CA interface of the rendezvous server from the request to the answer: which request
  reaches which operation, what an unreadable query parameter answers, and what a page of the list
  holds in which format.
\<close>

section \<open>From the request to the operation\<close>

lemma mgmt_serve:
  assumes "findHandler mux (req_method r) (pre @ q) =
      Handle (StripPrefix pre (rateLimitMiddleware True (bodySizeMiddleware (2 ^ 20) (ServeHTTP api)))) []" "pre \<noteq> []"
  shows "ServeHTTP mux (r\<lparr>url_Path := pre @ q\<rparr>) s =
     ServeHTTP api (r\<lparr>req_path := (\<lambda>_. []), url_Path := q, req_body := map_option (take (2 ^ 20)) (req_body r)\<rparr>) s"
  using assms by (simp add: ServeHTTP_def StripPrefix_def rateLimitMiddleware_def bodySizeMiddleware_def path_values_nil)

lemma rv_mux_find:
  assumes "clean_at p (''api'' # ''v1'' # e # es)"
  shows "findHandler (Rendezvous_Handler fdo version True mgmt) m p = Handle (StripPrefix ''/api''
     (rateLimitMiddleware True (bodySizeMiddleware (2 ^ 20) (ServeHTTP mgmt)))) []"
  using assms by (simp add: clean_at_def findHandler_def Let_def Rendezvous_Handler_def health_routes_def health_handlers_def
      routing exactMatch_def)

lemma device_ca_find:
  fixes L now tm negotiate B
  defines "api \<equiv> device_ca_routes L now tm negotiate B" and "si \<equiv> NewStrictHandler L now tm [ContentNegotiationMiddleware negotiate]"
  shows "clean_at p [''v1'', ''device-ca''] \<Longrightarrow> findHandler api m p =
      (if m = ''POST'' then Handle (siw_ImportTrustedDeviceCACerts [] si) []
       else if m = ''GET'' \<or> m = ''HEAD'' then Handle (siw_ListTrustedDeviceCACerts B [] si) [] else MethodNotAllowed)"
    "clean_at p [''v1'', ''device-ca'', f] \<Longrightarrow> f \<noteq> [] \<Longrightarrow> findHandler api m p =
      (if m = ''DELETE'' then Handle (siw_DeleteTrustedDeviceCACert B [] si) [(''fingerprint'', f)]
       else if m = ''GET'' \<or> m = ''HEAD'' then Handle (siw_GetTrustedDeviceCACertByFingerprint B [] si) [(''fingerprint'', f)]
       else MethodNotAllowed)"
  by (auto simp: clean_at_def api_def si_def device_ca_routes_def device_ca_handlers_def findHandler_def Let_def routing
      exactMatch_def path_known_def)

text \<open>The request as an operation sees it behind the middlewares of the management interface.\<close>

definition seen_ca :: "http_request \<Rightarrow> string \<Rightarrow> (string \<Rightarrow> string) \<Rightarrow> http_request" where
  "seen_ca r p vals = r\<lparr>url_Path := p, req_body := map_option (take (2 ^ 20)) (req_body r), req_path := vals\<rparr>"

lemma rv_serve:
  assumes "es \<noteq> []" "\<forall>e\<in>set es. proper e"
  shows "ServeHTTP (Rendezvous_Handler fdo version True mgmt) (r\<lparr>url_Path := slash # join_slash (''api'' # ''v1'' # es)\<rparr>) s =
     (case findHandler mgmt (req_method r) (slash # join_slash (''v1'' # es)) of
        Redirect u \<Rightarrow> answer 301 u s
      | MethodNotAllowed \<Rightarrow> answer 405 ''Method Not Allowed'' s
      | NotFound \<Rightarrow> answer 404 ''404 page not found'' s
      | Handle h vals \<Rightarrow> h (seen_ca r (slash # join_slash (''v1'' # es)) (\<lambda>n. case map_of vals n of Some v \<Rightarrow> v | None \<Rightarrow> [])) s)"
proof -
  have p: "slash # join_slash (''api'' # ''v1'' # es) = ''/api'' @ (slash # join_slash (''v1'' # es))" by simp
  have "clean_at (slash # join_slash (''api'' # ''v1'' # es)) (''api'' # ''v1'' # es)"
    by (rule clean_atI) (use assms(2) in \<open>simp_all add: proper_def\<close>)
  then have "findHandler (Rendezvous_Handler fdo version True mgmt) (req_method r) (''/api'' @ (slash # join_slash (''v1'' # es))) =
      Handle (StripPrefix ''/api'' (rateLimitMiddleware True (bodySizeMiddleware (2 ^ 20) (ServeHTTP mgmt)))) []"
    unfolding p using assms(1) rv_mux_find by (cases es) (simp_all del: join_slash.simps)
  from mgmt_serve[OF this, of s] have eq: "ServeHTTP (Rendezvous_Handler fdo version True mgmt)
      (r\<lparr>url_Path := ''/api'' @ (slash # join_slash (''v1'' # es))\<rparr>) s = ServeHTTP mgmt (r\<lparr>req_path := (\<lambda>_. []),
      url_Path := slash # join_slash (''v1'' # es), req_body := map_option (take (2 ^ 20)) (req_body r)\<rparr>) s" by simp
  show ?thesis
    unfolding p eq by (cases "findHandler mgmt (req_method r) (slash # join_slash (''v1'' # es))")
      (simp_all add: ServeHTTP_def path_values_def seen_ca_def del: join_slash.simps)
qed

section \<open>The list\<close>

text \<open>The parameters that do not bind with their errors, in the order in which they are bound.\<close>

definition bind_failure :: "string \<Rightarrow> string + 'a \<Rightarrow> (string \<times> string) list" where
  "bind_failure name x = (case x of Inl err \<Rightarrow> [(name, err)] | Inr _ \<Rightarrow> [])"

definition list_param_failures :: "bind_lib \<Rightarrow> (string \<Rightarrow> string list) \<Rightarrow> (string \<times> string) list" where
  "list_param_failures B query =
     concat (map (\<lambda>name. bind_failure name (BindQueryInt B name query)) [''limit'', ''offset'']) @
     concat (map (\<lambda>name. bind_failure name (BindQueryString B name query))
       [''issuer'', ''subject'', ''validityStatus'', ''search'', ''sortBy'', ''sortOrder''])"

definition first_is :: "(string \<times> string) list \<Rightarrow> param_error \<Rightarrow> bool" where
  "first_is fs e \<longleftrightarrow> (case fs of [] \<Rightarrow> False | (name, err) # _ \<Rightarrow> e = InvalidParamFormatError name err)"

lemma bound_first:
  "(\<And>v. k v = Inl e \<longleftrightarrow> first_is fs e) \<Longrightarrow> bound name x k = Inl e \<longleftrightarrow> first_is (bind_failure name x @ fs) e"
  by (cases x) (auto simp: bind_failure_def first_is_def)

lemma bind_list_params_failure: "bind_list_params B query = Inl e \<longleftrightarrow> first_is (list_param_failures B query) e"
  unfolding bind_list_params_def list_param_failures_def list.map concat.simps append_assoc append_Nil
  by (rule bound_first)+ (simp add: first_is_def)

text \<open>The certificates that match the filters of a list.\<close>

definition matching_certs :: "int \<Rightarrow> list_params \<Rightarrow> sqldb \<Rightarrow> device_ca_cert list" where
  "matching_certs now params d = map device_ca_fromRow (rows T_device_ca_certificates
     (list_conds now (p_Issuer params) (p_Subject params) (p_Search params) (p_ValidityStatus params)) d)"

definition p_limit :: "list_params \<Rightarrow> int" where
  "p_limit params = (case p_Limit params of None \<Rightarrow> 20 | Some n \<Rightarrow> n)"

definition p_offset :: "list_params \<Rightarrow> int" where
  "p_offset params = (case p_Offset params of None \<Rightarrow> 0 | Some n \<Rightarrow> n)"

definition page_of :: "int \<Rightarrow> list_params \<Rightarrow> sqldb \<Rightarrow> device_ca_cert list \<Rightarrow> bool" where
  "page_of now params d certs \<longleftrightarrow> mset certs \<subseteq># mset (matching_certs now params d) \<and>
     length certs = (let n = length (matching_certs now params d) - nat (p_offset params) in
       if p_limit params > 0 then min (nat (p_limit params)) n else n)"

definition list_answer :: "(int \<Rightarrow> string) \<Rightarrow> string \<Rightarrow> list_params \<Rightarrow> nat \<Rightarrow> device_ca_cert list \<Rightarrow> response" where
  "list_answer tm media params n certs =
     (if media = ''application/x-pem-file'' then pem_response 200 (concat (map ca_PEM certs))
      else json_response 200 (JObj [(''certs'', JArr (map (\<lambda>c. ca_json c tm) certs)), (''limit'', json_int (p_limit params)),
        (''offset'', json_int (p_offset params)), (''total'', json_nat n)]))"

lemma page_length:
  "length (page l off xs) = (if l = 0 then length xs - off else min l (length xs - off))"
  by (simp add: page_def min.commute)

lemma page_sub: "mset (page l off xs) \<subseteq># mset xs"
proof -
  have tk: "mset (take n ys) \<subseteq># mset ys" for n and ys :: "'a list"
    by (metis append_take_drop_id mset_append mset_subset_eq_add_left)
  have dr: "mset (drop n ys) \<subseteq># mset ys" for n and ys :: "'a list"
    by (metis append_take_drop_id mset_append mset_subset_eq_add_right)
  show ?thesis by (simp add: page_def dr subset_mset.order_trans[OF tk dr])
qed

lemma wp_ListDeviceCAs:
  "wp (ListDeviceCACertificates now limit offset issuer subject search validityStatus sortBy sortOrder)
     (\<lambda>r d'. d' = d \<and> (\<forall>certs n. r = Inr (certs, n) \<longrightarrow>
        (let ms = rows T_device_ca_certificates (list_conds now issuer subject search validityStatus) d in
         n = length ms \<and> (\<exists>ys. mset ys = mset ms \<and> certs = map device_ca_fromRow
           (page (if limit > 0 then nat limit else 0) (if offset > 0 then nat offset else 0) ys))))) d"
  unfolding ListDeviceCACertificates_def Let_def
  by (simp add: wp_simps split del: if_split) blast

lemma page_of_page:
  assumes "mset ys = mset (rows T_device_ca_certificates
      (list_conds now (p_Issuer params) (p_Subject params) (p_Search params) (p_ValidityStatus params)) d)"
  shows "page_of now params d (map device_ca_fromRow (page (if p_limit params > 0 then nat (p_limit params) else 0)
      (if p_offset params > 0 then nat (p_offset params) else 0) ys))" (is "page_of _ _ _ (map _ ?p)")
proof -
  have "mset (map device_ca_fromRow ?p) \<subseteq># mset (matching_certs now params d)"
    unfolding matching_certs_def mset_map assms[symmetric] by (rule image_mset_subseteq_mono[OF page_sub])
  moreover have "length ys = length (matching_certs now params d)"
    unfolding matching_certs_def length_map by (rule mset_eq_length[OF assms])
  ultimately show ?thesis by (simp add: page_of_def page_length Let_def)
qed

lemma list_reply:
  "(if preferred c = ''application/x-pem-file'' then reply_list (ListTrustedDeviceCACerts200ApplicationxPemFileResponse (concat (map ca_PEM certs)))
    else reply_list (ListTrustedDeviceCACerts200JSONResponse (JObj [(''certs'', JArr (map (\<lambda>c. ca_json c tm) certs)),
      (''limit'', json_int (p_limit params)), (''offset'', json_int (p_offset params)), (''total'', json_nat n)]))) =
   Ret (list_answer tm (preferred c) params n certs)"
  by (simp add: list_answer_def)

lemma wp_ListTrusted:
  "wp (ListTrustedDeviceCACerts now tm c params) (\<lambda>resp d'. d' = d \<and>
     (resp = json_response 500 (message_json ''Failed to list device CA certificates'') \<or>
      (\<exists>certs. page_of now params d certs \<and>
         resp = list_answer tm (preferred c) params (length (matching_certs now params d)) certs))) d"
proof -
  let ?ms = "rows T_device_ca_certificates (list_conds now (p_Issuer params) (p_Subject params) (p_Search params)
      (p_ValidityStatus params)) d"
  have n: "length ?ms = length (matching_certs now params d)" by (simp add: matching_certs_def)
  show ?thesis
    unfolding ListTrustedDeviceCACerts_def Let_def p_limit_def[symmetric] p_offset_def[symmetric] wp_tryE list_reply
    by (rule wp_mono[OF wp_ListDeviceCAs]) (auto simp: wp_simps n Let_def intro: page_of_page split: sum.split)
qed

lemma wp_list_request:
  "wp (siw_ListTrustedDeviceCACerts B [] (NewStrictHandler L now tm [ContentNegotiationMiddleware negotiate]) r pool)
     (\<lambda>x d'. d' = d \<and> (case list_param_failures B (url_Query r) of
        (name, err) # _ \<Rightarrow> x = Some (\<lparr>status = 400, resp_body = Text (''Invalid format for parameter '' @ name @ '': '' @ err)\<rparr>, pool)
      | [] \<Rightarrow> \<exists>params resp. bind_list_params B (url_Query r) = Inr params \<and> x = Some (resp, pool) \<and>
          (resp = json_response 500 (message_json ''Failed to list device CA certificates'') \<or>
           (\<exists>certs. page_of now params d certs \<and> resp = list_answer tm (preferredContentType negotiate (hdr_Accept r)) params
              (length (matching_certs now params d)) certs)))) d"
proof (cases "bind_list_params B (url_Query r)")
  case (Inl e)
  with bind_list_params_failure[of B "url_Query r" e] obtain name err fs where
    "list_param_failures B (url_Query r) = (name, err) # fs" "e = InvalidParamFormatError name err"
    by (auto simp: first_is_def split: list.splits)
  with Inl show ?thesis
    by (simp add: siw_ListTrustedDeviceCACerts_def ErrorHandlerFunc_def answer_def wp_simps)
next
  case (Inr params)
  then have "\<And>e. \<not> first_is (list_param_failures B (url_Query r)) e" by (simp flip: bind_list_params_failure)
  then have none: "list_param_failures B (url_Query r) = []"
    by (cases "list_param_failures B (url_Query r)") (auto simp: first_is_def)
  from Inr none show ?thesis
    by (auto simp: siw_ListTrustedDeviceCACerts_def NewStrictHandler_def strict_ListTrustedDeviceCACerts_def
        ContentNegotiationMiddleware_def wp_bindP wp_simps intro!: wp_mono[OF wp_ListTrusted])
qed

section \<open>Properties\<close>

text \<open>The whole server with an open limiter, at a path of the device CA interface.\<close>

definition rv_at ::
  "ca_pool http_handler \<Rightarrow> string \<Rightarrow> pki \<Rightarrow> int \<Rightarrow> (int \<Rightarrow> string) \<Rightarrow> (string \<Rightarrow> string option) \<Rightarrow> bind_lib \<Rightarrow> string \<Rightarrow>
   ca_pool http_handler" where
  "rv_at fdo version L now tm negotiate B path r =
     ServeHTTP (Rendezvous_Handler fdo version True (device_ca_routes L now tm negotiate B)) (r\<lparr>url_Path := path\<rparr>)"

lemma rv_at_list:
  "rv_at fdo version L now tm negotiate B ''/api/v1/device-ca'' r pool =
     (let si = NewStrictHandler L now tm [ContentNegotiationMiddleware negotiate]; r' = seen_ca r ''/v1/device-ca'' (\<lambda>_. []) in
      if req_method r = ''POST'' then siw_ImportTrustedDeviceCACerts [] si r' pool
      else if req_method r \<in> {''GET'', ''HEAD''} then siw_ListTrustedDeviceCACerts B [] si r' pool
      else answer 405 ''Method Not Allowed'' pool)"
proof -
  have p: "''/api/v1/device-ca'' = slash # join_slash (''api'' # ''v1'' # [''device-ca''])" by simp
  obtain q where q: "q = slash # join_slash [''v1'', ''device-ca'']" by simp
  have c: "proper ''v1''" "proper ''device-ca''" by (simp_all add: proper_def)
  show ?thesis
    using rv_serve[of "[''device-ca'']", folded q] device_ca_find(1)[OF clean_atI[of "[''v1'', ''device-ca'']"], folded q] c
    unfolding rv_at_def Let_def p by (simp del: join_slash.simps) (simp add: q)
qed

lemma rv_at_item:
  assumes "proper f"
  shows "rv_at fdo version L now tm negotiate B (''/api/v1/device-ca/'' @ f) r pool =
     (let si = NewStrictHandler L now tm [ContentNegotiationMiddleware negotiate];
          r' = seen_ca r (''/v1/device-ca/'' @ f) (\<lambda>n. if n = ''fingerprint'' then f else []) in
      if req_method r = ''DELETE'' then siw_DeleteTrustedDeviceCACert B [] si r' pool
      else if req_method r \<in> {''GET'', ''HEAD''} then siw_GetTrustedDeviceCACertByFingerprint B [] si r' pool
      else answer 405 ''Method Not Allowed'' pool)"
proof -
  have p: "''/api/v1/device-ca/'' @ f = slash # join_slash (''api'' # ''v1'' # [''device-ca'', f])" by simp
  obtain q where q: "q = slash # join_slash [''v1'', ''device-ca'', f]" by simp
  have c: "proper ''v1''" "proper ''device-ca''" "f \<noteq> []" using assms by (simp_all add: proper_def)
  have v: "(\<lambda>n. case if n = ''fingerprint'' then Some f else None of Some v \<Rightarrow> v | None \<Rightarrow> []) = (\<lambda>n. if n = ''fingerprint'' then f else [])"
    by auto
  show ?thesis
    using rv_serve[of "[''device-ca'', f]", folded q] device_ca_find(2)[OF clean_atI[of "[''v1'', ''device-ca'', f]"], folded q] c assms
    unfolding rv_at_def Let_def p by (simp add: v del: join_slash.simps) (simp add: q)
qed

lemma wp_rv_list:
  assumes "req_method r \<in> {''GET'', ''HEAD''}"
  shows "wp (rv_at fdo version L now tm negotiate B ''/api/v1/device-ca'' r pool)
     (\<lambda>x d'. d' = d \<and> (case list_param_failures B (url_Query r) of
        (name, err) # _ \<Rightarrow> x = Some (\<lparr>status = 400, resp_body = Text (''Invalid format for parameter '' @ name @ '': '' @ err)\<rparr>, pool)
      | [] \<Rightarrow> \<exists>params resp. bind_list_params B (url_Query r) = Inr params \<and> x = Some (resp, pool) \<and>
          (resp = json_response 500 (message_json ''Failed to list device CA certificates'') \<or>
           (\<exists>certs. page_of now params d certs \<and> resp = list_answer tm (preferredContentType negotiate (hdr_Accept r)) params
              (length (matching_certs now params d)) certs)))) d"
proof -
  have m: "req_method r \<noteq> ''POST''" using assms by auto
  have q: "url_Query (seen_ca r ''/v1/device-ca'' (\<lambda>_. [])) = url_Query r"
    "hdr_Accept (seen_ca r ''/v1/device-ca'' (\<lambda>_. [])) = hdr_Accept r" by (simp_all add: seen_ca_def)
  show ?thesis
    unfolding rv_at_list Let_def if_not_P[OF m] if_P[OF assms]
    by (rule wp_list_request[of B L now tm negotiate "seen_ca r ''/v1/device-ca'' (\<lambda>_. [])", unfolded q])
qed

text \<open>
  Which request of the rendezvous server's management interface reaches which operation of the
  device CA interface, and what the operation sees: the list by GET and HEAD, the import by POST with
  at most 1 MiB of the body, the deletion and the reading of one certificate by its fingerprint;
  another method is refused with 405.
\<close>

theorem rv_endpoints:
  fixes fdo version L now tm negotiate B r pool
  assumes "proper f"
  defines "serve \<equiv> \<lambda>path. rv_at fdo version L now tm negotiate B path r pool"
    and "si \<equiv> NewStrictHandler L now tm [ContentNegotiationMiddleware negotiate]"
    and "all \<equiv> seen_ca r ''/v1/device-ca'' (\<lambda>_. [])"
    and "one \<equiv> seen_ca r (''/v1/device-ca/'' @ f) (\<lambda>n. if n = ''fingerprint'' then f else [])"
    and "refused \<equiv> answer 405 ''Method Not Allowed'' pool"
  shows "serve ''/api/v1/device-ca'' =
       (if req_method r = ''POST'' then siw_ImportTrustedDeviceCACerts [] si all pool
        else if req_method r \<in> {''GET'', ''HEAD''} then siw_ListTrustedDeviceCACerts B [] si all pool else refused) \<and>
     serve (''/api/v1/device-ca/'' @ f) =
       (if req_method r = ''DELETE'' then siw_DeleteTrustedDeviceCACert B [] si one pool
        else if req_method r \<in> {''GET'', ''HEAD''} then siw_GetTrustedDeviceCACertByFingerprint B [] si one pool else refused)"
  unfolding serve_def si_def all_def one_def refused_def rv_at_list rv_at_item[OF assms(1)] Let_def by (rule conjI refl)+

definition ex_bind :: bind_lib where
  "ex_bind = \<lparr>BindQueryInt = (\<lambda>name q. case q name of [] \<Rightarrow> Inr None
        | s # _ \<Rightarrow> if s = ''2'' then Inr (Some 2) else Inl ''invalid syntax''),
     BindQueryString = (\<lambda>name q. Inr (case q name of [] \<Rightarrow> None | s # _ \<Rightarrow> Some s)),
     BindStyledString = (\<lambda>name v. Inr v)\<rparr>"

definition ex_list :: "string \<Rightarrow> http_request" where
  "ex_list l = ex_http\<lparr>url_Query := (\<lambda>n. if n = ''limit'' then [l] else []), hdr_Accept := ''*''\<rparr>"

abbreviation ex_rv_at :: "string \<Rightarrow> ca_pool http_handler" where
  "ex_rv_at \<equiv> rv_at ex_fdo ''1'' ex_pki 5 (\<lambda>_. []) (\<lambda>_. Some ''Application/X-Pem-File'') ex_bind"

lemma rv_endpoints_witness:
  "ex_rv_at ''/api/v1/device-ca/00'' (ex_list ''2'') [] = siw_GetTrustedDeviceCACertByFingerprint ex_bind []
     (NewStrictHandler ex_pki 5 (\<lambda>_. []) [ContentNegotiationMiddleware (\<lambda>_. Some ''Application/X-Pem-File'')])
     (seen_ca (ex_list ''2'') ''/v1/device-ca/00'' (\<lambda>n. if n = ''fingerprint'' then ''00'' else [])) []"
proof -
  have "proper ''00''" by (simp add: proper_def)
  from rv_endpoints[OF this, of ex_fdo "''1''" ex_pki 5 "\<lambda>_. []" "\<lambda>_. Some ''Application/X-Pem-File''" ex_bind "ex_list ''2''" "[]"]
  show ?thesis by (simp add: ex_list_def ex_http_def)
qed

text \<open>
  C21. A query parameter of the list that does not bind: the answer is 400 and names the first such
  parameter with the error of its binding, whatever the others are, and nothing is read or changed.
\<close>

theorem list_bad_parameter:
  fixes fdo version L now tm negotiate B r pool
  assumes "gorm_engine E view" "req_method r \<in> {''GET'', ''HEAD''}"
    and "list_param_failures B (url_Query r) = (name, err) # fs"
  defines "p \<equiv> rv_at fdo version L now tm negotiate B ''/api/v1/device-ca'' r pool"
  shows "result E p db =
       Some (\<lparr>status = 400, resp_body = Text (''Invalid format for parameter '' @ name @ '': '' @ err)\<rparr>, pool) \<and>
     view (after E p db) = view db"
  using gorm_engine.wp_result[OF assms(1) wp_rv_list[OF assms(2)], of fdo version L now tm negotiate B pool db] assms(3)
  unfolding p_def by simp

lemma list_bad_parameter_witness:
  "result sql_exec (ex_rv_at ''/api/v1/device-ca'' (ex_list ''x'') []) ex_ca_db =
     Some (\<lparr>status = 400, resp_body = Text ''Invalid format for parameter limit: invalid syntax''\<rparr>, [])"
proof -
  have m: "req_method (ex_list ''x'') \<in> {''GET'', ''HEAD''}" by (simp add: ex_list_def ex_http_def)
  have "list_param_failures ex_bind (url_Query (ex_list ''x'')) = [(''limit'', ''invalid syntax'')]" by code_simp
  from list_bad_parameter[OF ex_ok(5) m this] show ?thesis by simp
qed

text \<open>
  C19. What a list answered with 200 holds: some of the certificates that match the filters, as many
  as the limit allows behind the offset (all of them when the limit is not positive), the number of
  matching ones as the total; as PEM when the negotiation picked that and as JSON otherwise. Neither
  the database nor the pool changes.
\<close>

theorem list_page:
  fixes fdo version L now tm negotiate B r pool
  assumes "gorm_engine E view" "req_method r \<in> {''GET'', ''HEAD''}"
  defines "p \<equiv> rv_at fdo version L now tm negotiate B ''/api/v1/device-ca'' r pool"
  assumes "result E p db = Some (resp, pool')" "status resp = 200"
  shows "pool' = pool \<and> view (after E p db) = view db \<and>
     (\<exists>params certs. bind_list_params B (url_Query r) = Inr params \<and> page_of now params (view db) certs \<and>
        resp = list_answer tm (preferredContentType negotiate (hdr_Accept r)) params (length (matching_certs now params (view db))) certs)"
  using gorm_engine.wp_result[OF assms(1) wp_rv_list[OF assms(2)], of fdo version L now tm negotiate B pool db, folded p_def] assms(4,5)
  by (auto split: list.splits)

definition ex_list_params :: list_params where
  "ex_list_params = \<lparr>p_Limit = Some 2, p_Offset = None, p_Issuer = None, p_Subject = None, p_ValidityStatus = None,
     p_Search = None, p_SortBy = None, p_SortOrder = None\<rparr>"

lemma ex_list_run:
  "result sql_exec (ex_rv_at ''/api/v1/device-ca'' (ex_list ''2'') []) ex_ca_db =
     Some (pem_response 200 (pem_Encode ex_pki ''CERTIFICATE'' ''a''), [])"
proof -
  let ?c = "[''preferred-content-type'' \<mapsto> ContentType ''application/x-pem-file'']"
  have m: "req_method (ex_list ''2'') = ''GET''" by (simp add: ex_list_def ex_http_def)
  have b: "bind_list_params ex_bind (url_Query (ex_list ''2'')) = Inr ex_list_params" by code_simp
  have n: "preferredContentType (\<lambda>_. Some ''Application/X-Pem-File'') (hdr_Accept (ex_list ''2'')) = ''application/x-pem-file''"
    by code_simp
  have q: "url_Query (seen_ca (ex_list ''2'') p v) = url_Query (ex_list ''2'')"
    "hdr_Accept (seen_ca (ex_list ''2'') p v) = hdr_Accept (ex_list ''2'')" for p v
    by (simp_all add: seen_ca_def)
  have r: "result sql_exec (ListTrustedDeviceCACerts 5 (\<lambda>_. []) ?c ex_list_params) ex_ca_db =
      pem_response 200 (pem_Encode ex_pki ''CERTIFICATE'' ''a'')" by code_simp
  have "ListTrustedDeviceCACerts 5 (\<lambda>_. []) c ex_list_params = ListTrustedDeviceCACerts 5 (\<lambda>_. []) ?c ex_list_params"
    if "preferred c = ''application/x-pem-file''" for c
    using that by (simp add: ListTrustedDeviceCACerts_def)
  then have "result sql_exec (ListTrustedDeviceCACerts 5 (\<lambda>_. []) c ex_list_params) ex_ca_db =
      pem_response 200 (pem_Encode ex_pki ''CERTIFICATE'' ''a'')" if "preferred c = ''application/x-pem-file''" for c
    using that r by metis
  with m b n q show ?thesis
    by (simp add: rv_at_list Let_def siw_ListTrustedDeviceCACerts_def NewStrictHandler_def strict_ListTrustedDeviceCACerts_def
        ContentNegotiationMiddleware_def run_bindP case_prod_beta)
qed

lemma list_page_witness:
  "\<exists>params certs. bind_list_params ex_bind (url_Query (ex_list ''2'')) = Inr params \<and> page_of 5 params ex_ca_db certs \<and>
     pem_response 200 (pem_Encode ex_pki ''CERTIFICATE'' ''a'') =
       list_answer (\<lambda>_. []) ''application/x-pem-file'' params (length (matching_certs 5 params ex_ca_db)) certs"
proof -
  have m: "req_method (ex_list ''2'') \<in> {''GET'', ''HEAD''}" by (simp add: ex_list_def ex_http_def)
  have n: "preferredContentType (\<lambda>_. Some ''Application/X-Pem-File'') (hdr_Accept (ex_list ''2'')) = ''application/x-pem-file''"
    by code_simp
  from list_page[OF ex_ok(5) m ex_list_run] show ?thesis unfolding n by simp
qed

end
