(* ===== verification/CommandProperties.thy ===== *)
theory CommandProperties
  imports Command DeviceCAProperties
begin

text \<open>
  What the commands promise: where each setting of the rendezvous server comes from, and that a server
  which listens does so with a validated configuration, as that configuration asks, and with the
  state, keys and certificates it names.
\<close>

section \<open>The contract of viper\<close>

text \<open>
  The documented layers of a setting, the first that has it deciding: an explicit call to \<^verbatim>\<open>Set\<close>, a flag
  that was given, the configuration file, a default, and the default of the flag.
\<close>

record layers =
  l_override :: "string \<Rightarrow> setting option"
  l_flags :: "string \<Rightarrow> pflag option"
  l_config :: "string \<Rightarrow> setting option"
  l_default :: "string \<Rightarrow> setting option"

definition no_layers :: layers where
  "no_layers = \<lparr>l_override = Map.empty, l_flags = Map.empty, l_config = Map.empty, l_default = Map.empty\<rparr>"

fun first_of :: "'a option list \<Rightarrow> 'a option" where
  "first_of [] = None"
| "first_of (Some x # xs) = Some x"
| "first_of (None # xs) = first_of xs"

definition given :: "pflag \<Rightarrow> setting option" where
  "given f = (if flag_Changed f then Some (flag_Value f) else None)"

definition layered :: "layers \<Rightarrow> string \<Rightarrow> setting option" where
  "layered y k = first_of [l_override y k, Option.bind (l_flags y k) given, l_config y k, l_default y k,
     map_option flag_Value (l_flags y k)]"

definition viper_engine :: "'v viper \<Rightarrow> ('v \<Rightarrow> layers) \<Rightarrow> bool" where
  "viper_engine V view \<longleftrightarrow>
     (\<forall>k x s. view (v_Set V k x s) = (view s)\<lparr>l_override := (l_override (view s))(k \<mapsto> x)\<rparr>) \<and>
     (\<forall>k x s. view (v_SetDefault V k x s) = (view s)\<lparr>l_default := (l_default (view s))(k \<mapsto> x)\<rparr>) \<and>
     (\<forall>k s. isl (v_BindPFlag V k None s)) \<and>
     (\<forall>k f s s'. v_BindPFlag V k (Some f) s = Inr s' \<longrightarrow> view s' = (view s)\<lparr>l_flags := (l_flags (view s))(k \<mapsto> f)\<rparr>) \<and>
     (\<forall>p s. view (v_SetConfigFile V p s) = view s \<and> view (v_SetConfigName V p s) = view s \<and>
        view (v_AddConfigPath V p s) = view s) \<and>
     (\<forall>s s'. v_ReadInConfig V s = Inr s' \<longrightarrow> (\<exists>c. view s' = (view s)\<lparr>l_config := c\<rparr>)) \<and>
     (\<forall>k s. v_Get V s k = layered (view s) k)"

text \<open>
  \<^verbatim>\<open>viper.Unmarshal\<close>: a field without a setting keeps the zero value of its type; a setting of another
  kind is converted, in a way the model leaves open.
\<close>

fun field_uint :: "setting option \<Rightarrow> 32 word \<Rightarrow> bool" where
  "field_uint None x \<longleftrightarrow> x = 0"
| "field_uint (Some (SUint w)) x \<longleftrightarrow> x = w"
| "field_uint (Some _) x \<longleftrightarrow> True"

fun field_text :: "setting option \<Rightarrow> string \<Rightarrow> bool" where
  "field_text None x \<longleftrightarrow> x = []"
| "field_text (Some (SText t)) x \<longleftrightarrow> x = t"
| "field_text (Some _) x \<longleftrightarrow> True"

definition common_fields :: "(string \<times> ('a FDOServerConfig_scheme \<Rightarrow> string)) list" where
  "common_fields = [(''log.level'', LogLevel), (''db.type'', \<lambda>c. db_Type (DB_config c)), (''db.dsn'', \<lambda>c. DSN (DB_config c)),
     (''http.cert'', \<lambda>c. http_CertPath (HTTP c)), (''http.key'', \<lambda>c. http_KeyPath (HTTP c)),
     (''http.ip'', \<lambda>c. IP (HTTP c)), (''http.port'', \<lambda>c. Port (HTTP c))]"

definition rv_fields :: "(string \<times> (RendezvousServerConfig \<Rightarrow> 32 word)) list" where
  "rv_fields = [(''rendezvous.to0_min_wait'', \<lambda>c. cfg_MinWaitSecs (r_Rendezvous c)),
     (''rendezvous.to0_max_wait'', \<lambda>c. cfg_MaxWaitSecs (r_Rendezvous c)),
     (''rendezvous.cleanup_interval'', \<lambda>c. cfg_CleanupIntervalSecs (r_Rendezvous c)),
     (''rendezvous.session_timeout'', \<lambda>c. cfg_SessionMaxAgeSecs (r_Rendezvous c)),
     (''rendezvous.initial_cleanup_delay'', \<lambda>c. cfg_InitialCleanupDelaySecs (r_Rendezvous c))]"

definition rv_reads :: "(string \<Rightarrow> setting option) \<Rightarrow> RendezvousServerConfig \<Rightarrow> bool" where
  "rv_reads get cfg \<longleftrightarrow> (\<forall>(key, field)\<in>set common_fields. field_text (get key) (field cfg)) \<and>
     (\<forall>(key, field)\<in>set rv_fields. field_uint (get key) (field cfg))"

text \<open>What cobra leaves of the flags a command declares.\<close>

definition parsed :: "flag_set \<Rightarrow> (string \<times> setting) list \<Rightarrow> bool" where
  "parsed flags defs \<longleftrightarrow> (\<forall>(name, d)\<in>set defs. case flags name of None \<Rightarrow> False
     | Some f \<Rightarrow> \<not> flag_Changed f \<longrightarrow> flag_Value f = d)"

section \<open>Where a setting comes from\<close>

text \<open>The flag if it was given, else the file, else the default.\<close>

definition effective :: "flag_set \<Rightarrow> (string \<Rightarrow> setting option) \<Rightarrow> string \<Rightarrow> string \<Rightarrow> setting \<Rightarrow> setting" where
  "effective flags file name key d =
     (case flags name of
        Some f \<Rightarrow> if flag_Changed f then flag_Value f else (case file key of Some x \<Rightarrow> x | None \<Rightarrow> d)
      | None \<Rightarrow> d)"

text \<open>The settings as the program registers them when it starts.\<close>

definition program_init :: "'v viper \<Rightarrow> flag_set \<Rightarrow> 'v \<Rightarrow> 'v option" where
  "program_init V flags s = rootCmdInit V flags (snd (rendezvousCmdInit V s))"

lemma viper_simps:
  assumes "viper_engine V view"
  shows "view (v_Set V k x s) = (view s)\<lparr>l_override := (l_override (view s))(k \<mapsto> x)\<rparr>"
    "view (v_SetDefault V k x s) = (view s)\<lparr>l_default := (l_default (view s))(k \<mapsto> x)\<rparr>"
    "view (v_SetConfigFile V p s) = view s" "view (v_SetConfigName V p s) = view s" "view (v_AddConfigPath V p s) = view s"
    "v_Get V s k = layered (view s) k"
  using assms by (simp_all add: viper_engine_def)

lemma viper_bind:
  assumes "viper_engine V view" "v_BindPFlag V k fl s = Inr s'"
  shows "view s' = (view s)\<lparr>l_flags := (l_flags (view s))(k := fl)\<rparr>"
  using assms by (cases fl) (auto simp: viper_engine_def isl_def, metis sum.distinct(1))

lemma viper_read:
  "viper_engine V view \<Longrightarrow> v_ReadInConfig V s = Inr s' \<Longrightarrow> \<exists>c. view s' = (view s)\<lparr>l_config := c\<rparr>"
  by (simp add: viper_engine_def)

text \<open>Binding only adds to the layer of the flags, and every flag that is bound exists.\<close>

lemma bind_flags_view:
  assumes "viper_engine V view" "bind_flags V flags bs s = Inr s'"
  shows "view s' = (view s)\<lparr>l_flags := foldl (\<lambda>m (k, n). m(k := flags n)) (l_flags (view s)) bs\<rparr>"
  using assms(2)
proof (induction bs arbitrary: s)
  case (Cons b bs)
  obtain k n where b: "b = (k, n)" by fastforce
  with Cons.prems obtain s1 where s1: "v_BindPFlag V k (flags n) s = Inr s1" "bind_flags V flags bs s1 = Inr s'"
    by (cases "v_BindPFlag V k (flags n) s") auto
  show ?case unfolding Cons.IH[OF s1(2)] viper_bind[OF assms(1) s1(1)] b by (simp add: fun_upd_def)
qed simp

lemma rendezvous_bind_flags:
  "rendezvous_bind V flags fs s = Inr s' \<Longrightarrow> bind_flags V flags (map (\<lambda>(name, key, d). (key, name)) fs) s = Inr s'"
proof (induction V flags fs s rule: rendezvous_bind.induct)
  case (2 V flags name key d fs s)
  then show ?case by (cases "v_BindPFlag V key (flags name) s") auto
qed simp

lemma set_defaults_view:
  assumes "viper_engine V view"
  shows "view (fold (\<lambda>(name, key, d). v_SetDefault V key (SUint d)) fs s) =
     (view s)\<lparr>l_default := foldl (\<lambda>m (name, key, d). m(key \<mapsto> SUint d)) (l_default (view s)) fs\<rparr>"
  by (induction fs arbitrary: s) (auto simp: viper_simps[OF assms])

lemma load_config_view:
  assumes "viper_engine V view" "load_config V name path s = Inr s'"
  shows "\<exists>c. view s' = (view s)\<lparr>l_config := c\<rparr>"
proof -
  let ?s = "fold (v_AddConfigPath V) configSearchPaths (v_SetConfigName V name s)"
  have v: "view ?s = view s" by (simp add: configSearchPaths_def viper_simps[OF assms(1)])
  have keep: "view s = (view s)\<lparr>l_config := l_config (view s)\<rparr>" by simp
  from assms(2) consider "v_ReadInConfig V (v_SetConfigFile V path s) = Inr s'" | "v_ReadInConfig V ?s = Inr s'" | "s' = ?s"
    by (cases "v_ReadInConfig V (v_SetConfigFile V path s)"; cases "v_ReadInConfig V ?s")
       (auto simp: load_config_def Let_def split: if_splits)
  then show ?thesis
  proof cases
    case 1
    from viper_read[OF assms(1) 1] show ?thesis by (simp add: viper_simps[OF assms(1)])
  next
    case 2
    from viper_read[OF assms(1) 2] show ?thesis by (simp add: v)
  next
    case 3
    with v keep show ?thesis by metis
  qed
qed

text \<open>The hook of the root command reads the file and lets the argument decide the address.\<close>

lemma PersistentPreRunE_view:
  assumes "viper_engine V view" "snd (PersistentPreRunE V name flags args lv s) = Inr s'"
  shows "\<exists>c. view s' = (view s)\<lparr>l_config := c\<rparr> \<and> args = [] \<or>
     (\<exists>ip port. args \<noteq> [] \<and> parseHTTPAddress (hd args) = Inr (ip, port) \<and> view s' = (view s)\<lparr>l_config := c,
        l_override := (l_override (view s))(''http.ip'' \<mapsto> SText ip, ''http.port'' \<mapsto> SText port)\<rparr>)"
proof -
  obtain path s1 where s1: "load_config V name path s = Inr s1"
    and r: "(case args of [] \<Rightarrow> Inr s1 | arg # _ \<Rightarrow>
       rbind (rmap_err (Wrapf ''invalid http_address'') (parseHTTPAddress arg)) (\<lambda>(ip, port).
         Inr (v_Set V ''http.port'' (SText port) (v_Set V ''http.ip'' (SText ip) s1)))) = Inr s'"
    using assms(2) by (auto simp: PersistentPreRunE_def Let_def split: sum.splits)
  obtain c where c: "view s1 = (view s)\<lparr>l_config := c\<rparr>" using load_config_view[OF assms(1) s1] by blast
  show ?thesis
  proof (cases args)
    case Nil
    with r c show ?thesis by auto
  next
    case (Cons arg as)
    with r obtain ip port where "parseHTTPAddress arg = Inr (ip, port)"
        "s' = v_Set V ''http.port'' (SText port) (v_Set V ''http.ip'' (SText ip) s1)"
      by (cases "parseHTTPAddress arg") auto
    with Cons c show ?thesis by (auto simp: viper_simps[OF assms(1)])
  qed
qed

text \<open>The layers a command of the rendezvous server ends up with.\<close>

definition rv_layers :: "flag_set \<Rightarrow> (string \<Rightarrow> setting option) \<Rightarrow> (string \<Rightarrow> setting option) \<Rightarrow> layers" where
  "rv_layers flags address file =
     \<lparr>l_override = address,
      l_flags = foldl (\<lambda>m (k, n). m(k := flags n)) (foldl (\<lambda>m (k, n). m(k := flags n)) Map.empty root_bindings)
        (map (\<lambda>(name, key, d). (key, name)) rendezvousFlags),
      l_config = file,
      l_default = foldl (\<lambda>m (name, key, d). m(key \<mapsto> SUint d)) Map.empty rendezvousFlags\<rparr>"

lemma rv_command_view:
  assumes V: "viper_engine V view" and "view s0 = no_layers" "program_init V flags s0 = Some s"
    and "snd (PersistentPreRunE V name flags args lv s) = Inr s1" "rendezvous_PreRunE V flags s1 = Inr s2"
  shows "\<exists>address. view s2 = rv_layers flags address (l_config (view s1)) \<and>
     (case args of [] \<Rightarrow> address = Map.empty
      | arg # _ \<Rightarrow> \<exists>ip port. parseHTTPAddress arg = Inr (ip, port) \<and>
          address = [''http.ip'' \<mapsto> SText ip, ''http.port'' \<mapsto> SText port])"
proof -
  let ?rv = "map (\<lambda>(name, key, d). (key, name)) rendezvousFlags"
  have d: "view (snd (rendezvousCmdInit V s0)) = no_layers\<lparr>l_default :=
      foldl (\<lambda>m (name, key, d). m(key \<mapsto> SUint d)) Map.empty rendezvousFlags\<rparr>"
    using assms(2) by (simp add: rendezvousCmdInit_def set_defaults_view[OF V] no_layers_def)
  from assms(3) have root: "bind_flags V flags root_bindings (snd (rendezvousCmdInit V s0)) = Inr s"
    unfolding program_init_def rootCmdInit_def by (simp split: sum.splits)
  from assms(5) have rv: "bind_flags V flags ?rv s1 = Inr s2"
    unfolding rendezvous_PreRunE_def by (rule rendezvous_bind_flags)
  note pre = PersistentPreRunE_view[OF V assms(4)]
  show ?thesis
    using pre unfolding bind_flags_view[OF V rv] rv_layers_def
    by (cases args) (auto simp: bind_flags_view[OF V root] d no_layers_def)
qed

text \<open>The keys are bound once, so that each is found where it was put.\<close>

lemma foldl_upd:
  "distinct (map fst bs) \<Longrightarrow>
     foldl (\<lambda>m (k, n). m(k := f n)) m bs key = (case map_of bs key of Some n \<Rightarrow> f n | None \<Rightarrow> m key)"
  by (induction bs arbitrary: m) (auto split: option.splits dest: map_of_SomeD simp: image_iff)

definition rv_bindings :: "(string \<times> string) list" where
  "rv_bindings = map (\<lambda>(name, key, d). (key, name)) rendezvousFlags"

definition rv_defaults :: "(string \<times> 32 word) list" where
  "rv_defaults = map (\<lambda>(name, key, d). (key, d)) rendezvousFlags"

lemma rv_tables:
  "distinct (map fst root_bindings)" "distinct (map fst rv_bindings)" "distinct (map fst rv_defaults)"
  "\<forall>(name, key, d)\<in>set rendezvousFlags. map_of rv_bindings key = Some name \<and> map_of rv_defaults key = Some d \<and>
     key \<notin> {''http.ip'', ''http.port''}"
  "\<forall>(key, name)\<in>set root_bindings. map_of rv_bindings key = None \<and> map_of rv_defaults key = None \<and>
     map_of root_bindings key = Some name \<and> key \<notin> {''http.ip'', ''http.port''}"
  "\<forall>key\<in>{''http.ip'', ''http.port''}. map_of rv_bindings key = None \<and> map_of rv_defaults key = None \<and>
     map_of root_bindings key = None"
  by code_simp+

lemma rv_layers_sel:
  "l_override (rv_layers flags address file) = address" "l_config (rv_layers flags address file) = file"
  "l_flags (rv_layers flags address file) key = (case map_of rv_bindings key of Some n \<Rightarrow> flags n | None \<Rightarrow>
     (case map_of root_bindings key of Some n \<Rightarrow> flags n | None \<Rightarrow> None))"
  "l_default (rv_layers flags address file) key = map_option SUint (map_of rv_defaults key)"
proof -
  show "l_flags (rv_layers flags address file) key = (case map_of rv_bindings key of Some n \<Rightarrow> flags n | None \<Rightarrow>
     (case map_of root_bindings key of Some n \<Rightarrow> flags n | None \<Rightarrow> None))"
    unfolding rv_layers_def layers.simps rv_bindings_def[symmetric] foldl_upd[OF rv_tables(1)] foldl_upd[OF rv_tables(2)] ..
  have "foldl (\<lambda>m (name, key, d). m(key \<mapsto> SUint d)) m fs =
      foldl (\<lambda>m (k, n). m(k := Some (SUint n))) m (map (\<lambda>(name, key, d). (key, d)) fs)" for m fs
    by (induction fs arbitrary: m) auto
  from this[of Map.empty rendezvousFlags] show "l_default (rv_layers flags address file) key = map_option SUint (map_of rv_defaults key)"
    unfolding rv_layers_def layers.simps rv_defaults_def[symmetric]
    by (simp add: foldl_upd[OF rv_tables(3)] split: option.splits)
qed (simp_all add: rv_layers_def)

lemma rv_layers_uint:
  assumes "dom address \<subseteq> {''http.ip'', ''http.port''}" "(name, key, d) \<in> set rendezvousFlags" "flags name \<noteq> None"
  shows "layered (rv_layers flags address file) key = Some (effective flags file name key (SUint d))"
proof -
  from rv_tables(4) assms(2) have k: "map_of rv_bindings key = Some name" "map_of rv_defaults key = Some d"
      "key \<notin> {''http.ip'', ''http.port''}" by blast+
  with assms(1) have "address key = None" by blast
  with assms(3) k(1,2) show ?thesis
    by (auto simp: layered_def rv_layers_sel effective_def given_def split: option.splits)
qed

lemma rv_layers_text:
  assumes "dom address \<subseteq> {''http.ip'', ''http.port''}" "(key, name) \<in> set root_bindings"
    "parsed flags defs" "(name, d) \<in> set defs"
  shows "layered (rv_layers flags address file) key = Some (effective flags file name key d)"
proof -
  from assms(3,4) obtain f where f: "flags name = Some f" "\<not> flag_Changed f \<longrightarrow> flag_Value f = d"
    by (fastforce simp: parsed_def split: option.splits)
  from rv_tables(5) assms(2) have k: "map_of rv_bindings key = None" "map_of rv_defaults key = None"
      "map_of root_bindings key = Some name" "key \<notin> {''http.ip'', ''http.port''}" by blast+
  with assms(1) have "address key = None" by blast
  with f k(1,2,3) show ?thesis
    by (auto simp: layered_def rv_layers_sel effective_def given_def split: option.splits)
qed

lemma rv_layers_address:
  assumes "key \<in> {''http.ip'', ''http.port''}"
  shows "layered (rv_layers flags address file) key = (case address key of Some x \<Rightarrow> Some x | None \<Rightarrow> file key)"
proof -
  from bspec[OF rv_tables(6) assms] have "map_of rv_bindings key = None" "map_of rv_defaults key = None"
    "map_of root_bindings key = None" by simp_all
  then show ?thesis by (cases "file key") (auto simp: layered_def rv_layers_sel split: option.splits)
qed

lemma rendezvous_RunE_Inr:
  assumes "result E (rendezvous_RunE decode serve st) db = Inr (cfg, r)"
  shows "decode st = Inr cfg" "RendezvousServerConfig_validate cfg = Inr ()" "result E (serve cfg) db = r"
    "after E (rendezvous_RunE decode serve st) db = after E (serve cfg) db"
proof -
  obtain cfg' where d: "decode st = Inr cfg'" using assms by (cases "decode st") (auto simp: rendezvous_RunE_def)
  obtain u where v: "RendezvousServerConfig_validate cfg' = Inr u"
    using assms d by (cases "RendezvousServerConfig_validate cfg'") (auto simp: rendezvous_RunE_def)
  from assms d v have "cfg' = cfg" "result E (serve cfg) db = r"
    by (auto simp: rendezvous_RunE_def run_bindP split_beta)
  with d v show "decode st = Inr cfg" "RendezvousServerConfig_validate cfg = Inr ()" "result E (serve cfg) db = r"
    "after E (rendezvous_RunE decode serve st) db = after E (serve cfg) db"
    by (simp_all add: rendezvous_RunE_def run_bindP split_beta)
qed

lemma rv_reads_uint:
  "rv_reads get cfg \<Longrightarrow> (key, field) \<in> set rv_fields \<Longrightarrow> get key = Some x \<Longrightarrow> field_uint (Some x) (field cfg)"
  by (auto simp: rv_reads_def)

lemma rv_reads_text:
  "rv_reads get cfg \<Longrightarrow> (key, field) \<in> set common_fields \<Longrightarrow> get key = Some x \<Longrightarrow> field_text (Some x) (field cfg)"
  by (auto simp: rv_reads_def)

text \<open>
  C5. Each setting the rendezvous server runs with is the one of its flag if that was given, else the
  one of the configuration file, else the default; the address is that of the argument.
\<close>

theorem rendezvous_settings:
  assumes V: "viper_engine V view" and start: "view s0 = no_layers" "program_init V flags s0 = Some s"
    and flags: "parsed flags (root_flags @ fst (rendezvousCmdInit V s0))"
    and pre: "snd (PersistentPreRunE V ''rendezvous'' flags args lv s) = Inr s1"
    and decode: "\<forall>st cfg. decode st = Inr cfg \<longrightarrow> rv_reads (v_Get V st) cfg"
    and ok: "result E (run_command V ''rendezvous'' (rendezvous_PreRunE V flags) (rendezvous_RunE decode serve) flags args lv s) db
      = Inr (cfg, r)"
  defines "from \<equiv> effective flags (l_config (view s1))"
  shows "field_uint (Some (from ''to0-min-wait'' ''rendezvous.to0_min_wait'' (SUint 0))) (cfg_MinWaitSecs (r_Rendezvous cfg)) \<and>
    field_uint (Some (from ''to0-max-wait'' ''rendezvous.to0_max_wait'' (SUint 86400))) (cfg_MaxWaitSecs (r_Rendezvous cfg)) \<and>
    field_uint (Some (from ''cleanup-interval'' ''rendezvous.cleanup_interval'' (SUint 3600))) (cfg_CleanupIntervalSecs (r_Rendezvous cfg)) \<and>
    field_uint (Some (from ''session-timeout'' ''rendezvous.session_timeout'' (SUint 3600))) (cfg_SessionMaxAgeSecs (r_Rendezvous cfg)) \<and>
    field_uint (Some (from ''initial-cleanup-delay'' ''rendezvous.initial_cleanup_delay'' (SUint 300)))
      (cfg_InitialCleanupDelaySecs (r_Rendezvous cfg)) \<and>
    field_text (Some (from ''log-level'' ''log.level'' (SText ''info''))) (LogLevel cfg) \<and>
    field_text (Some (from ''db-type'' ''db.type'' (SText ''sqlite''))) (db_Type (DB_config cfg)) \<and>
    field_text (Some (from ''db-dsn'' ''db.dsn'' (SText []))) (DSN (DB_config cfg)) \<and>
    field_text (Some (from ''http-cert'' ''http.cert'' (SText []))) (http_CertPath (HTTP cfg)) \<and>
    field_text (Some (from ''http-key'' ''http.key'' (SText []))) (http_KeyPath (HTTP cfg)) \<and>
    (case args of
       arg # _ \<Rightarrow> parseHTTPAddress arg = Inr (IP (HTTP cfg), Port (HTTP cfg))
     | [] \<Rightarrow> field_text (l_config (view s1) ''http.ip'') (IP (HTTP cfg)) \<and>
         field_text (l_config (view s1) ''http.port'') (Port (HTTP cfg)))"
proof -
  obtain s2 where s2: "rendezvous_PreRunE V flags s1 = Inr s2" and
    run: "result E (rendezvous_RunE decode serve s2) db = Inr (cfg, r)"
    using ok pre by (cases "rendezvous_PreRunE V flags s1") (auto simp: run_command_def)
  obtain address where v: "view s2 = rv_layers flags address (l_config (view s1))"
    and a: "case args of [] \<Rightarrow> address = Map.empty
      | arg # _ \<Rightarrow> \<exists>ip port. parseHTTPAddress arg = Inr (ip, port) \<and>
          address = [''http.ip'' \<mapsto> SText ip, ''http.port'' \<mapsto> SText port]"
    using rv_command_view[OF V start pre s2] by blast
  have g: "v_Get V s2 k = layered (rv_layers flags address (l_config (view s1))) k" for k
    by (simp add: viper_simps[OF V] v)
  have reads: "rv_reads (v_Get V s2) cfg" using rendezvous_RunE_Inr(1)[OF run] decode by blast
  have dom: "dom address \<subseteq> {''http.ip'', ''http.port''}" using a by (auto split: list.splits if_splits)
  have u: "field_uint (Some (from name key (SUint d))) (field cfg)"
    if "(name, key, d) \<in> set rendezvousFlags" "(key, field) \<in> set rv_fields" for name key d field
  proof (rule rv_reads_uint[OF reads that(2)])
    have "(name, SUint d) \<in> set (root_flags @ fst (rendezvousCmdInit V s0))"
      using that(1) by (force simp: rendezvousCmdInit_def)
    with flags have "flags name \<noteq> None" by (auto simp: parsed_def split: option.splits)
    from rv_layers_uint[where flags = flags, OF dom that(1) this] show "v_Get V s2 key = Some (from name key (SUint d))"
      unfolding g from_def .
  qed
  have t: "field_text (Some (from name key d)) (field cfg)"
    if "(key, name) \<in> set root_bindings" "(name, d) \<in> set root_flags" "(key, field) \<in> set common_fields" for name key d field
  proof (rule rv_reads_text[OF reads that(3)])
    from rv_layers_text[OF dom that(1) flags] that(2) show "v_Get V s2 key = Some (from name key d)"
      unfolding g from_def by simp
  qed
  have ad: "field_text (case address ''http.ip'' of Some x \<Rightarrow> Some x | None \<Rightarrow> l_config (view s1) ''http.ip'') (IP (HTTP cfg))"
    "field_text (case address ''http.port'' of Some x \<Rightarrow> Some x | None \<Rightarrow> l_config (view s1) ''http.port'') (Port (HTTP cfg))"
    using reads by (simp_all add: rv_reads_def common_fields_def g rv_layers_address)
  then have "case args of arg # _ \<Rightarrow> parseHTTPAddress arg = Inr (IP (HTTP cfg), Port (HTTP cfg))
     | [] \<Rightarrow> field_text (l_config (view s1) ''http.ip'') (IP (HTTP cfg)) \<and>
         field_text (l_config (view s1) ''http.port'') (Port (HTTP cfg))"
    using a by (auto split: list.splits)
  then show ?thesis
    by (intro conjI u t) (simp_all add: rendezvousFlags_def rv_fields_def root_bindings_def root_flags_def common_fields_def
        default_rendezvous_config_def)
qed

text \<open>A configuration file, a flag that was given and an address.\<close>

definition ex_viper :: "layers viper" where
  "ex_viper = \<lparr>v_Set = (\<lambda>k x s. s\<lparr>l_override := (l_override s)(k \<mapsto> x)\<rparr>),
     v_SetDefault = (\<lambda>k x s. s\<lparr>l_default := (l_default s)(k \<mapsto> x)\<rparr>),
     v_BindPFlag = (\<lambda>k fl s. case fl of None \<Rightarrow> Inl (ErrExt ''viper'') | Some f \<Rightarrow> Inr (s\<lparr>l_flags := (l_flags s)(k \<mapsto> f)\<rparr>)),
     v_SetConfigFile = (\<lambda>p s. s), v_SetConfigName = (\<lambda>p s. s), v_AddConfigPath = (\<lambda>p s. s),
     v_ReadInConfig = (\<lambda>s. Inr (s\<lparr>l_config := [''rendezvous.to0_min_wait'' \<mapsto> SUint 5, ''rendezvous.session_timeout'' \<mapsto> SUint 60,
        ''db.dsn'' \<mapsto> SText ''rv.db'']\<rparr>)),
     v_GetString = (\<lambda>s k. case layered s k of Some (SText x) \<Rightarrow> x | _ \<Rightarrow> []), v_Get = layered\<rparr>"

lemma ex_viper_engine: "viper_engine ex_viper (\<lambda>s. s)"
  by (auto simp: viper_engine_def ex_viper_def)

definition ex_flags :: flag_set where
  "ex_flags = map_of (map (\<lambda>(n, d). (n, if n = ''to0-min-wait'' then \<lparr>flag_Changed = True, flag_Value = SUint 9\<rparr>
     else \<lparr>flag_Changed = False, flag_Value = d\<rparr>)) (root_flags @ map (\<lambda>(n, k, d). (n, SUint d)) rendezvousFlags))"

fun as_uint :: "setting option \<Rightarrow> 32 word" where
  "as_uint (Some (SUint w)) = w"
| "as_uint _ = 0"

fun as_text :: "setting option \<Rightarrow> string" where
  "as_text (Some (SText s)) = s"
| "as_text _ = []"

definition ex_decode :: "layers \<Rightarrow> RendezvousServerConfig result" where
  "ex_decode st = (let u = (\<lambda>k. as_uint (layered st k)); t = (\<lambda>k. as_text (layered st k)) in
     Inr \<lparr>LogLevel = t ''log.level'', DB_config = \<lparr>db_Type = t ''db.type'', DSN = t ''db.dsn''\<rparr>,
       HTTP = \<lparr>http_CertPath = t ''http.cert'', http_KeyPath = t ''http.key'', IP = t ''http.ip'', Port = t ''http.port''\<rparr>,
       r_Rendezvous = \<lparr>cfg_MinWaitSecs = u ''rendezvous.to0_min_wait'', cfg_MaxWaitSecs = u ''rendezvous.to0_max_wait'',
         cfg_CleanupIntervalSecs = u ''rendezvous.cleanup_interval'', cfg_SessionMaxAgeSecs = u ''rendezvous.session_timeout'',
         cfg_InitialCleanupDelaySecs = u ''rendezvous.initial_cleanup_delay''\<rparr>\<rparr>)"

lemma ex_decode_reads: "\<forall>st cfg. ex_decode st = Inr cfg \<longrightarrow> rv_reads (v_Get ex_viper st) cfg"
proof -
  have "field_uint x (as_uint x)" for x by (cases x rule: as_uint.cases) simp_all
  moreover have "field_text x (as_text x)" for x by (cases x rule: as_text.cases) simp_all
  ultimately show ?thesis
    by (auto simp: ex_decode_def rv_reads_def common_fields_def rv_fields_def ex_viper_def Let_def)
qed

definition ex_cfg :: RendezvousServerConfig where
  "ex_cfg = \<lparr>LogLevel = ''info'', DB_config = \<lparr>db_Type = ''sqlite'', DSN = ''rv.db''\<rparr>,
     HTTP = \<lparr>http_CertPath = [], http_KeyPath = [], IP = ''localhost'', Port = ''8041''\<rparr>,
     r_Rendezvous = default_rendezvous_config\<lparr>cfg_MinWaitSecs := 9, cfg_SessionMaxAgeSecs := 60\<rparr>\<rparr>"

lemma rendezvous_settings_witness:
  "cfg_MinWaitSecs (r_Rendezvous ex_cfg) = 9 \<and> cfg_SessionMaxAgeSecs (r_Rendezvous ex_cfg) = 60 \<and>
   cfg_MaxWaitSecs (r_Rendezvous ex_cfg) = 86400 \<and> IP (HTTP ex_cfg) = ''localhost''"
proof -
  let ?s = "the (program_init ex_viper ex_flags no_layers)"
  let ?pre = "snd (PersistentPreRunE ex_viper ''rendezvous'' ex_flags [''localhost:8041''] LevelInfo ?s)"
  have i: "program_init ex_viper ex_flags no_layers = Some ?s"
  proof -
    have "program_init ex_viper ex_flags no_layers \<noteq> None" by code_simp
    then show ?thesis by simp
  qed
  have p: "?pre = Inr (projr ?pre)"
  proof -
    have "\<not> isl ?pre" by code_simp
    then show ?thesis by (simp add: sum.collapse(2))
  qed
  have f: "parsed ex_flags (root_flags @ fst (rendezvousCmdInit ex_viper no_layers))" by code_simp
  have r: "result sql_exec (run_command ex_viper ''rendezvous'' (rendezvous_PreRunE ex_viper ex_flags)
      (rendezvous_RunE ex_decode (\<lambda>_. Ret ())) ex_flags [''localhost:8041''] LevelInfo ?s) (empty_db []) = Inr (ex_cfg, ())"
    by code_simp
  let ?from = "effective ex_flags (l_config (projr ?pre))"
  have e: "?from ''to0-min-wait'' ''rendezvous.to0_min_wait'' (SUint 0) = SUint 9"
    "?from ''to0-max-wait'' ''rendezvous.to0_max_wait'' (SUint 86400) = SUint 86400"
    "?from ''session-timeout'' ''rendezvous.session_timeout'' (SUint 3600) = SUint 60" by code_simp+
  have a: "parseHTTPAddress ''localhost:8041'' = Inr (''localhost'', ''8041'')" by code_simp
  from rendezvous_settings[OF ex_viper_engine refl i f p ex_decode_reads r] show ?thesis
    unfolding e by (simp add: a)
qed

section \<open>What a server listens with\<close>

lemma wp_Rendezvous_InitDB:
  assumes "rv_start d" "pki_ok L"
  shows "wp (InitDB L rv) (\<lambda>r d'. \<forall>rv'. r = Inr rv' \<longrightarrow> rv_inv d' \<and> MinWaitSecs rv' = MinWaitSecs rv \<and>
     MaxWaitSecs rv' = MaxWaitSecs rv \<and> set (TrustedDeviceCACertPool rv') = table_certs L d') d"
proof -
  have "wp (bindE (mapErr (Wrapf ''failed to load trusted device CA certificates'') (LoadTrustedDeviceCAs L)) (\<lambda>pool.
       retE (rv\<lparr>TrustedDeviceCACertPool := pool\<rparr>)))
     (\<lambda>r d'. \<forall>rv'. r = Inr rv' \<longrightarrow> rv_inv d' \<and> MinWaitSecs rv' = MinWaitSecs rv \<and>
     MaxWaitSecs rv' = MaxWaitSecs rv \<and> set (TrustedDeviceCACertPool rv') = table_certs L d') d1" if "rv_inv d1" for d1
    unfolding wp_bindE wp_mapErr
    by (rule wp_mono[OF wp_LoadTrustedDeviceCAs[OF assms(2)]]) (use that in \<open>auto simp: wp_simps split: sum.splits\<close>)
  then show ?thesis
    unfolding InitDB_def by (intro wp_bindE_rule[OF wp_InitRendezvousDB[OF assms(1)]]) auto
qed

definition rv_serving_ok :: "pki \<Rightarrow> RendezvousServerConfig \<Rightarrow> rv_handler rv_server_run \<Rightarrow> sqldb \<Rightarrow> bool" where
  "rv_serving_ok L cfg r d \<longleftrightarrow> served_as (HTTP cfg) (run_serving r) \<and> (case served_handler (run_serving r) of
     None \<Rightarrow> isl (run_result r)
   | Some h \<Rightarrow> rv_inv d \<and> MinWaitSecs (h_State h) = cfg_MinWaitSecs (r_Rendezvous cfg) \<and>
       MaxWaitSecs (h_State h) = cfg_MaxWaitSecs (r_Rendezvous cfg) \<and>
       set (TrustedDeviceCACertPool (h_State h)) = table_certs L d)"

lemma wp_serveRendezvous:
  assumes "rv_start d" "pki_ok L"
  shows "wp (serveRendezvous D N L fdo version tm negotiate B cfg) (rv_serving_ok L cfg) d"
proof -
  have f: "rv_serving_ok L cfg \<lparr>run_serving = NotListening, run_cleanup = c, run_result = Inl e\<rparr> d'" for c e d'
    by (simp add: rv_serving_ok_def)
  have s: "rv_serving_ok L cfg \<lparr>run_serving = fst (RendezvousServer_Start N (HTTP cfg) h), run_cleanup = c,
      run_result = snd (RendezvousServer_Start N (HTTP cfg) h)\<rparr> d'"
    if "rv_inv d'" "MinWaitSecs (h_State h) = cfg_MinWaitSecs (r_Rendezvous cfg)"
      "MaxWaitSecs (h_State h) = cfg_MaxWaitSecs (r_Rendezvous cfg)"
      "set (TrustedDeviceCACertPool (h_State h)) = table_certs L d'" for h c d'
    using that Start_served[where cfg = "HTTP cfg" and N = N and h = h] by (auto simp: rv_serving_ok_def split: option.splits)
  show ?thesis
    unfolding serveRendezvous_def tryE_def
    by (auto simp: rv_failed_def f wp_bindP Let_def NewRendezvous_def split: sum.splits
        intro!: wp_mono[OF wp_Rendezvous_InitDB[OF assms]] s)
qed

text \<open>
  C6. The rendezvous command changes nothing before the configuration is validated. A server that
  listens does so on the address of the configuration, with TLS exactly as it asks, after the
  database was prepared, with the limits of the configuration, which are in order, and with the
  pool of the certificates stored; one that does not listen ends with an error.
\<close>

theorem rendezvous_serves:
  assumes "gorm_engine E view" "rv_start (view db)" "pki_ok L"
    and "run E (rendezvous_RunE decode (serveRendezvous D N L fdo version tm negotiate B) st) db = (x, db')"
  shows "case x of Inl e \<Rightarrow> db' = db
    | Inr (cfg, r) \<Rightarrow> decode st = Inr cfg \<and> HTTPConfig_validate (HTTP cfg) = Inr () \<and>
        cfg_MinWaitSecs (r_Rendezvous cfg) \<le> cfg_MaxWaitSecs (r_Rendezvous cfg) \<and>
        served_as (HTTP cfg) (run_serving r) \<and>
        (case served_handler (run_serving r) of
           None \<Rightarrow> isl (run_result r)
         | Some h \<Rightarrow> rv_inv (view db') \<and> MinWaitSecs (h_State h) = cfg_MinWaitSecs (r_Rendezvous cfg) \<and>
             MaxWaitSecs (h_State h) = cfg_MaxWaitSecs (r_Rendezvous cfg) \<and>
             set (TrustedDeviceCACertPool (h_State h)) = table_certs L (view db'))"
proof (cases x)
  case (Inl e)
  then show ?thesis
    using assms(4) by (auto simp: rendezvous_RunE_def run_bindP split_beta split: sum.splits)
next
  case (Inr p)
  obtain cfg r where p: "p = (cfg, r)" by fastforce
  with Inr assms(4) have "result E (rendezvous_RunE decode (serveRendezvous D N L fdo version tm negotiate B) st) db = Inr (cfg, r)"
    by simp
  note run = rendezvous_RunE_Inr[OF this]
  have "rv_serving_ok L cfg r (view db')"
    using gorm_engine.wp_result[OF assms(1) wp_serveRendezvous[OF assms(2,3)]] run(3,4) assms(4) by (metis snd_conv)
  moreover have "HTTPConfig_validate (HTTP cfg) = Inr ()" "cfg_MinWaitSecs (r_Rendezvous cfg) \<le> cfg_MaxWaitSecs (r_Rendezvous cfg)"
    using run(2) by (cases "HTTPConfig_validate (HTTP cfg)";
        auto simp: RendezvousServerConfig_validate_def RendezvousConfig_validate_def split: if_splits)+
  ultimately show ?thesis using Inr p run(1) by (simp add: rv_serving_ok_def)
qed

text \<open>The first certificate of a file, and what the two other servers load.\<close>

definition cert_of_file :: "key_parsers \<Rightarrow> pki \<Rightarrow> string \<Rightarrow> x509_cert \<Rightarrow> bool" where
  "cert_of_file P L path cert \<longleftrightarrow> (case ReadFile P path of
     Inl e \<Rightarrow> False
   | Inr b \<Rightarrow> (case pem_Decode L b of None \<Rightarrow> False | Some (ty, content, rest) \<Rightarrow> x509_ParseCertificate L content = Some cert))"

lemma pbind_eq:
  "pbind m k = Some (Inr y) \<longleftrightarrow> (\<exists>x. m = Some (Inr x) \<and> k x = Some (Inr y))"
  "pbind m k = None \<longleftrightarrow> m = None \<or> (\<exists>x. m = Some (Inr x) \<and> k x = None)"
  by (auto simp: pbind_def split: option.splits sum.splits)

lemma of_opt_eq: "of_opt e x = Inr y \<longleftrightarrow> x = Some y"
  by (cases x) (auto simp: of_opt_def)

lemma owner_state_loaded:
  assumes "getOwnerServerState initDb P L cfg = Some (Inr st)"
  shows "parsePrivateKey P (OwnerPrivateKey (o_Owner cfg)) = Some (Inr (ownerKey st))"
    "getPrivateKeyType (ownerKey st) = Inr (ownerKeyType st)"
    "\<exists>cert. cert_of_file P L (ca_CertPath (o_DeviceCA cfg)) cert \<and> cert_chain st = [cert]"
  using assms
  by (auto simp: getOwnerServerState_def pbind_eq parse_cert_def of_opt_eq cert_of_file_def split: option.splits prod.splits)

lemma owner_state_panics:
  "getOwnerServerState initDb P L cfg = None \<Longrightarrow> parsePrivateKey P (OwnerPrivateKey (o_Owner cfg)) = None"
  by (auto simp: getOwnerServerState_def pbind_eq parse_cert_def split: option.splits prod.splits)

lemma key_type_signer: "getPrivateKeyType key = Inr t \<Longrightarrow> \<exists>pub. signer_Public key = Some pub"
  by (cases key) (auto simp: getPrivateKeyType_def)

lemma mfg_state_loaded:
  assumes "load_manufacturing initDb P L cfg = Some (Inr m)"
  shows "parsePrivateKey P (ManufacturerKeyPath cfg) = Some (Inr (MfgKey m))"
    "parsePrivateKey P (ca_KeyPath (m_DeviceCA cfg)) = Some (Inr (DeviceKey m))"
    "\<exists>cert. cert_of_file P L (ca_CertPath (m_DeviceCA cfg)) cert \<and> DeviceCAChain m = [cert]"
    "cert_of_file P L (OwnerCertificate (m_Owner cfg)) (OwnerCert m)"
  using assms
  by (auto simp: load_manufacturing_def pbind_eq parse_cert_def of_opt_eq cert_of_file_def split: option.splits prod.splits)

lemma mfg_state_panics:
  "load_manufacturing initDb P L cfg = None \<Longrightarrow>
     None \<in> {parsePrivateKey P (ManufacturerKeyPath cfg), parsePrivateKey P (ca_KeyPath (m_DeviceCA cfg))} \<or>
     (\<exists>b. ReadFile P (ca_CertPath (m_DeviceCA cfg)) = Inr b \<and> pem_Decode L b = None)"
  by (auto simp: load_manufacturing_def pbind_eq parse_cert_def split: option.splits prod.splits)

lemma manufacturing_RunE_Inr:
  assumes "result E (manufacturing_RunE env decode serve st) db = Inr (cfg, r)"
  shows "decode st = Inr cfg \<and> ManufacturingServerConfig_validate env cfg = Inr () \<and> result E (serve cfg) db = r"
  using assms
  by (cases "decode st"; simp add: manufacturing_RunE_def)
     (auto simp: run_bindP split_beta split: sum.splits)

lemma owner_RunE_Inr:
  assumes "result E (owner_RunE env M decode serve st) db = Inr (cfg, r)"
  shows "(\<exists>raw. decode st = Inr raw \<and> OwnerServerConfig_validate env M raw = (cfg, Inr ())) \<and> result E (serve cfg) db = r"
  using assms
  by (cases "decode st"; simp add: owner_RunE_def)
     (auto simp: run_bindP split_beta prod_eq_iff split: sum.splits)

definition mfg_serving_ok :: "key_parsers \<Rightarrow> pki \<Rightarrow> 'raw ManufacturingServerConfig \<Rightarrow>
    ('db manufacturing \<times> 'm) serving \<Rightarrow> unit result \<Rightarrow> bool" where
  "mfg_serving_ok P L cfg w r \<longleftrightarrow> served_as (HTTP cfg) w \<and> (case served_handler w of
     None \<Rightarrow> isl r
   | Some (m, h) \<Rightarrow> parsePrivateKey P (ManufacturerKeyPath cfg) = Some (Inr (MfgKey m)) \<and>
       parsePrivateKey P (ca_KeyPath (m_DeviceCA cfg)) = Some (Inr (DeviceKey m)) \<and>
       (case DeviceCAChain m of [cert] \<Rightarrow> cert_of_file P L (ca_CertPath (m_DeviceCA cfg)) cert | _ \<Rightarrow> False) \<and>
       cert_of_file P L (OwnerCertificate (m_Owner cfg)) (OwnerCert m))"

lemma mfg_Start_ok:
  assumes "load_manufacturing initDb P L cfg = Some (Inr m)"
  shows "mfg_serving_ok P L cfg (fst (ManufacturingServer_Start N (HTTP cfg) (m, h)))
     (snd (ManufacturingServer_Start N (HTTP cfg) (m, h)))"
  using mfg_state_loaded[OF assms] Start_served[where cfg = "HTTP cfg" and N = N and h = "(m, h)"]
  by (auto simp: mfg_serving_ok_def Start_defs split: option.splits)

lemma serveManufacturing_ok:
  "case result E (serveManufacturing initDb P L N fdo version oob K C J tm cfg) db of
     None \<Rightarrow> load_manufacturing initDb P L cfg = None
   | Some (w, r) \<Rightarrow> mfg_serving_ok P L cfg w r"
proof (cases "load_manufacturing initDb P L cfg")
  case (Some x)
  have f: "mfg_serving_ok P L cfg NotListening (Inl e)" for e by (simp add: mfg_serving_ok_def)
  show ?thesis
  proof (cases x)
    case (Inr m)
    with Some show ?thesis
      using mfg_Start_ok[of initDb P L cfg m N]
      by (auto simp: serveManufacturing_def tryE_def run_bindP split_beta f split: sum.splits)
  qed (use Some f in \<open>simp add: serveManufacturing_def\<close>)
qed (simp add: serveManufacturing_def)

text \<open>
  C22. The manufacturing command: a server that listens has a validated configuration, listens as it
  asks, and signs with the keys and certificates of the files it names; one that does not listen ends
  with an error. It panics on a key that does not sign, or a device CA certificate not in PEM, only.
\<close>

theorem manufacturing_serves:
  assumes "result E (manufacturing_RunE env decode (serveManufacturing initDb P L N fdo version oob K C J tm) st) db = Inr (cfg, x)"
  shows "decode st = Inr cfg \<and> ManufacturingServerConfig_validate env cfg = Inr () \<and>
    (case x of
       None \<Rightarrow> None \<in> {parsePrivateKey P (ManufacturerKeyPath cfg), parsePrivateKey P (ca_KeyPath (m_DeviceCA cfg))} \<or>
         (\<exists>b. ReadFile P (ca_CertPath (m_DeviceCA cfg)) = Inr b \<and> pem_Decode L b = None)
     | Some (w, r) \<Rightarrow> served_as (HTTP cfg) w \<and> (case served_handler w of
         None \<Rightarrow> isl r
       | Some (m, h) \<Rightarrow> parsePrivateKey P (ManufacturerKeyPath cfg) = Some (Inr (MfgKey m)) \<and>
           parsePrivateKey P (ca_KeyPath (m_DeviceCA cfg)) = Some (Inr (DeviceKey m)) \<and>
           (case DeviceCAChain m of [cert] \<Rightarrow> cert_of_file P L (ca_CertPath (m_DeviceCA cfg)) cert | _ \<Rightarrow> False) \<and>
           cert_of_file P L (OwnerCertificate (m_Owner cfg)) (OwnerCert m)))"
proof -
  note run = manufacturing_RunE_Inr[OF assms]
  then have r: "result E (serveManufacturing initDb P L N fdo version oob K C J tm cfg) db = x" by blast
  have ok: "case x of None \<Rightarrow> load_manufacturing initDb P L cfg = None | Some (w, r) \<Rightarrow> mfg_serving_ok P L cfg w r"
    unfolding r[symmetric] by (rule serveManufacturing_ok)
  show ?thesis
  proof (cases x)
    case None
    with ok have "load_manufacturing initDb P L cfg = None" by simp
    from mfg_state_panics[OF this] None run show ?thesis by auto
  next
    case (Some p)
    with ok run show ?thesis by (cases p) (simp add: mfg_serving_ok_def)
  qed
qed

definition owner_serving_ok :: "key_parsers \<Rightarrow> pki \<Rightarrow> public_key voucher_lib \<Rightarrow> 'raw OwnerServerConfig \<Rightarrow>
    'db owner_handler serving \<Rightarrow> unit result \<Rightarrow> bool" where
  "owner_serving_ok P L V cfg w r \<longleftrightarrow> served_as (HTTP cfg) w \<and> (case served_handler w of
     None \<Rightarrow> isl r
   | Some h \<Rightarrow> parsePrivateKey P (OwnerPrivateKey (o_Owner cfg)) = Some (Inr (ownerKey (oh_State h))) \<and>
       getPrivateKeyType (ownerKey (oh_State h)) = Inr (ownerKeyType (oh_State h)) \<and>
       (case cert_chain (oh_State h) of [cert] \<Rightarrow> cert_of_file P L (ca_CertPath (o_DeviceCA cfg)) cert | _ \<Rightarrow> False) \<and>
       (\<exists>pub. signer_Public (ownerKey (oh_State h)) = Some pub \<and>
          to2_VerifyVoucher (oh_TO2 h) = (\<lambda>ov. VerifyVoucher V ov [pub])))"

lemma owner_Start_ok:
  assumes "getOwnerServerState initDb P L cfg = Some (Inr st)" "signer_Public (ownerKey st) = Some pub"
    "oh_State h = st" "oh_TO2 h = to2Server V pub cfg"
  shows "owner_serving_ok P L V cfg (fst (OwnerServer_Start N (HTTP cfg) h)) (snd (OwnerServer_Start N (HTTP cfg) h))"
  using owner_state_loaded[OF assms(1)] assms(2-4) Start_served[where cfg = "HTTP cfg" and N = N and h = h]
  by (auto simp: owner_serving_ok_def Start_defs to2Server_def split: option.splits)

lemma serveOwner_ok:
  "case result E (serveOwner initDb P L TL N fdo version V C J tm parse resell cfg) db of
     None \<Rightarrow> getOwnerServerState initDb P L cfg = None
   | Some (w, r) \<Rightarrow> owner_serving_ok P L V cfg w r"
proof (cases "getOwnerServerState initDb P L cfg")
  case (Some x)
  have f: "owner_serving_ok P L V cfg NotListening (Inl e)" for e by (simp add: owner_serving_ok_def)
  show ?thesis
  proof (cases x)
    case (Inr st)
    with Some have st: "getOwnerServerState initDb P L cfg = Some (Inr st)" by simp
    obtain pub where pub: "signer_Public (ownerKey st) = Some pub"
      using key_type_signer[OF owner_state_loaded(2)[OF st]] by blast
    from owner_Start_ok[OF st pub] show ?thesis
      by (auto simp: serveOwner_def st pub tryE_def run_bindP split_beta Let_def f split: sum.splits)
  qed (use Some f in \<open>simp add: serveOwner_def\<close>)
qed (simp add: serveOwner_def)

text \<open>
  C20. The owner command: a server that listens has a validated configuration, listens as it asks, and
  holds the key and device CA of the files it names; TO2 accepts vouchers of that key only. One that
  does not listen ends with an error, and the only panic is a private key that does not sign.
\<close>

theorem owner_serves:
  assumes "result E (owner_RunE env M decode (serveOwner initDb P L TL N fdo version V C J tm parse resell) st) db = Inr (cfg, x)"
  shows "(\<exists>raw. decode st = Inr raw \<and> OwnerServerConfig_validate env M raw = (cfg, Inr ())) \<and>
    (case x of
       None \<Rightarrow> parsePrivateKey P (OwnerPrivateKey (o_Owner cfg)) = None
     | Some (w, r) \<Rightarrow> served_as (HTTP cfg) w \<and> (case served_handler w of
         None \<Rightarrow> isl r
       | Some h \<Rightarrow> parsePrivateKey P (OwnerPrivateKey (o_Owner cfg)) = Some (Inr (ownerKey (oh_State h))) \<and>
           getPrivateKeyType (ownerKey (oh_State h)) = Inr (ownerKeyType (oh_State h)) \<and>
           (case cert_chain (oh_State h) of [cert] \<Rightarrow> cert_of_file P L (ca_CertPath (o_DeviceCA cfg)) cert | _ \<Rightarrow> False) \<and>
           (\<exists>pub. signer_Public (ownerKey (oh_State h)) = Some pub \<and>
              to2_VerifyVoucher (oh_TO2 h) = (\<lambda>ov. VerifyVoucher V ov [pub]))))"
proof -
  note run = owner_RunE_Inr[OF assms]
  then have r: "result E (serveOwner initDb P L TL N fdo version V C J tm parse resell cfg) db = x" by blast
  have ok: "case x of None \<Rightarrow> getOwnerServerState initDb P L cfg = None | Some (w, r) \<Rightarrow> owner_serving_ok P L V cfg w r"
    unfolding r[symmetric] by (rule serveOwner_ok)
  show ?thesis
  proof (cases x)
    case None
    with ok have "getOwnerServerState initDb P L cfg = None" by simp
    from owner_state_panics[OF this] None run show ?thesis by simp
  next
    case (Some p)
    with ok run show ?thesis by (cases p) (simp add: owner_serving_ok_def)
  qed
qed

section \<open>Concrete servers\<close>

definition ex_net :: "'h net_env" where
  "ex_net = \<lparr>net_Listen = (\<lambda>addr. if addr = ''localhost:8041'' then Inr () else Inl (ErrExt ''listen'')),
     net_Serve = (\<lambda>addr h. Some ErrServerClosed), net_ServeTLS = (\<lambda>addr h conf cert key. None)\<rparr>"

definition ex_driver :: "unit driver" where
  "ex_driver = \<lparr>gorm_Open = (\<lambda>dialect dsn. Inr ()), db_Handle = (\<lambda>_. Inr ()), db_Pragma = (\<lambda>d. d)\<rparr>"

abbreviation ex_serve_rv :: "RendezvousServerConfig \<Rightarrow> rv_handler rv_server_run prog" where
  "ex_serve_rv \<equiv> serveRendezvous ex_driver ex_net ex_pki (\<lambda>rv r pool. Ret None) ''1'' (\<lambda>_. []) (\<lambda>_. None) ex_bind"

lemma rendezvous_serves_witness:
  "\<exists>r db'. run sql_exec (rendezvous_RunE (\<lambda>u. Inr ex_cfg) ex_serve_rv ()) (empty_db []) = (Inr (ex_cfg, r), db') \<and>
     served_on (run_serving r) = Some ''localhost:8041'' \<and> rv_inv db'"
proof -
  obtain r db' where run: "run sql_exec (rendezvous_RunE (\<lambda>u. Inr ex_cfg) ex_serve_rv ()) (empty_db []) = (Inr (ex_cfg, r), db')"
    and on: "served_on (run_serving r) = Some ''localhost:8041''" "served_handler (run_serving r) \<noteq> None"
  proof -
    have v: "RendezvousServerConfig_validate ex_cfg = Inr ()" "getDB ex_driver (DB_config ex_cfg) = Inr ()" by code_simp+
    have i: "result sql_exec (InitDB ex_pki (NewRendezvous (cfg_MinWaitSecs (r_Rendezvous ex_cfg))
        (cfg_MaxWaitSecs (r_Rendezvous ex_cfg)))) (empty_db []) = Inr (NewRendezvous 9 86400)" by code_simp
    have l: "net_Listen ex_net ''localhost:8041'' = Inr ()" "ListenAddress (HTTP ex_cfg) = ''localhost:8041''"
      "\<not> UseTLS (HTTP ex_cfg)" by code_simp+
    show ?thesis
      by (rule that) (auto simp: rendezvous_RunE_def v serveRendezvous_def tryE_def run_bindP split_beta i Let_def
          RendezvousServer_Start_def l)
  qed
  from rendezvous_serves[OF ex_ok(5) ex_rv_start ex_pki_ok run] have "rv_inv db'"
    using on(2) by (auto split: option.splits)
  with run on(1) show ?thesis by blast
qed

text \<open>Keys and certificates in files; the manufacturing server with TLS.\<close>

definition ex_files :: os_env where
  "ex_files = ex_env\<lparr>os_Stat := (\<lambda>_. Inr False)\<rparr>"

definition ex_parsers :: key_parsers where
  "ex_parsers = \<lparr>ReadFile = (\<lambda>p. Inr (if p \<in> {''ca.crt'', ''owner.crt''} then pem_Encode ex_pki ''CERTIFICATE'' (take 1 p) else p)),
     ParsePKCS8 = (\<lambda>b. Inr (if b = ''mfg.key'' then ECDSAPrivate 256 else RSAPrivate 2048)),
     ParseEC = (\<lambda>_. Inl (ErrExt ''x509'')), ParsePKCS1 = (\<lambda>_. Inl (ErrExt ''x509''))\<rparr>"

definition ex_owner_settings :: "ex_raw OwnerConfig" where
  "ex_owner_settings = \<lparr>OwnerCertificate = ''owner.crt'', OwnerPrivateKey = ''owner.key'', ReuseCred = False,
     TO0InsecureTLS = False, SI = \<lparr>Defaults = [], Fsims = []\<rparr>\<rparr>"

definition ex_mfg_cfg :: "ex_raw ManufacturingServerConfig" where
  "ex_mfg_cfg = \<lparr>LogLevel = [], DB_config = \<lparr>db_Type = ''SQLite'', DSN = ''mfg.db''\<rparr>,
     HTTP = \<lparr>http_CertPath = ''tls.crt'', http_KeyPath = ''tls.key'', IP = ''localhost'', Port = ''8041''\<rparr>,
     m_DeviceCA = \<lparr>ca_CertPath = ''ca.crt'', ca_KeyPath = ''ca.key''\<rparr>, ManufacturerKeyPath = ''mfg.key'',
     m_Owner = ex_owner_settings\<rparr>"

definition ex_owner_cfg :: "ex_raw OwnerServerConfig" where
  "ex_owner_cfg = \<lparr>LogLevel = [], DB_config = \<lparr>db_Type = ''postgres'', DSN = ''owner''\<rparr>,
     HTTP = \<lparr>http_CertPath = [], http_KeyPath = [], IP = ''localhost'', Port = ''8041''\<rparr>,
     o_DeviceCA = \<lparr>ca_CertPath = ''ca.crt'', ca_KeyPath = []\<rparr>, o_Owner = ex_owner_settings\<rparr>"

abbreviation ex_serve_mfg where
  "ex_serve_mfg \<equiv> serveManufacturing (\<lambda>dialect dsn. Inr ()) ex_parsers ex_pki ex_net (\<lambda>m r s. Ret None) ''1'' (\<lambda>_ _. 0)
     ex_consts ex_codec ex_json (\<lambda>_. [])"

lemma manufacturing_serves_witness:
  "\<exists>w r. result sql_exec (manufacturing_RunE ex_files (\<lambda>u. Inr ex_mfg_cfg) ex_serve_mfg ()) (empty_db []) =
     Inr (ex_mfg_cfg, Some (w, r)) \<and> served_on w = Some ''localhost:8041'' \<and>
     map_option (\<lambda>(m, h). (MfgKey m, OwnerCert m)) (served_handler w) = Some (ECDSAPrivate 256, ex_cert ''o'')"
proof -
  obtain w r where run: "result sql_exec (manufacturing_RunE ex_files (\<lambda>u. Inr ex_mfg_cfg) ex_serve_mfg ()) (empty_db []) =
      Inr (ex_mfg_cfg, Some (w, r))"
    and on: "served_on w = Some ''localhost:8041''" "served_handler w \<noteq> None"
  proof -
    have v: "ManufacturingServerConfig_validate ex_files ex_mfg_cfg = Inr ()" by code_simp
    obtain m where m: "load_manufacturing (\<lambda>dialect dsn. Inr ()) ex_parsers ex_pki ex_mfg_cfg = Some (Inr m)"
    proof -
      have "load_manufacturing (\<lambda>dialect dsn. Inr ()) ex_parsers ex_pki ex_mfg_cfg = Some (Inr \<lparr>DBState = (),
          DeviceKey = RSAPrivate 2048, DeviceCAChain = [ex_cert ''c''], MfgKey = ECDSAPrivate 256, OwnerCert = ex_cert ''o''\<rparr>)"
        by code_simp
      then show ?thesis by (rule that)
    qed
    have i: "result sql_exec Manufacturing_InitDB (empty_db []) = Inr ()" by code_simp
    have l: "net_Listen ex_net ''localhost:8041'' = Inr ()" "ListenAddress (HTTP ex_mfg_cfg) = ''localhost:8041''"
      "UseTLS (HTTP ex_mfg_cfg)" by code_simp+
    show ?thesis
      by (rule that) (auto simp: manufacturing_RunE_def v serveManufacturing_def m tryE_def run_bindP split_beta i Let_def
          Start_defs RendezvousServer_Start_def l)
  qed
  have k: "parsePrivateKey ex_parsers (ManufacturerKeyPath ex_mfg_cfg) = Some (Inr (ECDSAPrivate 256))"
    "cert_of_file ex_parsers ex_pki (OwnerCertificate (m_Owner ex_mfg_cfg)) (ex_cert ''o'')" by code_simp+
  from k(2) have u: "cert_of_file ex_parsers ex_pki (OwnerCertificate (m_Owner ex_mfg_cfg)) x \<Longrightarrow> x = ex_cert ''o''" for x
    by (auto simp: cert_of_file_def split: sum.splits option.splits)
  from manufacturing_serves[OF run] on(2) u have "map_option (\<lambda>(m, h). (MfgKey m, OwnerCert m)) (served_handler w) =
      Some (ECDSAPrivate 256, ex_cert ''o'')"
    by (auto simp: k split: option.splits)
  with run on(1) show ?thesis by blast
qed

definition ex_pub_vlib :: "public_key voucher_lib" where
  "ex_pub_vlib = \<lparr>OwnerPublicKey = (\<lambda>ov. Inr (RSAPublic 2048)), key_Equal = (=), VerifyEntries = (\<lambda>_. None),
     VerifyCertChainHash = (\<lambda>_. None), VerifyDeviceCertChain = (\<lambda>_. None), VerifyManufacturerCertChain = (\<lambda>_. None)\<rparr>"

abbreviation ex_serve_owner where
  "ex_serve_owner \<equiv> serveOwner (\<lambda>dialect dsn. Inr ()) ex_parsers ex_pki ex_to0_lib ex_net (\<lambda>to2 r s. Ret None) ''1'' ex_pub_vlib
     ex_codec ex_json (\<lambda>_. []) (\<lambda>_. None) (\<lambda>g k. failE (ErrExt ''resell''))"

lemma owner_serves_witness:
  "\<exists>w r. result sql_exec (owner_RunE ex_files ex_mapstructure (\<lambda>u. Inr ex_owner_cfg) ex_serve_owner ()) (empty_db []) =
     Inr (ex_owner_cfg, Some (w, r)) \<and> served_on w = Some ''localhost:8041'' \<and>
     map_option (\<lambda>h. ownerKey (oh_State h)) (served_handler w) = Some (RSAPrivate 2048)"
proof -
  obtain w r where run: "result sql_exec (owner_RunE ex_files ex_mapstructure (\<lambda>u. Inr ex_owner_cfg) ex_serve_owner ())
      (empty_db []) = Inr (ex_owner_cfg, Some (w, r))"
    and on: "served_on w = Some ''localhost:8041''" "served_handler w \<noteq> None"
  proof -
    have v: "OwnerServerConfig_validate ex_files ex_mapstructure ex_owner_cfg = (ex_owner_cfg, Inr ())" by code_simp
    have st: "getOwnerServerState (\<lambda>dialect dsn. Inr ()) ex_parsers ex_pki ex_owner_cfg = Some (Inr \<lparr>os_DB = (),
        ownerKey = RSAPrivate 2048, ownerKeyType = Rsa2048RestrKeyType, cert_chain = [ex_cert ''c'']\<rparr>)" by code_simp
    have h: "result sql_exec InitHealthDB (empty_db []) = Inr ()" by code_simp
    have i: "result sql_exec (RegisterRoutes fdo version allow api) (empty_db []) = Inr (owner_mux fdo version allow api)"
      for fdo :: "unit http_handler" and version allow api
      by (simp add: RegisterRoutes_def bindE_def retE_def run_bindP split_beta h)
    have l: "net_Listen ex_net ''localhost:8041'' = Inr ()" "ListenAddress (HTTP ex_owner_cfg) = ''localhost:8041''"
      "\<not> UseTLS (HTTP ex_owner_cfg)" by code_simp+
    show ?thesis
      by (rule that) (auto simp: owner_RunE_def v serveOwner_def st tryE_def run_bindP split_beta i Let_def
          Start_defs RendezvousServer_Start_def l)
  qed
  have k: "parsePrivateKey ex_parsers (OwnerPrivateKey (o_Owner ex_owner_cfg)) = Some (Inr (RSAPrivate 2048))" by code_simp
  from owner_serves[OF run] on(2) have "map_option (\<lambda>h. ownerKey (oh_State h)) (served_handler w) = Some (RSAPrivate 2048)"
    by (auto simp: k split: option.splits)
  with run on(1) show ?thesis by blast
qed

end
