(* ===== verification/Spec2Isabelle.thy ===== *)
theory Spec2Isabelle
  imports OwnerInfo RvPool TO0Progress OwnerServer Startup CommandProperties
begin

text \<open>
  A model of \<^verbatim>\<open>go-fdo-server\<close>: the manufacturing, rendezvous and owner servers of FIDO Device
  Onboard, with the data they keep, the HTTP interfaces they offer and the parts of the protocol
  they implement themselves.

  \<^bold>\<open>The program.\<close> One binary runs one of three servers (\<^verbatim>\<open>cmd\<close>). Each reads its configuration,
  opens a SQL database through the ORM, migrates it, and serves the protocol endpoint of the FDO
  library and a management interface. The manufacturing server creates vouchers and holds the
  rendezvous information (\<^verbatim>\<open>rvinfo\<close>) they carry. The rendezvous server keeps the blobs by which
  devices find their owners, accepts the registrations of owners whose vouchers it can verify
  against a pool of trusted device CA certificates, and cleans up periodically. The owner server
  holds the vouchers, registers them with rendezvous servers in the background (TO0), and onboards
  devices (TO2), at the end of which a voucher is replaced.

  \<^bold>\<open>Theories and the code they model\<close> (paths below \<^verbatim>\<open>src\<close>).
  \<^item> \<open>Prelude\<close>: errors, results and their sequencing, generic lemmas. \<open>Gorm\<close>: the database, a map
    from table names to lists of rows with keys, foreign keys with cascades and transactions; database
    programs (\<open>prog\<close>, \<open>act\<close>) as trees of statements; their weakest preconditions \<open>wp\<close>; the contract
    \<open>gorm_engine\<close> of an engine executing them; \<open>sql_exec\<close>, an engine that computes. \<open>Smooth\<close>: the runs in which
    the database answers, and the weakest preconditions for them. \<open>Models\<close>: the rows of
    \<^verbatim>\<open>internal/db/models.go\<close> and of \<^verbatim>\<open>internal/state\<close>.
  \<^item> \<open>Hex\<close>, \<open>Base64\<close>, \<open>Strconv\<close>, \<open>NetIP\<close>, \<open>Json\<close>, \<open>Filepath\<close>: what the sources use of Go's standard
    library, with its round trips. \<open>Protocol\<close>: the types of the protocol library and the contract of
    its CBOR coding.
  \<^item> \<open>Sessions\<close>: tokens and the DI, TO0 and TO1 state (\<^verbatim>\<open>internal/db/state.go\<close>, \<^verbatim>\<open>internal/state/token.go\<close>,
    \<^verbatim>\<open>to0.go\<close>, \<^verbatim>\<open>to1.go\<close>). \<open>TO2State\<close>, \<open>TO2Properties\<close>: \<^verbatim>\<open>internal/db/state_to2.go\<close>.
  \<^item> \<open>RvInfoV1\<close>, \<open>RvInfoV2\<close>, \<open>RvInfoStore\<close>: the two JSON dialects of the rendezvous information, its table
    and its handlers (\<^verbatim>\<open>internal/db/db.go\<close>, \<^verbatim>\<open>internal/handlers/rvinfo\<close>, \<^verbatim>\<open>internal/state/rvinfo.go\<close>,
    \<^verbatim>\<open>api/handlers/rvinfo.go\<close>, \<^verbatim>\<open>internal/utils\<close>). \<open>OwnerInfo\<close>: \<^verbatim>\<open>api/handlers/ownerinfo.go\<close> and its table.
  \<^item> \<open>Vouchers\<close>, \<open>VoucherApi\<close>, \<open>OwnerServer\<close>: the voucher and onboarding tables (\<^verbatim>\<open>internal/db/db.go\<close>,
    \<^verbatim>\<open>state_vouchers.go\<close>), reading, uploading and reselling vouchers (\<^verbatim>\<open>api/handlers/vouchers.go\<close>,
    \<^verbatim>\<open>devices.go\<close>), and the runs of a server made of these operations. \<open>TO0\<close>, \<open>TO0Progress\<close>: \<^verbatim>\<open>internal/to0/to0.go\<close>
    and the scheduler of \<^verbatim>\<open>cmd/owner.go\<close>, its backoff and its progress.
  \<^item> \<open>DeviceCA\<close>: the trusted certificates (\<^verbatim>\<open>internal/state/deviceca.go\<close>, \<^verbatim>\<open>internal/handlers/deviceca\<close>).
    \<open>Rendezvous\<close>, \<open>RvServer\<close>, \<open>RvProperties\<close>, \<open>RvPool\<close>: blobs, acceptance, clean-up and the interleaving of the
    rendezvous server's operations, on one database and on a pool of connections (\<^verbatim>\<open>internal/state/rvblob.go\<close>, \<^verbatim>\<open>internal/handlers/rendezvous\<close>).
    \<open>Frame\<close>: which tables a program writes.
  \<^item> \<open>ServiceInfo\<close>, \<open>OwnerModules\<close>: the service-info operations of \<^verbatim>\<open>cmd/config.go\<close>, the iterator over the
    owner modules and their state machine (\<^verbatim>\<open>cmd/owner.go\<close>). \<open>Config\<close>, \<open>Startup\<close>: configuration, keys and
    the databases at start-up (\<^verbatim>\<open>cmd\<close>, \<^verbatim>\<open>internal/db/state.go\<close>), and what the manufacturing server adds to
    device initialisation. \<open>Server\<close>: from a configuration to a server that listens (\<^verbatim>\<open>Start\<close>, \<^verbatim>\<open>serveRendezvous\<close>,
    \<^verbatim>\<open>serveManufacturing\<close>, \<^verbatim>\<open>serveOwner\<close>) and the transport of the TO0 client (\<^verbatim>\<open>internal/tls\<close>). \<open>Command\<close>,
    \<open>CommandProperties\<close>: flags, settings and the commands (\<^verbatim>\<open>cmd/root.go\<close> and the three commands).
  \<^item> \<open>Http\<close>, \<open>Routes\<close>, \<open>RouteProperties\<close>: requests, responses and middlewares, Go's \<^verbatim>\<open>ServeMux\<close>, and the
    routing tables of the three servers (\<^verbatim>\<open>api/routes.go\<close>, \<^verbatim>\<open>cmd/owner.go\<close>,
    \<^verbatim>\<open>internal/handlers/manufacturing\<close>, \<^verbatim>\<open>internal/handlers/rendezvous\<close>). \<open>OpenApi\<close>, \<open>DeviceCAGen\<close>, \<open>RvInfoGen\<close>,
    \<open>OpenApiServers\<close>: the generated packages behind the management interfaces (\<^verbatim>\<open>handler.gen.go\<close> of \<^verbatim>\<open>deviceca\<close>,
    \<^verbatim>\<open>rvinfo\<close> and \<^verbatim>\<open>health\<close>): parameters, wrappers, strict handlers, response objects. \<open>DeviceCAProperties\<close>: the
    device CA interface from the request to the answer.

  \<^bold>\<open>How state is modelled.\<close> A struct is a record, a row is a function from columns to values, and every
  access to the database is a statement of a program, in the order of the code. An engine is a
  parameter: \<open>gorm_engine E view\<close> says that each statement does what SQL says or fails in the driver
  and changes nothing, with foreign keys enforced. A property holds for every such engine; its witness
  runs on \<open>sql_exec\<close>. Where it matters that something does happen, the property is about the runs in which
  no statement fails in the driver (\<open>smooth\<close>). Only the rendezvous server's tables have foreign keys; \<open>RvPool\<close> gives
  what holds of them when some connections do not enforce them. Where the code reads the clock several
  times in one operation, one time stands for all readings. Errors are values (\<open>go_error\<close>), a panic is \<open>None\<close> or a constructor of its own.

  \<^bold>\<open>Parameters\<close> stand for code that is not in the repository: \<open>cbor_lib\<close> and \<open>json_lib\<close> (coding),
  \<open>pki\<close> (PEM, X.509, fingerprints), \<open>voucher_lib\<close> (checks of vouchers), \<open>to0_lib\<close> (one TO0 exchange),
  \<open>mapstructure\<close> and \<open>os_env\<close> (decoding of configuration, files and URLs), \<open>key_parsers\<close> and \<open>key_encoder\<close>,
  \<open>bind_lib\<close> (decoding of one parameter), \<open>viper\<close> (settings), \<open>net_env\<close> (listening and serving), the rate limiter, the protocol handler and the negotiation of a media type. What is assumed of them is in
  \<open>cbor_ok\<close>, \<open>pki_ok\<close>, \<open>rv_consts_ok\<close>, and in \<open>viper_engine\<close>, the order in which viper looks a setting up.

  \<^bold>\<open>Loops.\<close> The loops over PEM blocks (\<open>import_loop\<close>, \<open>upload_loop\<close>) take the length of the input plus one
  as fuel; each block consumes at least one octet (\<open>pki_ok\<close>), so the fuel is enough, which
  \<open>import_terminates\<close> and \<open>upload_terminates\<close> prove. The endless loops of the scheduler and of the
  clean-up are sequences of rounds, each at the time it begins.

  \<^bold>\<open>Interfaces.\<close> \<open>config_store\<close> is the contract of a table with one document, which the owner information
  and the rendezvous information meet; \<open>session_cell\<close> that of a value kept per session, met by the TO0
  and TO1 nonces of both session tables and by four fields of a TO2 session; \<open>rv_blob_store\<close> and its extension
  \<open>rv_blob_cleanup\<close> those of the blobs; \<open>voucher_map\<close> that of the voucher table.

  \<^bold>\<open>What is shown.\<close> Vouchers: an upload stores verified vouchers only, the new ones of a prefix of its body and
  on success of all of it; insertion and replacement are atomic; any sequence of voucher operations refines
  the updates of two maps; the pending list is exact, and a completed device is not registered
  again under its old GUID until that voucher is removed. Rendezvous information and owner information: round
  trips through each interface, errors and migration. Device CAs: an import is complete, idempotent and
  terminates, and keeps the pool equal to the table. Rendezvous: sessions stay closed under any
  interleaving if and only if every connection enforces foreign keys, blobs live until they expire, accepted times keep the limits, clean-up is exact and
  unseen. TO2: the setters refine one record. TO0: the registration on every branch, backoff, and progress:
  while the database answers, every pending device whose backoff has passed is attempted, and so is a
  new voucher after its upload. Modules: a session is
  given the configured modules in order, all of them while the database answers, complete, with confined uploads. Start-up keeps the data.
  Routing: what reaches which handler, what the management interfaces write, and that nothing passes a
  refusing limiter. Commands: where each setting of the rendezvous server comes from, and that a server
  listens only with a validated configuration, as it asks, with the keys, certificates, limits and pool it
  names. The device CA list: what a page holds, its format, and its answer to a bad parameter.

  \<^bold>\<open>Not modelled.\<close> The cryptography and the messages of the protocol (third-party library); cobra's
  parsing of arguments, sockets, and the goroutine that turns a signal into a shutdown (a shutdown is the
  server returning \<open>ErrServerClosed\<close>); the
  generated packages \<^verbatim>\<open>voucher\<close> and \<^verbatim>\<open>rvto2addr\<close>, which no server imports, and the accessors of the instruction
  union in \<^verbatim>\<open>components\<close>, which have no caller; logging; the locks around the pool of certificates. The map of module state machines is one
  value passed along, so data races on it are outside the model. Paths with percent-encoded octets are
  outside the routing model.
\<close>

end
